(* ===== verification/Prelude.thy ===== *)
theory Prelude
  imports Main
begin

section \<open>Shared vocabulary of the development\<close>

text \<open>
  The types every component shares and the generic facts about tables.

  A table of the SQLite database is the list of its rows in rowid order. The four SQL
  statements the code uses are four list functions: \<open>List.find\<close> for a \<open>get\<close> of one row,
  \<open>upd_where\<close> for UPDATE, \<open>del_where\<close> for DELETE, \<open>n_where\<close> for COUNT and for the
  \<open>changes\<close> of a statement. Every exception the code throws is a value of \<open>exn\<close>, carried on
  the left of a sum. A moment in time (an ISO string in the database) is the number of its
  milliseconds.
\<close>

named_theorems table_simps \<open>how the SQL statements act on a table\<close>
named_theorems ob_defs \<open>definitions a component's proofs unfold\<close>

type_synonym ms = nat
type_synonym Lang = string

subsection \<open>Exceptions\<close>

datatype pval = PStr string | PNum int

type_synonym Params = "(string \<times> pval) list"

datatype exn =
    JsError string
  | RecipientListError string Params
  | UserError string Params
  | ChallengeRateError nat
  | LimitError string nat
  | WebAuthnError string
  | DbscError string
  | MailError string
  | StorageLimitError nat
  | StorageNotFoundError string
  | SqliteError

subsection \<open>Results\<close>

definition is_ok :: "'e + 'a \<Rightarrow> bool" where
  "is_ok r = (case r of Inl _ \<Rightarrow> False | Inr _ \<Rightarrow> True)"

lemma is_ok_simps [simp]: "is_ok (Inr x)" "\<not> is_ok (Inl e)"
  by (simp_all add: is_ok_def)

definition bind_res :: "'e + 'a \<Rightarrow> ('a \<Rightarrow> 'e + 'b) \<Rightarrow> 'e + 'b" where
  "bind_res r f = (case r of Inl e \<Rightarrow> Inl e | Inr x \<Rightarrow> f x)"

lemma bind_res_simps [simp]:
  "bind_res (Inl e) f = Inl e" "bind_res (Inr x) f = f x"
  by (simp_all add: bind_res_def)

lemma bind_res_Inr_iff: "bind_res r f = Inr y \<longleftrightarrow> (\<exists>x. r = Inr x \<and> f x = Inr y)"
  by (cases r) auto

lemma pair_of_fst: "fst p = x \<Longrightarrow> p = (x, snd p)"
  by (cases p) simp

subsection \<open>Tables\<close>

definition upd_where :: "('r \<Rightarrow> bool) \<Rightarrow> ('r \<Rightarrow> 'r) \<Rightarrow> 'r list \<Rightarrow> 'r list" where
  "upd_where p f rs = map (\<lambda>r. if p r then f r else r) rs"

definition del_where :: "('r \<Rightarrow> bool) \<Rightarrow> 'r list \<Rightarrow> 'r list" where
  "del_where p rs = filter (\<lambda>r. \<not> p r) rs"

definition n_where :: "('r \<Rightarrow> bool) \<Rightarrow> 'r list \<Rightarrow> nat" where
  "n_where p rs = length (filter p rs)"

lemma upd_where_simps [simp]:
  "upd_where p f [] = []"
  "upd_where p f (r # rs) = (if p r then f r else r) # upd_where p f rs"
  "upd_where p f (rs @ ss) = upd_where p f rs @ upd_where p f ss"
  "length (upd_where p f rs) = length rs"
  by (simp_all add: upd_where_def)

lemma del_where_simps [simp]:
  "del_where p [] = []"
  "del_where p (r # rs) = (if p r then del_where p rs else r # del_where p rs)"
  "del_where p (rs @ ss) = del_where p rs @ del_where p ss"
  by (simp_all add: del_where_def)

lemma n_where_simps [simp]:
  "n_where p [] = 0"
  "n_where p (r # rs) = (if p r then Suc (n_where p rs) else n_where p rs)"
  "n_where p (rs @ ss) = n_where p rs + n_where p ss"
  by (simp_all add: n_where_def)

lemma in_upd_where [table_simps]:
  "r \<in> set (upd_where p f rs) \<longleftrightarrow> (\<exists>s \<in> set rs. r = (if p s then f s else s))"
  by (auto simp: upd_where_def)

lemma set_upd_where: "set (upd_where p f rs) = (\<lambda>r. if p r then f r else r) ` set rs"
  by (simp add: upd_where_def)

lemma set_del_where [table_simps, simp]: "set (del_where p rs) = {r \<in> set rs. \<not> p r}"
  by (auto simp: del_where_def)

lemma n_where_0_iff [table_simps]: "n_where p rs = 0 \<longleftrightarrow> (\<forall>r \<in> set rs. \<not> p r)"
  by (auto simp: n_where_def filter_empty_conv)

lemma n_where_pos_iff [table_simps]: "0 < n_where p rs \<longleftrightarrow> (\<exists>r \<in> set rs. p r)"
  using n_where_0_iff [of p rs] by (simp only: neq0_conv [symmetric] n_where_0_iff) blast

lemma n_where_le_length: "n_where p rs \<le> length rs"
  by (simp add: n_where_def)

lemma n_where_del_where: "n_where q (del_where p rs) = n_where (\<lambda>r. q r \<and> \<not> p r) rs"
  by (induction rs) auto

lemma n_where_upd_where: "n_where q (upd_where p f rs) = n_where (\<lambda>r. q (if p r then f r else r)) rs"
  by (induction rs) auto

lemma n_where_cong: "(\<And>r. r \<in> set rs \<Longrightarrow> p r = q r) \<Longrightarrow> n_where p rs = n_where q rs"
  by (induction rs) auto

lemma n_where_mono: "(\<And>r. r \<in> set rs \<Longrightarrow> p r \<Longrightarrow> q r) \<Longrightarrow> n_where p rs \<le> n_where q rs"
  by (induction rs) (auto intro: le_SucI)

lemma map_upd_where_key:
  "(\<And>r. r \<in> set rs \<Longrightarrow> p r \<Longrightarrow> k (f r) = k r) \<Longrightarrow> map k (upd_where p f rs) = map k rs"
  by (induction rs) auto

lemma distinct_map_del_where: "distinct (map k rs) \<Longrightarrow> distinct (map k (del_where p rs))"
  by (simp add: del_where_def distinct_map_filter)

lemma upd_where_id: "(\<And>r. r \<in> set rs \<Longrightarrow> \<not> p r) \<Longrightarrow> upd_where p f rs = rs"
  by (induction rs) auto

lemma del_where_id: "(\<And>r. r \<in> set rs \<Longrightarrow> \<not> p r) \<Longrightarrow> del_where p rs = rs"
  by (induction rs) auto

lemma n_where_key_le_1: "distinct (map k rs) \<Longrightarrow> n_where (\<lambda>r. k r = x \<and> q r) rs \<le> 1"
proof (induction rs)
  case (Cons r rs)
  then show ?case
    by (cases "k r = x") (auto simp: n_where_0_iff image_iff)
qed simp

lemma find_key_Some_iff:
  "distinct (map k rs) \<Longrightarrow> List.find (\<lambda>r. k r = x) rs = Some r \<longleftrightarrow> r \<in> set rs \<and> k r = x"
  by (induction rs) auto

lemma find_key_None_iff: "List.find (\<lambda>r. k r = x) rs = None \<longleftrightarrow> x \<notin> k ` set rs"
  by (auto simp: find_None_iff)

lemma find_SomeD: "List.find p rs = Some r \<Longrightarrow> r \<in> set rs \<and> p r"
  by (auto simp: find_Some_iff)

lemma find_append: "List.find p (rs @ ss) = (case List.find p rs of None \<Rightarrow> List.find p ss | Some r \<Rightarrow> Some r)"
  by (induction rs) auto

lemma find_upd_where_key:
  "(\<And>r. r \<in> set rs \<Longrightarrow> k (f r) = k r) \<Longrightarrow>
   List.find (\<lambda>r. k r = x) (upd_where p f rs)
   = map_option (\<lambda>r. if p r then f r else r) (List.find (\<lambda>r. k r = x) rs)"
  by (induction rs) auto

lemma distinct_key_unique:
  "distinct (map k rs) \<Longrightarrow> r \<in> set rs \<Longrightarrow> s \<in> set rs \<Longrightarrow> k r = k s \<Longrightarrow> r = s"
  by (auto simp: distinct_map inj_on_def)

lemma filter_upd_key:
  "distinct (map k rs) \<Longrightarrow> filter P rs = [r] \<Longrightarrow>
   filter P (upd_where (\<lambda>x. k x = k r) f rs) = (if P (f r) then [f r] else [])"
proof (induction rs)
  case (Cons x xs)
  show ?case
  proof (cases "P x")
    case True
    then have x: "x = r" "filter P xs = []" using Cons.prems by auto
    have "upd_where (\<lambda>y. k y = k r) f xs = xs"
      using Cons.prems(1) x(1) by (intro upd_where_id) (auto simp: image_iff)
    then show ?thesis using x by simp
  next
    case False
    then have "r \<in> set (filter P xs)" using Cons.prems(2) by simp
    then have "r \<in> set xs" by simp
    then have "k x \<noteq> k r" using Cons.prems(1) by (metis distinct.simps(2) image_eqI list.set_map list.simps(9))
    then show ?thesis using False Cons by simp
  qed
qed simp

lemma find_del_where_key:
  "List.find (\<lambda>r. k r = x) (del_where (\<lambda>r. k r = y) rs) = (if x = y then None else List.find (\<lambda>r. k r = x) rs)"
  by (induction rs) auto

lemma find_key_append:
  "x \<notin> k ` set rs \<Longrightarrow> List.find (\<lambda>r. k r = x) (rs @ [r]) = (if k r = x then Some r else None)"
  by (simp add: find_append find_key_None_iff [THEN iffD2])

lemma find_key_append_other:
  "k r \<noteq> x \<Longrightarrow> List.find (\<lambda>r. k r = x) (rs @ [r]) = List.find (\<lambda>r. k r = x) rs"
  by (simp add: find_append split: option.splits)

lemma filter_upd_none: "(\<And>x. x \<in> set rs \<Longrightarrow> P x \<Longrightarrow> p x) \<Longrightarrow> (\<And>x. \<not> P (f x)) \<Longrightarrow> filter P (upd_where p f rs) = []"
  by (induction rs) auto

lemma filter_upd_other: "(\<And>x. p x \<Longrightarrow> \<not> P x \<and> \<not> P (f x)) \<Longrightarrow> filter P (upd_where p f rs) = filter P rs"
  by (induction rs) auto

lemma image_upd_where: "(\<And>r. k (f r) = k r) \<Longrightarrow> k ` set (upd_where p f rs) = k ` set rs"
  by (induction rs) auto

subsection \<open>Interfaces\<close>

text \<open>An encoding that a decoder reads back.\<close>

locale codec =
  fixes valid :: "'a \<Rightarrow> bool" and enc :: "'a \<Rightarrow> 'b" and dec :: "'b \<Rightarrow> 'a option"
  assumes dec_enc: "valid x \<Longrightarrow> dec (enc x) = Some x"
begin

lemma enc_inj: "valid x \<Longrightarrow> valid y \<Longrightarrow> enc x = enc y \<Longrightarrow> x = y"
  by (metis dec_enc option.inject)

lemma enc_eq_iff: "valid x \<Longrightarrow> valid y \<Longrightarrow> enc x = enc y \<longleftrightarrow> x = y"
  using enc_inj by blast

end

text \<open>
  A password hash: verification against a hash compares the keys derived with its salt.
\<close>

locale password_scheme =
  fixes ok :: "'r \<Rightarrow> bool" and salt_ok :: "'s \<Rightarrow> bool"
    and hash :: "'r \<Rightarrow> 's \<Rightarrow> 'p \<Rightarrow> 'h" and verify :: "'r \<Rightarrow> 'p \<Rightarrow> 'h \<Rightarrow> bool"
    and key :: "'r \<Rightarrow> 's \<Rightarrow> 'p \<Rightarrow> 'k"
  assumes verify_hash: "ok R \<Longrightarrow> salt_ok s \<Longrightarrow> verify R p' (hash R s p) \<longleftrightarrow> key R s p' = key R s p"
begin

lemma verify_own: "ok R \<Longrightarrow> salt_ok s \<Longrightarrow> verify R p (hash R s p)"
  by (simp add: verify_hash)

lemma verify_other: "ok R \<Longrightarrow> salt_ok s \<Longrightarrow> key R s p' \<noteq> key R s p \<Longrightarrow> \<not> verify R p' (hash R s p)"
  by (simp add: verify_hash)

end

text \<open>
  A store of sessions under the key of a bearer token. \<open>get\<close> may remove what has expired, so it
  returns a store too.
\<close>

locale session_store =
  fixes key :: "'r \<Rightarrow> string \<Rightarrow> 'k"
    and get :: "'r \<Rightarrow> nat \<Rightarrow> string \<Rightarrow> 'd \<Rightarrow> 's option \<times> 'd"
    and destroy :: "'r \<Rightarrow> string \<Rightarrow> 'd \<Rightarrow> 'd"
  assumes get_destroyed: "key R tok' = key R tok \<Longrightarrow> fst (get R nw tok' (destroy R tok d)) = None"
    and get_destroy_other: "key R tok' \<noteq> key R tok \<Longrightarrow> fst (get R nw tok' (destroy R tok d)) = fst (get R nw tok' d)"
begin

lemma get_destroy_None: "fst (get R nw tok' d) = None \<Longrightarrow> fst (get R nw tok' (destroy R tok d)) = None"
  by (cases "key R tok' = key R tok") (simp_all add: get_destroyed get_destroy_other)

lemma get_destroy_all_None: "fst (get R nw tok d) = None \<Longrightarrow> fst (get R nw tok (fold (destroy R) toks d)) = None"
  by (induction toks arbitrary: d) (simp_all add: get_destroy_None)

lemma get_destroy_all: "tok \<in> set toks \<Longrightarrow> fst (get R nw tok (fold (destroy R) toks d)) = None"
  by (induction toks arbitrary: d) (auto simp: get_destroyed get_destroy_all_None)

end

text \<open>A store that also issues sessions: \<open>fits\<close> says when a session issued at \<open>nw\<close> is still alive at \<open>later\<close>.\<close>

locale issuing_store = session_store key get destroy
  for key :: "'r \<Rightarrow> string \<Rightarrow> 'k"
    and get :: "'r \<Rightarrow> nat \<Rightarrow> string \<Rightarrow> 'd \<Rightarrow> 's option \<times> 'd"
    and destroy :: "'r \<Rightarrow> string \<Rightarrow> 'd \<Rightarrow> 'd" +
  fixes create :: "'r \<Rightarrow> 'a \<Rightarrow> nat \<Rightarrow> 'd \<Rightarrow> ('e + string \<times> 'v) \<times> 'd"
    and view :: "'s \<Rightarrow> 'v"
    and fits :: "'r \<Rightarrow> 'a \<Rightarrow> nat \<Rightarrow> nat \<Rightarrow> 'd \<Rightarrow> bool"
  assumes get_created: "create R a nw d = (Inr (tok, v), d') \<Longrightarrow> fits R a nw later d \<Longrightarrow>
      \<exists>s. fst (get R later tok d') = Some s \<and> view s = v"
    and get_create_other: "create R a nw d = (Inr (tok, v), d') \<Longrightarrow> key R tok' \<noteq> key R tok \<Longrightarrow>
      fst (get R later tok' d') = fst (get R later tok' d)"
begin

lemma create_destroy: "create R a nw d = (Inr (tok, v), d') \<Longrightarrow> fst (get R later tok (destroy R tok d')) = None"
  by (rule get_destroyed) (rule refl)

lemma create_destroy_other:
  "create R a nw d = (Inr (tok, v), d') \<Longrightarrow> fits R a nw later d \<Longrightarrow> key R tok \<noteq> key R other \<Longrightarrow>
    \<exists>s. fst (get R later tok (destroy R other d')) = Some s \<and> view s = v"
  by (simp add: get_destroy_other get_created)

end

end
