(* ===== verification/Regex.thy ===== *)
theory Regex
  imports Prelude
begin

section \<open>Regular expressions\<close>

text \<open>
  The code validates ids, tokens, addresses and headers with anchored regular expressions.
  They are transcribed as values of \<open>rexp\<close> and matched by Brzozowski derivatives, which is
  executable; \<open>matches_iff\<close> relates the matcher to the language of the expression, so that
  a component's lemma about the shape of an accepted string is a statement about
  \<open>language\<close>.
\<close>

datatype rexp =
    Zero
  | One
  | Cls "char \<Rightarrow> bool"
  | Alt rexp rexp
  | Seq rexp rexp
  | Star rexp

definition Plus :: "rexp \<Rightarrow> rexp" where
  "Plus r = Seq r (Star r)"

definition Opt :: "rexp \<Rightarrow> rexp" where
  "Opt r = Alt One r"

definition Chr :: "char \<Rightarrow> rexp" where
  "Chr c = Cls (\<lambda>d. d = c)"

fun Lit :: "string \<Rightarrow> rexp" where
  "Lit [] = One"
| "Lit (c # cs) = Seq (Chr c) (Lit cs)"

text \<open>\<open>r{n}\<close> and \<open>r{m,n}\<close>\<close>

primrec Times :: "nat \<Rightarrow> rexp \<Rightarrow> rexp" where
  "Times 0 r = One"
| "Times (Suc n) r = Seq r (Times n r)"

primrec UpTo :: "nat \<Rightarrow> rexp \<Rightarrow> rexp" where
  "UpTo 0 r = One"
| "UpTo (Suc n) r = Opt (Seq r (UpTo n r))"

definition Between :: "nat \<Rightarrow> nat \<Rightarrow> rexp \<Rightarrow> rexp" where
  "Between m n r = Seq (Times m r) (UpTo (n - m) r)"

primrec nullable :: "rexp \<Rightarrow> bool" where
  "nullable Zero = False"
| "nullable One = True"
| "nullable (Cls p) = False"
| "nullable (Alt r s) = (nullable r \<or> nullable s)"
| "nullable (Seq r s) = (nullable r \<and> nullable s)"
| "nullable (Star r) = True"

primrec deriv :: "char \<Rightarrow> rexp \<Rightarrow> rexp" where
  "deriv c Zero = Zero"
| "deriv c One = Zero"
| "deriv c (Cls p) = (if p c then One else Zero)"
| "deriv c (Alt r s) = Alt (deriv c r) (deriv c s)"
| "deriv c (Seq r s) =
     (if nullable r then Alt (Seq (deriv c r) s) (deriv c s) else Seq (deriv c r) s)"
| "deriv c (Star r) = Seq (deriv c r) (Star r)"

text \<open>\<open>/^r$/.test(s)\<close>\<close>

fun matches :: "rexp \<Rightarrow> string \<Rightarrow> bool" where
  "matches r [] = nullable r"
| "matches r (c # cs) = matches (deriv c r) cs"

subsection \<open>The language of an expression\<close>

definition conc :: "string set \<Rightarrow> string set \<Rightarrow> string set" where
  "conc A B = {u @ v | u v. u \<in> A \<and> v \<in> B}"

inductive_set star :: "string set \<Rightarrow> string set" for A where
  star_Nil: "[] \<in> star A"
| star_app: "u \<in> A \<Longrightarrow> v \<in> star A \<Longrightarrow> u @ v \<in> star A"

primrec language :: "rexp \<Rightarrow> string set" where
  "language Zero = {}"
| "language One = {[]}"
| "language (Cls p) = {[c] | c. p c}"
| "language (Alt r s) = language r \<union> language s"
| "language (Seq r s) = conc (language r) (language s)"
| "language (Star r) = star (language r)"

lemma nullable_iff: "nullable r \<longleftrightarrow> [] \<in> language r"
  by (induction r) (auto simp: conc_def intro: star_Nil)

lemma star_Cons_iff: "c # w \<in> star A \<longleftrightarrow> (\<exists>u v. w = u @ v \<and> c # u \<in> A \<and> v \<in> star A)"
proof
  show "c # w \<in> star A \<Longrightarrow> \<exists>u v. w = u @ v \<and> c # u \<in> A \<and> v \<in> star A"
  proof (induction "c # w" rule: star.induct)
    case (star_app u v)
    then show ?case by (cases u) auto
  qed
next
  assume "\<exists>u v. w = u @ v \<and> c # u \<in> A \<and> v \<in> star A"
  then obtain u v where "w = u @ v" "c # u \<in> A" "v \<in> star A" by blast
  then show "c # w \<in> star A" using star.star_app [of "c # u" A v] by simp
qed

lemma conc_Cons_iff:
  "c # w \<in> conc A B \<longleftrightarrow> (\<exists>u v. w = u @ v \<and> c # u \<in> A \<and> v \<in> B) \<or> ([] \<in> A \<and> c # w \<in> B)"
proof
  assume "c # w \<in> conc A B"
  then obtain u v where uv: "c # w = u @ v" "u \<in> A" "v \<in> B" by (auto simp: conc_def)
  show "(\<exists>u v. w = u @ v \<and> c # u \<in> A \<and> v \<in> B) \<or> ([] \<in> A \<and> c # w \<in> B)"
  proof (cases u)
    case Nil
    with uv show ?thesis by simp
  next
    case (Cons d u')
    with uv show ?thesis by auto
  qed
next
  assume "(\<exists>u v. w = u @ v \<and> c # u \<in> A \<and> v \<in> B) \<or> ([] \<in> A \<and> c # w \<in> B)"
  then show "c # w \<in> conc A B"
  proof
    assume "\<exists>u v. w = u @ v \<and> c # u \<in> A \<and> v \<in> B"
    then obtain u v where "w = u @ v" "c # u \<in> A" "v \<in> B" by blast
    then have "c # w = (c # u) @ v" by simp
    with \<open>c # u \<in> A\<close> \<open>v \<in> B\<close> show ?thesis unfolding conc_def by blast
  qed (force simp: conc_def)
qed

lemma deriv_iff: "w \<in> language (deriv c r) \<longleftrightarrow> c # w \<in> language r"
proof (induction r arbitrary: w)
  case (Seq r s)
  then show ?case
    by (auto simp: conc_Cons_iff nullable_iff) (auto simp: conc_def)
next
  case (Star r)
  then show ?case by (auto simp: star_Cons_iff conc_def)
qed auto

lemma matches_iff: "matches r s \<longleftrightarrow> s \<in> language r"
  by (induction s arbitrary: r) (simp_all add: nullable_iff deriv_iff)

subsection \<open>What a match says about the string\<close>

lemma language_Chr [simp]: "language (Chr c) = {[c]}"
  by (auto simp: Chr_def)

lemma language_Lit [simp]: "language (Lit s) = {s}"
  by (induction s) (auto simp: conc_def)

lemma star_Cls: "w \<in> star {[c] | c. p c} \<longleftrightarrow> (\<forall>c \<in> set w. p c)"
  by (induction w) (auto simp: star_Cons_iff intro: star_Nil)

lemma language_Star_Cls [simp]: "language (Star (Cls p)) = {w. \<forall>c \<in> set w. p c}"
  using star_Cls [of _ p] by auto

lemma language_Plus_Cls [simp]: "language (Plus (Cls p)) = {w. w \<noteq> [] \<and> (\<forall>c \<in> set w. p c)}"
proof -
  have "w \<in> language (Plus (Cls p)) \<longleftrightarrow> w \<noteq> [] \<and> (\<forall>c \<in> set w. p c)" for w
    using star_Cls [of _ p] by (cases w) (auto simp: Plus_def conc_Cons_iff, auto simp: conc_def)
  then show ?thesis by blast
qed

lemma language_Times_Cls [simp]:
  "language (Times n (Cls p)) = {w. length w = n \<and> (\<forall>c \<in> set w. p c)}"
proof (induction n)
  case (Suc n)
  show ?case
  proof (rule set_eqI)
    fix w
    show "w \<in> language (Times (Suc n) (Cls p)) \<longleftrightarrow> w \<in> {w. length w = Suc n \<and> (\<forall>c \<in> set w. p c)}"
      using Suc by (cases w) (auto simp: conc_Cons_iff, auto simp: conc_def)
  qed
qed auto

lemma language_UpTo_Cls [simp]:
  "language (UpTo n (Cls p)) = {w. length w \<le> n \<and> (\<forall>c \<in> set w. p c)}"
proof (induction n)
  case (Suc n)
  show ?case
  proof (rule set_eqI)
    fix w
    show "w \<in> language (UpTo (Suc n) (Cls p)) \<longleftrightarrow> w \<in> {w. length w \<le> Suc n \<and> (\<forall>c \<in> set w. p c)}"
      using Suc by (cases w) (auto simp: Opt_def conc_Cons_iff)
  qed
qed auto

lemma language_Between_Cls:
  "m \<le> n \<Longrightarrow> language (Between m n (Cls p)) = {w. m \<le> length w \<and> length w \<le> n \<and> (\<forall>c \<in> set w. p c)}"
proof -
  assume mn: "m \<le> n"
  have "w \<in> language (Between m n (Cls p)) \<longleftrightarrow> m \<le> length w \<and> length w \<le> n \<and> (\<forall>c \<in> set w. p c)" for w
  proof
    assume "w \<in> language (Between m n (Cls p))"
    then show "m \<le> length w \<and> length w \<le> n \<and> (\<forall>c \<in> set w. p c)"
      using mn by (auto simp: Between_def conc_def)
  next
    assume w: "m \<le> length w \<and> length w \<le> n \<and> (\<forall>c \<in> set w. p c)"
    then have "take m w \<in> language (Times m (Cls p))" "drop m w \<in> language (UpTo (n - m) (Cls p))"
      using mn by (auto dest: in_set_takeD in_set_dropD)
    then have "take m w @ drop m w \<in> language (Between m n (Cls p))"
      unfolding Between_def language.simps conc_def by blast
    then show "w \<in> language (Between m n (Cls p))" by simp
  qed
  then show ?thesis by blast
qed

end
