(* ===== verification/Text.thy ===== *)
theory Text
  imports Regex "HOL-Library.Char_ord"
begin

section \<open>JavaScript strings\<close>

text \<open>
  A JavaScript string is modelled by the list of its UTF-16 code units, each a \<open>char\<close>: the
  model covers the strings whose code units are below 256. On these \<open>trim\<close>,
  \<open>toLowerCase\<close>, \<open>slice\<close>, \<open>split\<close> and the regular-expression class \<open>\s\<close> are what
  ECMAScript defines. Unicode normalisation needs the Unicode tables and is a field of
  \<open>runtime\<close>, which collects the functions of Node the code calls and does not contain.
\<close>

abbreviation code_of :: "char \<Rightarrow> nat" where
  "code_of c \<equiv> of_char c"

definition between :: "nat \<Rightarrow> nat \<Rightarrow> char \<Rightarrow> bool" where
  "between a b c = (a \<le> code_of c \<and> code_of c \<le> b)"

definition is_digit :: "char \<Rightarrow> bool" where
  "is_digit = between 48 57"

definition is_upper :: "char \<Rightarrow> bool" where
  "is_upper = between 65 90"

definition is_lower :: "char \<Rightarrow> bool" where
  "is_lower = between 97 122"

definition is_alnum :: "char \<Rightarrow> bool" where
  "is_alnum c = (is_digit c \<or> is_upper c \<or> is_lower c)"

text \<open>\<open>[A-Za-z0-9_-]\<close>\<close>

definition is_url64 :: "char \<Rightarrow> bool" where
  "is_url64 c = (is_alnum c \<or> c = CHR ''_'' \<or> c = CHR ''-'')"

text \<open>\<open>\s\<close> and the white space \<open>trim\<close> removes: tab to carriage return, space, no-break space\<close>

definition is_ws :: "char \<Rightarrow> bool" where
  "is_ws c = (between 9 13 c \<or> c = CHR '' '' \<or> code_of c = 160)"

definition trim :: "string \<Rightarrow> string" where
  "trim s = rev (dropWhile is_ws (rev (dropWhile is_ws s)))"

definition lowerc :: "char \<Rightarrow> char" where
  "lowerc c = (if is_upper c \<or> (between 192 222 c \<and> code_of c \<noteq> 215) then char_of (code_of c + 32) else c)"

definition toLowerCase :: "string \<Rightarrow> string" where
  "toLowerCase s = map lowerc s"

text \<open>
  \<open>toUpperCase\<close>: sharp s becomes SS; the micro sign and y with diaeresis leave the range and
  stay as they are.
\<close>

definition upperc :: "char \<Rightarrow> string" where
  "upperc c =
     (if is_lower c \<or> (between 224 254 c \<and> code_of c \<noteq> 247) then [char_of (code_of c - 32)]
      else if code_of c = 223 then ''SS'' else [c])"

definition toUpperCase :: "string \<Rightarrow> string" where
  "toUpperCase s = concat (map upperc s)"

text \<open>\<open>s.slice(0, n)\<close>, \<open>s.replace(/[class]/g, '')\<close>, \<open>s.includes\<close>, \<open>startsWith\<close>\<close>

abbreviation slice0 :: "nat \<Rightarrow> string \<Rightarrow> string" where
  "slice0 n s \<equiv> take n s"

definition strip_class :: "(char \<Rightarrow> bool) \<Rightarrow> string \<Rightarrow> string" where
  "strip_class p s = filter (\<lambda>c. \<not> p c) s"

fun starts_with :: "string \<Rightarrow> string \<Rightarrow> bool" where
  "starts_with s [] = True"
| "starts_with [] (p # ps) = False"
| "starts_with (c # cs) (p # ps) = (c = p \<and> starts_with cs ps)"

definition ends_with :: "string \<Rightarrow> string \<Rightarrow> bool" where
  "ends_with s t = starts_with (rev s) (rev t)"

text \<open>\<open>s.split(c)\<close> on one separator character, and on a run \<open>[class]+\<close> of separators\<close>

fun split_by :: "(char \<Rightarrow> bool) \<Rightarrow> string \<Rightarrow> string list" where
  "split_by p [] = [[]]"
| "split_by p (c # cs) =
     (if p c then [] # split_by p cs
      else (case split_by p cs of [] \<Rightarrow> [[c]] | w # ws \<Rightarrow> (c # w) # ws))"

fun squeeze :: "(char \<Rightarrow> bool) \<Rightarrow> string \<Rightarrow> string" where
  "squeeze p (c # d # cs) = (if p c \<and> p d then squeeze p (d # cs) else c # squeeze p (d # cs))"
| "squeeze p s = s"

definition split_runs :: "(char \<Rightarrow> bool) \<Rightarrow> string \<Rightarrow> string list" where
  "split_runs p s = split_by p (squeeze p s)"

fun join :: "string \<Rightarrow> string list \<Rightarrow> string" where
  "join sep [] = []"
| "join sep [w] = w"
| "join sep (w # v # ws) = w @ sep @ join sep (v # ws)"

text \<open>\<open>a || b\<close> for strings: the empty string is falsy\<close>

definition or_else :: "string \<Rightarrow> string \<Rightarrow> string" where
  "or_else a b = (if a = [] then b else a)"

text \<open>Decimal text of a number and of a digit string\<close>

fun nat_digits :: "nat \<Rightarrow> string" where
  "nat_digits n =
     (if n < 10 then [char_of (48 + n)] else nat_digits (n div 10) @ [char_of (48 + n mod 10)])"

declare nat_digits.simps [simp del]

fun digits_val :: "nat \<Rightarrow> string \<Rightarrow> nat" where
  "digits_val acc [] = acc"
| "digits_val acc (c # cs) = digits_val (10 * acc + (code_of c - 48)) cs"

subsection \<open>Functions of the Node runtime\<close>

text \<open>
  \<open>rt_nfkc\<close> and \<open>rt_nfc\<close> are \<open>String.prototype.normalize\<close>; \<open>rt_sha256\<close> is the lower-case
  hex SHA-256 of a string's UTF-8 bytes and \<open>rt_sha256_bytes\<close> the digest of bytes;
  \<open>rt_scrypt password salt length N r p\<close> derives a key, with the cost parameters as the
  texts the code hands to \<open>Number\<close>; \<open>rt_hmac algorithm key message\<close> is an HMAC digest.
  \<open>rt_json\<close> decodes bytes as UTF-8 and parses them as JSON. \<open>rt_spki\<close> and \<open>rt_jwk\<close> import
  a public key; \<open>rt_verify digest p1363 data key signature\<close> checks a signature.
  \<open>rt_resolve\<close> is \<open>path.resolve\<close>; \<open>rt_url\<close> is \<open>new URL\<close>, with the protocol, the origin and
  the host name of the parsed URL.
\<close>

datatype key_kind = Ed25519Key | EcKey string | RsaKey nat | OtherKey

record pubkey =
  pub_kind :: key_kind
  pub_material :: string

datatype json = JNull | JBool bool | JNum int | JStr string | JArr "json list" | JObj "(string \<times> json) list"

record runtime =
  rt_nfkc :: "string \<Rightarrow> string"
  rt_nfc :: "string \<Rightarrow> string"
  rt_sha256 :: "string \<Rightarrow> string"
  rt_sha256_bytes :: "nat list \<Rightarrow> nat list"
  rt_scrypt :: "string \<Rightarrow> nat list \<Rightarrow> nat \<Rightarrow> string \<Rightarrow> string \<Rightarrow> string \<Rightarrow> nat list"
  rt_hmac :: "string \<Rightarrow> nat list \<Rightarrow> nat list \<Rightarrow> nat list"
  rt_json :: "nat list \<Rightarrow> json option"
  rt_spki :: "nat list \<Rightarrow> pubkey option"
  rt_jwk :: "(string \<times> string) list \<Rightarrow> pubkey option"
  rt_verify :: "string option \<Rightarrow> bool \<Rightarrow> nat list \<Rightarrow> pubkey \<Rightarrow> nat list \<Rightarrow> bool"
  rt_resolve :: "string \<Rightarrow> string"
  rt_url :: "string \<Rightarrow> (string \<times> string \<times> string) option"

subsection \<open>Lemmas\<close>

lemma dropWhile_hd: "dropWhile p xs = y # ys \<Longrightarrow> \<not> p y"
  by (metis hd_dropWhile list.distinct(1) list.sel(1))

lemma trim_set: "set (trim s) \<subseteq> set s"
  unfolding trim_def by (metis set_dropWhileD set_rev subsetI)

lemma dropWhile_rev_dropWhile:
  "dropWhile p (rev (dropWhile p (rev (dropWhile p s)))) = rev (dropWhile p (rev (dropWhile p s)))"
proof (cases "dropWhile p s")
  case (Cons y ys)
  then have y: "\<not> p y" by (rule dropWhile_hd)
  then have "dropWhile p (rev (y # ys)) = dropWhile p (rev ys) @ [y]"
    by (simp add: dropWhile_append3 dropWhile_append1)
  with Cons y show ?thesis by simp
next
  case Nil
  then show ?thesis by (simp only: rev.simps dropWhile.simps)
qed

lemma trim_trim [simp]: "trim (trim s) = trim s"
  unfolding trim_def by (simp only: dropWhile_rev_dropWhile rev_rev_ident dropWhile_idem)

lemma trim_id: "\<forall>c \<in> set s. \<not> is_ws c \<Longrightarrow> trim s = s"
  unfolding trim_def by (metis dropWhile_eq_self_iff hd_in_set rev_rev_ident set_rev)

lemma toLowerCase_append [simp]: "toLowerCase (s @ t) = toLowerCase s @ toLowerCase t"
  by (simp add: toLowerCase_def)

lemma length_toLowerCase [simp]: "length (toLowerCase s) = length s"
  by (simp add: toLowerCase_def)

lemma split_by_ne [simp]: "split_by p s \<noteq> []"
  by (induction s) (auto split: list.splits)

lemma split_by_no_sep: "w \<in> set (split_by p s) \<Longrightarrow> c \<in> set w \<Longrightarrow> \<not> p c"
  by (induction s arbitrary: w) (fastforce split: if_splits list.splits)+

lemma split_by_subset: "w \<in> set (split_by p s) \<Longrightarrow> set w \<subseteq> set s"
  by (induction s arbitrary: w) (fastforce split: if_splits list.splits)+

lemma split_by_none: "\<forall>c \<in> set s. \<not> p c \<Longrightarrow> split_by p s = [s]"
  by (induction s) auto

lemma split_by_app: "\<forall>c \<in> set u. \<not> p c \<Longrightarrow> p d \<Longrightarrow> split_by p (u @ d # v) = u # split_by p v"
  by (induction u) auto

lemma split_join:
  "ws \<noteq> [] \<Longrightarrow> \<forall>w \<in> set ws. \<forall>c \<in> set w. c \<noteq> d \<Longrightarrow> split_by (\<lambda>c. c = d) (join [d] ws) = ws"
proof (induction "[d]" ws rule: join.induct)
  case (3 w v ws)
  then show ?case by (simp add: split_by_app)
qed (simp_all add: split_by_none)

lemma starts_with_iff: "starts_with s p \<longleftrightarrow> (\<exists>t. s = p @ t)"
  by (induction s p rule: starts_with.induct) auto

lemma nat_digits_digit: "c \<in> set (nat_digits n) \<Longrightarrow> is_digit c"
proof (induction n rule: nat_digits.induct)
  case (1 n)
  then show ?case
    by (subst (asm) nat_digits.simps) (auto simp: is_digit_def between_def split: if_splits)
qed

lemma nat_digits_ne [simp]: "nat_digits n \<noteq> []"
  by (subst nat_digits.simps) simp

lemma split_join_sep:
  "ws \<noteq> [] \<Longrightarrow> p d \<Longrightarrow> \<forall>w \<in> set ws. \<forall>c \<in> set w. \<not> p c \<Longrightarrow> split_by p (join [d] ws) = ws"
proof (induction "[d]" ws rule: join.induct)
  case (3 w v ws)
  then show ?case by (simp add: split_by_app)
qed (simp_all add: split_by_none)

lemma squeeze_none: "\<forall>c \<in> set u. \<not> p c \<Longrightarrow> squeeze p u = u"
  by (induction p u rule: squeeze.induct) auto

lemma squeeze_app:
  "\<forall>c \<in> set u. \<not> p c \<Longrightarrow> v \<noteq> [] \<Longrightarrow> \<not> p (hd v) \<Longrightarrow> squeeze p (u @ d # v) = u @ d # squeeze p v"
proof (induction u)
  case Nil
  then show ?case by (cases v) auto
next
  case (Cons c u)
  then show ?case by (cases u) auto
qed

lemma join_ne: "ws \<noteq> [] \<Longrightarrow> hd ws \<noteq> [] \<Longrightarrow> join sep ws \<noteq> [] \<and> hd (join sep ws) = hd (hd ws)"
  by (induction sep ws rule: join.induct) auto

lemma squeeze_join:
  "\<forall>w \<in> set ws. w \<noteq> [] \<and> (\<forall>c \<in> set w. \<not> p c) \<Longrightarrow> squeeze p (join [d] ws) = join [d] ws"
proof (induction "[d]" ws rule: join.induct)
  case (3 w v ws)
  then show ?case
    using join_ne [of "v # ws" "[d]"] by (simp add: squeeze_app)
qed (simp_all add: squeeze_none)

lemma split_runs_join:
  assumes "ws \<noteq> []" "p d" "\<forall>w \<in> set ws. w \<noteq> [] \<and> (\<forall>c \<in> set w. \<not> p c)"
  shows "split_runs p (join [d] ws) = ws"
  using assms by (simp add: split_runs_def squeeze_join split_join_sep)

lemma trim_ends: "s \<noteq> [] \<Longrightarrow> \<not> is_ws (hd s) \<Longrightarrow> \<not> is_ws (last s) \<Longrightarrow> trim s = s"
  unfolding trim_def by (metis dropWhile_eq_self_iff hd_rev rev_rev_ident)

lemma set_join: "set (join sep ws) \<subseteq> set sep \<union> (\<Union>w \<in> set ws. set w)"
  by (induction sep ws rule: join.induct) auto

lemma lower_id: "\<forall>c \<in> set s. is_lower c \<Longrightarrow> toLowerCase s = s"
  unfolding toLowerCase_def by (rule map_idI) (auto simp: lowerc_def is_lower_def is_upper_def between_def)

subsection \<open>A concrete runtime for the examples\<close>

text \<open>
  The witnesses evaluate the model on \<open>sample_runtime\<close>: normalisation is the identity, the
  hash of a string is the string, a derived key is the password's bytes and the salt cut to
  the requested length, an HMAC is the first twenty bytes of key and message.
\<close>

definition sample_runtime :: runtime where
  "sample_runtime =
     \<lparr>rt_nfkc = id, rt_nfc = id, rt_sha256 = id, rt_sha256_bytes = id,
      rt_scrypt = (\<lambda>password salt len N r p.
        take len (map (\<lambda>b. b mod 256) (map code_of password @ salt) @ replicate len 0)),
      rt_hmac = (\<lambda>alg key msg. take 20 (key @ msg @ replicate 20 0)),
      rt_json = (\<lambda>bs. None), rt_spki = (\<lambda>bs. None), rt_jwk = (\<lambda>j. None),
      rt_verify = (\<lambda>digest p1363 data key sig. False),
      rt_resolve = id, rt_url = (\<lambda>s. None)\<rparr>"

end
