(* ===== verification/Database.thy ===== *)
theory Database
  imports Text
begin

section \<open>The database: rows, tables, transactions (migrations/*.sql, src/db.ts)\<close>

text \<open>
  One record per table with the columns of the schema after migration 007, and \<open>db\<close> for
  the whole database. NULL is \<open>None\<close>, a 0/1 column is a \<open>bool\<close>, a column with a CHECK is a
  datatype. An INSERT goes through \<open>ins_*\<close>, which checks the PRIMARY KEY, UNIQUE and
  REFERENCES constraints of the table and fails with \<open>SqliteError\<close> as SQLite does; a DELETE of
  a referenced row goes through \<open>delete_*\<close>, which performs the ON DELETE actions.
\<close>

datatype role = RAdmin | RUser
datatype case_status = CaseOpen | CaseClosed
datatype item_kind = IFile | INote
datatype item_status = Uploading | Ready | Aborted | Expired | Missing | Deleted
datatype upload_kind = UTus | UDirect
datatype factor = FTotp | FRecovery | FPasskey
datatype purpose = PRegister | PLogin | PConfirm
datatype actor = ActorAdmin | ActorRecipient | ActorSystem

record AdminRow =
  a_id :: string
  a_username :: string
  a_password_hash :: string
  a_created_at :: ms
  a_role :: role
  a_disabled_at :: "ms option"
  a_must_change_password :: bool
  a_last_login_at :: "ms option"
  a_totp_secret :: "string option"
  a_totp_enabled_at :: "ms option"
  a_totp_last_step :: "int option"
  a_totp_failed_count :: nat
  a_totp_locked_until :: "ms option"

record RecoveryRow =
  rc_admin_id :: string
  rc_code_hash :: string
  rc_used_at :: "ms option"

record SessionRow =
  s_id_hash :: string
  s_admin_id :: string
  s_csrf_token :: string
  s_created_at :: ms
  s_last_seen_at :: ms
  s_expires_at :: ms
  s_totp_verified :: bool
  s_totp_attempts :: nat
  s_public_id :: string
  s_ip :: "string option"
  s_user_agent :: "string option"
  s_second_factor :: "factor option"
  s_confirmed_until :: "ms option"
  s_webauthn_challenge :: "string option"
  s_webauthn_purpose :: "purpose option"
  s_webauthn_expires_at :: "ms option"
  s_dbsc_challenge :: "string option"
  s_dbsc_offered_at :: "ms option"

record PasskeyRow =
  pk_id :: string
  pk_admin_id :: string
  pk_credential_id :: string
  pk_public_key :: string
  pk_algorithm :: int
  pk_sign_count :: nat
  pk_name :: string
  pk_created_at :: ms
  pk_last_used_at :: "ms option"

record BindingRow =
  b_id :: string
  b_session_hash :: string
  b_alg :: string
  b_jwk :: "(string \<times> string) list"
  b_cookie_hash :: string
  b_cookie_expires_at :: ms
  b_prev_cookie_hash :: "string option"
  b_prev_cookie_expires_at :: "ms option"
  b_challenge :: "string option"
  b_challenge_expires_at :: "ms option"
  b_created_at :: ms
  b_refreshed_at :: ms

record CaseRow =
  c_id :: string
  c_name :: string
  c_description :: string
  c_status :: case_status
  c_created_at :: ms
  c_updated_at :: ms

record MemberRow =
  m_case_id :: string
  m_admin_id :: string
  m_created_at :: ms

record ItemRow =
  i_id :: string
  i_case_id :: string
  i_kind :: item_kind
  i_title :: string
  i_body :: "string option"
  i_upload_kind :: "upload_kind option"
  i_status :: item_status
  i_declared_size :: "nat option"
  i_size :: "nat option"
  i_sha256 :: "string option"
  i_created_by :: "string option"
  i_created_at :: ms
  i_ready_at :: "ms option"
  i_deleted_at :: "ms option"

record LinkRow =
  l_id :: string
  l_case_id :: string
  l_label :: string
  l_token_hash :: string
  l_token_hint :: string
  l_expires_at :: "ms option"
  l_revoked_at :: "ms option"
  l_max_opens :: "nat option"
  l_opens_used :: nat
  l_created_at :: ms
  l_last_used_at :: "ms option"

record RecipientRow =
  r_id :: string
  r_link_id :: string
  r_email :: string
  r_lang :: Lang
  r_opens :: nat
  r_last_opened_at :: "ms option"
  r_created_at :: ms

record GroupRow =
  g_id :: string
  g_name :: string
  g_created_at :: ms
  g_updated_at :: ms
  g_created_by :: "string option"

record GroupMemberRow =
  gm_group_id :: string
  gm_email :: string
  gm_lang :: Lang
  gm_position :: nat

record ChallengeRow =
  ch_id :: string
  ch_link_id :: string
  ch_recipient_id :: "string option"
  ch_code_hash :: string
  ch_flow_hash :: string
  ch_attempts :: nat
  ch_created_at :: ms
  ch_expires_at :: ms
  ch_consumed_at :: "ms option"
  ch_ip :: "string option"

record AccessRow =
  as_id_hash :: string
  as_link_id :: string
  as_recipient_id :: "string option"
  as_csrf_token :: string
  as_created_at :: ms
  as_expires_at :: ms
  as_ip :: "string option"

record AuditRow =
  au_id :: nat
  au_ts :: ms
  au_actor_type :: actor
  au_actor_id :: "string option"
  au_action :: string
  au_case_id :: "string option"
  au_link_id :: "string option"
  au_item_id :: "string option"
  au_ip :: "string option"
  au_details :: "(string \<times> string) list"

record db =
  admins :: "AdminRow list"
  recovery_codes :: "RecoveryRow list"
  sessions :: "SessionRow list"
  passkeys :: "PasskeyRow list"
  bindings :: "BindingRow list"
  cases :: "CaseRow list"
  case_members :: "MemberRow list"
  items :: "ItemRow list"
  links :: "LinkRow list"
  link_recipients :: "RecipientRow list"
  groups :: "GroupRow list"
  group_members :: "GroupMemberRow list"
  challenges :: "ChallengeRow list"
  access_sessions :: "AccessRow list"
  audit_log :: "AuditRow list"

definition empty_db :: db where
  "empty_db = \<lparr>admins = [], recovery_codes = [], sessions = [], passkeys = [], bindings = [],
     cases = [], case_members = [], items = [], links = [], link_recipients = [], groups = [],
     group_members = [], challenges = [], access_sessions = [], audit_log = []\<rparr>"

subsection \<open>Transactions\<close>

text \<open>
  A piece of code that may throw: the result or the exception, and the database it leaves
  behind. \<open>transaction\<close> is BEGIN IMMEDIATE, then COMMIT or ROLLBACK.
\<close>

type_synonym 'a exec = "db \<Rightarrow> (exn + 'a) \<times> db"

definition transaction :: "'a exec \<Rightarrow> 'a exec" where
  "transaction fn d =
     (case fn d of (Inr result, d') \<Rightarrow> (Inr result, d') | (Inl err, d') \<Rightarrow> (Inl err, d))"

lemma transaction_rollback: "fst (transaction fn d) = Inl e \<Longrightarrow> snd (transaction fn d) = d"
  by (auto simp: transaction_def split: prod.splits sum.splits)

lemma transaction_commit: "fn d = (Inr x, d') \<Longrightarrow> transaction fn d = (Inr x, d')"
  by (simp add: transaction_def)

subsection \<open>Constraints of the INSERT statements\<close>

abbreviation has_admin :: "db \<Rightarrow> string \<Rightarrow> bool" where
  "has_admin d i \<equiv> i \<in> a_id ` set (admins d)"

abbreviation has_case :: "db \<Rightarrow> string \<Rightarrow> bool" where
  "has_case d i \<equiv> i \<in> c_id ` set (cases d)"

abbreviation has_link :: "db \<Rightarrow> string \<Rightarrow> bool" where
  "has_link d i \<equiv> i \<in> l_id ` set (links d)"

abbreviation has_recipient :: "db \<Rightarrow> string \<Rightarrow> bool" where
  "has_recipient d i \<equiv> i \<in> r_id ` set (link_recipients d)"

abbreviation has_group :: "db \<Rightarrow> string \<Rightarrow> bool" where
  "has_group d i \<equiv> i \<in> g_id ` set (groups d)"

abbreviation has_session :: "db \<Rightarrow> string \<Rightarrow> bool" where
  "has_session d i \<equiv> i \<in> s_id_hash ` set (sessions d)"

text \<open>A nullable foreign key\<close>

definition opt_ref :: "(string \<Rightarrow> bool) \<Rightarrow> string option \<Rightarrow> bool" where
  "opt_ref p v = (case v of None \<Rightarrow> True | Some x \<Rightarrow> p x)"

definition require :: "bool \<Rightarrow> db \<Rightarrow> exn + db" where
  "require ok d = (if ok then Inr d else Inl SqliteError)"

lemma require_Inr [simp]: "require ok d = Inr d' \<longleftrightarrow> ok \<and> d' = d"
  by (auto simp: require_def)

lemma require_cases: "require ok d = (if ok then Inr d else Inl SqliteError)"
  by (rule require_def)

text \<open>\<open>COLLATE NOCASE\<close> folds the 26 ASCII letters only.\<close>

definition nocase :: "string \<Rightarrow> string" where
  "nocase s = map (\<lambda>c. if is_upper c then char_of (code_of c + 32) else c) s"

definition ins_admin :: "AdminRow \<Rightarrow> db \<Rightarrow> exn + db" where
  "ins_admin r d =
     require (\<not> has_admin d (a_id r) \<and> a_username r \<notin> a_username ` set (admins d))
       (d\<lparr>admins := admins d @ [r]\<rparr>)"

definition ins_recovery :: "RecoveryRow \<Rightarrow> db \<Rightarrow> exn + db" where
  "ins_recovery r d = require (has_admin d (rc_admin_id r)) (d\<lparr>recovery_codes := recovery_codes d @ [r]\<rparr>)"

definition ins_session :: "SessionRow \<Rightarrow> db \<Rightarrow> exn + db" where
  "ins_session r d =
     require (\<not> has_session d (s_id_hash r) \<and> s_public_id r \<notin> s_public_id ` set (sessions d)
              \<and> has_admin d (s_admin_id r))
       (d\<lparr>sessions := sessions d @ [r]\<rparr>)"

definition ins_passkey :: "PasskeyRow \<Rightarrow> db \<Rightarrow> exn + db" where
  "ins_passkey r d =
     require (pk_id r \<notin> pk_id ` set (passkeys d) \<and> pk_credential_id r \<notin> pk_credential_id ` set (passkeys d)
              \<and> has_admin d (pk_admin_id r))
       (d\<lparr>passkeys := passkeys d @ [r]\<rparr>)"

definition ins_binding :: "BindingRow \<Rightarrow> db \<Rightarrow> exn + db" where
  "ins_binding r d =
     require (b_id r \<notin> b_id ` set (bindings d) \<and> b_session_hash r \<notin> b_session_hash ` set (bindings d)
              \<and> has_session d (b_session_hash r))
       (d\<lparr>bindings := bindings d @ [r]\<rparr>)"

definition ins_case :: "CaseRow \<Rightarrow> db \<Rightarrow> exn + db" where
  "ins_case r d = require (\<not> has_case d (c_id r)) (d\<lparr>cases := cases d @ [r]\<rparr>)"

definition ins_item :: "ItemRow \<Rightarrow> db \<Rightarrow> exn + db" where
  "ins_item r d =
     require (i_id r \<notin> i_id ` set (items d) \<and> has_case d (i_case_id r)
              \<and> opt_ref (has_admin d) (i_created_by r))
       (d\<lparr>items := items d @ [r]\<rparr>)"

definition ins_link :: "LinkRow \<Rightarrow> db \<Rightarrow> exn + db" where
  "ins_link r d =
     require (\<not> has_link d (l_id r) \<and> l_token_hash r \<notin> l_token_hash ` set (links d) \<and> has_case d (l_case_id r))
       (d\<lparr>links := links d @ [r]\<rparr>)"

definition ins_group :: "GroupRow \<Rightarrow> db \<Rightarrow> exn + db" where
  "ins_group r d =
     require (\<not> has_group d (g_id r) \<and> nocase (g_name r) \<notin> (nocase \<circ> g_name) ` set (groups d)
              \<and> opt_ref (has_admin d) (g_created_by r))
       (d\<lparr>groups := groups d @ [r]\<rparr>)"

definition ins_group_member :: "GroupMemberRow \<Rightarrow> db \<Rightarrow> exn + db" where
  "ins_group_member r d =
     require (\<not> (\<exists>m \<in> set (group_members d). gm_group_id m = gm_group_id r \<and> gm_email m = gm_email r)
              \<and> has_group d (gm_group_id r))
       (d\<lparr>group_members := group_members d @ [r]\<rparr>)"

definition ins_challenge :: "ChallengeRow \<Rightarrow> db \<Rightarrow> exn + db" where
  "ins_challenge r d =
     require (ch_id r \<notin> ch_id ` set (challenges d) \<and> has_link d (ch_link_id r)
              \<and> opt_ref (has_recipient d) (ch_recipient_id r))
       (d\<lparr>challenges := challenges d @ [r]\<rparr>)"

definition ins_access :: "AccessRow \<Rightarrow> db \<Rightarrow> exn + db" where
  "ins_access r d =
     require (as_id_hash r \<notin> as_id_hash ` set (access_sessions d) \<and> has_link d (as_link_id r)
              \<and> opt_ref (has_recipient d) (as_recipient_id r))
       (d\<lparr>access_sessions := access_sessions d @ [r]\<rparr>)"

subsection \<open>Deletions with their ON DELETE actions\<close>

definition delete_sessions :: "(SessionRow \<Rightarrow> bool) \<Rightarrow> db \<Rightarrow> db" where
  "delete_sessions p d =
     (let gone = s_id_hash ` set (filter p (sessions d))
      in d\<lparr>sessions := del_where p (sessions d),
           bindings := del_where (\<lambda>b. b_session_hash b \<in> gone) (bindings d)\<rparr>)"

definition null_if :: "string \<Rightarrow> string option \<Rightarrow> string option" where
  "null_if i v = (if v = Some i then None else v)"

definition delete_admin :: "string \<Rightarrow> db \<Rightarrow> db" where
  "delete_admin i d =
     (let d1 = delete_sessions (\<lambda>s. s_admin_id s = i) d
      in d1\<lparr>admins := del_where (\<lambda>a. a_id a = i) (admins d1),
            recovery_codes := del_where (\<lambda>c. rc_admin_id c = i) (recovery_codes d1),
            passkeys := del_where (\<lambda>p. pk_admin_id p = i) (passkeys d1),
            case_members := del_where (\<lambda>m. m_admin_id m = i) (case_members d1),
            items := upd_where (\<lambda>_. True) (\<lambda>r. r\<lparr>i_created_by := null_if i (i_created_by r)\<rparr>) (items d1),
            groups := upd_where (\<lambda>_. True) (\<lambda>r. r\<lparr>g_created_by := null_if i (g_created_by r)\<rparr>) (groups d1)\<rparr>)"

definition delete_recipient :: "string \<Rightarrow> db \<Rightarrow> db" where
  "delete_recipient i d =
     d\<lparr>link_recipients := del_where (\<lambda>r. r_id r = i) (link_recipients d),
       challenges := del_where (\<lambda>c. ch_recipient_id c = Some i) (challenges d),
       access_sessions := del_where (\<lambda>s. as_recipient_id s = Some i) (access_sessions d)\<rparr>"

definition delete_group_rows :: "string \<Rightarrow> db \<Rightarrow> db" where
  "delete_group_rows i d =
     d\<lparr>groups := del_where (\<lambda>g. g_id g = i) (groups d),
       group_members := del_where (\<lambda>m. gm_group_id m = i) (group_members d)\<rparr>"

subsection \<open>A database for the examples\<close>

text \<open>
  One open case with a file and a link with two recipients, the first of whom has a session;
  an administrator with a session and a user who is assigned to the case.
\<close>

definition sample_token :: string where "sample_token = replicate 43 CHR ''t''"

definition sample_item_id :: string where "sample_item_id = ''f_aaaaaaaaaaaaaaaa''"

definition sample_admin :: "string \<Rightarrow> role \<Rightarrow> AdminRow" where
  "sample_admin i r =
     \<lparr>a_id = i, a_username = ''name_'' @ i, a_password_hash = [], a_created_at = 1, a_role = r, a_disabled_at = None,
      a_must_change_password = False, a_last_login_at = None, a_totp_secret = None, a_totp_enabled_at = None,
      a_totp_last_step = None, a_totp_failed_count = 0, a_totp_locked_until = None\<rparr>"

definition sample_session :: SessionRow where
  "sample_session =
     \<lparr>s_id_hash = ''sid'', s_admin_id = ''a1'', s_csrf_token = ''csrf'', s_created_at = 1, s_last_seen_at = 1,
      s_expires_at = 1000, s_totp_verified = True, s_totp_attempts = 0, s_public_id = ''s_1'', s_ip = None,
      s_user_agent = None, s_second_factor = None, s_confirmed_until = None, s_webauthn_challenge = None,
      s_webauthn_purpose = None, s_webauthn_expires_at = None, s_dbsc_challenge = None, s_dbsc_offered_at = None\<rparr>"

definition sample_db :: db where
  "sample_db = empty_db\<lparr>
     admins := [sample_admin ''a1'' RAdmin, sample_admin ''a2'' RUser],
     sessions := [sample_session],
     cases := [\<lparr>c_id = ''c1'', c_name = ''Case'', c_description = [], c_status = CaseOpen, c_created_at = 1, c_updated_at = 1\<rparr>],
     case_members := [\<lparr>m_case_id = ''c1'', m_admin_id = ''a2'', m_created_at = 1\<rparr>],
     links := [\<lparr>l_id = ''l1'', l_case_id = ''c1'', l_label = ''L'', l_token_hash = sample_token, l_token_hint = ''tttttt'',
        l_expires_at = None, l_revoked_at = None, l_max_opens = Some 2, l_opens_used = 1, l_created_at = 1, l_last_used_at = None\<rparr>],
     link_recipients := [\<lparr>r_id = ''r1'', r_link_id = ''l1'', r_email = ''a@b.c'', r_lang = ''en'', r_opens = 1,
        r_last_opened_at = Some 5, r_created_at = 1\<rparr>,
       \<lparr>r_id = ''r2'', r_link_id = ''l1'', r_email = ''d@e.f'', r_lang = ''en'', r_opens = 0,
        r_last_opened_at = None, r_created_at = 1\<rparr>],
     items := [\<lparr>i_id = sample_item_id, i_case_id = ''c1'', i_kind = IFile, i_title = ''a.txt'', i_body = None,
        i_upload_kind = Some UDirect, i_status = Ready, i_declared_size = Some 2, i_size = Some 2, i_sha256 = None,
        i_created_by = None, i_created_at = 2, i_ready_at = Some 3, i_deleted_at = None\<rparr>],
     access_sessions := [\<lparr>as_id_hash = ''s1'', as_link_id = ''l1'', as_recipient_id = Some ''r1'', as_csrf_token = ''x'',
        as_created_at = 5, as_expires_at = 1000, as_ip = None\<rparr>]\<rparr>"

end
