(* ===== verification/Config.thy ===== *)
theory Config
  imports Complex_Main Database
begin

section \<open>Configuration (src/config.ts)\<close>

text \<open>
  The settings, and the functions that read them from the environment, a map from names to
  texts. A JavaScript number of the configuration is a rational. A duration in milliseconds
  is its floor, which is what adding it to a \<open>Date\<close> keeps of it; a limit that is compared
  with a count is its ceiling, which decides the same comparisons.
\<close>

datatype mail_driver = DriverLog | DriverSmtp | DriverGraph | DriverSes

record Brand =
  br_name :: string
  br_logoPath :: "string option"
  br_colorPrimary :: string
  br_colorTopbar :: string
  br_colorAccent :: string
  br_footerText :: string

record SmtpConfig =
  smtp_host :: string
  smtp_port :: rat
  smtp_secure :: bool
  smtp_requireTls :: bool
  smtp_user :: "string option"
  smtp_pass :: "string option"
  smtp_allowInsecureTls :: bool

record GraphConfig =
  graph_tenantId :: string
  graph_clientId :: string
  graph_clientSecret :: string
  graph_sender :: string
  graph_authority :: string
  graph_apiBase :: string
  graph_saveToSentItems :: bool

record SesConfig =
  ses_region :: string
  ses_endpoint :: "string option"
  ses_accessKeyId :: "string option"
  ses_secretAccessKey :: "string option"
  ses_configurationSet :: "string option"

record MailConfig =
  mc_driver :: mail_driver
  mc_from :: string
  mc_fromName :: string
  mc_replyTo :: "string option"
  mc_smtp :: SmtpConfig
  mc_graph :: GraphConfig
  mc_ses :: SesConfig

datatype storage_kind = StorageLocal | StorageS3
datatype trust_proxy = TrustNone | TrustHops nat | TrustList string
datatype log_level = LevelDebug | LevelInfo | LevelWarn | LevelError

record S3Config =
  s3_endpoint :: "string option"
  s3_region :: string
  s3_bucket :: string
  s3_accessKeyId :: "string option"
  s3_secretAccessKey :: "string option"
  s3_forcePathStyle :: bool
  s3_partSize :: nat

record Config =
  publicUrl :: string
  brand :: Brand
  cfg_host :: string
  cfg_port :: rat
  trustProxy :: trust_proxy
  dataDir :: string
  databasePath :: string
  storage_backend :: storage_kind
  localStorageDir :: string
  s3 :: S3Config
  mail :: MailConfig
  maxFileBytes :: nat
  uploadChunkBytes :: nat
  incompleteUploadTtlMs :: ms
  cleanupIntervalMs :: ms
  sessionTtlMs :: ms
  accessCodeTtlMs :: ms
  accessSessionTtlMs :: ms
  maxCodeAttempts :: nat
  challengeLimitPerLinkPerHour :: nat
  adminRequireTotp :: bool
  reauthWindowMs :: ms
  deviceBoundSessions :: bool
  cookieSecure :: bool
  loginRateLimitPer15Min :: nat
  tokenFailureRateLimitPer15Min :: nat
  publicRateLimitPerMinute :: nat
  logLevel :: log_level

subsection \<open>Numbers of the environment\<close>

definition quoted :: "string \<Rightarrow> string" where
  "quoted s = [CHR 0x22] @ s @ [CHR 0x22]"

definition digit_in :: "nat \<Rightarrow> char \<Rightarrow> nat option" where
  "digit_in base c =
     (let v = (if is_digit c then code_of c - 48
               else if is_lower c then code_of c - 87
               else if is_upper c then code_of c - 55 else base)
      in if v < base then Some v else None)"

fun base_val :: "nat \<Rightarrow> nat \<Rightarrow> string \<Rightarrow> nat option" where
  "base_val base acc [] = Some acc"
| "base_val base acc (c # cs) =
     (case digit_in base c of None \<Rightarrow> None | Some v \<Rightarrow> base_val base (base * acc + v) cs)"

text \<open>The exponent part of a decimal literal: \<open>None\<close> when the text does not end there\<close>

definition exponent_of :: "string \<Rightarrow> rat option" where
  "exponent_of s =
     (case s of
        [] \<Rightarrow> Some 1
      | e # r \<Rightarrow>
          (let neg = (r \<noteq> [] \<and> hd r = CHR ''-'');
               ds = (if r \<noteq> [] \<and> (hd r = CHR ''-'' \<or> hd r = CHR ''+'') then tl r else r)
           in if (e = CHR ''e'' \<or> e = CHR ''E'') \<and> ds \<noteq> [] \<and> list_all is_digit ds
              then Some (if neg then 1 / 10 ^ digits_val 0 ds else 10 ^ digits_val 0 ds) else None))"

definition unsigned_decimal :: "string \<Rightarrow> rat option" where
  "unsigned_decimal s =
     (let i = takeWhile is_digit s; r = dropWhile is_digit s;
          dot = (r \<noteq> [] \<and> hd r = CHR ''.'');
          f = (if dot then takeWhile is_digit (tl r) else []);
          rest = (if dot then dropWhile is_digit (tl r) else r)
      in if i = [] \<and> f = [] then None
         else map_option (\<lambda>x. (of_nat (digits_val 0 i) + of_nat (digits_val 0 f) / 10 ^ length f) * x)
                (exponent_of rest))"

text \<open>
  \<open>Number(raw)\<close>; \<open>None\<close> is NaN or an infinity, which the callers treat alike.
\<close>

definition js_number :: "string \<Rightarrow> rat option" where
  "js_number raw =
     (case trim raw of
        [] \<Rightarrow> Some 0
      | c # cs \<Rightarrow>
          (if c = CHR ''-'' then map_option uminus (unsigned_decimal cs)
           else if c = CHR ''+'' then unsigned_decimal cs
           else (case (c, cs) of
                   (CHR ''0'', x # ds) \<Rightarrow>
                     (let base = (if x = CHR ''x'' \<or> x = CHR ''X'' then 16
                                  else if x = CHR ''o'' \<or> x = CHR ''O'' then 8
                                  else if x = CHR ''b'' \<or> x = CHR ''B'' then 2 else 0)
                      in if base = 0 then unsigned_decimal (c # cs)
                         else if ds = [] then None else map_option of_nat (base_val base 0 ds))
                 | _ \<Rightarrow> unsigned_decimal (c # cs))))"

type_synonym env = "string \<Rightarrow> string option"

definition floor_nat :: "rat \<Rightarrow> nat" where "floor_nat q = nat \<lfloor>q\<rfloor>"
definition ceil_nat :: "rat \<Rightarrow> nat" where "ceil_nat q = nat \<lceil>q\<rceil>"

definition SIZE_UNITS :: "string \<Rightarrow> nat option" where
  "SIZE_UNITS u =
     (if u = ''b'' then Some 1
      else if u \<in> {''k'', ''kb'', ''kib''} then Some 1024
      else if u \<in> {''m'', ''mb'', ''mib''} then Some (1024 ^ 2)
      else if u \<in> {''g'', ''gb'', ''gib''} then Some (1024 ^ 3)
      else if u \<in> {''t'', ''tb'', ''tib''} then Some (1024 ^ 4)
      else None)"

text \<open>
  The match of the size expression, \<open>^ white* digits+ (. digits+)? white* letters* white* $\<close>:
  the number's two parts and the unit
\<close>

definition size_match :: "string \<Rightarrow> (string \<times> string \<times> string) option" where
  "size_match inp =
     (let s = dropWhile is_ws inp; i = takeWhile is_digit s; r = dropWhile is_digit s;
          dot = (r \<noteq> [] \<and> hd r = CHR ''.'');
          f = (if dot then takeWhile is_digit (tl r) else []);
          r2 = dropWhile is_ws (if dot then dropWhile is_digit (tl r) else r);
          u = takeWhile (\<lambda>c. is_lower c \<or> is_upper c) r2;
          r3 = dropWhile (\<lambda>c. is_lower c \<or> is_upper c) r2
      in if i = [] \<or> (dot \<and> f = []) \<or> \<not> list_all is_ws r3 then None else Some (i, f, u))"

definition parseSize :: "string \<Rightarrow> string \<Rightarrow> exn + nat" where
  "parseSize inp name =
     (case size_match inp of
        None \<Rightarrow> Inl (JsError (''Invalid '' @ name @ '': '' @ quoted inp))
      | Some (i, f, u) \<Rightarrow>
          (let unit = toLowerCase u
           in case (if unit = [] then Some 1 else SIZE_UNITS unit) of
                None \<Rightarrow> Inl (JsError (''Invalid unit in '' @ name @ '': '' @ quoted inp))
              | Some mult \<Rightarrow>
                  (let value = floor_nat ((of_nat (digits_val 0 i) + of_nat (digits_val 0 f) / 10 ^ length f)
                                          * of_nat mult)
                   in if value > 2 ^ 53 - 1 then Inl (JsError (''Invalid '' @ name @ '': '' @ quoted inp))
                      else Inr value)))"

text \<open>The loop of \<open>formatSize\<close>: \<open>i\<close> counts the units, of which there are four.\<close>

fun size_scale :: "nat \<Rightarrow> rat \<Rightarrow> nat \<Rightarrow> rat \<times> nat" where
  "size_scale 0 v i = (v, i)"
| "size_scale (Suc n) v i = (if v \<ge> 1024 then size_scale n (v / 1024) (i + 1) else (v, i))"

definition toFixed :: "nat \<Rightarrow> rat \<Rightarrow> string" where
  "toFixed k v =
     (let n = nat \<lfloor>v * 10 ^ k + 1 / 2\<rfloor>; digits = nat_digits (n mod 10 ^ k)
      in nat_digits (n div 10 ^ k)
         @ (if k = 0 then [] else ''.'' @ replicate (k - length digits) CHR ''0'' @ digits))"

definition formatSize :: "nat \<Rightarrow> string" where
  "formatSize bytes =
     (if bytes < 1024 then nat_digits bytes @ '' B''
      else (let (v, i) = size_scale 3 (of_nat bytes / 1024) 0
            in toFixed (if v < 10 then 2 else if v < 100 then 1 else 0) v @ '' ''
               @ [''KB'', ''MB'', ''GB'', ''TB''] ! i))"

definition num :: "env \<Rightarrow> string \<Rightarrow> rat \<Rightarrow> exn + rat" where
  "num env key def =
     (case env key of
        None \<Rightarrow> Inr def
      | Some raw \<Rightarrow>
          (if raw = [] then Inr def
           else (case js_number raw of
                   None \<Rightarrow> Inl (JsError (''Invalid '' @ key @ '': '' @ quoted raw))
                 | Some n \<Rightarrow> (if n < 0 then Inl (JsError (''Invalid '' @ key @ '': '' @ quoted raw)) else Inr n))))"

definition bool_env :: "env \<Rightarrow> string \<Rightarrow> bool \<Rightarrow> bool" where
  "bool_env env key def =
     (case env key of
        None \<Rightarrow> def
      | Some raw \<Rightarrow> (if raw = [] then def else toLowerCase raw \<in> {''1'', ''true'', ''yes'', ''on''}))"

definition str_env :: "env \<Rightarrow> string \<Rightarrow> string \<Rightarrow> string" where
  "str_env env key def = or_else (trim (case env key of None \<Rightarrow> [] | Some s \<Rightarrow> s)) def"

text \<open>\<open>x || undefined\<close> for a text\<close>

definition nonempty :: "string \<Rightarrow> string option" where
  "nonempty s = (if s = [] then None else Some s)"

definition is_hex :: "char \<Rightarrow> bool" where
  "is_hex c = (is_digit c \<or> between 65 70 c \<or> between 97 102 c)"

definition HEX_COLOR_RE :: rexp where
  "HEX_COLOR_RE = Seq (Chr CHR ''#'') (Times 6 (Cls is_hex))"

definition LOGO_MEDIA_TYPES :: "string \<Rightarrow> string option" where
  "LOGO_MEDIA_TYPES ext = map_of [(''.png'', ''image/png''), (''.svg'', ''image/svg+xml''),
     (''.jpg'', ''image/jpeg''), (''.jpeg'', ''image/jpeg''), (''.webp'', ''image/webp'')] ext"

definition color :: "env \<Rightarrow> string \<Rightarrow> string \<Rightarrow> exn + string" where
  "color env key def =
     (let raw = trim (case env key of None \<Rightarrow> [] | Some s \<Rightarrow> s)
      in if raw = [] then Inr def
         else if \<not> matches HEX_COLOR_RE raw then Inl (JsError (key @ '' must be a hex colour like #0f766e''))
         else Inr (toLowerCase raw))"

text \<open>\<open>path.extname\<close>, \<open>path.dirname\<close> and \<open>path.join\<close> of a resolved (absolute, normalised) path\<close>

definition basename :: "string \<Rightarrow> string" where
  "basename p = last (split_by (\<lambda>c. c = CHR ''/'') p)"

definition extname :: "string \<Rightarrow> string" where
  "extname p =
     (let b = basename p; after = takeWhile (\<lambda>c. c \<noteq> CHR ''.'') (rev b);
          stem = drop (Suc (length after)) (rev b)
      in if CHR ''.'' \<in> set b \<and> stem \<noteq> [] then CHR ''.'' # rev after else [])"

definition dirname :: "string \<Rightarrow> string" where
  "dirname p =
     or_else (rev (tl (dropWhile (\<lambda>c. c \<noteq> CHR ''/'') (rev p)))) ''/''"

definition path_join :: "string \<Rightarrow> string \<Rightarrow> string" where
  "path_join dir name = (if dir = ''/'' then dir @ name else dir @ ''/'' @ name)"

definition loadBrand :: "runtime \<Rightarrow> env \<Rightarrow> exn + Brand" where
  "loadBrand R env =
     (let name = or_else (slice0 60 (trim (case env ''BRAND_NAME'' of None \<Rightarrow> [] | Some s \<Rightarrow> s))) ''outletbox'';
          logo = trim (case env ''BRAND_LOGO_PATH'' of None \<Rightarrow> [] | Some s \<Rightarrow> s);
          logoPath = (if logo = [] then None else Some (rt_resolve R logo))
      in if (case logoPath of None \<Rightarrow> False | Some p \<Rightarrow> LOGO_MEDIA_TYPES (toLowerCase (extname p)) = None)
         then Inl (JsError ''BRAND_LOGO_PATH must point to a .png/.svg/.jpg/.jpeg/.webp file'')
         else bind_res (color env ''BRAND_COLOR_PRIMARY'' ''#1f6feb'') (\<lambda>colorPrimary.
              bind_res (color env ''BRAND_COLOR_TOPBAR'' ''#101418'') (\<lambda>colorTopbar.
              bind_res (color env ''BRAND_COLOR_ACCENT'' colorPrimary) (\<lambda>colorAccent.
                Inr \<lparr>br_name = name, br_logoPath = logoPath, br_colorPrimary = colorPrimary,
                     br_colorTopbar = colorTopbar, br_colorAccent = colorAccent,
                     br_footerText = slice0 200 (trim (case env ''BRAND_FOOTER_TEXT'' of None \<Rightarrow> [] | Some s \<Rightarrow> s))\<rparr>))))"

subsection \<open>The mail settings\<close>

definition parse_driver :: "string \<Rightarrow> mail_driver option" where
  "parse_driver s = map_of [(''log'', DriverLog), (''smtp'', DriverSmtp), (''graph'', DriverGraph), (''ses'', DriverSes)] s"

definition bare_char :: "char \<Rightarrow> bool" where
  "bare_char c = (\<not> is_ws c \<and> c \<notin> set ''@<>,;'')"

definition BARE_EMAIL_RE :: rexp where
  "BARE_EMAIL_RE = Seq (Plus (Cls bare_char)) (Seq (Chr CHR ''@'') (Plus (Cls bare_char)))"

text \<open>\<open>.replace(/\/+$/, '')\<close>\<close>

definition strip_slashes :: "string \<Rightarrow> string" where
  "strip_slashes s = rev (dropWhile (\<lambda>c. c = CHR ''/'') (rev s))"

definition mail_settings :: "env \<Rightarrow> string \<Rightarrow> mail_driver \<Rightarrow> string \<Rightarrow> rat \<Rightarrow> MailConfig" where
  "mail_settings env brandName driver from' smtpPort =
     \<lparr>mc_driver = driver, mc_from = from',
      mc_fromName = slice0 100 (str_env env ''MAIL_FROM_NAME'' brandName),
      mc_replyTo = nonempty (str_env env ''MAIL_REPLY_TO'' []),
      mc_smtp = \<lparr>smtp_host = str_env env ''SMTP_HOST'' [], smtp_port = smtpPort,
        smtp_secure = bool_env env ''SMTP_SECURE'' (smtpPort = 465),
        smtp_requireTls = bool_env env ''SMTP_REQUIRE_TLS'' True,
        smtp_user = nonempty (str_env env ''SMTP_USER'' []),
        smtp_pass = (case env ''SMTP_PASSWORD'' of Some p \<Rightarrow> Some p | None \<Rightarrow> env ''SMTP_PASS''),
        smtp_allowInsecureTls = bool_env env ''SMTP_ALLOW_INSECURE_TLS'' False\<rparr>,
      mc_graph = \<lparr>graph_tenantId = str_env env ''GRAPH_TENANT_ID'' [],
        graph_clientId = str_env env ''GRAPH_CLIENT_ID'' [],
        graph_clientSecret = str_env env ''GRAPH_CLIENT_SECRET'' [],
        graph_sender = str_env env ''GRAPH_SENDER'' from',
        graph_authority = strip_slashes (str_env env ''GRAPH_AUTHORITY'' ''https://login.microsoftonline.com''),
        graph_apiBase = strip_slashes (str_env env ''GRAPH_API_BASE'' ''https://graph.microsoft.com/v1.0''),
        graph_saveToSentItems = bool_env env ''GRAPH_SAVE_TO_SENT_ITEMS'' False\<rparr>,
      mc_ses = \<lparr>ses_region = str_env env ''SES_REGION'' (str_env env ''AWS_REGION'' ''eu-central-1''),
        ses_endpoint = nonempty (str_env env ''SES_ENDPOINT'' []),
        ses_accessKeyId = nonempty (str_env env ''SES_ACCESS_KEY_ID'' []),
        ses_secretAccessKey = nonempty (str_env env ''SES_SECRET_ACCESS_KEY'' []),
        ses_configurationSet = nonempty (str_env env ''SES_CONFIGURATION_SET'' [])\<rparr>\<rparr>"

definition check_mail :: "env \<Rightarrow> MailConfig \<Rightarrow> exn + MailConfig" where
  "check_mail env m =
     (let s = mc_smtp m
      in if mc_driver m = DriverSmtp \<and> smtp_host s = []
         then Inl (JsError ''SMTP_HOST is required when MAIL_DRIVER=smtp'')
         else if mc_driver m = DriverSmtp \<and> (smtp_port s < 1 \<or> smtp_port s > 65535)
         then Inl (JsError ''Invalid SMTP_PORT'')
         else if mc_driver m = DriverSmtp \<and> smtp_user s \<noteq> None \<and> smtp_pass s = None
         then Inl (JsError ''SMTP_PASSWORD is required when SMTP_USER is set'')
         else if mc_driver m = DriverGraph
         then (case List.find (\<lambda>k. str_env env k [] = [])
                      [''GRAPH_TENANT_ID'', ''GRAPH_CLIENT_ID'', ''GRAPH_CLIENT_SECRET''] of
                 Some key \<Rightarrow> Inl (JsError (key @ '' is required when MAIL_DRIVER=graph''))
               | None \<Rightarrow> Inr m)
         else Inr m)"

definition loadMail :: "env \<Rightarrow> string \<Rightarrow> exn + MailConfig" where
  "loadMail env brandName =
     (let d = str_env env ''MAIL_DRIVER'' ''log''
      in case parse_driver d of
           None \<Rightarrow> Inl (JsError (''MAIL_DRIVER must be log|smtp|graph|ses, got '' @ quoted d))
         | Some driver \<Rightarrow>
             (let from' = str_env env ''MAIL_FROM'' (if driver = DriverLog then ''outletbox@localhost'' else [])
              in if from' = [] then Inl (JsError (''MAIL_FROM is required when MAIL_DRIVER='' @ d))
                 else if \<not> matches BARE_EMAIL_RE from'
                 then Inl (JsError (''MAIL_FROM must be a bare e-mail address (no display name): '' @ quoted from'))
                 else bind_res (num env ''SMTP_PORT'' 587) (\<lambda>smtpPort.
                        check_mail env (mail_settings env brandName driver from' smtpPort))))"

subsection \<open>All settings\<close>

definition parse_trust :: "string \<Rightarrow> exn + trust_proxy" where
  "parse_trust trustRaw =
     (if toLowerCase trustRaw \<in> {''true'', ''yes'', ''on''}
      then Inl (JsError ''TRUST_PROXY=true is not allowed: use the number of proxy hops (e.g. 1) or a list of proxy addresses/CIDRs'')
      else if trustRaw \<noteq> [] \<and> list_all is_digit trustRaw then Inr (TrustHops (digits_val 0 trustRaw))
      else if trustRaw \<noteq> [] \<and> toLowerCase trustRaw \<notin> {''false'', ''0'', ''no'', ''off''}
      then Inr (TrustList trustRaw)
      else Inr TrustNone)"

definition parse_level :: "string \<Rightarrow> log_level option" where
  "parse_level s = map_of [(''debug'', LevelDebug), (''info'', LevelInfo), (''warn'', LevelWarn), (''error'', LevelError)] s"

definition env_or :: "env \<Rightarrow> string \<Rightarrow> string \<Rightarrow> string" where
  "env_or env key def = (case env key of None \<Rightarrow> def | Some s \<Rightarrow> s)"

text \<open>\<open>env.X || undefined\<close>: an empty text is like an absent one\<close>

definition env_truthy :: "env \<Rightarrow> string \<Rightarrow> string option" where
  "env_truthy env key = (case env key of None \<Rightarrow> None | Some s \<Rightarrow> nonempty s)"

definition check_that :: "bool \<Rightarrow> string \<Rightarrow> exn + unit" where
  "check_that ok msg = (if ok then Inr () else Inl (JsError msg))"

definition loadConfig :: "runtime \<Rightarrow> env \<Rightarrow> exn + Config" where
  "loadConfig R env =
     (let publicUrl' = strip_slashes (env_or env ''PUBLIC_URL'' ''http://localhost:3000'')
      in case rt_url R publicUrl' of
           None \<Rightarrow> Inl (JsError (''PUBLIC_URL is not a valid URL: '' @ quoted publicUrl'))
         | Some (protocol, _) \<Rightarrow>
      bind_res (check_that (protocol \<in> {''http:'', ''https:''}) ''PUBLIC_URL must start with http:// or https://'') (\<lambda>_.
      let dataDir' = rt_resolve R (env_or env ''DATA_DIR'' ''./data'');
          st = env_or env ''STORAGE_BACKEND'' ''local''
      in bind_res (check_that (st \<in> {''local'', ''s3''}) (''STORAGE_BACKEND must be local or s3, got '' @ quoted st)) (\<lambda>_.
      bind_res (parse_trust (trim (env_or env ''TRUST_PROXY'' ''false''))) (\<lambda>trust.
      bind_res (parseSize (env_or env ''S3_PART_SIZE'' ''8MB'') ''S3_PART_SIZE'') (\<lambda>part.
      bind_res (check_that (st \<noteq> ''s3'' \<or> env_truthy env ''S3_BUCKET'' \<noteq> None)
                  ''S3_BUCKET is required when STORAGE_BACKEND=s3'') (\<lambda>_.
      bind_res (check_that (st \<noteq> ''s3'' \<or> part \<ge> 5 * 1024 * 1024) ''S3_PART_SIZE must be at least 5MB'') (\<lambda>_.
      bind_res (parseSize (env_or env ''MAX_FILE_SIZE'' ''10GB'') ''MAX_FILE_SIZE'') (\<lambda>maxFile.
      bind_res (check_that (maxFile \<ge> 1) ''MAX_FILE_SIZE must be positive'') (\<lambda>_.
      bind_res (parseSize (env_or env ''UPLOAD_CHUNK_SIZE'' ''32MB'') ''UPLOAD_CHUNK_SIZE'') (\<lambda>chunk.
      bind_res (check_that (chunk \<ge> 1024 * 1024) ''UPLOAD_CHUNK_SIZE must be at least 1MB'') (\<lambda>_.
      case parse_level (env_or env ''LOG_LEVEL'' ''info'') of
        None \<Rightarrow> Inl (JsError (''Invalid LOG_LEVEL: '' @ env_or env ''LOG_LEVEL'' ''info''))
      | Some level \<Rightarrow>
      (let dbPath = (case env_truthy env ''DATABASE_PATH'' of Some p \<Rightarrow> rt_resolve R p
                     | None \<Rightarrow> path_join dataDir' ''outletbox.sqlite'');
           filesDir = (case env_truthy env ''LOCAL_STORAGE_DIR'' of Some p \<Rightarrow> rt_resolve R p
                       | None \<Rightarrow> path_join dataDir' ''files'')
       in bind_res (check_that (st \<noteq> ''local'' \<or> dirname dbPath \<noteq> filesDir)
                      ''The database must not live inside LOCAL_STORAGE_DIR'') (\<lambda>_.
       bind_res (loadBrand R env) (\<lambda>brand'.
       bind_res (num env ''MAX_CODE_ATTEMPTS'' 5) (\<lambda>attempts.
       bind_res (check_that (attempts \<ge> 1) ''MAX_CODE_ATTEMPTS must be at least 1'') (\<lambda>_.
       bind_res (num env ''PORT'' 3000) (\<lambda>port.
       bind_res (loadMail env (br_name brand')) (\<lambda>mail'.
       bind_res (num env ''INCOMPLETE_UPLOAD_TTL_HOURS'' 24) (\<lambda>uploadTtl.
       bind_res (num env ''CLEANUP_INTERVAL_MINUTES'' 30) (\<lambda>interval.
       bind_res (num env ''SESSION_TTL_HOURS'' 12) (\<lambda>sessionTtl.
       bind_res (num env ''ACCESS_CODE_TTL_MINUTES'' 15) (\<lambda>codeTtl.
       bind_res (num env ''ACCESS_SESSION_TTL_MINUTES'' 60) (\<lambda>accessTtl.
       bind_res (num env ''CHALLENGE_LIMIT_PER_LINK_PER_HOUR'' 5) (\<lambda>chLimit.
       bind_res (num env ''REAUTH_WINDOW_MINUTES'' 10) (\<lambda>reauth.
       bind_res (num env ''LOGIN_RATE_LIMIT_PER_15MIN'' 10) (\<lambda>loginLimit.
       bind_res (num env ''TOKEN_FAILURE_RATE_LIMIT_PER_15MIN'' 30) (\<lambda>tokenLimit.
       bind_res (num env ''PUBLIC_RATE_LIMIT_PER_MINUTE'' 600) (\<lambda>publicLimit.
         Inr \<lparr>publicUrl = publicUrl', brand = brand', cfg_host = env_or env ''HOST'' ''0.0.0.0'', cfg_port = port,
              trustProxy = trust, dataDir = dataDir', databasePath = dbPath,
              storage_backend = (if st = ''s3'' then StorageS3 else StorageLocal), localStorageDir = filesDir,
              s3 = \<lparr>s3_endpoint = env_truthy env ''S3_ENDPOINT'',
                s3_region = (case env_truthy env ''S3_REGION'' of Some r \<Rightarrow> r | None \<Rightarrow> ''us-east-1''),
                s3_bucket = env_or env ''S3_BUCKET'' [], s3_accessKeyId = env_truthy env ''S3_ACCESS_KEY_ID'',
                s3_secretAccessKey = env_truthy env ''S3_SECRET_ACCESS_KEY'',
                s3_forcePathStyle = bool_env env ''S3_FORCE_PATH_STYLE'' True, s3_partSize = part\<rparr>,
              mail = mail', maxFileBytes = maxFile, uploadChunkBytes = chunk,
              incompleteUploadTtlMs = floor_nat (uploadTtl * 3600000),
              cleanupIntervalMs = floor_nat (interval * 60000),
              sessionTtlMs = floor_nat (sessionTtl * 3600000),
              accessCodeTtlMs = floor_nat (codeTtl * 60000),
              accessSessionTtlMs = floor_nat (accessTtl * 60000),
              maxCodeAttempts = ceil_nat attempts, challengeLimitPerLinkPerHour = ceil_nat chLimit,
              adminRequireTotp = bool_env env ''ADMIN_REQUIRE_TOTP'' False,
              reauthWindowMs = floor_nat (min (max reauth 1) 720 * 60000),
              deviceBoundSessions = bool_env env ''DEVICE_BOUND_SESSIONS'' True,
              cookieSecure = bool_env env ''COOKIE_SECURE'' (protocol = ''https:''),
              loginRateLimitPer15Min = ceil_nat loginLimit,
              tokenFailureRateLimitPer15Min = ceil_nat tokenLimit,
              publicRateLimitPerMinute = ceil_nat publicLimit, logLevel = level\<rparr>))))))))))))))))))))))))))))"

subsection \<open>A configuration for the examples\<close>

definition sample_config :: Config where
  "sample_config =
     \<lparr>publicUrl = ''https://x.y'',
      brand = \<lparr>br_name = ''B'', br_logoPath = None, br_colorPrimary = ''#000000'', br_colorTopbar = ''#000000'',
        br_colorAccent = ''#000000'', br_footerText = []\<rparr>,
      cfg_host = ''0.0.0.0'', cfg_port = 8080, trustProxy = TrustNone, dataDir = ''/data'', databasePath = ''/data/db'',
      storage_backend = StorageLocal, localStorageDir = ''/data/storage'',
      s3 = \<lparr>s3_endpoint = None, s3_region = [], s3_bucket = [], s3_accessKeyId = None, s3_secretAccessKey = None,
        s3_forcePathStyle = False, s3_partSize = 0\<rparr>,
      mail = \<lparr>mc_driver = DriverLog, mc_from = ''a@b.c'', mc_fromName = ''B'', mc_replyTo = None,
        mc_smtp = \<lparr>smtp_host = [], smtp_port = 25, smtp_secure = False, smtp_requireTls = False, smtp_user = None,
          smtp_pass = None, smtp_allowInsecureTls = False\<rparr>,
        mc_graph = \<lparr>graph_tenantId = [], graph_clientId = [], graph_clientSecret = [], graph_sender = [],
          graph_authority = [], graph_apiBase = [], graph_saveToSentItems = False\<rparr>,
        mc_ses = \<lparr>ses_region = [], ses_endpoint = None, ses_accessKeyId = None, ses_secretAccessKey = None,
          ses_configurationSet = None\<rparr>\<rparr>,
      maxFileBytes = 1000, uploadChunkBytes = 100, incompleteUploadTtlMs = 1000, cleanupIntervalMs = 1000,
      sessionTtlMs = 1000, accessCodeTtlMs = 1000, accessSessionTtlMs = 1000, maxCodeAttempts = 3,
      challengeLimitPerLinkPerHour = 5, adminRequireTotp = False, reauthWindowMs = 100, deviceBoundSessions = False,
      cookieSecure = True, loginRateLimitPer15Min = 10, tokenFailureRateLimitPer15Min = 10,
      publicRateLimitPerMinute = 10, logLevel = LevelInfo\<rparr>"

end
