(* ===== verification/Migrate.thy ===== *)
theory Migrate
  imports Config
begin

section \<open>Schema migrations and the copies made before them (src/db.ts)\<close>

text \<open>
  The database under migration is a value of any type: what a migration file does to it is the
  argument \<open>run\<close>, and taking the checked copy is the argument \<open>backup\<close>, which may fail. The
  table \<open>schema_migrations\<close> is the list of the applied names.
\<close>

record 's schema =
  sc_state :: 's
  sc_applied :: "string list"

definition migrationBackupDir :: "string \<Rightarrow> string option" where
  "migrationBackupDir dbPath = (if dbPath = '':memory:'' then None else Some (path_join (dirname dbPath) ''backups''))"

text \<open>
  The loop over the files: each pending one runs in a transaction together with the row that
  records it, so a failing file leaves the schema as it was before that file.
\<close>

fun migrate_files ::
    "(string \<Rightarrow> 's \<Rightarrow> exn + 's) \<Rightarrow> string set \<Rightarrow> string list \<Rightarrow> 's schema \<Rightarrow> (exn + string list) \<times> 's schema" where
  "migrate_files run applied [] d = (Inr [], d)"
| "migrate_files run applied (file # fs) d =
     (if file \<in> applied then migrate_files run applied fs d
      else (case run file (sc_state d) of
              Inl e \<Rightarrow> (Inl e, d)
            | Inr s \<Rightarrow>
                (if file \<in> set (sc_applied d) then (Inl SqliteError, d)
                 else (case migrate_files run applied fs
                              (d\<lparr>sc_state := s, sc_applied := sc_applied d @ [file]\<rparr>) of
                         (Inl e, d') \<Rightarrow> (Inl e, d')
                       | (Inr names, d') \<Rightarrow> (Inr (file # names), d')))))"

text \<open>\<open>files\<close> are the names in the migrations directory, in the order of \<open>sort()\<close>.\<close>

definition migrate ::
    "(string \<Rightarrow> 's \<Rightarrow> exn + 's) \<Rightarrow> (string \<Rightarrow> 's schema \<Rightarrow> exn + unit) option \<Rightarrow> string list \<Rightarrow> 's schema
     \<Rightarrow> (exn + string list) \<times> 's schema" where
  "migrate run backup files d =
     (let applied = set (sc_applied d);
          sqls = filter (\<lambda>f. ends_with f ''.sql'') files;
          pending = filter (\<lambda>f. f \<notin> applied) sqls
      in case (case backup of
                 Some b \<Rightarrow> (if pending \<noteq> [] \<and> sc_applied d \<noteq> [] then b (hd pending) d else Inr ())
               | None \<Rightarrow> Inr ()) of
           Inl e \<Rightarrow> (Inl e, d)
         | Inr _ \<Rightarrow> migrate_files run applied sqls d)"

definition KEEP_MIGRATION_BACKUPS :: nat where "KEEP_MIGRATION_BACKUPS = 5"

text \<open>\<open>/-(\d{8}T\d{6}Z)\.sqlite$/\<close>: the last 24 characters of the name\<close>

definition STAMP_RE :: rexp where
  "STAMP_RE = Seq (Chr CHR ''-'') (Seq (Times 8 (Cls is_digit)) (Seq (Chr CHR ''T'')
     (Seq (Times 6 (Cls is_digit)) (Lit ''Z.sqlite''))))"

definition stampOf :: "string \<Rightarrow> string" where
  "stampOf file =
     (let tl24 = drop (length file - 24) file
      in if matches STAMP_RE tl24 then take 16 (drop 1 tl24) else [])"

definition is_backup :: "string \<Rightarrow> bool" where
  "is_backup f = (starts_with f ''before-'' \<and> ends_with f ''.sqlite'' \<and> length f \<ge> 14)"

text \<open>
  The sort is descending in the stamp. A stamp is read as the number of its digits (all stamps
  have their digits in the same places), and no stamp is the least.
\<close>

definition stamp_key :: "string \<Rightarrow> int" where
  "stamp_key f = (let s = stampOf f in if s = [] then -1 else int (digits_val 0 (filter is_digit s)))"

definition old_backups :: "string list \<Rightarrow> string list" where
  "old_backups names = drop KEEP_MIGRATION_BACKUPS (sort_key (\<lambda>f. - stamp_key f) (filter is_backup names))"

definition prune_backups :: "string list \<Rightarrow> string list" where
  "prune_backups names = filter (\<lambda>f. f \<notin> set (old_backups names)) names"

end
