(* ===== verification/Crypto.thy ===== *)
theory Crypto
  imports Text
begin

section \<open>Ids, tokens, access codes, password hashes, addresses (src/crypto.ts)\<close>

text \<open>
  Random bytes are an argument of the functions that draw them: the bytes of one
  \<open>randomBytes(n)\<close> call, or the list of the blocks a rejection-sampling loop reads. Such a
  loop ends with \<open>None\<close> only when the listed blocks are used up.
\<close>

subsection \<open>base64 of bytes\<close>

definition b64_std :: string where
  "b64_std = ''ABCDEFGHIJKLMNOPQRSTUVWXYZabcdefghijklmnopqrstuvwxyz0123456789+/''"

definition b64_url :: string where
  "b64_url = ''ABCDEFGHIJKLMNOPQRSTUVWXYZabcdefghijklmnopqrstuvwxyz0123456789-_''"

fun b64_sextets :: "nat list \<Rightarrow> nat list" where
  "b64_sextets (a # b # c # bs) =
     [a div 4, (a mod 4) * 16 + b div 16, (b mod 16) * 4 + c div 64, c mod 64] @ b64_sextets bs"
| "b64_sextets [a, b] = [a div 4, (a mod 4) * 16 + b div 16, (b mod 16) * 4]"
| "b64_sextets [a] = [a div 4, (a mod 4) * 16]"
| "b64_sextets [] = []"

fun b64_pad :: "nat list \<Rightarrow> string" where
  "b64_pad (a # b # c # bs) = b64_pad bs"
| "b64_pad [a, b] = ''=''"
| "b64_pad [a] = ''==''"
| "b64_pad [] = []"

text \<open>\<open>Buffer.toString('base64')\<close> pads, \<open>'base64url'\<close> does not.\<close>

definition base64 :: "nat list \<Rightarrow> string" where
  "base64 bs = map (\<lambda>i. b64_std ! i) (b64_sextets bs) @ b64_pad bs"

definition base64url :: "nat list \<Rightarrow> string" where
  "base64url bs = map (\<lambda>i. b64_url ! i) (b64_sextets bs)"

text \<open>
  \<open>Buffer.from(s, 'base64')\<close> and \<open>'base64url'\<close>: both alphabets are read, other characters
  are skipped, and reading stops at the padding.
\<close>

definition b64_val :: "char \<Rightarrow> nat option" where
  "b64_val c =
     (if is_upper c then Some (code_of c - 65)
      else if is_lower c then Some (code_of c - 71)
      else if is_digit c then Some (code_of c + 4)
      else if c = CHR ''+'' \<or> c = CHR ''-'' then Some 62
      else if c = CHR ''/'' \<or> c = CHR ''_'' then Some 63
      else None)"

fun b64_bytes :: "nat list \<Rightarrow> nat list" where
  "b64_bytes (p # q # r # s # ss) =
     [p * 4 + q div 16, (q mod 16) * 16 + r div 4, (r mod 4) * 64 + s] @ b64_bytes ss"
| "b64_bytes [p, q, r] = [p * 4 + q div 16, (q mod 16) * 16 + r div 4]"
| "b64_bytes [p, q] = [p * 4 + q div 16]"
| "b64_bytes _ = []"

definition from_base64 :: "string \<Rightarrow> nat list" where
  "from_base64 s = b64_bytes (List.map_filter b64_val (takeWhile (\<lambda>c. c \<noteq> CHR ''='') s))"

subsection \<open>Ids and tokens\<close>

definition newId :: "string \<Rightarrow> nat list \<Rightarrow> string" where
  "newId prefix bytes = prefix @ ''_'' @ base64url bytes"

definition newToken :: "nat list \<Rightarrow> string" where
  "newToken bytes = base64url bytes"

definition newSessionId :: "nat list \<Rightarrow> string" where
  "newSessionId bytes = base64url bytes"

definition newCsrfToken :: "nat list \<Rightarrow> string" where
  "newCsrfToken bytes = base64url bytes"

definition newFlowToken :: "nat list \<Rightarrow> string" where
  "newFlowToken bytes = base64url bytes"

definition TOKEN_RE :: rexp where
  "TOKEN_RE = Times 43 (Cls is_url64)"

definition ID_RE :: rexp where
  "ID_RE = Seq (Plus (Cls is_lower)) (Seq (Chr CHR ''_'') (Times 16 (Cls is_url64)))"

subsection \<open>Temporary passwords and access codes: rejection sampling\<close>

definition READABLE_ALPHABET :: string where
  "READABLE_ALPHABET = ''abcdefghjkmnpqrstuvwxyz23456789''"

text \<open>The body of the \<open>for\<close> over one block of random bytes.\<close>

fun temp_block :: "nat list \<Rightarrow> string \<Rightarrow> string" where
  "temp_block [] chars = chars"
| "temp_block (b # bs) chars =
     temp_block bs
       (if b < 248 \<and> length chars < 20 then chars @ [READABLE_ALPHABET ! (b mod 31)] else chars)"

fun temp_chars :: "nat list list \<Rightarrow> string \<Rightarrow> string option" where
  "temp_chars blocks chars =
     (if length chars < 20
      then (case blocks of [] \<Rightarrow> None | blk # rest \<Rightarrow> temp_chars rest (temp_block blk chars))
      else Some chars)"

declare temp_chars.simps [simp del]

text \<open>\<open>replace(/(.{5})(?!$)/g, '$1-')\<close>\<close>

fun group5 :: "string \<Rightarrow> string" where
  "group5 (a # b # c # d # e # f # cs) = a # b # c # d # e # CHR ''-'' # group5 (f # cs)"
| "group5 s = s"

definition newTempPassword :: "nat list list \<Rightarrow> string option" where
  "newTempPassword blocks = map_option group5 (temp_chars blocks [])"

text \<open>The \<open>for\<close> of \<open>newAccessCode\<close>: it skips bytes from 250 up and breaks when the code is long enough.\<close>

fun code_block :: "nat \<Rightarrow> nat list \<Rightarrow> string \<Rightarrow> string" where
  "code_block digits [] out = out"
| "code_block digits (byte # bs) out =
     (if byte \<ge> 250 then code_block digits bs out
      else (let out' = out @ nat_digits (byte mod 10)
            in if length out' = digits then out' else code_block digits bs out'))"

fun code_digits :: "nat \<Rightarrow> nat list list \<Rightarrow> string \<Rightarrow> string option" where
  "code_digits digits blocks out =
     (if length out < digits
      then (case blocks of [] \<Rightarrow> None | blk # rest \<Rightarrow> code_digits digits rest (code_block digits blk out))
      else Some out)"

declare code_digits.simps [simp del]

definition newAccessCode :: "nat \<Rightarrow> nat list list \<Rightarrow> string option" where
  "newAccessCode digits blocks = code_digits digits blocks []"

definition normalizeCode :: "string \<Rightarrow> string" where
  "normalizeCode raw = strip_class (\<lambda>c. is_ws c \<or> c = CHR ''-'') raw"

subsection \<open>Password hashes and comparison\<close>

definition SCRYPT_N :: nat where "SCRYPT_N = 32768"
definition SCRYPT_R :: nat where "SCRYPT_R = 8"
definition SCRYPT_P :: nat where "SCRYPT_P = 1"
definition KEYLEN :: nat where "KEYLEN = 32"

definition hashPassword :: "runtime \<Rightarrow> nat list \<Rightarrow> string \<Rightarrow> string" where
  "hashPassword R salt password =
     (let N = nat_digits SCRYPT_N; r = nat_digits SCRYPT_R; p = nat_digits SCRYPT_P;
          key = rt_scrypt R (rt_nfkc R password) salt KEYLEN N r p
      in join ''$'' [''scrypt'', N, r, p, base64 salt, base64 key])"

definition verifyPassword :: "runtime \<Rightarrow> string \<Rightarrow> string \<Rightarrow> bool" where
  "verifyPassword R password stored =
     (let parts = split_by (\<lambda>c. c = CHR ''$'') stored
      in if length parts \<noteq> 6 \<or> parts ! 0 \<noteq> ''scrypt'' then False
         else (let salt = from_base64 (parts ! 4);
                   expected = from_base64 (parts ! 5);
                   actual = rt_scrypt R (rt_nfkc R password) salt (length expected)
                              (parts ! 1) (parts ! 2) (parts ! 3)
               in length actual = length expected \<and> actual = expected))"

fun utf8 :: "string \<Rightarrow> nat list" where
  "utf8 [] = []"
| "utf8 (c # cs) =
     (if code_of c < 128 then [code_of c] else [192 + code_of c div 64, 128 + code_of c mod 64]) @ utf8 cs"

definition safeEqual :: "string \<Rightarrow> string \<Rightarrow> bool" where
  "safeEqual a b =
     (let ab = utf8 a; bb = utf8 b in if length ab \<noteq> length bb then False else ab = bb)"

subsection \<open>Addresses\<close>

definition normalizeEmail :: "runtime \<Rightarrow> string \<Rightarrow> string" where
  "normalizeEmail R raw = toLowerCase (trim (rt_nfkc R raw))"

definition email_local :: "char \<Rightarrow> bool" where
  "email_local c = (\<not> is_ws c \<and> c \<notin> set ''@,;<>'' \<and> code_of c \<noteq> 34 \<and> code_of c \<noteq> 39)"

definition email_domain :: "char \<Rightarrow> bool" where
  "email_domain c = (email_local c \<and> c \<noteq> CHR ''.'')"

definition EMAIL_RE :: rexp where
  "EMAIL_RE =
     Seq (Plus (Cls email_local))
       (Seq (Chr CHR ''@'')
         (Seq (Plus (Cls email_domain))
           (Plus (Seq (Chr CHR ''.'') (Plus (Cls email_domain))))))"

definition isValidEmail :: "string \<Rightarrow> bool" where
  "isValidEmail value = (length value \<le> 254 \<and> matches EMAIL_RE value)"

subsection \<open>Lemmas: base64 and UTF-8\<close>

definition is_bytes :: "nat list \<Rightarrow> bool" where "is_bytes bs = (\<forall>b \<in> set bs. b < 256)"

lemma is_bytes_simps [simp]: "is_bytes []" "is_bytes (b # bs) \<longleftrightarrow> b < 256 \<and> is_bytes bs"
  by (auto simp: is_bytes_def)

lemma b64_val_nth: "\<forall>i \<in> set [0..<64]. b64_val (b64_std ! i) = Some i \<and> b64_val (b64_url ! i) = Some i \<and> b64_std ! i \<noteq> CHR ''='' \<and> b64_url ! i \<noteq> CHR ''=''"
  by (simp add: upt_rec b64_std_def b64_url_def b64_val_def is_upper_def is_lower_def is_digit_def between_def)

lemma b64_val_std: "i < 64 \<Longrightarrow> b64_val (b64_std ! i) = Some i \<and> b64_std ! i \<noteq> CHR ''=''"
  and b64_val_url: "i < 64 \<Longrightarrow> b64_val (b64_url ! i) = Some i \<and> b64_url ! i \<noteq> CHR ''=''"
  using b64_val_nth by auto

lemma sextets_lt: "is_bytes bs \<Longrightarrow> \<forall>s \<in> set (b64_sextets bs). s < 64"
  by (induction bs rule: b64_sextets.induct) auto

lemma sextet_arith:
  assumes "b < 256"
  shows "b div 16 div 16 = (0 :: nat)" "b div 64 div 4 = (0 :: nat)"
    and "b div 16 mod 16 * 16 + b mod 16 = (b :: nat)" "b div 64 mod 4 * 64 + b mod 64 = (b :: nat)"
proof -
  have "b div 16 < 16" "b div 64 < 4" using assms by simp_all
  then show "b div 16 div 16 = 0" "b div 64 div 4 = 0"
    "b div 16 mod 16 * 16 + b mod 16 = b" "b div 64 mod 4 * 64 + b mod 64 = b"
    by (simp_all add: div_mult_mod_eq)
qed

lemma b64_bytes_sextets: "is_bytes bs \<Longrightarrow> b64_bytes (b64_sextets bs) = bs"
  by (induction bs rule: b64_sextets.induct) (simp_all add: sextet_arith)

lemma takeWhile_pad: "\<forall>c \<in> set cs. c \<noteq> x \<Longrightarrow> takeWhile (\<lambda>c. c \<noteq> x) (cs @ b) = cs @ takeWhile (\<lambda>c. c \<noteq> x) b"
  by (induction cs) auto

lemma pad_takeWhile: "takeWhile (\<lambda>c. c \<noteq> CHR ''='') (b64_pad bs) = []"
  by (induction bs rule: b64_pad.induct) auto

lemma map_filter_vals: "\<forall>s \<in> set ss. f (g s) = Some s \<Longrightarrow> List.map_filter f (map g ss) = ss"
  by (induction ss) (auto simp: List.map_filter_simps)

lemma from_base64_enc:
  assumes "is_bytes bs" shows "from_base64 (base64 bs) = bs" "from_base64 (base64url bs) = bs"
proof -
  have lt: "\<forall>s \<in> set (b64_sextets bs). s < 64" by (rule sextets_lt [OF assms])
  then have "takeWhile (\<lambda>c. c \<noteq> CHR ''='') (map ((!) b64_std) (b64_sextets bs) @ b64_pad bs) = map ((!) b64_std) (b64_sextets bs)"
    by (subst takeWhile_pad) (auto simp: pad_takeWhile b64_val_std)
  moreover have "List.map_filter b64_val (map ((!) b64_std) (b64_sextets bs)) = b64_sextets bs"
    by (rule map_filter_vals) (use lt b64_val_std in blast)
  ultimately show "from_base64 (base64 bs) = bs"
    by (simp add: from_base64_def base64_def b64_bytes_sextets [OF assms])
  have "takeWhile (\<lambda>c. c \<noteq> CHR ''='') (map ((!) b64_url) (b64_sextets bs)) = map ((!) b64_url) (b64_sextets bs)"
    using lt by (simp add: takeWhile_eq_all_conv b64_val_url)
  moreover have "List.map_filter b64_val (map ((!) b64_url) (b64_sextets bs)) = b64_sextets bs"
    by (rule map_filter_vals) (use lt b64_val_url in blast)
  ultimately show "from_base64 (base64url bs) = bs"
    by (simp only: from_base64_def base64url_def b64_bytes_sextets [OF assms])
qed

interpretation b64: codec is_bytes base64 "\<lambda>s. Some (from_base64 s)"
  by unfold_locales (simp add: from_base64_enc)

interpretation b64url: codec is_bytes base64url "\<lambda>s. Some (from_base64 s)"
  by unfold_locales (simp add: from_base64_enc)

lemma utf8_head:
  "utf8 (c # cs) = x # xs \<Longrightarrow> code_of c = (if x < 128 then x else (x - 192) * 64 + (hd xs - 128))"
  by (auto split: if_splits)

lemma utf8_inj: "utf8 a = utf8 b \<Longrightarrow> a = b"
proof (induction a arbitrary: b)
  case Nil
  then show ?case by (cases b) (auto split: if_splits)
next
  case (Cons c cs)
  then obtain d ds where b: "b = d # ds" by (cases b) (auto split: if_splits)
  obtain x xs where x: "utf8 (c # cs) = x # xs" by (cases "utf8 (c # cs)") (auto split: if_splits)
  have "code_of c = code_of d"
    using utf8_head [OF x] utf8_head [of d ds x xs] Cons.prems b x by simp
  moreover from this have "c = d" by simp
  ultimately show ?case using Cons b by (auto split: if_splits)
qed

lemma safeEqual_iff: "safeEqual a b \<longleftrightarrow> a = b"
  by (auto simp: safeEqual_def Let_def dest: utf8_inj)

lemma length_sextets: "length (b64_sextets bs) = (4 * length bs + 2) div 3"
  by (induction bs rule: b64_sextets.induct) auto

lemma newSessionId_length: "length (newSessionId bs) = (4 * length bs + 2) div 3"
  by (simp add: newSessionId_def base64url_def length_sextets)

subsection \<open>Lemmas: rejection sampling\<close>

definition code_digit :: "nat \<Rightarrow> char" where "code_digit b = char_of (48 + b mod 10)"
definition temp_char :: "nat \<Rightarrow> char" where "temp_char b = READABLE_ALPHABET ! (b mod 31)"

text \<open>the accepted bytes\<close>

definition draws_below :: "nat \<Rightarrow> (nat \<Rightarrow> char) \<Rightarrow> nat list list \<Rightarrow> string" where
  "draws_below n f blocks = map f (filter (\<lambda>b. b < n) (concat blocks))"

lemma nat_digits_mod10: "nat_digits (b mod 10) = [code_digit b]"
  by (subst nat_digits.simps) (simp add: code_digit_def)

lemma draws_below_simps [simp]:
  "draws_below n f [] = []" "draws_below n f (bs # blocks) = map f (filter (\<lambda>b. b < n) bs) @ draws_below n f blocks"
  by (simp_all add: draws_below_def)

lemma code_block_take:
  "length out < n \<Longrightarrow> code_block n bs out = take n (out @ map code_digit (filter (\<lambda>b. b < 250) bs))"
proof (induction n bs out rule: code_block.induct)
  case (2 n b bs out)
  show ?case
  proof (cases "b < 250")
    case True
    then show ?thesis
      using 2 by (cases "Suc (length out) = n") (auto simp: nat_digits_mod10 Let_def)
  qed (use 2 in auto)
qed auto

lemma code_digits_draws:
  "length out \<le> n \<Longrightarrow> code_digits n blocks out =
     (let s = out @ draws_below 250 code_digit blocks in if n \<le> length s then Some (take n s) else None)"
proof (induction blocks arbitrary: out)
  case Nil
  then show ?case by (subst code_digits.simps) (auto simp: Let_def)
next
  case (Cons bs blocks)
  show ?case
  proof (cases "length out < n")
    case True
    let ?a = "out @ map code_digit (filter (\<lambda>b. b < 250) bs)"
    have "code_digits n (bs # blocks) out = code_digits n blocks (take n ?a)"
      using True by (subst code_digits.simps) (simp add: code_block_take)
    then show ?thesis
      using Cons.IH [of "take n ?a"] True by (cases "n \<le> length ?a") (auto simp: Let_def min_absorb1)
  next
    case False
    then show ?thesis using Cons.prems by (subst code_digits.simps) (auto simp: Let_def)
  qed
qed

lemma temp_block_take:
  "length out \<le> 20 \<Longrightarrow> temp_block bs out = take 20 (out @ map temp_char (filter (\<lambda>b. b < 248) bs))"
proof (induction bs arbitrary: out)
  case (Cons b bs)
  then show ?case
    by (cases "length out = 20") (auto simp: temp_char_def take_Cons')
qed auto

lemma temp_chars_draws:
  "length out \<le> 20 \<Longrightarrow> temp_chars blocks out =
     (let s = out @ draws_below 248 temp_char blocks in if 20 \<le> length s then Some (take 20 s) else None)"
proof (induction blocks arbitrary: out)
  case Nil
  then show ?case by (subst temp_chars.simps) (auto simp: Let_def)
next
  case (Cons bs blocks)
  show ?case
  proof (cases "length out < 20")
    case True
    let ?a = "out @ map temp_char (filter (\<lambda>b. b < 248) bs)"
    have "temp_chars (bs # blocks) out = temp_chars blocks (take 20 ?a)"
      using True by (subst temp_chars.simps) (simp add: temp_block_take)
    then show ?thesis
      using Cons.IH [of "take 20 ?a"] True by (cases "20 \<le> length ?a") (auto simp: Let_def min_absorb1)
  next
    case False
    then show ?thesis using Cons.prems by (subst temp_chars.simps) (auto simp: Let_def)
  qed
qed

lemma group5_dashes: "CHR ''-'' \<notin> set s \<Longrightarrow> filter (\<lambda>c. c \<noteq> CHR ''-'') (group5 s) = s"
  by (induction s rule: group5.induct) auto

lemma length_group5: "s \<noteq> [] \<Longrightarrow> length (group5 s) = length s + (length s - 1) div 5"
  by (induction s rule: group5.induct) auto

text \<open>How often each character is hit by a byte that is accepted\<close>

lemma code_digit_hits: "(d :: nat) < 10 \<Longrightarrow> card {b. b < 250 \<and> code_digit b = char_of (48 + d)} = 25"
proof -
  assume d: "d < 10"
  have "{b. b < 250 \<and> code_digit b = char_of (48 + d)} = (\<lambda>k. 10 * k + d) ` {..<25}"
  proof (rule set_eqI)
    fix b
    have "code_digit b = char_of (48 + d) \<longleftrightarrow> b mod 10 = d"
      using d by (auto simp: code_digit_def take_bit_nat_eq_self simp flip: of_char_eq_iff)
    then show "b \<in> {b. b < 250 \<and> code_digit b = char_of (48 + d)} \<longleftrightarrow> b \<in> (\<lambda>k. 10 * k + d) ` {..<25}"
      using d by (auto simp: image_iff intro!: bexI [of _ "b div 10"])
  qed
  moreover have "inj_on (\<lambda>k. 10 * k + d) {..<25}" by (auto simp: inj_on_def)
  ultimately show ?thesis by (simp add: card_image)
qed

lemma alphabet_distinct: "distinct READABLE_ALPHABET" "length READABLE_ALPHABET = 31"
  "CHR ''-'' \<notin> set READABLE_ALPHABET"
  by (simp_all add: READABLE_ALPHABET_def)

lemma temp_char_hits: "c \<in> set READABLE_ALPHABET \<Longrightarrow> card {b. b < 248 \<and> temp_char b = c} = 8"
proof -
  assume "c \<in> set READABLE_ALPHABET"
  then obtain i where i: "i < 31" "c = READABLE_ALPHABET ! i"
    by (metis alphabet_distinct(2) in_set_conv_nth)
  have "{b. b < 248 \<and> temp_char b = c} = (\<lambda>k. 31 * k + i) ` {..<8}"
  proof (rule set_eqI)
    fix b
    have "temp_char b = c \<longleftrightarrow> b mod 31 = i"
      using i alphabet_distinct by (simp add: temp_char_def nth_eq_iff_index_eq)
    then show "b \<in> {b. b < 248 \<and> temp_char b = c} \<longleftrightarrow> b \<in> (\<lambda>k. 31 * k + i) ` {..<8}"
      using i by (auto simp: image_iff intro!: bexI [of _ "b div 31"])
  qed
  moreover have "inj_on (\<lambda>k. 31 * k + i) {..<8}" by (auto simp: inj_on_def)
  ultimately show ?thesis by (simp add: card_image)
qed

subsection \<open>Lemmas: password hashes and addresses\<close>

definition kdf_ok :: "runtime \<Rightarrow> bool" where
  "kdf_ok R = (\<forall>pw salt len N r p. length (rt_scrypt R pw salt len N r p) = len \<and> is_bytes (rt_scrypt R pw salt len N r p))"

definition password_key :: "runtime \<Rightarrow> nat list \<Rightarrow> string \<Rightarrow> nat list" where
  "password_key R salt password =
     rt_scrypt R (rt_nfkc R password) salt KEYLEN (nat_digits SCRYPT_N) (nat_digits SCRYPT_R) (nat_digits SCRYPT_P)"

lemma b64_std_no_dollar: "\<forall>i \<in> set [0..<64]. b64_std ! i \<noteq> CHR ''$''"
  by (simp add: upt_rec b64_std_def)

lemma base64_no_dollar: "is_bytes bs \<Longrightarrow> c \<in> set (base64 bs) \<Longrightarrow> c \<noteq> CHR ''$''"
proof -
  assume bs: "is_bytes bs" and c: "c \<in> set (base64 bs)"
  have "c \<noteq> CHR ''$''" if "c \<in> set (b64_pad bs)"
    using that by (induction bs rule: b64_pad.induct) auto
  then show ?thesis
    using c sextets_lt [OF bs] b64_std_no_dollar by (auto simp: base64_def)
qed

lemma digits_no_dollar: "c \<in> set (nat_digits n) \<Longrightarrow> c \<noteq> CHR ''$''"
  using nat_digits_digit [of c n] by (auto simp: is_digit_def between_def)

lemma verify_hash_iff:
  assumes R: "kdf_ok R" and salt: "is_bytes salt"
  shows "verifyPassword R p' (hashPassword R salt p) \<longleftrightarrow> password_key R salt p' = password_key R salt p"
proof -
  let ?N = "nat_digits SCRYPT_N" and ?r = "nat_digits SCRYPT_R" and ?p = "nat_digits SCRYPT_P"
  let ?key = "password_key R salt p"
  let ?ws = "[''scrypt'', ?N, ?r, ?p, base64 salt, base64 ?key]"
  have key: "is_bytes ?key" "length ?key = KEYLEN" using R by (auto simp: kdf_ok_def password_key_def)
  have h: "hashPassword R salt p = join [CHR ''$''] ?ws"
    by (simp add: hashPassword_def password_key_def Let_def)
  have "split_by (\<lambda>c. c = CHR ''$'') (hashPassword R salt p) = ?ws"
    unfolding h using base64_no_dollar [OF salt] base64_no_dollar [OF key(1)] digits_no_dollar
    by (intro split_join) auto
  then show ?thesis
    using R key by (simp add: verifyPassword_def Let_def from_base64_enc salt)
      (simp add: password_key_def kdf_ok_def)
qed

interpretation pw: password_scheme kdf_ok is_bytes hashPassword verifyPassword password_key
  by unfold_locales (rule verify_hash_iff)

lemma language_Seq: "w \<in> language (Seq r s) \<longleftrightarrow> (\<exists>u v. w = u @ v \<and> u \<in> language r \<and> v \<in> language s)"
  by (simp add: conc_def)

lemma star_closed: "w \<in> star A \<Longrightarrow> (\<And>u. u \<in> A \<Longrightarrow> \<forall>c \<in> set u. P c) \<Longrightarrow> \<forall>c \<in> set w. P c"
  by (induction rule: star.induct) auto

lemma dot_local: "email_local CHR ''.''"
  by (simp add: email_local_def is_ws_def between_def)

lemma isValidEmail_shape:
  assumes "isValidEmail e"
  obtains u v where "e = u @ ''@'' @ v" "u \<noteq> []" "v \<noteq> []" "\<forall>c \<in> set (u @ v). email_local c" "CHR ''.'' \<in> set v"
    "length e \<le> 254"
proof -
  from assms have "e \<in> language EMAIL_RE" and len: "length e \<le> 254" by (auto simp: isValidEmail_def matches_iff)
  then obtain u v w where e: "e = u @ ''@'' @ v @ w" and u: "u \<noteq> []" "\<forall>c \<in> set u. email_local c"
    and v: "v \<noteq> []" "\<forall>c \<in> set v. email_domain c"
    and w: "w \<in> language (Plus (Seq (Chr CHR ''.'') (Plus (Cls email_domain))))"
    by (auto simp: EMAIL_RE_def conc_def simp del: language_Plus_Cls) (auto simp: language_Plus_Cls)
  define A where "A = language (Seq (Chr CHR ''.'') (Plus (Cls email_domain)))"
  have A: "\<forall>c \<in> set x. email_local c" if "x \<in> A" for x
  proof -
    from that obtain y where "x = CHR ''.'' # y" "\<forall>c \<in> set y. email_domain c" by (auto simp: A_def conc_def)
    then show ?thesis using dot_local by (simp add: email_domain_def)
  qed
  have "w \<in> conc A (star A)"
    using w unfolding Plus_def [of "Seq (Chr CHR ''.'') (Plus (Cls email_domain))"] language.simps(5,6) A_def .
  then obtain x y where xy: "w = x @ y" "x \<in> A" "y \<in> star A" unfolding conc_def by blast
  have "\<forall>c \<in> set w. email_local c" using xy A [of x] star_closed [OF xy(3), of email_local] A by auto
  moreover have "CHR ''.'' \<in> set w" using xy(1,2) by (auto simp: A_def conc_def)
  moreover have "\<forall>c \<in> set v. email_local c" using v by (auto simp: email_domain_def)
  ultimately show ?thesis using that [of u "v @ w"] e u v len by auto
qed

lemma isValidEmail_chars:
  "isValidEmail e \<Longrightarrow> c \<in> set e \<Longrightarrow> email_local c \<or> c = CHR ''@''" "isValidEmail e \<Longrightarrow> CHR ''@'' \<in> set e"
  by (erule isValidEmail_shape; auto)+

text \<open>A code equation with the decimal texts of the cost parameters\<close>

lemma scrypt_texts: "nat_digits SCRYPT_N = ''32768''" "nat_digits SCRYPT_R = ''8''" "nat_digits SCRYPT_P = ''1''"
proof -
  have "char_of (51 :: nat) = CHR ''3''" "char_of (50 :: nat) = CHR ''2''" "char_of (55 :: nat) = CHR ''7''"
    "char_of (54 :: nat) = CHR ''6''" "char_of (56 :: nat) = CHR ''8''" "char_of (49 :: nat) = CHR ''1''"
    by code_simp+
  then show "nat_digits SCRYPT_N = ''32768''" "nat_digits SCRYPT_R = ''8''" "nat_digits SCRYPT_P = ''1''"
    by (simp_all add: SCRYPT_N_def SCRYPT_R_def SCRYPT_P_def nat_digits.simps)
qed
lemma hashPassword_code [code]:
  "hashPassword R salt pw = (let key = rt_scrypt R (rt_nfkc R pw) salt KEYLEN ''32768'' ''8'' ''1''
     in join ''$'' [''scrypt'', ''32768'', ''8'', ''1'', base64 salt, base64 key])"
  by (simp add: hashPassword_def scrypt_texts)

subsection \<open>Properties\<close>

text \<open>
  C22. An access code is made of the first n accepted random bytes (those below 250), one
  decimal digit per byte, whatever the blocks they come in; and every digit is the image of
  exactly 25 accepted bytes, so the rejection sampling leaves no bias.
\<close>

theorem newAccessCode_unbiased:
  "newAccessCode n blocks =
     (let s = draws_below 250 code_digit blocks in if n \<le> length s then Some (take n s) else None)
   \<and> map (\<lambda>d. card {b. b < 250 \<and> code_digit b = char_of (48 + d)}) [0..<10 :: nat] = replicate 10 25"
proof
  have "map (\<lambda>d. card {b. b < 250 \<and> code_digit b = char_of (48 + d)}) [0..<10 :: nat] = map (\<lambda>d. 25) [0..<10 :: nat]"
    by (rule map_cong) (simp_all add: code_digit_hits)
  then show "map (\<lambda>d. card {b. b < 250 \<and> code_digit b = char_of (48 + d)}) [0..<10 :: nat] = replicate 10 25"
    by (simp add: map_replicate_const)
qed (simp add: newAccessCode_def code_digits_draws)



text \<open>
  C25. A stored password hash is accepted for exactly the passwords from which scrypt derives
  the same key under the stored salt: the text \<open>scrypt$N$r$p$salt$key\<close> is split and decoded
  back to what \<open>hashPassword\<close> put into it.
\<close>

theorem verifyPassword_hashPassword:
  assumes "kdf_ok R" and "is_bytes salt"
  shows "verifyPassword R p' (hashPassword R salt p) \<longleftrightarrow> password_key R salt p' = password_key R salt p"
  using assms by (rule pw.verify_hash)

theorem verifyPassword_hashPassword_witness:
  "verifyPassword sample_runtime ''secret'' (hashPassword sample_runtime [1, 2] ''secret'')
   \<and> \<not> verifyPassword sample_runtime ''guess'' (hashPassword sample_runtime [1, 2] ''secret'')"
proof -
  have "kdf_ok sample_runtime" "is_bytes [1, 2]"
    by (auto simp: kdf_ok_def sample_runtime_def is_bytes_def dest!: in_set_takeD)
  from verifyPassword_hashPassword [OF this] show ?thesis
    by (simp add: password_key_def sample_runtime_def KEYLEN_def)
qed

text \<open>
  \<open>safeEqual\<close>, which compares UTF-8 bytes after their lengths, is equality of strings.
\<close>

theorem safeEqual_is_equality: "safeEqual a b = (a = b)"
  using safeEqual_iff by blast

end
