(* ===== verification/I18n.thy ===== *)
theory I18n
  imports Complex_Main Text
begin

section \<open>Languages and messages (src/i18n.ts)\<close>

text \<open>
  The dictionaries under src/locales/ are data: a function from a language and a key to the
  message, an argument of \<open>t\<close>. Everything else of the file is modelled: the list of
  languages, the replacement of \<open>{name}\<close> placeholders, and the choice of a language from
  Accept-Language, whose quality values are rational numbers.
\<close>

definition LANGS :: "Lang list" where
  "LANGS = [''bg'', ''cs'', ''da'', ''de'', ''el'', ''en'', ''es'', ''et'', ''fi'', ''fr'', ''ga'', ''hr'',
            ''hu'', ''it'', ''lt'', ''lv'', ''mt'', ''nl'', ''pl'', ''pt'', ''ro'', ''sk'', ''sl'', ''sv'']"

definition DEFAULT_LANG :: Lang where
  "DEFAULT_LANG = ''en''"

definition isLang :: "string option \<Rightarrow> bool" where
  "isLang v = (case v of None \<Rightarrow> False | Some s \<Rightarrow> s \<in> set LANGS)"

definition dateLocale :: "Lang \<Rightarrow> string" where
  "dateLocale lang = (if lang = ''en'' then ''en-GB'' else lang)"

type_synonym dictionary = "Lang \<Rightarrow> string \<Rightarrow> string option"

definition is_word :: "char \<Rightarrow> bool" where
  "is_word c = (is_alnum c \<or> c = CHR ''_'')"

definition pval_text :: "pval \<Rightarrow> string" where
  "pval_text v = (case v of PStr s \<Rightarrow> s
     | PNum n \<Rightarrow> (if n < 0 then CHR ''-'' # nat_digits (nat (- n)) else nat_digits (nat n)))"

text \<open>\<open>msg.replace(/\{(\w+)\}/g, f)\<close>: at an opening brace, the longest word and a closing brace\<close>

function (sequential) replace_placeholders :: "(string \<Rightarrow> string) \<Rightarrow> string \<Rightarrow> string" where
  "replace_placeholders f [] = []"
| "replace_placeholders f (c # cs) =
     (if c = CHR ''{''
      then (let name = takeWhile is_word cs; rest = dropWhile is_word cs
            in if name \<noteq> [] \<and> rest \<noteq> [] \<and> hd rest = CHR ''}''
               then f name @ replace_placeholders f (tl rest)
               else c # replace_placeholders f cs)
      else c # replace_placeholders f cs)"
  by pat_completeness auto
termination
proof (relation "measure (\<lambda>(f, s). length s)", goal_cases)
  case (2 f c cs name rest)
  then show ?case
    using length_dropWhile_le [of is_word cs] by (cases "dropWhile is_word cs") auto
qed auto

definition t :: "dictionary \<Rightarrow> Lang \<Rightarrow> string \<Rightarrow> Params option \<Rightarrow> string" where
  "t dict lang key params =
     (let msg = (case dict lang key of Some m \<Rightarrow> m
                 | None \<Rightarrow> (case dict ''en'' key of Some m \<Rightarrow> m | None \<Rightarrow> key))
      in case params of None \<Rightarrow> msg
         | Some ps \<Rightarrow> replace_placeholders
             (\<lambda>name. case map_of ps name of Some v \<Rightarrow> pval_text v | None \<Rightarrow> ''{'' @ name @ ''}'') msg)"

text \<open>\<open>Number\<close> of a text of digits and dots; \<open>None\<close> is NaN.\<close>

definition js_decimal :: "string \<Rightarrow> rat option" where
  "js_decimal s =
     (case split_by (\<lambda>c. c = CHR ''.'') s of
        [i] \<Rightarrow> (if i = [] then None else Some (of_nat (digits_val 0 i)))
      | [i, f] \<Rightarrow> (if i = [] \<and> f = [] then None
                   else Some (of_nat (digits_val 0 i) + of_nat (digits_val 0 f) / 10 ^ length f))
      | _ \<Rightarrow> None)"

text \<open>\<open>/^\s*q=([0-9.]+)/.exec(p)\<close>: the captured text\<close>

definition q_param :: "string \<Rightarrow> string option" where
  "q_param p =
     (let s = dropWhile is_ws p; v = takeWhile (\<lambda>c. is_digit c \<or> c = CHR ''.'') (drop 2 s)
      in if starts_with s ''q='' \<and> v \<noteq> [] then Some v else None)"

definition lang_entry :: "string \<Rightarrow> string \<times> rat option" where
  "lang_entry part =
     (let fields = split_by (\<lambda>c. c = CHR '';'') (trim part);
          q = List.find (\<lambda>x. x \<noteq> None) (map q_param (tl fields))
      in (toLowerCase (trim (hd fields)),
          case q of Some (Some v) \<Rightarrow> js_decimal v | _ \<Rightarrow> Some 1))"

definition ranked_langs :: "string \<Rightarrow> (string \<times> rat) list" where
  "ranked_langs acceptLanguage =
     sort_key (\<lambda>e. - snd e)
       (List.map_filter (\<lambda>(tag, q). case q of Some v \<Rightarrow> if tag \<noteq> [] \<and> v > 0 then Some (tag, v) else None
                                   | None \<Rightarrow> None)
         (map lang_entry (split_by (\<lambda>c. c = CHR '','') acceptLanguage)))"

definition negotiateLang :: "string option \<Rightarrow> Lang" where
  "negotiateLang acceptLanguage =
     (case acceptLanguage of
        None \<Rightarrow> DEFAULT_LANG
      | Some h \<Rightarrow>
          if h = [] then DEFAULT_LANG
          else (case ranked_langs h of
                  [] \<Rightarrow> DEFAULT_LANG
                | (tag, q) # _ \<Rightarrow>
                    (let top = hd (split_by (\<lambda>c. c = CHR ''-'') tag)
                     in if isLang (Some top) then top else DEFAULT_LANG)))"

subsection \<open>Lemmas\<close>

lemma LANGS_letters: "list_all (\<lambda>l. length l = 2 \<and> list_all is_lower l) LANGS"
  by (simp add: LANGS_def is_lower_def between_def)

lemma isLang_letters: "isLang (Some l) \<Longrightarrow> \<exists>a b. l = [a, b] \<and> is_lower a \<and> is_lower b"
proof -
  assume "isLang (Some l)"
  then have "length l = 2" "list_all is_lower l"
    using LANGS_letters by (auto simp: isLang_def list_all_iff)
  then show ?thesis by (cases l; cases "tl l") auto
qed

end
