(* ===== verification/Addresses.thy ===== *)
theory Addresses
  imports Crypto I18n Config
begin

section \<open>Address lists typed in the panel (src/services/addresses.ts)\<close>

text \<open>
  The free-form list is read by \<open>parseRecipients\<close>; \<open>requireRecipients\<close> adds the limits and
  the union with a group, \<open>formatRecipients\<close> is the inverse. The character 183 is the
  middle dot that separates the unreadable entries in the error message.
\<close>

record RecipientInput =
  ri_email :: string
  ri_lang :: Lang

definition MAX_RECIPIENTS :: nat where
  "MAX_RECIPIENTS = 100"

definition is_nl :: "char \<Rightarrow> bool" where
  "is_nl c = (code_of c = 10)"

definition is_quote :: "char \<Rightarrow> bool" where
  "is_quote c = (code_of c = 34)"

definition is_entry_sep :: "char \<Rightarrow> bool" where
  "is_entry_sep c = (code_of c = 10 \<or> code_of c = 13 \<or> c = CHR '','' \<or> c = CHR '';'')"

text \<open>\<open>text.replace(/"[^"\n]*"/g, ' ')\<close>\<close>

function (sequential) drop_quoted :: "string \<Rightarrow> string" where
  "drop_quoted [] = []"
| "drop_quoted (c # cs) =
     (if is_quote c
      then (let rest = dropWhile (\<lambda>d. \<not> is_quote d \<and> \<not> is_nl d) cs
            in if rest \<noteq> [] \<and> is_quote (hd rest) then CHR '' '' # drop_quoted (tl rest)
               else c # drop_quoted cs)
      else c # drop_quoted cs)"
  by pat_completeness auto
termination
proof (relation "measure length", goal_cases)
  case (2 c cs rest)
  then show ?case
    using length_dropWhile_le [of "\<lambda>d. \<not> is_quote d \<and> \<not> is_nl d" cs]
    by (cases "dropWhile (\<lambda>d. \<not> is_quote d \<and> \<not> is_nl d) cs") auto
qed auto

text \<open>\<open>/<([^<>]*)>/.exec(entry)\<close>: the captured text and what follows the match\<close>

fun angle :: "string \<Rightarrow> (string \<times> string) option" where
  "angle [] = None"
| "angle (c # cs) =
     (if c = CHR ''<''
      then (let inner = takeWhile (\<lambda>d. d \<noteq> CHR ''<'' \<and> d \<noteq> CHR ''>'') cs;
                rest = dropWhile (\<lambda>d. d \<noteq> CHR ''<'' \<and> d \<noteq> CHR ''>'') cs
            in if rest \<noteq> [] \<and> hd rest = CHR ''>'' then Some (inner, tl rest) else angle cs)
      else angle cs)"

definition words_of :: "string \<Rightarrow> string list" where
  "words_of s = split_runs is_ws s"

definition address_part :: "string \<Rightarrow> (string \<times> string list) option" where
  "address_part entry =
     (case angle entry of
        Some (inner, rest) \<Rightarrow> Some (inner, filter (\<lambda>w. w \<noteq> []) (words_of rest))
      | None \<Rightarrow>
          (case dropWhile (\<lambda>w. CHR ''@'' \<notin> set w) (words_of entry) of
             [] \<Rightarrow> None
           | w # ws \<Rightarrow> Some (w, ws)))"

definition parseEntry :: "runtime \<Rightarrow> string \<Rightarrow> Lang \<Rightarrow> RecipientInput option" where
  "parseEntry R entry defaultLang =
     (case address_part entry of
        None \<Rightarrow> None
      | Some (address, tail) \<Rightarrow>
          (let email = normalizeEmail R address
           in if \<not> isValidEmail email then None
              else if length tail > 1 then None
              else (case tail of
                      [] \<Rightarrow> Some \<lparr>ri_email = email, ri_lang = defaultLang\<rparr>
                    | w # _ \<Rightarrow>
                        (let code = toLowerCase w
                         in if isLang (Some code) then Some \<lparr>ri_email = email, ri_lang = code\<rparr> else None))))"

record parsed =
  p_recipients :: "RecipientInput list"
  p_invalid :: "string list"

fun parse_entries :: "runtime \<Rightarrow> Lang \<Rightarrow> string list \<Rightarrow> string set \<Rightarrow> parsed" where
  "parse_entries R defaultLang [] seen = \<lparr>p_recipients = [], p_invalid = []\<rparr>"
| "parse_entries R defaultLang (r # rs) seen =
     (let entry = trim r
      in if entry = [] then parse_entries R defaultLang rs seen
         else (case parseEntry R entry defaultLang of
                 None \<Rightarrow>
                   (let out = parse_entries R defaultLang rs seen
                    in out\<lparr>p_invalid := slice0 80 entry # p_invalid out\<rparr>)
               | Some p \<Rightarrow>
                   (if ri_email p \<in> seen then parse_entries R defaultLang rs seen
                    else (let out = parse_entries R defaultLang rs (insert (ri_email p) seen)
                          in out\<lparr>p_recipients := p # p_recipients out\<rparr>))))"

definition parseRecipients :: "runtime \<Rightarrow> string \<Rightarrow> Lang \<Rightarrow> parsed" where
  "parseRecipients R text defaultLang =
     parse_entries R defaultLang (split_runs is_entry_sep (drop_quoted text)) {}"

text \<open>Union by address; the first occurrence wins.\<close>

fun merge_seen :: "RecipientInput list \<Rightarrow> string set \<Rightarrow> RecipientInput list" where
  "merge_seen [] seen = []"
| "merge_seen (r # rs) seen =
     (if ri_email r \<in> seen then merge_seen rs seen else r # merge_seen rs (insert (ri_email r) seen))"

definition mergeRecipients :: "RecipientInput list list \<Rightarrow> RecipientInput list" where
  "mergeRecipients ls = merge_seen (concat ls) {}"

definition requireRecipients ::
    "runtime \<Rightarrow> string \<Rightarrow> Lang \<Rightarrow> RecipientInput list \<Rightarrow> exn + RecipientInput list" where
  "requireRecipients R text defaultLang extra =
     (let p = parseRecipients R text defaultLang;
          merged = mergeRecipients [p_recipients p, extra]
      in if p_invalid p \<noteq> []
         then Inl (RecipientListError ''recipients.invalid''
                     [(''list'', PStr (join ([CHR '' ''] @ [char_of (183::nat)] @ [CHR '' '']) (p_invalid p)))])
         else if merged = [] then Inl (RecipientListError ''recipients.none'' [])
         else if length merged > MAX_RECIPIENTS
         then Inl (RecipientListError ''recipients.too_many'' [(''max'', PNum (int MAX_RECIPIENTS))])
         else Inr merged)"

definition formatRecipients :: "RecipientInput list \<Rightarrow> string" where
  "formatRecipients list = join [char_of (10::nat)] (map (\<lambda>r. ri_email r @ '' '' @ ri_lang r) list)"

subsection \<open>Lemmas\<close>

lemma drop_quoted_none: "\<forall>c \<in> set s. \<not> is_quote c \<Longrightarrow> drop_quoted s = s"
  by (induction s rule: drop_quoted.induct) auto

lemma angle_none: "CHR ''<'' \<notin> set s \<Longrightarrow> angle s = None"
  by (induction s rule: angle.induct) auto

lemma lower_not_sep: "is_lower c \<Longrightarrow> \<not> is_ws c \<and> \<not> is_entry_sep c \<and> \<not> is_quote c \<and> c \<noteq> CHR ''<''"
  by (auto simp: is_lower_def is_ws_def is_entry_sep_def is_quote_def between_def)

lemma email_not_sep:
  assumes "isValidEmail e" "c \<in> set e" shows "\<not> is_ws c \<and> \<not> is_entry_sep c \<and> \<not> is_quote c \<and> c \<noteq> CHR ''<''"
proof -
  have "\<not> is_ws CHR ''@''" by (simp add: is_ws_def between_def)
  moreover have "is_ws c" if "code_of c = 10 \<or> code_of c = 13" using that by (auto simp: is_ws_def between_def)
  ultimately show ?thesis
    using isValidEmail_chars(1) [OF assms] by (auto simp: email_local_def is_entry_sep_def is_quote_def)
qed

text \<open>A recipient the parser reads back\<close>

definition readable :: "runtime \<Rightarrow> RecipientInput \<Rightarrow> bool" where
  "readable R r = (isValidEmail (ri_email r) \<and> normalizeEmail R (ri_email r) = ri_email r \<and> isLang (Some (ri_lang r)))"

abbreviation entry_of :: "RecipientInput \<Rightarrow> string" where
  "entry_of r \<equiv> ri_email r @ '' '' @ ri_lang r"

lemma readable_words:
  assumes "readable R r"
  shows "words_of (entry_of r) = [ri_email r, ri_lang r]"
proof -
  obtain a b where l: "ri_lang r = [a, b]" "is_lower a" "is_lower b"
    using assms isLang_letters unfolding readable_def by blast
  have v: "isValidEmail (ri_email r)" using assms by (simp add: readable_def)
  have "ri_email r \<noteq> []" using isValidEmail_chars(2) [OF v] by auto
  then have "split_runs is_ws (join [CHR '' ''] [ri_email r, ri_lang r]) = [ri_email r, ri_lang r]"
    using l email_not_sep [OF v] lower_not_sep by (intro split_runs_join) (auto simp: is_ws_def)
  then show ?thesis by (simp add: words_of_def)
qed

lemma readable_entry:
  assumes "readable R r"
  shows "parseEntry R (entry_of r) dl = Some r" "trim (entry_of r) = entry_of r" "entry_of r \<noteq> []"
    and "\<forall>c \<in> set (entry_of r). \<not> is_entry_sep c \<and> \<not> is_quote c"
proof -
  obtain a b where l: "ri_lang r = [a, b]" "is_lower a" "is_lower b"
    using assms isLang_letters unfolding readable_def by blast
  have v: "isValidEmail (ri_email r)" and n: "normalizeEmail R (ri_email r) = ri_email r"
    and L: "isLang (Some (ri_lang r))" using assms by (auto simp: readable_def)
  have e: "ri_email r \<noteq> []" "CHR ''@'' \<in> set (ri_email r)" using isValidEmail_chars(2) [OF v] by auto
  have "CHR ''<'' \<notin> set (entry_of r)" using email_not_sep [OF v] lower_not_sep l by auto
  then have "address_part (entry_of r) = Some (ri_email r, [ri_lang r])"
    using readable_words [OF assms] e by (simp add: address_part_def angle_none)
  moreover have "toLowerCase (ri_lang r) = ri_lang r" using l by (intro lower_id) auto
  ultimately show "parseEntry R (entry_of r) dl = Some r"
    using v n L by (simp add: parseEntry_def)
  have "hd (entry_of r) \<in> set (ri_email r)" using e by simp
  then show "trim (entry_of r) = entry_of r"
    using email_not_sep [OF v] lower_not_sep l by (intro trim_ends) auto
  show "entry_of r \<noteq> []" by simp
  show "\<forall>c \<in> set (entry_of r). \<not> is_entry_sep c \<and> \<not> is_quote c"
    using email_not_sep [OF v] lower_not_sep l by (auto simp: is_entry_sep_def is_quote_def)
qed

lemma parse_entries_readable:
  "\<forall>r \<in> set rs. readable R r \<Longrightarrow> distinct (map ri_email rs) \<Longrightarrow> \<forall>r \<in> set rs. ri_email r \<notin> seen \<Longrightarrow>
   parse_entries R dl (map entry_of rs) seen = \<lparr>p_recipients = rs, p_invalid = []\<rparr>"
proof (induction rs arbitrary: seen)
  case (Cons r rs)
  then have r: "readable R r" by simp
  have "parse_entries R dl (map entry_of rs) (insert (ri_email r) seen) = \<lparr>p_recipients = rs, p_invalid = []\<rparr>"
  proof (rule Cons.IH)
    have "ri_email r \<notin> ri_email ` set rs" using Cons.prems(2) by simp
    then show "\<forall>s \<in> set rs. ri_email s \<notin> insert (ri_email r) seen"
      using Cons.prems(3) by (metis imageI insertE list.set_intros(2))
  qed (use Cons.prems in simp_all)
  then show ?case
    using readable_entry(1,2) [OF r] Cons.prems by simp
qed simp

lemma parse_format:
  assumes rs: "\<forall>r \<in> set rs. readable R r" and d: "distinct (map ri_email rs)"
  shows "parseRecipients R (formatRecipients rs) dl = \<lparr>p_recipients = rs, p_invalid = []\<rparr>"
proof (cases "rs = []")
  case True
  then show ?thesis by (simp add: parseRecipients_def formatRecipients_def split_runs_def trim_def)
next
  case False
  let ?ws = "map entry_of rs"
  have ok: "\<forall>w \<in> set ?ws. w \<noteq> [] \<and> (\<forall>c \<in> set w. \<not> is_entry_sep c \<and> \<not> is_quote c)"
    using rs readable_entry(3,4) by fastforce
  have nl: "is_entry_sep (char_of (10::nat))" "\<not> is_quote (char_of (10::nat))"
    by (simp_all add: is_entry_sep_def is_quote_def)
  have "\<forall>c \<in> set (join [char_of (10::nat)] ?ws). \<not> is_quote c"
    using set_join [of "[char_of (10::nat)]" ?ws] ok nl(2) by fastforce
  moreover have "split_runs is_entry_sep (join [char_of (10::nat)] ?ws) = ?ws"
    using False ok nl(1) by (intro split_runs_join) auto
  ultimately show ?thesis
    using parse_entries_readable [OF rs d, of "{}" dl]
    by (simp add: parseRecipients_def formatRecipients_def drop_quoted_none)
qed

lemma merge_seen_props:
  "distinct (map ri_email (merge_seen rs seen)) \<and> set (merge_seen rs seen) \<subseteq> set rs
   \<and> ri_email ` set (merge_seen rs seen) = ri_email ` set rs - seen"
proof (induction rs arbitrary: seen)
  case (Cons r rs)
  show ?case
  proof (cases "ri_email r \<in> seen")
    case False
    then show ?thesis using Cons.IH [of "insert (ri_email r) seen"] by auto
  qed (use Cons.IH [of seen] in auto)
qed simp

text \<open>A recipient whose address was checked\<close>

definition checked :: "runtime \<Rightarrow> RecipientInput \<Rightarrow> bool" where
  "checked R r = (isValidEmail (ri_email r) \<and> (\<exists>a. ri_email r = normalizeEmail R a))"

lemma parseEntry_checked: "parseEntry R e dl = Some r \<Longrightarrow> checked R r"
  by (auto simp: parseEntry_def checked_def Let_def split: option.splits prod.splits if_splits list.splits)

lemma parse_entries_checked:
  "\<forall>r \<in> set (p_recipients (parse_entries R dl es seen)). checked R r"
  by (induction es arbitrary: seen) (auto simp: Let_def dest: parseEntry_checked split: option.splits)

lemma requireRecipients_ok:
  assumes "requireRecipients R text dl extra = Inr rs"
  shows "rs \<noteq> [] \<and> length rs \<le> 100 \<and> distinct (map ri_email rs)
     \<and> (\<forall>r \<in> set rs. checked R r \<or> r \<in> set extra)
     \<and> ri_email ` set extra \<subseteq> ri_email ` set rs \<and> p_invalid (parseRecipients R text dl) = []"
proof -
  let ?p = "p_recipients (parseRecipients R text dl)"
  from assms have rs: "rs = merge_seen (?p @ extra) {}" "rs \<noteq> []" "length rs \<le> MAX_RECIPIENTS"
    "p_invalid (parseRecipients R text dl) = []"
    by (auto simp: requireRecipients_def mergeRecipients_def Let_def split: if_splits)
  have "\<forall>r \<in> set ?p. checked R r" by (simp add: parseRecipients_def parse_entries_checked)
  then show ?thesis
    using rs merge_seen_props [of "?p @ extra" "{}"] by (auto simp: MAX_RECIPIENTS_def)
qed

subsection \<open>Properties\<close>

text \<open>
  C27. The recipients printed into the editing form are parsed back unchanged, for every list of
  valid, normalised, distinct addresses with supported languages.
\<close>

theorem parse_formatRecipients:
  assumes "list_all (readable R) rs" and "distinct (map ri_email rs)"
  shows "parseRecipients R (formatRecipients rs) dl = \<lparr>p_recipients = rs, p_invalid = []\<rparr>"
  using parse_format [of rs R dl] assms by (simp add: list_all_iff)

definition sample_recipients :: "RecipientInput list" where
  "sample_recipients = [\<lparr>ri_email = ''a@b.c'', ri_lang = ''en''\<rparr>, \<lparr>ri_email = ''d@e.f'', ri_lang = ''pl''\<rparr>]"

lemma sample_recipients_ok:
  "list_all (readable sample_runtime) sample_recipients" "distinct (map ri_email sample_recipients)"
  by code_simp+

theorem parse_formatRecipients_witness:
  "parseRecipients sample_runtime (formatRecipients sample_recipients) ''en''
   = \<lparr>p_recipients = sample_recipients, p_invalid = []\<rparr>"
  by (rule parse_formatRecipients [OF sample_recipients_ok])

text \<open>
  A list of recipients that \<open>requireRecipients\<close> accepts has between 1 and 100 entries, one
  per address; each was checked and normalised or comes from a stored group, every member of
  the groups is on it, and no part of the text was unreadable.
\<close>

theorem requireRecipients_accepts:
  assumes "requireRecipients R text dl extra = Inr rs"
  shows "rs \<noteq> [] \<and> length rs \<le> 100 \<and> distinct (map ri_email rs)
     \<and> set rs \<subseteq> {r. checked R r} \<union> set extra
     \<and> ri_email ` set extra \<subseteq> ri_email ` set rs \<and> p_invalid (parseRecipients R text dl) = []"
  using requireRecipients_ok [OF assms] by auto

theorem requireRecipients_accepts_witness:
  "length [\<lparr>ri_email = ''a@b.c'', ri_lang = ''en''\<rparr>, \<lparr>ri_email = ''d@e.f'', ri_lang = ''en''\<rparr>] \<le> 100"
proof -
  have "requireRecipients sample_runtime ''a@b.c'' ''en'' [\<lparr>ri_email = ''d@e.f'', ri_lang = ''en''\<rparr>]
     = Inr [\<lparr>ri_email = ''a@b.c'', ri_lang = ''en''\<rparr>, \<lparr>ri_email = ''d@e.f'', ri_lang = ''en''\<rparr>]"
    by code_simp
  from requireRecipients_accepts [OF this] show ?thesis by blast
qed

end
