(* ===== verification/Cases.thy ===== *)
theory Cases
  imports Config Crypto
begin

section \<open>Cases (src/services/cases.ts)\<close>

text \<open>
  A case groups the items and the links of one delivery. \<open>viewer\<close> is the account that asks:
  its id and its role.
\<close>

type_synonym viewer = "string \<times> role"

definition case_name_ok :: "string \<Rightarrow> bool" where
  "case_name_ok name = (name \<noteq> [] \<and> length name \<le> 200)"

definition createCase :: "ms \<Rightarrow> nat list \<Rightarrow> string \<Rightarrow> string option \<Rightarrow> CaseRow exec" where
  "createCase nw idb name0 description0 d =
     (let name = trim name0
      in if \<not> case_name_ok name then (Inl (JsError ''Case name must be 1-200 characters''), d)
         else (let c = \<lparr>c_id = newId ''c'' idb, c_name = name,
                        c_description = slice0 5000 (trim (case description0 of None \<Rightarrow> [] | Some s \<Rightarrow> s)),
                        c_status = CaseOpen, c_created_at = nw, c_updated_at = nw\<rparr>
               in case ins_case c d of Inl e \<Rightarrow> (Inl e, d) | Inr d' \<Rightarrow> (Inr c, d')))"

definition getCase :: "db \<Rightarrow> string \<Rightarrow> CaseRow option" where
  "getCase d i = List.find (\<lambda>c. c_id c = i) (cases d)"

definition is_assigned :: "db \<Rightarrow> string \<Rightarrow> string \<Rightarrow> bool" where
  "is_assigned d caseId adminId =
     (\<exists>m \<in> set (case_members d). m_case_id m = caseId \<and> m_admin_id m = adminId)"

record CaseSummary =
  cs_case :: CaseRow
  cs_link_count :: nat
  cs_item_count :: nat
  cs_total_bytes :: nat

definition summarise :: "db \<Rightarrow> CaseRow \<Rightarrow> CaseSummary" where
  "summarise d c =
     \<lparr>cs_case = c,
      cs_link_count = n_where (\<lambda>l. l_case_id l = c_id c \<and> l_revoked_at l = None) (links d),
      cs_item_count = n_where (\<lambda>i. i_case_id i = c_id c \<and> i_status i = Ready) (items d),
      cs_total_bytes = sum_list (map (\<lambda>i. case i_size i of None \<Rightarrow> 0 | Some n \<Rightarrow> n)
        (filter (\<lambda>i. i_case_id i = c_id c \<and> i_status i = Ready) (items d)))\<rparr>"

text \<open>Open cases first, then the newest first.\<close>

definition listCases :: "db \<Rightarrow> viewer \<Rightarrow> CaseSummary list" where
  "listCases d viewer =
     map (summarise d)
       (sort_key (\<lambda>c. if c_status c = CaseOpen then 0 else 1 :: nat)
         (sort_key (\<lambda>c. - int (c_created_at c))
           (filter (\<lambda>c. snd viewer = RAdmin \<or> is_assigned d (c_id c) (fst viewer)) (cases d))))"

text \<open>The fields of \<open>updateCase\<close>'s argument are optional: \<open>None\<close> is \<open>undefined\<close>.\<close>

definition updateCase ::
    "ms \<Rightarrow> string \<Rightarrow> string option \<Rightarrow> string option \<Rightarrow> case_status option \<Rightarrow> CaseRow option exec" where
  "updateCase nw i name0 description0 status0 d =
     (case getCase d i of
        None \<Rightarrow> (Inr None, d)
      | Some existing \<Rightarrow>
          (let name = (case name0 of Some n \<Rightarrow> trim n | None \<Rightarrow> c_name existing)
           in if \<not> case_name_ok name then (Inl (JsError ''Case name must be 1-200 characters''), d)
              else (let description = (case description0 of Some s \<Rightarrow> slice0 5000 (trim s)
                                       | None \<Rightarrow> c_description existing);
                        status = (case status0 of Some s \<Rightarrow> s | None \<Rightarrow> c_status existing);
                        d' = d\<lparr>cases := upd_where (\<lambda>c. c_id c = i)
                               (\<lambda>c. c\<lparr>c_name := name, c_description := description,
                                      c_status := status, c_updated_at := nw\<rparr>) (cases d)\<rparr>
                    in (Inr (getCase d' i), d'))))"

end
