(* ===== verification/Links.thy ===== *)
theory Links
  imports Addresses Cases
begin

section \<open>Delivery links and their recipients (src/services/links.ts)\<close>

text \<open>
  A link holds the hash of its token, an expiry, a revocation mark and the opening cap; its
  recipients share them. A JavaScript number that reaches \<open>createLink\<close> is \<open>JInt n\<close> when
  \<open>Number.isInteger\<close> holds and \<open>JOther\<close> (a fraction, NaN, an infinity) otherwise.
\<close>

datatype jsnum = JInt int | JOther

datatype LinkState = LActive | LExpired | LRevoked | LCaseClosed | LExhausted

record ResolvedLink =
  rl_link :: LinkRow
  rl_case :: CaseRow
  rl_state :: LinkState
  rl_recipients :: "RecipientRow list"

record CreateLinkInput =
  cl_caseId :: string
  cl_label :: string
  cl_recipients :: "RecipientInput list"
  cl_expiresAt :: "ms option"
  cl_maxOpens :: "jsnum option"

fun check_each :: "runtime \<Rightarrow> RecipientInput list \<Rightarrow> exn + RecipientInput list" where
  "check_each R [] = Inr []"
| "check_each R (r # rs) =
     (let email = normalizeEmail R (ri_email r)
      in if \<not> isValidEmail email
         then Inl (RecipientListError ''recipients.invalid'' [(''list'', PStr (slice0 80 (ri_email r)))])
         else bind_res (check_each R rs) (\<lambda>out.
                Inr (\<lparr>ri_email = email,
                      ri_lang = (if isLang (Some (ri_lang r)) then ri_lang r else ''en'')\<rparr> # out)))"

definition checkRecipients :: "runtime \<Rightarrow> RecipientInput list \<Rightarrow> exn + RecipientInput list" where
  "checkRecipients R list =
     (if list = [] then Inl (RecipientListError ''recipients.none'' [])
      else if length list > MAX_RECIPIENTS
      then Inl (RecipientListError ''recipients.too_many'' [(''max'', PNum (int MAX_RECIPIENTS))])
      else check_each R list)"

definition on_link :: "db \<Rightarrow> string \<Rightarrow> string \<Rightarrow> bool" where
  "on_link d linkId email = (\<exists>r \<in> set (link_recipients d). r_link_id r = linkId \<and> r_email r = email)"

text \<open>
  INSERT ... ON CONFLICT (link_id, email) DO NOTHING. \<open>ids\<close> are the random bytes of the
  successive \<open>newId('r')\<close> calls, one per entry; a list too short fails like a lost connection.
\<close>

fun insertRecipients ::
    "ms \<Rightarrow> string \<Rightarrow> nat list list \<Rightarrow> RecipientInput list \<Rightarrow> RecipientRow list exec" where
  "insertRecipients nw linkId ids [] d = (Inr [], d)"
| "insertRecipients nw linkId [] (r # rs) d = (Inl SqliteError, d)"
| "insertRecipients nw linkId (b # ids) (r # rs) d =
     (let row = \<lparr>r_id = newId ''r'' b, r_link_id = linkId, r_email = ri_email r, r_lang = ri_lang r,
                 r_opens = 0, r_last_opened_at = None, r_created_at = nw\<rparr>
      in if has_recipient d (r_id row) \<or> \<not> has_link d linkId then (Inl SqliteError, d)
         else if on_link d linkId (ri_email r) then insertRecipients nw linkId ids rs d
         else (case insertRecipients nw linkId ids rs (d\<lparr>link_recipients := link_recipients d @ [row]\<rparr>) of
                 (Inl e, d') \<Rightarrow> (Inl e, d')
               | (Inr added, d') \<Rightarrow> (Inr (row # added), d')))"

definition linkUrl :: "Config \<Rightarrow> string \<Rightarrow> string" where
  "linkUrl cfg token = publicUrl cfg @ ''/d/'' @ token"

record CreatedLink =
  cr_link :: LinkRow
  cr_recipients :: "RecipientRow list"
  cr_token :: string
  cr_url :: string

text \<open>\<open>tokb\<close>, \<open>idb\<close> and \<open>ids\<close> are the random bytes of the token, the link id and the recipient ids.\<close>

definition createLink ::
    "runtime \<Rightarrow> Config \<Rightarrow> ms \<Rightarrow> nat list \<Rightarrow> nat list \<Rightarrow> nat list list \<Rightarrow> CreateLinkInput \<Rightarrow> CreatedLink exec" where
  "createLink R cfg nw tokb idb ids inp d =
     (let label = or_else (slice0 200 (trim (cl_label inp))) ''Recipient''
      in case checkRecipients R (cl_recipients inp) of
           Inl e \<Rightarrow> (Inl e, d)
         | Inr list \<Rightarrow>
             (if (case cl_maxOpens inp of None \<Rightarrow> False | Some JOther \<Rightarrow> True | Some (JInt n) \<Rightarrow> n < 1)
              then (Inl (JsError ''max opens must be a positive integer''), d)
              else if (case cl_expiresAt inp of None \<Rightarrow> False | Some e \<Rightarrow> e \<le> nw)
              then (Inl (JsError ''Expiry must be in the future''), d)
              else if getCase d (cl_caseId inp) = None then (Inl (JsError ''Case not found''), d)
              else
                (let token = newToken tokb;
                     link = \<lparr>l_id = newId ''l'' idb, l_case_id = cl_caseId inp, l_label = label,
                             l_token_hash = rt_sha256 R token, l_token_hint = slice0 6 token,
                             l_expires_at = cl_expiresAt inp, l_revoked_at = None,
                             l_max_opens = (case cl_maxOpens inp of Some (JInt n) \<Rightarrow> Some (nat n) | _ \<Rightarrow> None),
                             l_opens_used = 0, l_created_at = nw, l_last_used_at = None\<rparr>
                 in case transaction (\<lambda>d. case ins_link link d of
                             Inl e \<Rightarrow> (Inl e, d)
                           | Inr d1 \<Rightarrow> insertRecipients nw (l_id link) ids list d1) d of
                      (Inl e, d') \<Rightarrow> (Inl e, d')
                    | (Inr recipients, d') \<Rightarrow>
                        (Inr \<lparr>cr_link = link, cr_recipients = recipients, cr_token = token,
                              cr_url = linkUrl cfg token\<rparr>, d'))))"

definition addRecipients ::
    "runtime \<Rightarrow> ms \<Rightarrow> nat list list \<Rightarrow> string \<Rightarrow> RecipientInput list \<Rightarrow> RecipientRow list exec" where
  "addRecipients R nw ids linkId inp d =
     (case checkRecipients R inp of
        Inl e \<Rightarrow> (Inl e, d)
      | Inr list \<Rightarrow>
          transaction (\<lambda>d.
            let n = n_where (\<lambda>r. r_link_id r = linkId) (link_recipients d);
                fresh = filter (\<lambda>r. \<not> on_link d linkId (ri_email r)) list
            in if n + length fresh > MAX_RECIPIENTS
               then (Inl (RecipientListError ''recipients.too_many'' [(''max'', PNum (int MAX_RECIPIENTS))]), d)
               else insertRecipients nw linkId ids fresh d) d)"

datatype RemoveResult = Removed RecipientRow | LastRecipient | NoSuchRecipient

definition removeRecipient :: "string \<Rightarrow> string \<Rightarrow> RemoveResult exec" where
  "removeRecipient linkId recipientId =
     transaction (\<lambda>d.
       case List.find (\<lambda>r. r_id r = recipientId \<and> r_link_id r = linkId) (link_recipients d) of
         None \<Rightarrow> (Inr NoSuchRecipient, d)
       | Some row \<Rightarrow>
           (if n_where (\<lambda>r. r_link_id r = linkId) (link_recipients d) \<le> 1 then (Inr LastRecipient, d)
            else (Inr (Removed row), delete_recipient recipientId d)))"

definition listRecipients :: "db \<Rightarrow> string \<Rightarrow> RecipientRow list" where
  "listRecipients d linkId = filter (\<lambda>r. r_link_id r = linkId) (link_recipients d)"

text \<open>The map of the panel: the recipients of every link of the case, by link id.\<close>

definition recipientsForCase :: "db \<Rightarrow> string \<Rightarrow> string \<Rightarrow> RecipientRow list option" where
  "recipientsForCase d caseId linkId =
     (let rows = filter (\<lambda>r. \<exists>l \<in> set (links d). l_id l = r_link_id r \<and> l_case_id l = caseId)
                   (link_recipients d)
      in fold (\<lambda>r out. out(r_link_id r \<mapsto> (case out (r_link_id r) of None \<Rightarrow> [] | Some rs \<Rightarrow> rs) @ [r]))
           rows Map.empty linkId)"

definition sharedLang :: "RecipientRow list \<Rightarrow> Lang option" where
  "sharedLang recipients =
     (case recipients of
        [] \<Rightarrow> None
      | r # _ \<Rightarrow> (if r_lang r \<noteq> [] \<and> (\<forall>x \<in> set recipients. r_lang x = r_lang r) then Some (r_lang r) else None))"

definition recordRecipientOpen :: "ms \<Rightarrow> string \<Rightarrow> db \<Rightarrow> db" where
  "recordRecipientOpen nw recipientId d =
     d\<lparr>link_recipients := upd_where (\<lambda>r. r_id r = recipientId)
         (\<lambda>r. r\<lparr>r_opens := r_opens r + 1, r_last_opened_at := Some nw\<rparr>) (link_recipients d)\<rparr>"

definition getLink :: "db \<Rightarrow> string \<Rightarrow> LinkRow option" where
  "getLink d i = List.find (\<lambda>l. l_id l = i) (links d)"

definition listLinksForCase :: "db \<Rightarrow> string \<Rightarrow> LinkRow list" where
  "listLinksForCase d caseId =
     sort_key (\<lambda>l. - int (l_created_at l)) (filter (\<lambda>l. l_case_id l = caseId) (links d))"

definition revokeLink :: "ms \<Rightarrow> string \<Rightarrow> db \<Rightarrow> bool \<times> db" where
  "revokeLink nw i d =
     (n_where (\<lambda>l. l_id l = i \<and> l_revoked_at l = None) (links d) > 0,
      d\<lparr>links := upd_where (\<lambda>l. l_id l = i \<and> l_revoked_at l = None)
                  (\<lambda>l. l\<lparr>l_revoked_at := Some nw\<rparr>) (links d)\<rparr>)"

definition linkState :: "ms \<Rightarrow> LinkRow \<Rightarrow> CaseRow \<Rightarrow> LinkState" where
  "linkState nw link c =
     (if l_revoked_at link \<noteq> None then LRevoked
      else if (case l_expires_at link of None \<Rightarrow> False | Some e \<Rightarrow> e \<le> nw) then LExpired
      else if c_status c \<noteq> CaseOpen then LCaseClosed
      else if (case l_max_opens link of None \<Rightarrow> False | Some m \<Rightarrow> l_opens_used link \<ge> m) then LExhausted
      else LActive)"

definition resolveToken :: "runtime \<Rightarrow> ms \<Rightarrow> db \<Rightarrow> string \<Rightarrow> ResolvedLink option" where
  "resolveToken R nw d token =
     (if \<not> matches TOKEN_RE token then None
      else (case List.find (\<lambda>l. l_token_hash l = rt_sha256 R token) (links d) of
              None \<Rightarrow> None
            | Some link \<Rightarrow>
                (case getCase d (l_case_id link) of
                   None \<Rightarrow> None
                 | Some c \<Rightarrow> Some \<lparr>rl_link = link, rl_case = c, rl_state = linkState nw link c,
                                  rl_recipients = listRecipients d (l_id link)\<rparr>)))"

definition touchLink :: "ms \<Rightarrow> string \<Rightarrow> db \<Rightarrow> db" where
  "touchLink nw i d =
     d\<lparr>links := upd_where (\<lambda>l. l_id l = i) (\<lambda>l. l\<lparr>l_last_used_at := Some nw\<rparr>) (links d)\<rparr>"

definition may_open :: "string \<Rightarrow> LinkRow \<Rightarrow> bool" where
  "may_open i l =
     (l_id l = i \<and> l_revoked_at l = None
      \<and> (case l_max_opens l of None \<Rightarrow> True | Some m \<Rightarrow> l_opens_used l < m))"

definition registerOpen :: "ms \<Rightarrow> string \<Rightarrow> db \<Rightarrow> bool \<times> db" where
  "registerOpen nw i d =
     (n_where (may_open i) (links d) > 0,
      d\<lparr>links := upd_where (may_open i)
          (\<lambda>l. l\<lparr>l_opens_used := l_opens_used l + 1, l_last_used_at := Some nw\<rparr>) (links d)\<rparr>)"

text \<open>The UPDATE fails when another link already has the new hash.\<close>

definition rotateLinkToken ::
    "runtime \<Rightarrow> Config \<Rightarrow> nat list \<Rightarrow> string \<Rightarrow> (string \<times> string) option exec" where
  "rotateLinkToken R cfg tokb i d =
     (case getLink d i of
        None \<Rightarrow> (Inr None, d)
      | Some link \<Rightarrow>
          (let token = newToken tokb; h = rt_sha256 R token
           in if \<exists>l \<in> set (links d). l_id l \<noteq> i \<and> l_token_hash l = h then (Inl SqliteError, d)
              else (Inr (Some (token, linkUrl cfg token)),
                    d\<lparr>links := upd_where (\<lambda>l. l_id l = i)
                        (\<lambda>l. l\<lparr>l_token_hash := h, l_token_hint := slice0 6 token\<rparr>) (links d)\<rparr>)))"

definition findRecipient :: "runtime \<Rightarrow> RecipientRow list \<Rightarrow> string \<Rightarrow> RecipientRow option" where
  "findRecipient R recipients typed =
     (let email = normalizeEmail R typed in List.find (\<lambda>r. r_email r = email) recipients)"

definition openingsLeft :: "LinkRow \<Rightarrow> nat option" where
  "openingsLeft link =
     (case l_max_opens link of None \<Rightarrow> None | Some m \<Rightarrow> Some (nat (max (int m - int (l_opens_used link)) 0)))"

subsection \<open>Lemmas\<close>

lemma linkState_active_iff:
  "linkState nw l c = LActive \<longleftrightarrow>
     l_revoked_at l = None \<and> (l_expires_at l = None \<or> nw < the (l_expires_at l)) \<and> c_status c = CaseOpen
     \<and> (l_max_opens l = None \<or> l_opens_used l < the (l_max_opens l))"
  by (auto simp: linkState_def not_le split: option.splits)

lemma linkState_exhausted_iff:
  "linkState nw l c = LExhausted \<longleftrightarrow>
     l_revoked_at l = None \<and> (l_expires_at l = None \<or> nw < the (l_expires_at l)) \<and> c_status c = CaseOpen
     \<and> l_max_opens l \<noteq> None \<and> the (l_max_opens l) \<le> l_opens_used l"
  by (auto simp: linkState_def not_le split: option.splits)

lemma resolveToken_SomeD:
  assumes "resolveToken R nw d token = Some rl"
  shows "rl_link rl \<in> set (links d)" "l_token_hash (rl_link rl) = rt_sha256 R token"
    "rl_case rl \<in> set (cases d)" "c_id (rl_case rl) = l_case_id (rl_link rl)"
    "rl_state rl = linkState nw (rl_link rl) (rl_case rl)"
    "rl_recipients rl = listRecipients d (l_id (rl_link rl))" "matches TOKEN_RE token"
  using assms
  by (auto simp: resolveToken_def getCase_def split: option.splits if_splits dest!: find_SomeD)

lemma registerOpen_sel:
  "fst (registerOpen nw i d) \<longleftrightarrow> (\<exists>l \<in> set (links d). may_open i l)"
  by (simp add: registerOpen_def n_where_pos_iff)

text \<open>How the operations of this component change the table of links\<close>

lemma insertRecipients_frame:
  "insertRecipients nw linkId ids rs d = (r, d') \<Longrightarrow>
    \<exists>new. d' = d\<lparr>link_recipients := link_recipients d @ new\<rparr> \<and> (\<forall>x \<in> set new. r_link_id x = linkId)"
proof (induction nw linkId ids rs d arbitrary: r d' rule: insertRecipients.induct)
  case (1 nw linkId ids d)
  then show ?case by (auto intro!: exI [of _ "[]"])
next
  case (2 nw linkId r rs d)
  then show ?case by (auto intro!: exI [of _ "[]"])
next
  case (3 nw linkId b ids r rs d r0)
  let ?row = "\<lparr>r_id = newId ''r'' b, r_link_id = linkId, r_email = ri_email r, r_lang = ri_lang r,
                 r_opens = 0, r_last_opened_at = None, r_created_at = nw\<rparr>"
  consider "has_recipient d (r_id ?row) \<or> \<not> has_link d linkId" |
    "\<not> (has_recipient d (r_id ?row) \<or> \<not> has_link d linkId)" "on_link d linkId (ri_email r)" |
    "\<not> (has_recipient d (r_id ?row) \<or> \<not> has_link d linkId)" "\<not> on_link d linkId (ri_email r)"
    by blast
  then show ?case
  proof cases
    case 1
    then show ?thesis using 3(3) by (auto simp: Let_def intro!: exI [of _ "[]"])
  next
    case 2
    then show ?thesis using 3(1) [OF refl] 3(3) by (auto simp: Let_def)
  next
    case c: 3
    obtain r1 d1 where e: "insertRecipients nw linkId ids rs (d\<lparr>link_recipients := link_recipients d @ [?row]\<rparr>) = (r1, d1)"
      by (cases "insertRecipients nw linkId ids rs (d\<lparr>link_recipients := link_recipients d @ [?row]\<rparr>)")
    then obtain new where "d1 = d\<lparr>link_recipients := (link_recipients d @ [?row]) @ new\<rparr>"
      "\<forall>x \<in> set new. r_link_id x = linkId"
      using 3(2) [OF refl, of r1 d1] c by auto
    moreover have "d' = d1" using c e 3(3) by (auto simp: Let_def split: sum.splits)
    ultimately show ?thesis by (intro exI [of _ "?row # new"]) auto
  qed
qed

end
