(* ===== verification/Access.thy ===== *)
theory Access
  imports Links
begin

section \<open>One-time codes and recipient sessions (src/services/access.ts)\<close>

text \<open>
  A challenge is a row with the scrypt hash of its code and the hash of the browser's flow
  token; an access session is what an accepted code opens.
\<close>

record AccessSession =
  ac_linkId :: string
  ac_recipientId :: "string option"
  ac_csrfToken :: string
  ac_expiresAt :: ms

definition HOUR_MS :: ms where "HOUR_MS = 3600000"

definition pending_of :: "string \<Rightarrow> ChallengeRow \<Rightarrow> bool" where
  "pending_of recipientId c = (ch_recipient_id c = Some recipientId \<and> ch_consumed_at c = None)"

text \<open>
  \<open>created_at > since\<close> with \<open>since\<close> an hour ago, written without subtraction. \<open>codeb\<close>,
  \<open>idb\<close> and \<open>salt\<close> are the random bytes of the code, the id and the hash.
\<close>

definition in_last_hour :: "ms \<Rightarrow> string \<Rightarrow> ChallengeRow \<Rightarrow> bool" where
  "in_last_hour nw recipientId c = (ch_recipient_id c = Some recipientId \<and> ch_created_at c + HOUR_MS > nw)"

definition createChallenge ::
    "runtime \<Rightarrow> Config \<Rightarrow> ms \<Rightarrow> nat list list \<Rightarrow> nat list \<Rightarrow> nat list \<Rightarrow> string \<Rightarrow> string \<Rightarrow> string \<Rightarrow> string option
     \<Rightarrow> (ChallengeRow \<times> string) option exec" where
  "createChallenge R cfg nw codeb idb salt linkId recipientId flowToken ip d =
     (case newAccessCode 6 codeb of
        None \<Rightarrow> (Inr None, d)
      | Some code \<Rightarrow>
          (let challenge = \<lparr>ch_id = newId ''ch'' idb, ch_link_id = linkId, ch_recipient_id = Some recipientId,
                 ch_code_hash = hashPassword R salt code, ch_flow_hash = rt_sha256 R flowToken,
                 ch_attempts = 0, ch_created_at = nw, ch_expires_at = nw + accessCodeTtlMs cfg,
                 ch_consumed_at = None, ch_ip = ip\<rparr>
           in case transaction (\<lambda>d.
                let n = n_where (in_last_hour nw recipientId) (challenges d)
                in if n \<ge> challengeLimitPerLinkPerHour cfg
                   then (Inl (ChallengeRateError (challengeLimitPerLinkPerHour cfg)), d)
                   else (let d1 = d\<lparr>challenges := upd_where (pending_of recipientId)
                                     (\<lambda>c. c\<lparr>ch_consumed_at := Some (ch_created_at challenge)\<rparr>) (challenges d)\<rparr>
                         in case ins_challenge challenge d1 of Inl e \<Rightarrow> (Inl e, d1) | Inr d2 \<Rightarrow> (Inr (), d2))) d of
                (Inl e, d') \<Rightarrow> (Inl e, d')
              | (Inr _, d') \<Rightarrow> (Inr (Some (challenge, code)), d')))"

datatype VerifyResult = VOk "string option" | VInvalid nat | VGone

text \<open>ORDER BY created_at DESC LIMIT 1: the newest of the rows, the last inserted of the newest ones.\<close>

fun newest :: "('r \<Rightarrow> ms) \<Rightarrow> 'r list \<Rightarrow> 'r option" where
  "newest k [] = None"
| "newest k (r # rs) =
     (case newest k rs of None \<Rightarrow> Some r | Some b \<Rightarrow> (if k b < k r then Some r else Some b))"

definition is_pending :: "runtime \<Rightarrow> ms \<Rightarrow> string \<Rightarrow> string \<Rightarrow> ChallengeRow \<Rightarrow> bool" where
  "is_pending R nw linkId flowToken c =
     (ch_link_id c = linkId \<and> ch_flow_hash c = rt_sha256 R flowToken \<and> ch_consumed_at c = None
      \<and> ch_expires_at c > nw)"

definition set_challenge :: "(ChallengeRow \<Rightarrow> bool) \<Rightarrow> (ChallengeRow \<Rightarrow> ChallengeRow) \<Rightarrow> db \<Rightarrow> db" where
  "set_challenge p f d = d\<lparr>challenges := upd_where p f (challenges d)\<rparr>"

definition verifyChallenge ::
    "runtime \<Rightarrow> Config \<Rightarrow> ms \<Rightarrow> string \<Rightarrow> string \<Rightarrow> string \<Rightarrow> db \<Rightarrow> VerifyResult \<times> db" where
  "verifyChallenge R cfg nw linkId flowToken code0 d =
     (case newest ch_created_at (filter (is_pending R nw linkId flowToken) (challenges d)) of
        None \<Rightarrow> (VGone, d)
      | Some row \<Rightarrow>
          (let code = normalizeCode code0
           in if code \<noteq> [] \<and> verifyPassword R code (ch_code_hash row)
              then (VOk (ch_recipient_id row),
                    set_challenge (\<lambda>c. ch_id c = ch_id row \<and> ch_consumed_at c = None)
                      (\<lambda>c. c\<lparr>ch_consumed_at := Some nw\<rparr>) d)
              else (let attempts = ch_attempts row + 1
                    in if attempts \<ge> maxCodeAttempts cfg
                       then (VGone, set_challenge (\<lambda>c. ch_id c = ch_id row)
                               (\<lambda>c. c\<lparr>ch_attempts := attempts, ch_consumed_at := Some nw\<rparr>) d)
                       else (VInvalid (maxCodeAttempts cfg - attempts),
                             set_challenge (\<lambda>c. ch_id c = ch_id row) (\<lambda>c. c\<lparr>ch_attempts := attempts\<rparr>) d))))"

definition createAccessSession ::
    "runtime \<Rightarrow> Config \<Rightarrow> ms \<Rightarrow> nat list \<Rightarrow> nat list \<Rightarrow> string \<Rightarrow> string option \<Rightarrow> string option
     \<Rightarrow> (string \<times> AccessSession) exec" where
  "createAccessSession R cfg nw sidb csrfb linkId recipientId ip d =
     (let sessionId = newSessionId sidb;
          session = \<lparr>ac_linkId = linkId, ac_recipientId = recipientId, ac_csrfToken = newCsrfToken csrfb,
                     ac_expiresAt = nw + accessSessionTtlMs cfg\<rparr>
      in case ins_access \<lparr>as_id_hash = rt_sha256 R sessionId, as_link_id = linkId, as_recipient_id = recipientId,
               as_csrf_token = ac_csrfToken session, as_created_at = nw, as_expires_at = ac_expiresAt session,
               as_ip = ip\<rparr> d of
           Inl e \<Rightarrow> (Inl e, d)
         | Inr d' \<Rightarrow> (Inr (sessionId, session), d'))"

definition destroyAccessSession :: "runtime \<Rightarrow> string \<Rightarrow> db \<Rightarrow> db" where
  "destroyAccessSession R sessionId d =
     d\<lparr>access_sessions := del_where (\<lambda>s. as_id_hash s = rt_sha256 R sessionId) (access_sessions d)\<rparr>"

definition getAccessSession :: "runtime \<Rightarrow> ms \<Rightarrow> string \<Rightarrow> db \<Rightarrow> AccessSession option \<times> db" where
  "getAccessSession R nw sessionId d =
     (case List.find (\<lambda>s. as_id_hash s = rt_sha256 R sessionId) (access_sessions d) of
        None \<Rightarrow> (None, d)
      | Some row \<Rightarrow>
          (if as_expires_at row \<le> nw then (None, destroyAccessSession R sessionId d)
           else (Some \<lparr>ac_linkId = as_link_id row, ac_recipientId = as_recipient_id row,
                       ac_csrfToken = as_csrf_token row, ac_expiresAt = as_expires_at row\<rparr>, d)))"

definition destroyAccessSessionsForLink :: "ms \<Rightarrow> string \<Rightarrow> db \<Rightarrow> nat \<times> db" where
  "destroyAccessSessionsForLink nw linkId d =
     (n_where (\<lambda>s. as_link_id s = linkId) (access_sessions d),
      d\<lparr>access_sessions := del_where (\<lambda>s. as_link_id s = linkId) (access_sessions d),
        challenges := upd_where (\<lambda>c. ch_link_id c = linkId \<and> ch_consumed_at c = None)
                        (\<lambda>c. c\<lparr>ch_consumed_at := Some nw\<rparr>) (challenges d)\<rparr>)"

definition link_of_case :: "db \<Rightarrow> string \<Rightarrow> string \<Rightarrow> bool" where
  "link_of_case d caseId linkId = (\<exists>l \<in> set (links d). l_id l = linkId \<and> l_case_id l = caseId)"

definition destroyAccessSessionsForCase :: "string \<Rightarrow> db \<Rightarrow> nat \<times> db" where
  "destroyAccessSessionsForCase caseId d =
     (n_where (\<lambda>s. link_of_case d caseId (as_link_id s)) (access_sessions d),
      d\<lparr>access_sessions := del_where (\<lambda>s. link_of_case d caseId (as_link_id s)) (access_sessions d)\<rparr>)"

definition purgeExpiredAccess :: "ms \<Rightarrow> db \<Rightarrow> (nat \<times> nat) \<times> db" where
  "purgeExpiredAccess nw d =
     ((n_where (\<lambda>s. as_expires_at s \<le> nw) (access_sessions d),
       n_where (\<lambda>c. ch_created_at c + HOUR_MS \<le> nw) (challenges d)),
      d\<lparr>access_sessions := del_where (\<lambda>s. as_expires_at s \<le> nw) (access_sessions d),
        challenges := del_where (\<lambda>c. ch_created_at c + HOUR_MS \<le> nw) (challenges d)\<rparr>)"

subsection \<open>Lemmas: answering a challenge\<close>

lemma newest_None_iff [simp]: "newest k rs = None \<longleftrightarrow> rs = []"
  by (cases rs) (auto split: option.splits)

lemma newest_SomeD: "newest k rs = Some r \<Longrightarrow> r \<in> set rs \<and> (\<forall>x \<in> set rs. k x \<le> k r)"
proof (induction rs arbitrary: r)
  case (Cons x xs)
  show ?case
  proof (cases "newest k xs")
    case (Some b)
    then show ?thesis using Cons.IH [OF Some] Cons.prems by (auto split: if_splits)
  qed (use Cons.prems in auto)
qed simp

lemma newest_last: "\<forall>x \<in> set rs. k x \<le> k r \<Longrightarrow> newest k (rs @ [r]) = Some r"
  by (induction rs) auto

text \<open>A challenge a code can still answer, whatever the time\<close>

definition open_for :: "runtime \<Rightarrow> string \<Rightarrow> string \<Rightarrow> ChallengeRow \<Rightarrow> bool" where
  "open_for R linkId flowToken c =
     (ch_link_id c = linkId \<and> ch_flow_hash c = rt_sha256 R flowToken \<and> ch_consumed_at c = None)"

lemma is_pending_open: "is_pending R nw l f c \<longleftrightarrow> open_for R l f c \<and> nw < ch_expires_at c"
  by (auto simp: is_pending_def open_for_def)

lemma pending_open_filter: "filter (is_pending R nw l f) cs = filter (\<lambda>c. nw < ch_expires_at c) (filter (open_for R l f) cs)"
  by (induction cs) (auto simp: is_pending_open)

definition right_code :: "runtime \<Rightarrow> ChallengeRow \<Rightarrow> string \<Rightarrow> bool" where
  "right_code R row code = (normalizeCode code \<noteq> [] \<and> verifyPassword R (normalizeCode code) (ch_code_hash row))"

lemma verify_none: "filter (open_for R l f) (challenges d) = [] \<Longrightarrow> verifyChallenge R cfg nw l f code d = (VGone, d)"
  by (simp add: verifyChallenge_def pending_open_filter)

lemma verify_one:
  assumes one: "filter (open_for R l f) (challenges d) = [row]" and ids: "distinct (map ch_id (challenges d))"
    and nw: "nw < ch_expires_at row"
  obtains (right) d' where "right_code R row code" "verifyChallenge R cfg nw l f code d = (VOk (ch_recipient_id row), d')"
      "filter (open_for R l f) (challenges d') = []"
  | (last) d' where "\<not> right_code R row code" "maxCodeAttempts cfg \<le> ch_attempts row + 1"
      "verifyChallenge R cfg nw l f code d = (VGone, d')" "filter (open_for R l f) (challenges d') = []"
  | (again) d' row' where "\<not> right_code R row code" "ch_attempts row + 1 < maxCodeAttempts cfg"
      "verifyChallenge R cfg nw l f code d = (VInvalid (maxCodeAttempts cfg - (ch_attempts row + 1)), d')"
      "row' = row\<lparr>ch_attempts := ch_attempts row + 1\<rparr>"
      "filter (open_for R l f) (challenges d') = [row']" "distinct (map ch_id (challenges d'))"
proof -
  have "row \<in> set (filter (open_for R l f) (challenges d))" using one by simp
  then have row: "row \<in> set (challenges d)" "open_for R l f row" by simp_all
  have n: "newest ch_created_at (filter (is_pending R nw l f) (challenges d)) = Some row"
    using one nw by (simp add: pending_open_filter)
  note upd = filter_upd_key [OF ids one]
  have same: "upd_where (\<lambda>c. ch_id c = ch_id row \<and> ch_consumed_at c = None) g (challenges d)
      = upd_where (\<lambda>c. ch_id c = ch_id row) g (challenges d)" for g
    unfolding upd_where_def
  proof (rule map_cong [OF refl])
    fix c
    assume "c \<in> set (challenges d)"
    then show "(if ch_id c = ch_id row \<and> ch_consumed_at c = None then g c else c) = (if ch_id c = ch_id row then g c else c)"
      using row(2) distinct_key_unique [OF ids _ row(1), of c] by (auto simp: open_for_def)
  qed
  show ?thesis
  proof (cases "right_code R row code")
    case True
    then show ?thesis
      using n by (intro right) (auto simp: verifyChallenge_def right_code_def set_challenge_def same upd open_for_def Let_def)
  next
    case False
    note F = this
    show ?thesis
    proof (cases "maxCodeAttempts cfg \<le> ch_attempts row + 1")
      case True
      then show ?thesis
        using n F by (intro last) (auto simp: verifyChallenge_def right_code_def set_challenge_def upd open_for_def Let_def)
    next
      case lt: False
      have "distinct (map ch_id (upd_where (\<lambda>c. ch_id c = ch_id row) (\<lambda>c. c\<lparr>ch_attempts := ch_attempts row + 1\<rparr>) (challenges d)))"
        using ids by (subst map_upd_where_key) auto
      moreover have "filter (open_for R l f) (upd_where (\<lambda>c. ch_id c = ch_id row) (\<lambda>c. c\<lparr>ch_attempts := ch_attempts row + 1\<rparr>) (challenges d))
          = [row\<lparr>ch_attempts := ch_attempts row + 1\<rparr>]"
        using row(2) upd by (simp add: open_for_def)
      ultimately show ?thesis
        using n F lt by (intro again) (auto simp: verifyChallenge_def right_code_def set_challenge_def upd open_for_def Let_def)
    qed
  qed
qed

text \<open>The answers to a series of codes sent from one browser, each at its time\<close>

fun submit_codes :: "runtime \<Rightarrow> Config \<Rightarrow> string \<Rightarrow> string \<Rightarrow> (ms \<times> string) list \<Rightarrow> db \<Rightarrow> db" where
  "submit_codes R cfg l f [] d = d"
| "submit_codes R cfg l f ((nw, code) # tries) d =
     submit_codes R cfg l f tries (snd (verifyChallenge R cfg nw l f code d))"

lemma submit_none:
  "filter (open_for R l f) (challenges d) = [] \<Longrightarrow> submit_codes R cfg l f tries d = d"
  by (induction tries) (auto simp: verify_none)

lemma submit_wrong:
  assumes "filter (open_for R l f) (challenges d) = [row]" "distinct (map ch_id (challenges d))"
    and "ch_attempts row < maxCodeAttempts cfg"
    and "\<forall>(t, c) \<in> set tries. t < ch_expires_at row \<and> \<not> right_code R row c"
  shows "(if ch_attempts row + length tries < maxCodeAttempts cfg
          then filter (open_for R l f) (challenges (submit_codes R cfg l f tries d))
                 = [row\<lparr>ch_attempts := ch_attempts row + length tries\<rparr>]
               \<and> distinct (map ch_id (challenges (submit_codes R cfg l f tries d)))
          else filter (open_for R l f) (challenges (submit_codes R cfg l f tries d)) = [])"
  using assms
proof (induction tries arbitrary: d row)
  case (Cons attempt tries)
  obtain t c where t: "attempt = (t, c)" by (cases attempt)
  then have wrong: "t < ch_expires_at row" "\<not> right_code R row c" using Cons.prems(4) by auto
  from Cons.prems(1,2) wrong(1) show ?case
  proof (cases rule: verify_one [where cfg = cfg and code = c])
    case (last d')
    then show ?thesis using t by (simp add: submit_none)
  next
    case (again d' row')
    have "\<forall>(t, c) \<in> set tries. t < ch_expires_at row' \<and> \<not> right_code R row' c"
      using Cons.prems(4) again(4) by (auto simp: right_code_def)
    from Cons.IH [OF again(5,6) _ this] again t show ?thesis by simp
  qed (use wrong in simp)
qed simp

lemma verifyChallenge_VOkD:
  assumes "verifyChallenge R cfg nw l f code d = (VOk r, d')"
  shows "\<exists>row \<in> set (challenges d). is_pending R nw l f row \<and> ch_recipient_id row = r \<and> right_code R row code
     \<and> (\<forall>c \<in> set (challenges d'). ch_id c = ch_id row \<longrightarrow> ch_consumed_at c \<noteq> None)"
proof -
  from assms obtain row where row: "newest ch_created_at (filter (is_pending R nw l f) (challenges d)) = Some row"
    "right_code R row code" "ch_recipient_id row = r"
    "d' = set_challenge (\<lambda>c. ch_id c = ch_id row \<and> ch_consumed_at c = None) (\<lambda>c. c\<lparr>ch_consumed_at := Some nw\<rparr>) d"
    by (auto simp: verifyChallenge_def right_code_def Let_def split: option.splits if_splits)
  then show ?thesis using newest_SomeD [OF row(1)] by (intro bexI [of _ row]) (auto simp: set_challenge_def in_upd_where)
qed

subsection \<open>Lemmas: asking for a code\<close>

lemma code_digits_chars:
  assumes "newAccessCode n blocks = Some code"
  shows "length code = n" "\<forall>c \<in> set code. is_digit c"
proof -
  have "code_digits n blocks [] = Some code" using assms by (simp add: newAccessCode_def)
  then have c: "code = take n (draws_below 250 code_digit blocks)" "n \<le> length (draws_below 250 code_digit blocks)"
    by (auto simp: code_digits_draws Let_def split: if_splits)
  then show "length code = n" by simp
  show "\<forall>c \<in> set code. is_digit c"
    using c(1) by (auto simp: draws_below_def code_digit_def is_digit_def between_def dest!: in_set_takeD)
qed

lemma digits_normal: "\<forall>c \<in> set s. is_digit c \<Longrightarrow> normalizeCode s = s"
  unfolding normalizeCode_def strip_class_def
  by (rule filter_True) (auto simp: is_digit_def is_ws_def between_def)

text \<open>The row a code request inserts, and the rows it consumes\<close>

abbreviation new_challenge ::
    "runtime \<Rightarrow> Config \<Rightarrow> ms \<Rightarrow> nat list \<Rightarrow> nat list \<Rightarrow> string \<Rightarrow> string \<Rightarrow> string \<Rightarrow> string option \<Rightarrow> string \<Rightarrow> ChallengeRow" where
  "new_challenge R cfg nw idb salt l rid f ip code \<equiv>
     \<lparr>ch_id = newId ''ch'' idb, ch_link_id = l, ch_recipient_id = Some rid, ch_code_hash = hashPassword R salt code,
      ch_flow_hash = rt_sha256 R f, ch_attempts = 0, ch_created_at = nw, ch_expires_at = nw + accessCodeTtlMs cfg,
      ch_consumed_at = None, ch_ip = ip\<rparr>"

abbreviation consumed :: "ms \<Rightarrow> string \<Rightarrow> ChallengeRow list \<Rightarrow> ChallengeRow list" where
  "consumed nw rid cs \<equiv> upd_where (pending_of rid) (\<lambda>c. c\<lparr>ch_consumed_at := Some nw\<rparr>) cs"

lemma consumed_pending: "filter (pending_of rid) (consumed nw rid cs) = []"
  by (rule filter_upd_none) (simp_all add: pending_of_def)

lemma consumed_others: "filter (\<lambda>c. ch_recipient_id c \<noteq> Some rid) (consumed nw rid cs) = filter (\<lambda>c. ch_recipient_id c \<noteq> Some rid) cs"
  by (rule filter_upd_other) (simp add: pending_of_def)

lemma consumed_ids: "ch_id ` set (consumed nw rid cs) = ch_id ` set cs"
  by (rule image_upd_where) simp

lemma createChallenge_cases:
  assumes "createChallenge R cfg nw codeb idb salt l rid f ip d = (r, d')"
  obtains (rate) "r = Inl (ChallengeRateError (challengeLimitPerLinkPerHour cfg))" "d' = d"
      "challengeLimitPerLinkPerHour cfg \<le> n_where (in_last_hour nw rid) (challenges d)"
  | (sql) "r = Inl SqliteError" "d' = d"
  | (dry) "r = Inr None" "d' = d"
  | (made) code where "r = Inr (Some (new_challenge R cfg nw idb salt l rid f ip code, code))" "newAccessCode 6 codeb = Some code"
      "n_where (in_last_hour nw rid) (challenges d) < challengeLimitPerLinkPerHour cfg"
      "newId ''ch'' idb \<notin> ch_id ` set (challenges d)"
      "d' = d\<lparr>challenges := consumed nw rid (challenges d) @ [new_challenge R cfg nw idb salt l rid f ip code]\<rparr>"
proof (cases "newAccessCode 6 codeb")
  case None
  then show ?thesis using assms dry by (simp add: createChallenge_def)
next
  case (Some code)
  show ?thesis
  proof (cases "challengeLimitPerLinkPerHour cfg \<le> n_where (in_last_hour nw rid) (challenges d)")
    case True
    then show ?thesis using assms Some by (intro rate) (auto simp: createChallenge_def transaction_def Let_def)
  next
    case False
    note le = this
    define ok where "ok \<longleftrightarrow> newId ''ch'' idb \<notin> ch_id ` set (challenges d) \<and> has_link d l \<and> has_recipient d rid"
    have ins: "ins_challenge (new_challenge R cfg nw idb salt l rid f ip code) (d\<lparr>challenges := consumed nw rid (challenges d)\<rparr>)
      = require ok (d\<lparr>challenges := consumed nw rid (challenges d) @ [new_challenge R cfg nw idb salt l rid f ip code]\<rparr>)"
      by (simp add: ins_challenge_def ok_def opt_ref_def consumed_ids)
    show ?thesis
    proof (cases ok)
      case True
      then have "newId ''ch'' idb \<notin> ch_id ` set (challenges d)" by (simp add: ok_def)
      with True show ?thesis
        using assms Some le
        by (intro made [of code]) (simp_all add: createChallenge_def transaction_def Let_def ins require_def)
    next
      case False
      then show ?thesis
        using assms Some le by (intro sql) (simp_all add: createChallenge_def transaction_def Let_def ins require_def)
    qed
  qed
qed

lemma createChallenge_made:
  assumes "createChallenge R cfg nw codeb idb salt l rid f ip d = (Inr (Some (ch, code)), d')"
  shows "filter (pending_of rid) (challenges d') = [ch]"
    "filter (\<lambda>c. ch_recipient_id c \<noteq> Some rid) (challenges d') = filter (\<lambda>c. ch_recipient_id c \<noteq> Some rid) (challenges d)"
    "n_where (in_last_hour nw rid) (challenges d) < challengeLimitPerLinkPerHour cfg"
    "length code = 6 \<and> list_all is_digit code"
    "ch = new_challenge R cfg nw idb salt l rid f ip code"
    "challenges d' = consumed nw rid (challenges d) @ [ch]"
    "d' = d\<lparr>challenges := challenges d'\<rparr>"
proof -
  from assms have *: "newAccessCode 6 codeb = Some code \<and> ch = new_challenge R cfg nw idb salt l rid f ip code
    \<and> n_where (in_last_hour nw rid) (challenges d) < challengeLimitPerLinkPerHour cfg
    \<and> d' = d\<lparr>challenges := consumed nw rid (challenges d) @ [new_challenge R cfg nw idb salt l rid f ip code]\<rparr>"
    by (cases rule: createChallenge_cases) simp_all
  then have "length code = 6" "list_all is_digit code"
    using code_digits_chars [of 6 codeb code] by (auto simp: list_all_iff)
  then show "filter (pending_of rid) (challenges d') = [ch]"
    "filter (\<lambda>c. ch_recipient_id c \<noteq> Some rid) (challenges d') = filter (\<lambda>c. ch_recipient_id c \<noteq> Some rid) (challenges d)"
    "n_where (in_last_hour nw rid) (challenges d) < challengeLimitPerLinkPerHour cfg"
    "length code = 6 \<and> list_all is_digit code"
    "ch = new_challenge R cfg nw idb salt l rid f ip code"
    "challenges d' = consumed nw rid (challenges d) @ [ch]"
    "d' = d\<lparr>challenges := challenges d'\<rparr>"
    using * consumed_pending [of rid nw "challenges d"] consumed_others [of rid nw "challenges d"]
    by (simp_all add: pending_of_def)
qed

lemma createChallenge_failed:
  "createChallenge R cfg nw codeb idb salt l rid f ip d = (Inl e, d') \<Longrightarrow> d' = d"
  by (erule createChallenge_cases) auto

lemma createChallenge_verify:
  assumes made: "createChallenge R cfg nw codeb idb salt l rid f ip d = (Inr (Some (ch, code)), d')"
    and R: "kdf_ok R" "is_bytes salt"
    and time: "later < nw + accessCodeTtlMs cfg" and past: "list_all (\<lambda>c. ch_created_at c \<le> nw) (challenges d)"
  shows "fst (verifyChallenge R cfg later l f code d') = VOk (Some rid)"
proof -
  note c = createChallenge_made [OF made]
  have ch: "is_pending R later l f ch" using c(5) time by (simp add: is_pending_def)
  have "\<forall>x \<in> set (filter (is_pending R later l f) (consumed nw rid (challenges d))). ch_created_at x \<le> ch_created_at ch"
    using past c(5) by (auto simp: list_all_iff in_upd_where)
  then have n: "newest ch_created_at (filter (is_pending R later l f) (challenges d')) = Some ch"
    using ch c(6) by (simp add: newest_last)
  have "normalizeCode code = code" "code \<noteq> []" using c(4) digits_normal by (auto simp: list_all_iff)
  moreover have "verifyPassword R code (ch_code_hash ch)"
    using c(5) pw.verify_own [OF R] by simp
  ultimately show ?thesis using n c(5) by (simp add: verifyChallenge_def Let_def)
qed

subsection \<open>Access sessions are a store of sessions\<close>

lemma get_access_find:
  "fst (getAccessSession R nw tok d) =
     (case List.find (\<lambda>s. as_id_hash s = rt_sha256 R tok) (access_sessions d) of
        None \<Rightarrow> None
      | Some row \<Rightarrow> if as_expires_at row \<le> nw then None
          else Some \<lparr>ac_linkId = as_link_id row, ac_recipientId = as_recipient_id row,
                     ac_csrfToken = as_csrf_token row, ac_expiresAt = as_expires_at row\<rparr>)"
  by (simp add: getAccessSession_def split: option.splits)

definition issue_access ::
    "runtime \<Rightarrow> Config \<times> nat list \<times> nat list \<times> string \<times> string option \<times> string option \<Rightarrow> ms \<Rightarrow> (string \<times> AccessSession) exec" where
  "issue_access R = (\<lambda>(cfg, sidb, csrfb, linkId, rid, ip) nw. createAccessSession R cfg nw sidb csrfb linkId rid ip)"

lemma issue_access_Inr:
  assumes "issue_access R (cfg, sidb, csrfb, linkId, rid, ip) nw d = (Inr (tok, v), d')"
  shows "tok = newSessionId sidb \<and> v = \<lparr>ac_linkId = linkId, ac_recipientId = rid, ac_csrfToken = newCsrfToken csrfb,
       ac_expiresAt = nw + accessSessionTtlMs cfg\<rparr>
    \<and> rt_sha256 R tok \<notin> as_id_hash ` set (access_sessions d)
    \<and> d' = d\<lparr>access_sessions := access_sessions d @ [\<lparr>as_id_hash = rt_sha256 R tok, as_link_id = linkId, as_recipient_id = rid,
        as_csrf_token = newCsrfToken csrfb, as_created_at = nw, as_expires_at = nw + accessSessionTtlMs cfg, as_ip = ip\<rparr>]\<rparr>"
  using assms by (auto simp: issue_access_def createAccessSession_def ins_access_def Let_def split: sum.splits)

interpretation access: session_store "\<lambda>R. rt_sha256 R" getAccessSession destroyAccessSession
  by unfold_locales (simp_all add: get_access_find destroyAccessSession_def find_del_where_key)

interpretation access: issuing_store "\<lambda>R. rt_sha256 R" getAccessSession destroyAccessSession
    issue_access id "\<lambda>R (cfg, _) nw later d. later < nw + accessSessionTtlMs cfg"
proof (unfold_locales, goal_cases)
  case (1 R a nw d tok v d' later)
  then show ?case
    by (cases a) (auto simp: get_access_find find_key_append dest!: issue_access_Inr)
next
  case (2 R a nw d tok v d' tok' later)
  then show ?case
    by (cases a) (auto simp: get_access_find find_key_append_other dest!: issue_access_Inr)
qed

subsection \<open>Properties\<close>

text \<open>
  C11. Guessing a code: from a browser with one pending challenge, wrong codes sent before its
  expiry leave the right code valid exactly as long as fewer than \<open>maxCodeAttempts\<close> attempts
  have been made; from then on the right code is refused as well.
\<close>

theorem code_attempts_bounded:
  assumes "filter (open_for R l f) (challenges d) = [row]" and "distinct (map ch_id (challenges d))"
    and "ch_attempts row < maxCodeAttempts cfg"
    and "list_all (\<lambda>(at', c). at' < ch_expires_at row \<and> \<not> right_code R row c) tries"
    and "nw < ch_expires_at row" and "right_code R row code"
  shows "fst (verifyChallenge R cfg nw l f code (submit_codes R cfg l f tries d))
    = (if ch_attempts row + length tries < maxCodeAttempts cfg then VOk (ch_recipient_id row) else VGone)"
proof -
  let ?d = "submit_codes R cfg l f tries d"
  note s = submit_wrong [OF assms(1-3), of tries]
  have wrong: "\<forall>(at', c) \<in> set tries. at' < ch_expires_at row \<and> \<not> right_code R row c"
    using assms(4) by (simp add: list_all_iff)
  show ?thesis
  proof (cases "ch_attempts row + length tries < maxCodeAttempts cfg")
    case True
    let ?row = "row\<lparr>ch_attempts := ch_attempts row + length tries\<rparr>"
    have right: "right_code R ?row code" using assms(6) by (simp add: right_code_def)
    have nw: "nw < ch_expires_at ?row" using assms(5) by simp
    from s [OF wrong] True have one: "filter (open_for R l f) (challenges ?d) = [?row]"
      and ids: "distinct (map ch_id (challenges ?d))" by simp_all
    show ?thesis
      by (rule verify_one [OF one ids nw, where cfg = cfg and code = code]) (use right True in simp_all)
  next
    case False
    then show ?thesis using s [OF wrong] by (simp add: verify_none)
  qed
qed

definition sample_challenge :: ChallengeRow where
  "sample_challenge = \<lparr>ch_id = ''ch_1'', ch_link_id = ''l1'', ch_recipient_id = Some ''r1'',
     ch_code_hash = hashPassword sample_runtime [1] ''123456'', ch_flow_hash = ''flow'', ch_attempts = 0,
     ch_created_at = 1, ch_expires_at = 100, ch_consumed_at = None, ch_ip = None\<rparr>"

theorem code_attempts_bounded_witness:
  "fst (verifyChallenge sample_runtime sample_config 9 ''l1'' ''flow'' ''123 456''
      (submit_codes sample_runtime sample_config ''l1'' ''flow'' [(7, ''000000''), (8, ''111111''), (8, ''222222'')]
        (sample_db\<lparr>challenges := [sample_challenge]\<rparr>))) = VGone"
proof -
  have *: "filter (open_for sample_runtime ''l1'' ''flow'') (challenges (sample_db\<lparr>challenges := [sample_challenge]\<rparr>)) = [sample_challenge]"
    "distinct (map ch_id (challenges (sample_db\<lparr>challenges := [sample_challenge]\<rparr>)))"
    "ch_attempts sample_challenge < maxCodeAttempts sample_config"
    "list_all (\<lambda>(at', c). at' < ch_expires_at sample_challenge \<and> \<not> right_code sample_runtime sample_challenge c)
       [(7, ''000000''), (8, ''111111''), (8, ''222222'')]"
    "9 < ch_expires_at sample_challenge" "right_code sample_runtime sample_challenge ''123 456''"
    by code_simp+
  show ?thesis
    unfolding code_attempts_bounded [OF *] by code_simp
qed

text \<open>
  C12. A code is accepted only for a challenge of that very link and of the browser that asked
  for it, before its expiry and if it is the code that was sent; the challenge is then used up.
\<close>

theorem verifyChallenge_accepts:
  assumes "verifyChallenge R cfg nw l f code d = (VOk r, d')"
  shows "\<exists>row \<in> set (challenges d). ch_link_id row = l \<and> ch_flow_hash row = rt_sha256 R f \<and> ch_consumed_at row = None
     \<and> nw < ch_expires_at row \<and> ch_recipient_id row = r \<and> right_code R row code
     \<and> n_where (\<lambda>c. ch_id c = ch_id row \<and> ch_consumed_at c = None) (challenges d') = 0"
  using verifyChallenge_VOkD [OF assms] by (auto simp: is_pending_def n_where_0_iff)

theorem verifyChallenge_accepts_witness:
  "\<exists>row \<in> {sample_challenge}. right_code sample_runtime row ''123456''"
proof -
  let ?d = "sample_db\<lparr>challenges := [sample_challenge]\<rparr>"
  have "fst (verifyChallenge sample_runtime sample_config 9 ''l1'' ''flow'' ''123456'' ?d) = VOk (Some ''r1'')"
    by code_simp
  then have "verifyChallenge sample_runtime sample_config 9 ''l1'' ''flow'' ''123456'' ?d
    = (VOk (Some ''r1''), snd (verifyChallenge sample_runtime sample_config 9 ''l1'' ''flow'' ''123456'' ?d))"
    by (rule pair_of_fst)
  from verifyChallenge_accepts [OF this] show ?thesis by simp
qed

text \<open>
  Asking for a code replaces the pending challenge of the recipient by the new one, leaves
  the challenges of everybody else as they are and changes no other table; it succeeds only
  below the hourly limit, and the code has six digits.
\<close>

theorem createChallenge_replaces:
  assumes "createChallenge R cfg nw codeb idb salt l rid f ip d = (Inr (Some (ch, code)), d')"
  shows "filter (pending_of rid) (challenges d') = [ch]
    \<and> filter (\<lambda>c. ch_recipient_id c \<noteq> Some rid) (challenges d') = filter (\<lambda>c. ch_recipient_id c \<noteq> Some rid) (challenges d)
    \<and> d' = d\<lparr>challenges := challenges d'\<rparr>
    \<and> n_where (in_last_hour nw rid) (challenges d) < challengeLimitPerLinkPerHour cfg
    \<and> length code = 6 \<and> list_all is_digit code"
  using createChallenge_made [OF assms] by blast

definition sample_blocks :: "nat list list" where "sample_blocks = [[251, 1, 2, 3], [4, 5, 16, 7]]"

lemma sample_createChallenge:
  "createChallenge sample_runtime sample_config 9 sample_blocks [1] [2] ''l1'' ''r1'' ''flow'' None sample_db
   = (Inr (Some (new_challenge sample_runtime sample_config 9 [1] [2] ''l1'' ''r1'' ''flow'' None ''123456'', ''123456'')),
      sample_db\<lparr>challenges := [new_challenge sample_runtime sample_config 9 [1] [2] ''l1'' ''r1'' ''flow'' None ''123456'']\<rparr>)"
  by code_simp

theorem createChallenge_replaces_witness: "length ''123456'' = 6 \<and> list_all is_digit ''123456''"
  using createChallenge_replaces [OF sample_createChallenge] by blast


lemma sample_runtime_ok: "kdf_ok sample_runtime"
  by (auto simp: kdf_ok_def sample_runtime_def is_bytes_def dest!: in_set_takeD)


text \<open>
  C20. A code request that throws, for the hourly limit or for a constraint of the table, leaves
  the database as it was: the old code stays valid.
\<close>

theorem createChallenge_failure_keeps:
  assumes "createChallenge R cfg nw codeb idb salt l rid f ip d = (Inl e, d')"
  shows "d' = d \<and> e \<in> {ChallengeRateError (challengeLimitPerLinkPerHour cfg), SqliteError}"
  using assms by (cases rule: createChallenge_cases) simp_all

theorem createChallenge_failure_keeps_witness:
  "snd (createChallenge sample_runtime (sample_config\<lparr>challengeLimitPerLinkPerHour := 0\<rparr>) 9 sample_blocks [1] [2]
      ''l1'' ''r1'' ''flow'' None sample_db) = sample_db"
proof -
  have "fst (createChallenge sample_runtime (sample_config\<lparr>challengeLimitPerLinkPerHour := 0\<rparr>) 9 sample_blocks [1] [2]
      ''l1'' ''r1'' ''flow'' None sample_db) = Inl (ChallengeRateError 0)" by code_simp
  then have "createChallenge sample_runtime (sample_config\<lparr>challengeLimitPerLinkPerHour := 0\<rparr>) 9 sample_blocks [1] [2]
      ''l1'' ''r1'' ''flow'' None sample_db = (Inl (ChallengeRateError 0), snd (createChallenge sample_runtime
      (sample_config\<lparr>challengeLimitPerLinkPerHour := 0\<rparr>) 9 sample_blocks [1] [2] ''l1'' ''r1'' ''flow'' None sample_db))"
    by (rule pair_of_fst)
  from createChallenge_failure_keeps [OF this] show ?thesis by blast
qed

text \<open>
  C21. The life of a recipient's session: the cookie that was issued reads back its link and
  recipient until the expiry, and reads as nothing once it is destroyed, however many other
  sessions are destroyed before.
\<close>

theorem access_session_life:
  assumes "createAccessSession R cfg nw sidb csrfb l rid ip d = (Inr (sid, s), d')"
    and "later < nw + accessSessionTtlMs cfg" and "sid \<in> set toks"
  shows "fst (getAccessSession R later sid d') = Some s \<and> ac_linkId s = l \<and> ac_recipientId s = rid
    \<and> fst (getAccessSession R later sid (fold (destroyAccessSession R) toks d')) = None"
proof -
  have i: "issue_access R (cfg, sidb, csrfb, l, rid, ip) nw d = (Inr (sid, s), d')"
    using assms(1) by (simp add: issue_access_def)
  then show ?thesis
    using access.get_created [OF i, of later] access.get_destroy_all [OF assms(3)] assms(2) issue_access_Inr [OF i]
    by auto
qed

theorem access_session_life_witness:
  "fst (getAccessSession sample_runtime 50 (newSessionId [7, 7, 7]) (snd (createAccessSession sample_runtime sample_config 9
      [7, 7, 7] [8] ''l1'' (Some ''r1'') None sample_db))) \<noteq> None"
proof -
  let ?c = "createAccessSession sample_runtime sample_config 9 [7, 7, 7] [8] ''l1'' (Some ''r1'') None sample_db"
  have "case fst ?c of Inr (sid, s) \<Rightarrow> sid = newSessionId [7, 7, 7] | Inl e \<Rightarrow> False" by code_simp
  then obtain s where "?c = (Inr (newSessionId [7, 7, 7], s), snd ?c)"
    by (cases ?c) (auto split: sum.splits)
  from access_session_life [OF this, of 50 "[newSessionId [7, 7, 7]]"] show ?thesis
    by (simp add: sample_config_def)
qed

end
