(* ===== verification/Totp.thy ===== *)
theory Totp
  imports Crypto "HOL-Library.Word"
begin

unbundle bit_operations_syntax

section \<open>Time-based one-time passwords and recovery codes (src/totp.ts)\<close>

text \<open>
  The base32 codec keeps the 32-bit accumulator of the source, whose shifts wrap: \<open>value\<close> is
  a \<open>32 word\<close>. A counter is an \<open>int\<close>, because the first step of the verification window
  can be negative and \<open>writeBigUInt64BE\<close> then throws.
\<close>

subsection \<open>base32\<close>

definition ALPHABET :: string where
  "ALPHABET = ''ABCDEFGHIJKLMNOPQRSTUVWXYZ234567''"

text \<open>\<open>while (bits >= 5)\<close>: the characters emitted and the bits left\<close>

fun enc_while :: "32 word \<Rightarrow> nat \<Rightarrow> string \<times> nat" where
  "enc_while value bits =
     (if bits \<ge> 5
      then (let (out, rest) = enc_while value (bits - 5)
            in (ALPHABET ! unat (drop_bit (bits - 5) value AND 31) # out, rest))
      else ([], bits))"

declare enc_while.simps [simp del]

fun enc_bytes :: "nat list \<Rightarrow> nat \<Rightarrow> 32 word \<Rightarrow> string" where
  "enc_bytes [] bits value =
     (if bits > 0 then [ALPHABET ! unat (push_bit (5 - bits) value AND 31)] else [])"
| "enc_bytes (byte # buf) bits value =
     (let value' = push_bit 8 value OR of_nat byte;
          (out, bits') = enc_while value' (bits + 8)
      in out @ enc_bytes buf bits' value')"

definition base32Encode :: "nat list \<Rightarrow> string" where
  "base32Encode buf = enc_bytes buf 0 0"

fun index_of :: "char \<Rightarrow> string \<Rightarrow> nat option" where
  "index_of c [] = None"
| "index_of c (d # ds) = (if c = d then Some 0 else map_option Suc (index_of c ds))"

fun dec_chars :: "string \<Rightarrow> nat \<Rightarrow> 32 word \<Rightarrow> exn + nat list" where
  "dec_chars [] bits value = Inr []"
| "dec_chars (ch # chs) bits value =
     (case index_of ch ALPHABET of
        None \<Rightarrow> Inl (JsError ''invalid base32'')
      | Some idx \<Rightarrow>
          (let value' = push_bit 5 value OR of_nat idx; bits' = bits + 5
           in if bits' \<ge> 8
              then bind_res (dec_chars chs (bits' - 8) value')
                     (\<lambda>out. Inr (unat (drop_bit (bits' - 8) value' AND 255) # out))
              else dec_chars chs bits' value'))"

definition base32Decode :: "string \<Rightarrow> exn + nat list" where
  "base32Decode str =
     dec_chars (strip_class (\<lambda>c. c = CHR ''='' \<or> is_ws c \<or> c = CHR ''-'') (toUpperCase str)) 0 0"

subsection \<open>HOTP and TOTP\<close>

record TotpOptions =
  to_digits :: nat
  to_stepSeconds :: nat
  to_algorithm :: string

definition DEFAULTS :: TotpOptions where
  "DEFAULTS = \<lparr>to_digits = 6, to_stepSeconds = 30, to_algorithm = ''sha1''\<rparr>"

definition generateTotpSecret :: "nat list \<Rightarrow> string" where
  "generateTotpSecret bytes20 = base32Encode bytes20"

text \<open>\<open>writeBigUInt64BE\<close>\<close>

definition uint64be :: "int \<Rightarrow> exn + nat list" where
  "uint64be n =
     (if n < 0 \<or> n \<ge> 2 ^ 64 then Inl (JsError ''ERR_OUT_OF_RANGE'')
      else Inr (map (\<lambda>i. (nat n div 256 ^ (7 - i)) mod 256) [0..<8]))"

text \<open>A byte of a buffer as an operand of a bit operation: \<open>undefined\<close> counts as 0.\<close>

definition byte_at :: "nat list \<Rightarrow> nat \<Rightarrow> 32 word" where
  "byte_at buf i = (if i < length buf then of_nat (buf ! i) else 0)"

definition padStart0 :: "nat \<Rightarrow> string \<Rightarrow> string" where
  "padStart0 n s = replicate (n - length s) CHR ''0'' @ s"

definition hotp_truncate :: "nat list \<Rightarrow> 32 word" where
  "hotp_truncate mac =
     (let offset = unat ((if mac = [] then 0 else byte_at mac (length mac - 1)) AND 15)
      in push_bit 24 (byte_at mac offset AND 127) OR push_bit 16 (byte_at mac (offset + 1))
         OR push_bit 8 (byte_at mac (offset + 2)) OR byte_at mac (offset + 3))"

definition hotp :: "runtime \<Rightarrow> string \<Rightarrow> int \<Rightarrow> TotpOptions \<Rightarrow> exn + string" where
  "hotp R secretBase32 counter opts =
     bind_res (uint64be counter) (\<lambda>msg.
     bind_res (base32Decode secretBase32) (\<lambda>key.
       let mac = rt_hmac R (to_algorithm opts) key msg;
           code = unat (hotp_truncate mac)
       in Inr (padStart0 (to_digits opts) (nat_digits (code mod 10 ^ to_digits opts)))))"

definition totpStep :: "ms \<Rightarrow> nat \<Rightarrow> int" where
  "totpStep nowMs stepSeconds = int (nowMs div 1000 div stepSeconds)"

definition totp :: "runtime \<Rightarrow> string \<Rightarrow> ms \<Rightarrow> TotpOptions \<Rightarrow> exn + string" where
  "totp R secretBase32 nowMs opts =
     hotp R secretBase32 (totpStep nowMs (to_stepSeconds opts)) opts"

text \<open>The loop of \<open>verifyTotp\<close>: every candidate is checked, the last match above \<open>minStep\<close> wins.\<close>

fun verify_steps :: "runtime \<Rightarrow> string \<Rightarrow> TotpOptions \<Rightarrow> string \<Rightarrow> int option \<Rightarrow> int list \<Rightarrow> int option \<Rightarrow> exn + int option" where
  "verify_steps R secret opts given minStep [] matched = Inr matched"
| "verify_steps R secret opts given minStep (step # steps) matched =
     bind_res (hotp R secret step opts) (\<lambda>expected.
       verify_steps R secret opts given minStep steps
         (if length expected = length given \<and> expected = given
             \<and> (case minStep of None \<Rightarrow> True | Some m \<Rightarrow> step > m)
          then Some step else matched))"

definition verifyTotp ::
    "runtime \<Rightarrow> string \<Rightarrow> string \<Rightarrow> TotpOptions \<Rightarrow> nat \<Rightarrow> ms \<Rightarrow> int option \<Rightarrow> exn + int option" where
  "verifyTotp R secretBase32 code opts window nowMs minStep =
     (let clean = strip_class is_ws code
      in if \<not> matches (Times (to_digits opts) (Cls is_digit)) clean then Inr None
         else (let current = totpStep nowMs (to_stepSeconds opts)
               in verify_steps R secretBase32 opts clean minStep
                    [current - int window .. current + int window] None))"

subsection \<open>Recovery codes\<close>

definition recovery_code :: "nat list \<Rightarrow> string" where
  "recovery_code bytes7 =
     (let raw = toLowerCase (slice0 10 (base32Encode bytes7))
      in take 5 raw @ ''-'' @ drop 5 raw)"

text \<open>One draw of seven random bytes per code.\<close>

definition generateRecoveryCodes :: "nat list list \<Rightarrow> string list" where
  "generateRecoveryCodes draws = map recovery_code draws"

definition normalizeRecoveryCode :: "string \<Rightarrow> string" where
  "normalizeRecoveryCode code =
     filter (\<lambda>c. is_lower c \<or> between 50 55 c) (toLowerCase code)"

subsection \<open>Lemmas: base32 is a codec of byte strings\<close>

text \<open>the low bits of an accumulator\<close>
definition low :: "nat \<Rightarrow> 32 word \<Rightarrow> nat" where "low b v = unat v mod 2 ^ b"

lemma low_take: "low b v = take_bit b (unat v)"
  by (simp add: low_def take_bit_eq_mod)

lemma low_lt [simp]: "low b v < 2 ^ b" by (simp add: low_def)

lemma or_disjoint_nat: "y < 2 ^ n \<Longrightarrow> push_bit n x OR y = x * 2 ^ n + (y :: nat)"
proof -
  assume "y < 2 ^ n"
  then have y: "y = take_bit n y" by (simp add: take_bit_nat_eq_self)
  have "push_bit n x AND take_bit n y = 0" by (rule bit_eqI) (auto simp: bit_simps)
  then have "push_bit n x AND y = 0" using y by simp
  then show ?thesis by (simp add: disjunctive_add_eq_or push_bit_eq_mult)
qed

lemma low_push:
  assumes "b + k \<le> 32" "x < 2 ^ k" "k \<le> 32"
  shows "low (b + k) (push_bit k v OR of_nat x) = low b v * 2 ^ k + x"
proof -
  have x: "x < 2 ^ 32" using assms(2,3) by (meson less_le_trans one_le_numeral power_increasing)
  have u: "unat (push_bit k v OR of_nat x) = take_bit 32 (push_bit k (unat v)) OR x"
    using x by (simp add: unsigned_or_eq unsigned_push_bit_eq take_bit_nat_eq_self unsigned_of_nat)
  have "take_bit (b + k) (take_bit 32 (push_bit k (unat v)) OR x) = push_bit k (take_bit b (unat v)) OR take_bit (b + k) x"
    using assms(1) by (auto simp: take_bit_push_bit min_def)
  moreover have "take_bit (b + k) x = x"
    using assms(2) by (intro take_bit_nat_eq_self) (meson le_add2 less_le_trans one_le_numeral power_increasing)
  ultimately show ?thesis
    using assms(2) by (simp add: low_take u or_disjoint_nat)
qed

lemma low_drop:
  assumes "k + m \<le> b" "b \<le> 32"
  shows "unat (drop_bit k v AND mask m) = low b v div 2 ^ k mod 2 ^ m"
proof -
  have "unat (drop_bit k v AND mask m) = take_bit m (drop_bit k (unat v))"
    using unsigned_less [of v, where 'a = nat]
    by (simp flip: take_bit_eq_mask add: unsigned_take_bit_eq unsigned_drop_bit_eq take_bit_nat_eq_self)
  also have "\<dots> = take_bit m (drop_bit k (take_bit b (unat v)))"
    using assms by (auto simp: drop_bit_take_bit min_def)
  finally show ?thesis by (simp add: low_take take_bit_eq_mod drop_bit_eq_div)
qed

lemma low_low: "k \<le> b \<Longrightarrow> low k v = low b v mod 2 ^ k"
  by (simp add: low_take flip: take_bit_eq_mod)

lemma mask_5: "(31 :: 32 word) = mask 5" and mask_8: "(255 :: 32 word) = mask 8"
  by (simp_all add: mask_eq_exp_minus_1)


fun encN :: "nat list \<Rightarrow> nat \<Rightarrow> nat \<Rightarrow> nat list" where
  "encN [] b w = (if b > 0 then [w * 2 ^ (5 - b)] else [])"
| "encN (x # bs) b w =
     (let w' = w * 256 + x
      in if b \<ge> 2 then [w' div 2 ^ (b + 3), w' div 2 ^ (b - 2) mod 32] @ encN bs (b - 2) (w' mod 2 ^ (b - 2))
         else [w' div 2 ^ (b + 3)] @ encN bs (b + 3) (w' mod 2 ^ (b + 3)))"

fun decN :: "nat list \<Rightarrow> nat \<Rightarrow> nat \<Rightarrow> nat list" where
  "decN [] b w = []"
| "decN (i # is) b w =
     (let w' = w * 32 + i
      in if b \<ge> 3 then (w' div 2 ^ (b - 3)) mod 256 # decN is (b - 3) (w' mod 2 ^ (b - 3))
         else decN is (b + 5) w')"

lemma push_div: "r < k \<Longrightarrow> (q * k + r) div k = (q :: nat)" and push_mod: "r < k \<Longrightarrow> (q * k + r) mod k = (r :: nat)"
  by simp_all

lemma acc_div: "0 < k \<Longrightarrow> (w * (m * k) + x) div k = w * m + x div (k :: nat)"
  by (simp flip: mult.assoc)

lemma acc_mod: "(w * (m * k) + x) mod k = x mod (k :: nat)"
  by (simp flip: mult.assoc)

lemma enc_div:
  "(w * 256 + x) div 16 = w * 16 + x div (16 :: nat)" "(w * 256 + x) div 32 = w * 8 + x div (32 :: nat)"
  "(w * 256 + x) div 64 = w * 4 + x div (64 :: nat)" "(w * 256 + x) div 128 = w * 2 + x div (128 :: nat)"
  "(w * 256 + x) div 2 = w * 128 + x div (2 :: nat)" "(w * 256 + x) div 4 = w * 64 + x div (4 :: nat)"
  by (simp_all add: acc_div [where m = 16 and k = 16, simplified] acc_div [where m = 8 and k = 32, simplified]
      acc_div [where m = 4 and k = 64, simplified] acc_div [where m = 2 and k = 128, simplified]
      acc_div [where m = 128 and k = 2, simplified] acc_div [where m = 64 and k = 4, simplified])

lemma enc_mod:
  "(w * 256 + x) mod 16 = x mod (16 :: nat)" "(w * 256 + x) mod 32 = x mod (32 :: nat)"
  "(w * 256 + x) mod 2 = x mod (2 :: nat)" "(w * 256 + x) mod 4 = x mod (4 :: nat)"
  "(w * 128 + x) mod 32 = x mod (32 :: nat)" "(w * 64 + x) mod 32 = x mod (32 :: nat)"
  using acc_mod [where m = 16 and k = 16] acc_mod [where m = 8 and k = 32] acc_mod [where m = 128 and k = 2]
    acc_mod [where m = 64 and k = 4] acc_mod [where m = 4 and k = 32] acc_mod [where m = 2 and k = 32]
  by simp_all

lemma dec_arith:
  assumes "x < 256"
  shows "(wd * 32 + (w * 16 + x div 16)) div 16 = wd * 2 + (w :: nat)" "(wd * 32 + (w * 16 + x div 16)) mod 16 = x div 16"
    and "(wd * 32 + (w * 8 + x div 32)) div 8 = wd * 4 + w" "(wd * 32 + (w * 8 + x div 32)) mod 8 = x div 32"
    and "(wd * 32 + (w * 4 + x div 64)) div 4 = wd * 8 + w" "(wd * 32 + (w * 4 + x div 64)) mod 4 = x div 64"
    and "(wd * 32 + (w * 2 + x div 128)) div 2 = wd * 16 + w" "(wd * 32 + (w * 2 + x div 128)) mod 2 = x div 128"
    and "x div 64 * 32 + x div 2 mod 32 = x div 2"
    and "x div 128 * 32 + x div 4 mod 32 = x div 4"
    and "x div 32 * 32 + x mod 32 = x"
proof -
  have lt: "x div 16 < 16" "x div 32 < 8" "x div 64 < 4" "x div 128 < 2" using assms by simp_all
  show "(wd * 32 + (w * 16 + x div 16)) div 16 = wd * 2 + w" "(wd * 32 + (w * 16 + x div 16)) mod 16 = x div 16"
    using push_div [OF lt(1), of "wd * 2 + w"] push_mod [OF lt(1), of "wd * 2 + w"] by (simp_all add: algebra_simps)
  show "(wd * 32 + (w * 8 + x div 32)) div 8 = wd * 4 + w" "(wd * 32 + (w * 8 + x div 32)) mod 8 = x div 32"
    using push_div [OF lt(2), of "wd * 4 + w"] push_mod [OF lt(2), of "wd * 4 + w"] by (simp_all add: algebra_simps)
  show "(wd * 32 + (w * 4 + x div 64)) div 4 = wd * 8 + w" "(wd * 32 + (w * 4 + x div 64)) mod 4 = x div 64"
    using push_div [OF lt(3), of "wd * 8 + w"] push_mod [OF lt(3), of "wd * 8 + w"] by (simp_all add: algebra_simps)
  show "(wd * 32 + (w * 2 + x div 128)) div 2 = wd * 16 + w" "(wd * 32 + (w * 2 + x div 128)) mod 2 = x div 128"
    using push_div [OF lt(4), of "wd * 16 + w"] push_mod [OF lt(4), of "wd * 16 + w"] by (simp_all add: algebra_simps)
  show "x div 64 * 32 + x div 2 mod 32 = x div 2" "x div 128 * 32 + x div 4 mod 32 = x div 4"
    using div_mult_mod_eq [of "x div 2" 32] div_mult_mod_eq [of "x div 4" 32] by (simp_all flip: div_mult2_eq)
  show "x div 32 * 32 + x mod 32 = x" by simp
qed

lemma decN_encN:
  "b < 5 \<Longrightarrow> w < 2 ^ b \<Longrightarrow> wd < 2 ^ bd \<Longrightarrow> (b = 0 \<and> bd = 0 \<or> b > 0 \<and> bd + b = 8) \<Longrightarrow> is_bytes bs \<Longrightarrow>
   decN (encN bs b w) bd wd = (if b = 0 then [] else [wd * 2 ^ b + w]) @ bs"
proof (induction bs arbitrary: b w bd wd)
  case Nil
  then consider "b = 0" | "b = 1" "bd = 7" | "b = 2" "bd = 6" | "b = 3" "bd = 5" | "b = 4" "bd = 4" by linarith
  then show ?case by cases (use Nil in auto)
next
  case (Cons x bs)
  have x: "x < 256" "is_bytes bs" using Cons.prems by auto
  from Cons.prems consider "b = 0" "bd = 0" | "b = 1" "bd = 7" | "b = 2" "bd = 6" | "b = 3" "bd = 5" | "b = 4" "bd = 4"
    by linarith
  then show ?case
  proof cases
    case 1
    then show ?thesis using Cons.prems x Cons.IH [of 3 "x mod 8" "x div 8" 5] by simp
  next
    case 2
    have IH: "decN (encN bs 4 (x mod 16)) 4 (x div 16) = x # bs"
      using x Cons.IH [of 4 "x mod 16" "x div 16" 4] by simp
    show ?thesis using 2 Cons.prems x IH by (simp add: enc_div enc_mod dec_arith)
  next
    case 3
    have IH: "decN (encN bs 0 0) 0 0 = bs" using x Cons.IH [of 0 0 0 0] by simp
    show ?thesis using 3 Cons.prems x IH by (simp add: enc_div enc_mod dec_arith)
  next
    case 4
    have IH: "decN (encN bs 1 (x mod 2)) 7 (x div 2) = x # bs"
      using x Cons.IH [of 1 "x mod 2" "x div 2" 7] by simp
    show ?thesis using 4 Cons.prems x IH by (simp add: enc_div enc_mod dec_arith)
  next
    case 5
    have IH: "decN (encN bs 2 (x mod 4)) 6 (x div 4) = x # bs"
      using x Cons.IH [of 2 "x mod 4" "x div 4" 6] by simp
    show ?thesis using 5 Cons.prems x IH by (simp add: enc_div enc_mod dec_arith)
  qed
qed

lemma le5_split: "b < 5 \<Longrightarrow> b = 0 \<or> b = 1 \<or> b = 2 \<or> b = 3 \<or> b = (4 :: nat)"
  by linarith

lemma enc_while_low:
  assumes "b < 5" "v = push_bit 8 v0 OR of_nat x" "x < 256" "w = low b v0 * 256 + x"
  shows "enc_while v (b + 8) =
    (if b \<ge> 2 then ([ALPHABET ! (w div 2 ^ (b + 3)), ALPHABET ! (w div 2 ^ (b - 2) mod 32)], b - 2)
     else ([ALPHABET ! (w div 2 ^ (b + 3))], b + 3))"
proof -
  have w: "low (b + 8) v = w" using low_push [of b 8 x v0] assms by simp
  have w2: "w < 2 ^ (b + 8)" using low_lt [of "b + 8" v] by (simp add: w)
  have d: "unat (drop_bit k v AND 31) = w div 2 ^ k mod 32" if "k + 5 \<le> b + 8" for k
    using low_drop [of k 5 "b + 8" v] that assms(1) by (simp add: w mask_5)
  have first: "w div 2 ^ (b + 3) mod 32 = w div 2 ^ (b + 3)"
  proof (rule mod_less [OF less_mult_imp_div_less])
    have "(2 :: nat) ^ (b + 8) = 32 * 2 ^ (b + 3)" by (simp add: power_add)
    with w2 show "w < 32 * 2 ^ (b + 3)" by simp
  qed
  show ?thesis
    using le5_split [OF assms(1)] d [of "b + 3"] d [of "b - 2"] first
    by (elim disjE) (simp_all add: enc_while.simps Let_def)
qed

lemma enc_bytes_encN:
  "b < 5 \<Longrightarrow> is_bytes bs \<Longrightarrow> enc_bytes bs b v = map ((!) ALPHABET) (encN bs b (low b v))"
proof (induction bs arbitrary: b v)
  case Nil
  have "unat (push_bit (5 - b) v AND 31) = low b v * 2 ^ (5 - b)" if "b > 0"
  proof -
    have "unat (push_bit (5 - b) v AND 31) = low 5 (push_bit (5 - b) v)"
      by (simp add: mask_5 low_take unsigned_take_bit_eq flip: take_bit_eq_mask)
    also have "\<dots> = low b v * 2 ^ (5 - b)"
      using low_push [of b "5 - b" 0 v] Nil by simp
    finally show ?thesis .
  qed
  then show ?case by simp
next
  case (Cons x bs)
  let ?v = "push_bit 8 v OR of_nat x :: 32 word" and ?w = "low b v * 256 + x"
  have x: "x < 256" "is_bytes bs" using Cons.prems by auto
  have low: "low k ?v = ?w mod 2 ^ k" if "k \<le> b + 8" for k
    using low_low [OF that, of ?v] low_push [of b 8 x v] Cons.prems by simp
  show ?case
    using enc_while_low [OF Cons.prems(1) refl x(1) refl] x Cons.IH [of "b - 2" ?v] Cons.IH [of "b + 3" ?v]
      low [of "b - 2"] low [of "b + 3"] Cons.prems(1)
    by (simp add: Let_def)
qed

lemma alphabet_props:
  "\<forall>i \<in> set [0..<32]. index_of (ALPHABET ! i) ALPHABET = Some i \<and> upperc (ALPHABET ! i) = [ALPHABET ! i]
     \<and> ALPHABET ! i \<noteq> CHR ''='' \<and> ALPHABET ! i \<noteq> CHR ''-'' \<and> \<not> is_ws (ALPHABET ! i)"
  by (simp add: upt_rec ALPHABET_def upperc_def is_ws_def is_lower_def between_def)

lemma encN_lt: "b < 5 \<Longrightarrow> w < 2 ^ b \<Longrightarrow> is_bytes bs \<Longrightarrow> \<forall>i \<in> set (encN bs b w). i < 32"
proof (induction bs arbitrary: b w)
  case Nil
  then consider "b = 0" | "b = 1" | "b = 2" | "b = 3" | "b = 4" by linarith
  then show ?case by cases (use Nil in auto)
next
  case (Cons x bs)
  have "w * 256 + x < 2 ^ (b + 8)"
  proof -
    have "w + 1 \<le> 2 ^ b" using Cons.prems(2) by simp
    then have "(w + 1) * 256 \<le> 2 ^ b * 256" by (rule mult_right_mono) simp
    then show ?thesis using Cons.prems(3) by (simp add: power_add)
  qed
  then have "(w * 256 + x) div 2 ^ (b + 3) < 32"
    by (intro less_mult_imp_div_less) (simp flip: power_add add: add.commute power_add)
  then show ?case using Cons.prems Cons.IH [of "b - 2" "(w * 256 + x) mod 2 ^ (b - 2)"]
      Cons.IH [of "b + 3" "(w * 256 + x) mod 2 ^ (b + 3)"] by (auto simp: Let_def)
qed

lemma dec_chars_decN:
  "b < 8 \<Longrightarrow> \<forall>i \<in> set is. i < 32 \<Longrightarrow> dec_chars (map ((!) ALPHABET) is) b v = Inr (decN is b (low b v))"
proof (induction "is" arbitrary: b v)
  case (Cons i "is")
  let ?v = "push_bit 5 v OR of_nat i :: 32 word" and ?w = "low b v * 32 + i"
  have i: "i < 32" "index_of (ALPHABET ! i) ALPHABET = Some i" using Cons.prems alphabet_props by auto
  have low5: "low (b + 5) ?v = ?w" using low_push [of b 5 i v] Cons.prems i by simp
  show ?case
  proof (cases "b \<ge> 3")
    case True
    have "unat (drop_bit (b - 3) ?v AND 255) = ?w div 2 ^ (b - 3) mod 256"
      using low_drop [of "b - 3" 8 "b + 5" ?v] True Cons.prems(1) by (simp add: low5 mask_8)
    moreover have "low (b - 3) ?v = ?w mod 2 ^ (b - 3)"
      using low_low [of "b - 3" "b + 5" ?v] by (simp add: low5)
    ultimately show ?thesis using True i Cons.IH [of "b - 3" ?v] Cons.prems by (simp add: Let_def)
  next
    case False
    then show ?thesis using i low5 Cons.IH [of "b + 5" ?v] Cons.prems by (simp add: Let_def)
  qed
qed simp

lemma upper_strip_alphabet: "\<forall>i \<in> set is. i < 32 \<Longrightarrow>
    strip_class (\<lambda>c. c = CHR ''='' \<or> is_ws c \<or> c = CHR ''-'') (toUpperCase (map ((!) ALPHABET) is)) = map ((!) ALPHABET) is"
  using alphabet_props by (induction "is") (auto simp: toUpperCase_def strip_class_def)

lemma base32_decode_encode: "is_bytes bs \<Longrightarrow> base32Decode (base32Encode bs) = Inr bs"
proof -
  assume bs: "is_bytes bs"
  let ?is = "encN bs 0 0"
  have e: "base32Encode bs = map ((!) ALPHABET) ?is"
    using enc_bytes_encN [of 0 bs 0] bs by (simp add: base32Encode_def low_def)
  have lt: "\<forall>i \<in> set ?is. i < 32" using encN_lt [of 0 0 bs] bs by simp
  show ?thesis
    unfolding base32Decode_def e upper_strip_alphabet [OF lt]
    using dec_chars_decN [of 0 ?is 0] lt decN_encN [of 0 0 0 0 bs] bs by (simp add: low_def)
qed

interpretation b32: codec is_bytes base32Encode "\<lambda>s. case base32Decode s of Inl e \<Rightarrow> None | Inr bs \<Rightarrow> Some bs"
  by unfold_locales (simp add: base32_decode_encode)

subsection \<open>Properties\<close>

text \<open>
  C26. base32: decoding a secret gives back the bytes it encodes. The encoder and the decoder
  keep a 32-bit accumulator whose upper bits overflow; only the low bits they still need count.
\<close>

theorem base32_roundtrip:
  assumes "is_bytes bs"
  shows "base32Decode (base32Encode bs) = Inr bs"
  using b32.dec_enc [OF assms] by (auto split: sum.splits)

theorem base32_roundtrip_witness: "base32Decode (base32Encode [0, 255, 17, 200, 3, 99]) = Inr [0, 255, 17, 200, 3, 99]"
  using base32_roundtrip [of "[0, 255, 17, 200, 3, 99]"] by simp

end
