(* ===== verification/Auth.thy ===== *)
theory Auth
  imports Totp Config
begin

section \<open>Panel accounts, sessions and the TOTP second factor (src/services/auth.ts)\<close>

text \<open>
  An account is a row of \<open>admins\<close>; \<open>Admin\<close> is what the rest of the program sees of it. A
  session is stored under the hash of its cookie. Every function takes the moment \<open>nw\<close> it
  runs at; the source's optional \<open>nowMs\<close> is the same moment.
\<close>

record Admin =
  ad_id :: string
  ad_username :: string
  ad_created_at :: ms
  ad_totp_enabled :: bool
  ad_role :: role
  ad_must_change_password :: bool
  ad_passkeys :: nat

record Session =
  se_admin :: Admin
  se_csrfToken :: string
  se_expiresAt :: ms
  se_totpVerified :: bool
  se_totpAttempts :: nat
  se_publicId :: string
  se_secondFactor :: "factor option"
  se_confirmedUntil :: "ms option"

definition hasSecondFactor :: "Admin \<Rightarrow> bool" where
  "hasSecondFactor admin = (ad_totp_enabled admin \<or> ad_passkeys admin > 0)"

definition USERNAME_RE :: rexp where
  "USERNAME_RE = Between 2 64 (Cls (\<lambda>c. is_alnum c \<or> c \<in> set ''._@-''))"

definition MIN_PASSWORD_LENGTH :: nat where "MIN_PASSWORD_LENGTH = 12"
definition MAX_TOTP_ATTEMPTS :: nat where "MAX_TOTP_ATTEMPTS = 5"
definition TOTP_ACCOUNT_LOCK_THRESHOLD :: nat where "TOTP_ACCOUNT_LOCK_THRESHOLD = 10"
definition TOTP_ACCOUNT_LOCK_MS :: ms where "TOTP_ACCOUNT_LOCK_MS = 900000"

definition passkey_count :: "db \<Rightarrow> string \<Rightarrow> nat" where
  "passkey_count d i = n_where (\<lambda>p. pk_admin_id p = i) (passkeys d)"

definition toAdmin :: "db \<Rightarrow> AdminRow \<Rightarrow> Admin" where
  "toAdmin d r = \<lparr>ad_id = a_id r, ad_username = a_username r, ad_created_at = a_created_at r,
     ad_totp_enabled = (a_totp_enabled_at r \<noteq> None), ad_role = a_role r,
     ad_must_change_password = a_must_change_password r, ad_passkeys = passkey_count d (a_id r)\<rparr>"

definition admin_by_id :: "db \<Rightarrow> string \<Rightarrow> AdminRow option" where
  "admin_by_id d i = List.find (\<lambda>a. a_id a = i) (admins d)"

definition admin_by_name :: "db \<Rightarrow> string \<Rightarrow> AdminRow option" where
  "admin_by_name d u = List.find (\<lambda>a. a_username a = u) (admins d)"

definition set_admin :: "(AdminRow \<Rightarrow> bool) \<Rightarrow> (AdminRow \<Rightarrow> AdminRow) \<Rightarrow> db \<Rightarrow> db" where
  "set_admin p f d = d\<lparr>admins := upd_where p f (admins d)\<rparr>"

definition set_session :: "(SessionRow \<Rightarrow> bool) \<Rightarrow> (SessionRow \<Rightarrow> SessionRow) \<Rightarrow> db \<Rightarrow> db" where
  "set_session p f d = d\<lparr>sessions := upd_where p f (sessions d)\<rparr>"

definition isValidUsername :: "string \<Rightarrow> bool" where
  "isValidUsername username = matches USERNAME_RE username"

definition createAdmin ::
    "runtime \<Rightarrow> ms \<Rightarrow> nat list \<Rightarrow> nat list \<Rightarrow> string \<Rightarrow> string \<Rightarrow> role \<Rightarrow> bool \<Rightarrow> Admin exec" where
  "createAdmin R nw idb salt username password role mustChange d =
     (if \<not> matches USERNAME_RE username
      then (Inl (JsError ''Username must be 2-64 chars: letters, digits, . _ @ -''), d)
      else if length password < MIN_PASSWORD_LENGTH
      then (Inl (JsError ''Password must be at least 12 characters''), d)
      else (let row = \<lparr>a_id = newId ''a'' idb, a_username = username,
                  a_password_hash = hashPassword R salt password, a_created_at = nw, a_role = role,
                  a_disabled_at = None, a_must_change_password = mustChange, a_last_login_at = None,
                  a_totp_secret = None, a_totp_enabled_at = None, a_totp_last_step = None,
                  a_totp_failed_count = 0, a_totp_locked_until = None\<rparr>;
                admin = \<lparr>ad_id = a_id row, ad_username = username, ad_created_at = nw,
                  ad_totp_enabled = False, ad_role = role, ad_must_change_password = mustChange, ad_passkeys = 0\<rparr>
            in case ins_admin row d of Inl e \<Rightarrow> (Inl e, d) | Inr d' \<Rightarrow> (Inr admin, d')))"

definition countAdmins :: "db \<Rightarrow> nat" where
  "countAdmins d = length (admins d)"

definition getAdmin :: "db \<Rightarrow> string \<Rightarrow> Admin option" where
  "getAdmin d i = map_option (toAdmin d) (admin_by_id d i)"

definition findAdminByUsername :: "db \<Rightarrow> string \<Rightarrow> Admin option" where
  "findAdminByUsername d u = map_option (toAdmin d) (admin_by_name d u)"

definition setAdminPassword :: "runtime \<Rightarrow> nat list \<Rightarrow> string \<Rightarrow> string \<Rightarrow> bool exec" where
  "setAdminPassword R salt username password d =
     (if length password < MIN_PASSWORD_LENGTH
      then (Inl (JsError ''Password must be at least 12 characters''), d)
      else (Inr (n_where (\<lambda>a. a_username a = username) (admins d) > 0),
            delete_sessions (\<lambda>s. \<exists>a \<in> set (admins d). a_username a = username \<and> a_id a = s_admin_id s)
              (set_admin (\<lambda>a. a_username a = username)
                 (\<lambda>a. a\<lparr>a_password_hash := hashPassword R salt password, a_must_change_password := False\<rparr>) d)))"

definition changeAdminPassword :: "runtime \<Rightarrow> nat list \<Rightarrow> string \<Rightarrow> string \<Rightarrow> string \<Rightarrow> bool exec" where
  "changeAdminPassword R salt adminId currentPassword newPassword d =
     (if length newPassword < MIN_PASSWORD_LENGTH
      then (Inl (JsError ''Password must be at least 12 characters''), d)
      else (case admin_by_id d adminId of
              None \<Rightarrow> (Inr False, d)
            | Some admin \<Rightarrow>
                (if \<not> verifyPassword R currentPassword (a_password_hash admin) then (Inr False, d)
                 else if newPassword = currentPassword
                 then (Inl (JsError ''The new password must differ from the current one''), d)
                 else (Inr True,
                       set_admin (\<lambda>a. a_id a = a_id admin)
                         (\<lambda>a. a\<lparr>a_password_hash := hashPassword R salt newPassword,
                                a_must_change_password := False\<rparr>) d))))"

definition DUMMY_HASH :: "runtime \<Rightarrow> nat list \<Rightarrow> string" where
  "DUMMY_HASH R salt = hashPassword R salt ''dummy-password-for-timing''"

definition authenticate :: "runtime \<Rightarrow> nat list \<Rightarrow> db \<Rightarrow> string \<Rightarrow> string \<Rightarrow> Admin option" where
  "authenticate R dummySalt d username password =
     (let row = admin_by_name d username;
          ok = verifyPassword R password (case row of Some r \<Rightarrow> a_password_hash r | None \<Rightarrow> DUMMY_HASH R dummySalt)
      in case row of
           None \<Rightarrow> None
         | Some r \<Rightarrow> (if \<not> ok \<or> a_disabled_at r \<noteq> None then None else Some (toAdmin d r)))"

definition recordLogin :: "ms \<Rightarrow> string \<Rightarrow> db \<Rightarrow> db" where
  "recordLogin nw adminId = set_admin (\<lambda>a. a_id a = adminId) (\<lambda>a. a\<lparr>a_last_login_at := Some nw\<rparr>)"

end
