(* ===== verification/PanelSessions.thy ===== *)
theory PanelSessions
  imports Auth
begin

section \<open>Sessions of the panel (the session part of src/services/auth.ts)\<close>

text \<open>
  \<open>session_rnd\<close> carries the random bytes a new session draws: its cookie value, its CSRF
  token and its public id.
\<close>

record session_rnd =
  sr_sid :: "nat list"
  sr_csrf :: "nat list"
  sr_public :: "nat list"

definition createSession ::
    "runtime \<Rightarrow> ms \<Rightarrow> session_rnd \<Rightarrow> Admin \<Rightarrow> ms \<Rightarrow> string option \<Rightarrow> string option \<Rightarrow> (string \<times> string) exec" where
  "createSession R nw rnd admin ttlMs ip userAgent d =
     (let sessionId = newSessionId (sr_sid rnd); csrfToken = newCsrfToken (sr_csrf rnd);
          row = \<lparr>s_id_hash = rt_sha256 R sessionId, s_admin_id = ad_id admin, s_csrf_token = csrfToken,
                 s_created_at = nw, s_last_seen_at = nw, s_expires_at = nw + ttlMs,
                 s_totp_verified = (\<not> hasSecondFactor admin), s_totp_attempts = 0,
                 s_public_id = newId ''s'' (sr_public rnd), s_ip = map_option (slice0 64) ip,
                 s_user_agent = map_option (slice0 300) userAgent, s_second_factor = None,
                 s_confirmed_until = None, s_webauthn_challenge = None, s_webauthn_purpose = None,
                 s_webauthn_expires_at = None, s_dbsc_challenge = None, s_dbsc_offered_at = None\<rparr>
      in case ins_session row d of Inl e \<Rightarrow> (Inl e, d) | Inr d' \<Rightarrow> (Inr (sessionId, csrfToken), d'))"

definition markConfirmed :: "runtime \<Rightarrow> ms \<Rightarrow> string \<Rightarrow> ms \<Rightarrow> db \<Rightarrow> ms \<times> db" where
  "markConfirmed R nw sessionId window d =
     (nw + window,
      set_session (\<lambda>s. s_id_hash s = rt_sha256 R sessionId) (\<lambda>s. s\<lparr>s_confirmed_until := Some (nw + window)\<rparr>) d)"

definition find_session :: "db \<Rightarrow> string \<Rightarrow> SessionRow option" where
  "find_session d idHash = List.find (\<lambda>s. s_id_hash s = idHash) (sessions d)"

definition completeSecondFactor ::
    "runtime \<Rightarrow> ms \<Rightarrow> session_rnd \<Rightarrow> string \<Rightarrow> Admin \<Rightarrow> ms \<Rightarrow> factor \<Rightarrow> (string \<times> string) exec" where
  "completeSecondFactor R nw rnd pendingIdHash admin ttlMs fct d =
     (let old = find_session d pendingIdHash;
          d1 = set_admin (\<lambda>a. a_id a = ad_id admin)
                 (\<lambda>a. a\<lparr>a_totp_failed_count := 0, a_totp_locked_until := None\<rparr>) d;
          d2 = delete_sessions (\<lambda>s. s_id_hash s = pendingIdHash) d1
      in case createSession R nw rnd admin ttlMs
                (case old of None \<Rightarrow> None | Some o' \<Rightarrow> s_ip o')
                (case old of None \<Rightarrow> None | Some o' \<Rightarrow> s_user_agent o') d2 of
           (Inl e, d3) \<Rightarrow> (Inl e, d3)
         | (Inr fresh, d3) \<Rightarrow>
             (Inr fresh, set_session (\<lambda>s. s_id_hash s = rt_sha256 R (fst fresh))
                (\<lambda>s. s\<lparr>s_totp_verified := True, s_second_factor := Some fct\<rparr>) d3))"

text \<open>The query joins the account; a session whose account is gone has no row.\<close>

definition getSession :: "runtime \<Rightarrow> ms \<Rightarrow> string \<Rightarrow> db \<Rightarrow> Session option \<times> db" where
  "getSession R nw sessionId d =
     (if sessionId = [] \<or> length sessionId > 128 then (None, d)
      else (let idHash = rt_sha256 R sessionId
            in case find_session d idHash of
                 None \<Rightarrow> (None, d)
               | Some s \<Rightarrow>
                   (case admin_by_id d (s_admin_id s) of
                      None \<Rightarrow> (None, d)
                    | Some a \<Rightarrow>
                        (if s_expires_at s \<le> nw \<or> a_disabled_at a \<noteq> None
                         then (None, delete_sessions (\<lambda>x. s_id_hash x = idHash) d)
                         else (let d1 = set_session (\<lambda>x. s_id_hash x = idHash) (\<lambda>x. x\<lparr>s_last_seen_at := nw\<rparr>) d;
                                   admin = toAdmin d a
                               in (Some \<lparr>se_admin = admin, se_csrfToken = s_csrf_token s,
                                         se_expiresAt = s_expires_at s,
                                         se_totpVerified = (\<not> hasSecondFactor admin \<or> s_totp_verified s),
                                         se_totpAttempts = s_totp_attempts s, se_publicId = s_public_id s,
                                         se_secondFactor = s_second_factor s,
                                         se_confirmedUntil = s_confirmed_until s\<rparr>, d1))))))"

definition destroySession :: "runtime \<Rightarrow> string \<Rightarrow> db \<Rightarrow> db" where
  "destroySession R sessionId = delete_sessions (\<lambda>s. s_id_hash s = rt_sha256 R sessionId)"

definition destroyOtherSessions :: "runtime \<Rightarrow> string \<Rightarrow> string \<Rightarrow> db \<Rightarrow> db" where
  "destroyOtherSessions R adminId keepSessionId =
     delete_sessions (\<lambda>s. s_admin_id s = adminId \<and> s_id_hash s \<noteq> rt_sha256 R keepSessionId)"

definition purgeExpiredSessions :: "ms \<Rightarrow> db \<Rightarrow> nat \<times> db" where
  "purgeExpiredSessions nw d =
     (n_where (\<lambda>s. s_expires_at s \<le> nw) (sessions d), delete_sessions (\<lambda>s. s_expires_at s \<le> nw) d)"

text \<open>\<open>if (keepSessionId)\<close>: an absent or empty id ends every session.\<close>

definition endSessions :: "runtime \<Rightarrow> string \<Rightarrow> string option \<Rightarrow> db \<Rightarrow> db" where
  "endSessions R adminId keepSessionId =
     (case keepSessionId of
        None \<Rightarrow> delete_sessions (\<lambda>s. s_admin_id s = adminId)
      | Some k \<Rightarrow>
          (if k = [] then delete_sessions (\<lambda>s. s_admin_id s = adminId)
           else delete_sessions (\<lambda>s. s_admin_id s = adminId \<and> s_id_hash s \<noteq> rt_sha256 R k)))"

subsection \<open>Panel sessions are a store of sessions\<close>

lemma delete_sessions_sel [simp]:
  "sessions (delete_sessions p d) = del_where p (sessions d)" "admins (delete_sessions p d) = admins d"
  "passkeys (delete_sessions p d) = passkeys d"
  by (simp_all add: delete_sessions_def Let_def)

lemma session_frame [simp]:
  "toAdmin (delete_sessions p d) = toAdmin d" "toAdmin (d\<lparr>sessions := ss\<rparr>) = toAdmin d"
  "admin_by_id (delete_sessions p d) = admin_by_id d" "admin_by_id (d\<lparr>sessions := ss\<rparr>) = admin_by_id d"
  by (auto simp: fun_eq_iff toAdmin_def passkey_count_def admin_by_id_def)

lemma get_session_find:
  "fst (getSession R nw tok d) =
    (if tok = [] \<or> length tok > 128 then None
     else case find_session d (rt_sha256 R tok) of None \<Rightarrow> None
      | Some s \<Rightarrow> (case admin_by_id d (s_admin_id s) of None \<Rightarrow> None
        | Some a \<Rightarrow> if s_expires_at s \<le> nw \<or> a_disabled_at a \<noteq> None then None
           else Some \<lparr>se_admin = toAdmin d a, se_csrfToken = s_csrf_token s, se_expiresAt = s_expires_at s,
                  se_totpVerified = (\<not> hasSecondFactor (toAdmin d a) \<or> s_totp_verified s),
                  se_totpAttempts = s_totp_attempts s, se_publicId = s_public_id s,
                  se_secondFactor = s_second_factor s, se_confirmedUntil = s_confirmed_until s\<rparr>))"
  by (simp add: getSession_def Let_def split: option.splits)

interpretation panel: session_store "\<lambda>R. rt_sha256 R" getSession destroySession
  by unfold_locales
    (auto simp: get_session_find destroySession_def find_session_def find_del_where_key cong: option.case_cong if_cong)

definition issue_session ::
    "runtime \<Rightarrow> session_rnd \<times> Admin \<times> ms \<times> string option \<times> string option \<Rightarrow> ms \<Rightarrow> (string \<times> string) exec" where
  "issue_session R = (\<lambda>(rnd, admin, ttl, ip, ua) nw. createSession R nw rnd admin ttl ip ua)"

definition session_fits :: "session_rnd \<times> Admin \<times> ms \<times> string option \<times> string option \<Rightarrow> ms \<Rightarrow> ms \<Rightarrow> db \<Rightarrow> bool" where
  "session_fits = (\<lambda>(rnd, admin, ttl, ip, ua) nw later d. later < nw + ttl \<and> length (sr_sid rnd) = 32
     \<and> (case admin_by_id d (ad_id admin) of None \<Rightarrow> False | Some a \<Rightarrow> a_disabled_at a = None))"

lemma issue_session_Inr:
  assumes "issue_session R (rnd, admin, ttl, ip, ua) nw d = (Inr (tok, v), d')"
  shows "\<exists>row. tok = newSessionId (sr_sid rnd) \<and> rt_sha256 R tok \<notin> s_id_hash ` set (sessions d)
    \<and> d' = d\<lparr>sessions := sessions d @ [row]\<rparr> \<and> s_id_hash row = rt_sha256 R tok \<and> s_admin_id row = ad_id admin
    \<and> s_csrf_token row = v \<and> s_expires_at row = nw + ttl \<and> s_totp_verified row = (\<not> hasSecondFactor admin)"
  using assms by (auto simp: issue_session_def createSession_def ins_session_def Let_def split: sum.splits)

interpretation panel: issuing_store "\<lambda>R. rt_sha256 R" getSession destroySession
    issue_session se_csrfToken "\<lambda>R. session_fits"
proof (unfold_locales, goal_cases)
  case (1 R a nw d tok v d' later)
  obtain rnd admin ttl ip ua where a: "a = (rnd, admin, ttl, ip, ua)" by (cases a)
  from 1(1) [unfolded a] obtain row where row: "tok = newSessionId (sr_sid rnd)"
    "rt_sha256 R tok \<notin> s_id_hash ` set (sessions d)" "d' = d\<lparr>sessions := sessions d @ [row]\<rparr>"
    "s_id_hash row = rt_sha256 R tok" "s_admin_id row = ad_id admin" "s_csrf_token row = v" "s_expires_at row = nw + ttl"
    by (auto dest!: issue_session_Inr)
  from 1(2) a obtain adm where "admin_by_id d (ad_id admin) = Some adm" "a_disabled_at adm = None" "later < nw + ttl"
    "length (sr_sid rnd) = 32" by (auto simp: session_fits_def split: option.splits)
  moreover have "find_session d' (rt_sha256 R tok) = Some row"
    using row by (simp add: find_session_def find_key_append)
  moreover have "tok \<noteq> []" "\<not> length tok > 128" using calculation(4) row(1) newSessionId_length [of "sr_sid rnd"] by auto
  ultimately show ?case using row by (simp add: get_session_find)
next
  case (2 R a nw d tok v d' tok' later)
  obtain rnd admin ttl ip ua where a: "a = (rnd, admin, ttl, ip, ua)" by (cases a)
  from 2(1) [unfolded a] obtain row where row: "d' = d\<lparr>sessions := sessions d @ [row]\<rparr>" "s_id_hash row = rt_sha256 R tok"
    by (auto dest!: issue_session_Inr)
  then have "find_session d' (rt_sha256 R tok') = find_session d (rt_sha256 R tok')"
    using 2(2) by (simp add: find_session_def find_key_append_other)
  then show ?case using row by (simp add: get_session_find cong: option.case_cong if_cong)
qed

end
