(* ===== verification/Webauthn.thy ===== *)
theory Webauthn
  imports Crypto
begin

section \<open>WebAuthn ceremonies (src/webauthn.ts)\<close>

text \<open>
  Buffers are lists of bytes. An algorithm id is \<open>Some n\<close> when the form field is an integer.
  A client-data text that parses to \<open>null\<close> makes the property access throw, which is not a
  \<open>WebAuthnError\<close>.
\<close>

definition COSE_ALGS :: "int list" where "COSE_ALGS = [-8, -7, -257]"

definition FLAG_UP :: "nat \<Rightarrow> bool" where "FLAG_UP flags = odd flags"
definition FLAG_UV :: "nat \<Rightarrow> bool" where "FLAG_UV flags = odd (flags div 4)"
definition FLAG_AT :: "nat \<Rightarrow> bool" where "FLAG_AT flags = odd (flags div 64)"

definition fromB64url :: "string \<Rightarrow> string \<Rightarrow> exn + nat list" where
  "fromB64url s what =
     (if \<not> matches (Star (Cls is_url64)) s \<or> length s = 0 \<or> length s > 16384
      then Inl (WebAuthnError (''malformed '' @ what)) else Inr (from_base64 s))"

record Expected =
  ex_challenge :: string
  ex_origin :: string
  ex_rpId :: string

record AuthData =
  au_rpIdHash :: "nat list"
  au_flags :: nat
  au_signCount :: nat
  au_credentialId :: "nat list option"

definition uint16be_at :: "nat list \<Rightarrow> nat \<Rightarrow> nat" where
  "uint16be_at b i = b ! i * 256 + b ! (i + 1)"

definition uint32be_at :: "nat list \<Rightarrow> nat \<Rightarrow> nat" where
  "uint32be_at b i = uint16be_at b i * 65536 + uint16be_at b (i + 2)"

definition parseAuthData :: "nat list \<Rightarrow> exn + AuthData" where
  "parseAuthData data =
     (if length data < 37 then Inl (WebAuthnError ''authenticator data too short'')
      else (let flags = data ! 32;
                out = \<lparr>au_rpIdHash = take 32 data, au_flags = flags, au_signCount = uint32be_at data 33,
                       au_credentialId = None\<rparr>
            in if \<not> FLAG_AT flags then Inr out
               else if length data < 55 then Inl (WebAuthnError ''attested credential data too short'')
               else (let len = uint16be_at data 53
                     in if length data < 55 + len then Inl (WebAuthnError ''credential id truncated'')
                        else Inr (out\<lparr>au_credentialId := Some (take len (drop 55 data))\<rparr>))))"

definition json_get :: "string \<Rightarrow> json \<Rightarrow> json option" where
  "json_get k j = (case j of JObj kvs \<Rightarrow> map_of kvs k | _ \<Rightarrow> None)"

definition checkClientData :: "runtime \<Rightarrow> nat list \<Rightarrow> string \<Rightarrow> Expected \<Rightarrow> exn + unit" where
  "checkClientData R clientDataJSON ty ex =
     (case rt_json R clientDataJSON of
        None \<Rightarrow> Inl (WebAuthnError ''client data is not JSON'')
      | Some JNull \<Rightarrow> Inl (JsError ''TypeError'')
      | Some cd \<Rightarrow>
          (if json_get ''type'' cd \<noteq> Some (JStr ty) then Inl (WebAuthnError ''wrong ceremony type'')
           else (case json_get ''challenge'' cd of
                   Some (JStr c) \<Rightarrow>
                     bind_res (fromB64url c ''challenge'') (\<lambda>cb.
                     bind_res (fromB64url (ex_challenge ex) ''challenge'') (\<lambda>eb.
                       if cb \<noteq> eb then Inl (WebAuthnError ''challenge mismatch'')
                       else if json_get ''origin'' cd \<noteq> Some (JStr (ex_origin ex))
                       then Inl (WebAuthnError ''origin mismatch'')
                       else if json_get ''crossOrigin'' cd = Some (JBool True)
                       then Inl (WebAuthnError ''cross-origin ceremony'')
                       else Inr ()))
                 | _ \<Rightarrow> Inl (WebAuthnError ''challenge mismatch''))))"

definition checkAuthData :: "runtime \<Rightarrow> AuthData \<Rightarrow> Expected \<Rightarrow> exn + unit" where
  "checkAuthData R ad ex =
     (if au_rpIdHash ad \<noteq> rt_sha256_bytes R (utf8 (ex_rpId ex)) then Inl (WebAuthnError ''RP id mismatch'')
      else if \<not> FLAG_UP (au_flags ad) then Inl (WebAuthnError ''user not present'')
      else Inr ())"

definition key_fits :: "int \<Rightarrow> key_kind \<Rightarrow> bool" where
  "key_fits alg k =
     (alg = -8 \<and> k = Ed25519Key \<or> alg = -7 \<and> k = EcKey ''prime256v1''
      \<or> alg = -257 \<and> (case k of RsaKey n \<Rightarrow> n \<ge> 2048 | _ \<Rightarrow> False))"

definition importCredentialKey :: "runtime \<Rightarrow> nat list \<Rightarrow> int \<Rightarrow> exn + pubkey" where
  "importCredentialKey R spki alg =
     (case rt_spki R spki of
        None \<Rightarrow> Inl (WebAuthnError ''unreadable public key'')
      | Some key \<Rightarrow> (if key_fits alg (pub_kind key) then Inr key else Inl (WebAuthnError ''unsupported key type'')))"

record RegistrationInput =
  rg_clientDataJSON :: string
  rg_authenticatorData :: string
  rg_publicKey :: string
  rg_algorithm :: "int option"
  rg_credentialId :: string

record VerifiedRegistration =
  vr_credentialId :: string
  vr_publicKey :: string
  vr_algorithm :: int
  vr_signCount :: nat
  vr_userVerified :: bool

definition verifyRegistration :: "runtime \<Rightarrow> RegistrationInput \<Rightarrow> Expected \<Rightarrow> exn + VerifiedRegistration" where
  "verifyRegistration R inp ex =
     bind_res (fromB64url (rg_clientDataJSON inp) ''client data'') (\<lambda>cdata.
     bind_res (checkClientData R cdata ''webauthn.create'' ex) (\<lambda>_.
     bind_res (fromB64url (rg_authenticatorData inp) ''authenticator data'') (\<lambda>adata.
     bind_res (parseAuthData adata) (\<lambda>ad.
     bind_res (checkAuthData R ad ex) (\<lambda>_.
       case au_credentialId ad of
         None \<Rightarrow> Inl (WebAuthnError ''no credential in authenticator data'')
       | Some adCred \<Rightarrow>
           bind_res (fromB64url (rg_credentialId inp) ''credential id'') (\<lambda>credId.
             if credId \<noteq> adCred \<or> length credId > 1023 then Inl (WebAuthnError ''credential id mismatch'')
             else (case rg_algorithm inp of
                     None \<Rightarrow> Inl (WebAuthnError ''unsupported algorithm'')
                   | Some alg \<Rightarrow>
                       (if alg \<notin> set COSE_ALGS then Inl (WebAuthnError ''unsupported algorithm'')
                        else bind_res (fromB64url (rg_publicKey inp) ''public key'') (\<lambda>spki.
                             bind_res (importCredentialKey R spki alg) (\<lambda>_.
                               Inr \<lparr>vr_credentialId = base64url credId, vr_publicKey = base64url spki,
                                    vr_algorithm = alg, vr_signCount = au_signCount ad,
                                    vr_userVerified = FLAG_UV (au_flags ad)\<rparr>))))))))))"

record AssertionInput =
  ai_clientDataJSON :: string
  ai_authenticatorData :: string
  ai_signature :: string

record StoredCredential =
  sc_publicKey :: string
  sc_algorithm :: int
  sc_signCount :: nat

definition verifyAssertion ::
    "runtime \<Rightarrow> AssertionInput \<Rightarrow> StoredCredential \<Rightarrow> Expected \<Rightarrow> exn + (nat \<times> bool)" where
  "verifyAssertion R inp cred ex =
     bind_res (fromB64url (ai_clientDataJSON inp) ''client data'') (\<lambda>clientData.
     bind_res (fromB64url (ai_authenticatorData inp) ''authenticator data'') (\<lambda>authData.
     bind_res (fromB64url (ai_signature inp) ''signature'') (\<lambda>signature.
     bind_res (checkClientData R clientData ''webauthn.get'' ex) (\<lambda>_.
     bind_res (parseAuthData authData) (\<lambda>ad.
     bind_res (checkAuthData R ad ex) (\<lambda>_.
     bind_res (importCredentialKey R (from_base64 (sc_publicKey cred)) (sc_algorithm cred)) (\<lambda>key.
       let signed = authData @ rt_sha256_bytes R clientData;
           ok = (if sc_algorithm cred = -8 then rt_verify R None False signed key signature
                 else rt_verify R (Some ''sha256'') False signed key signature)
       in if \<not> ok then Inl (WebAuthnError ''bad signature'')
          else if (au_signCount ad \<noteq> 0 \<or> sc_signCount cred \<noteq> 0) \<and> au_signCount ad \<le> sc_signCount cred
          then Inl (WebAuthnError ''signature counter went backwards'')
          else Inr (au_signCount ad, FLAG_UV (au_flags ad)))))))))"

end
