(* ===== verification/Dbsc.thy ===== *)
theory Dbsc
  imports Webauthn
begin

section \<open>Proofs of device-bound sessions (src/dbsc.ts)\<close>

text \<open>
  A proof is a compact JWS. A public JWK is the association list of its members, in the order
  the source writes them.
\<close>

record DbscProof =
  dp_alg :: string
  dp_jwk :: "(string \<times> string) list option"
  dp_jti :: string

definition is_jwt_char :: "char \<Rightarrow> bool" where
  "is_jwt_char c = (is_url64 c \<or> c = CHR ''.'')"

definition proofFromHeader :: "string list \<Rightarrow> string option" where
  "proofFromHeader hdr =
     (case hdr of
        [] \<Rightarrow> None
      | v # _ \<Rightarrow>
          (let s = trim v; q = char_of (34 :: nat)
           in if v = [] then None
              else if matches (Seq (Chr q) (Seq (Plus (Cls is_jwt_char)) (Chr q))) s
              then (let m = butlast (tl s) in if length m \<le> 8192 then Some m else None)
              else if matches (Plus (Cls is_jwt_char)) s
              then (if length s \<le> 8192 then Some s else None)
              else None))"

definition jwt_part :: "runtime \<Rightarrow> string \<Rightarrow> exn + json" where
  "jwt_part R s =
     (case rt_json R (from_base64 s) of
        Some (JObj kvs) \<Rightarrow> Inr (JObj kvs)
      | _ \<Rightarrow> Inl (DbscError ''malformed JWT''))"

definition jstr :: "json option \<Rightarrow> string option" where
  "jstr j = (case j of Some (JStr s) \<Rightarrow> Some s | _ \<Rightarrow> None)"

definition publicJwk :: "json option \<Rightarrow> exn + (string \<times> string) list" where
  "publicJwk jwk =
     (case jwk of
        Some (JObj kvs) \<Rightarrow>
          (let k = JObj kvs;
               kty = jstr (json_get ''kty'' k); crv = jstr (json_get ''crv'' k);
               x = jstr (json_get ''x'' k); y = jstr (json_get ''y'' k);
               n = jstr (json_get ''n'' k); e = jstr (json_get ''e'' k);
               noD = (json_get ''d'' k = None)
           in if kty = Some ''EC'' \<and> crv = Some ''P-256'' \<and> x \<noteq> None \<and> y \<noteq> None \<and> noD
              then Inr [(''kty'', ''EC''), (''crv'', ''P-256''), (''x'', the x), (''y'', the y)]
              else if kty = Some ''RSA'' \<and> n \<noteq> None \<and> e \<noteq> None \<and> noD
              then Inr [(''kty'', ''RSA''), (''n'', the n), (''e'', the e)]
              else Inl (DbscError ''unsupported key''))
      | Some (JArr _) \<Rightarrow> Inl (DbscError ''unsupported key'')
      | _ \<Rightarrow> Inl (DbscError ''missing key''))"

definition keyFor :: "runtime \<Rightarrow> string \<Rightarrow> (string \<times> string) list \<Rightarrow> exn + pubkey" where
  "keyFor R alg jwk =
     (case rt_jwk R jwk of
        None \<Rightarrow> Inl (DbscError ''unreadable key'')
      | Some key \<Rightarrow>
          (if alg = ''ES256'' \<and> pub_kind key \<noteq> EcKey ''prime256v1''
           then Inl (DbscError ''key does not match ES256'')
           else if alg = ''RS256'' \<and> \<not> (case pub_kind key of RsaKey n \<Rightarrow> n \<ge> 2048 | _ \<Rightarrow> False)
           then Inl (DbscError ''key does not match RS256'')
           else Inr key))"

text \<open>\<open>knownKey\<close> is the pair of the algorithm and the key stored at registration.\<close>

definition verifyProof ::
    "runtime \<Rightarrow> string \<Rightarrow> (string \<times> (string \<times> string) list) option \<Rightarrow> exn + DbscProof" where
  "verifyProof R jwt knownKey =
     (case split_by (\<lambda>c. c = CHR ''.'') jwt of
        [h, p, sig] \<Rightarrow>
          bind_res (jwt_part R h) (\<lambda>header.
          bind_res (jwt_part R p) (\<lambda>payload.
            if jstr (json_get ''typ'' header) \<noteq> Some ''dbsc+jwt'' then Inl (DbscError ''wrong typ'')
            else (case jstr (json_get ''alg'' header) of
              None \<Rightarrow> Inl (DbscError ''unsupported alg'')
            | Some alg \<Rightarrow>
              (if alg \<noteq> ''ES256'' \<and> alg \<noteq> ''RS256'' then Inl (DbscError ''unsupported alg'')
               else
                bind_res (case knownKey of
                            Some (kalg, kjwk) \<Rightarrow>
                              (if alg \<noteq> kalg then Inl (DbscError ''alg differs from the registered key'')
                               else Inr kjwk)
                          | None \<Rightarrow> publicJwk (json_get ''jwk'' header)) (\<lambda>jwk.
                bind_res (keyFor R alg jwk) (\<lambda>key.
                  let signed = map code_of (h @ ''.'' @ p); signature = from_base64 sig;
                      ok = rt_verify R (Some ''sha256'') (alg = ''ES256'') signed key signature
                  in if \<not> ok then Inl (DbscError ''bad signature'')
                     else (case jstr (json_get ''jti'' payload) of
                             None \<Rightarrow> Inl (DbscError ''missing jti'')
                           | Some jti \<Rightarrow>
                               (if jti = [] then Inl (DbscError ''missing jti'')
                                else Inr \<lparr>dp_alg = alg, dp_jwk = (if knownKey = None then Some jwk else None),
                                          dp_jti = jti\<rparr>))))))))
      | _ \<Rightarrow> Inl (DbscError ''malformed JWT''))"

end
