(* ===== verification/DeviceSessions.thy ===== *)
theory DeviceSessions
  imports PanelSessions Dbsc
begin

section \<open>The account's session list and device-bound sessions (src/services/sessions.ts)\<close>

text \<open>
  A binding ties a session to a key of the device; the short-lived bound cookie is checked on
  every request and renewed against a fresh challenge.
\<close>

record SessionSummary =
  ss_public_id :: string
  ss_created_at :: ms
  ss_last_seen_at :: ms
  ss_expires_at :: ms
  ss_ip :: "string option"
  ss_user_agent :: "string option"
  ss_second_factor :: "factor option"
  ss_pending :: bool
  ss_bound :: bool
  ss_current :: bool

definition binding_of :: "db \<Rightarrow> string \<Rightarrow> BindingRow option" where
  "binding_of d idHash = List.find (\<lambda>b. b_session_hash b = idHash) (bindings d)"

definition listSessions :: "runtime \<Rightarrow> ms \<Rightarrow> db \<Rightarrow> string \<Rightarrow> string \<Rightarrow> SessionSummary list" where
  "listSessions R nw d adminId currentSessionId =
     map (\<lambda>s. \<lparr>ss_public_id = s_public_id s, ss_created_at = s_created_at s, ss_last_seen_at = s_last_seen_at s,
                ss_expires_at = s_expires_at s, ss_ip = s_ip s, ss_user_agent = s_user_agent s,
                ss_second_factor = s_second_factor s, ss_pending = (\<not> s_totp_verified s),
                ss_bound = (binding_of d (s_id_hash s) \<noteq> None),
                ss_current = (s_id_hash s = rt_sha256 R currentSessionId)\<rparr>)
       (sort_key (\<lambda>s. - int (s_last_seen_at s))
         (filter (\<lambda>s. s_admin_id s = adminId \<and> s_expires_at s > nw) (sessions d)))"

definition revokeSession :: "string \<Rightarrow> string \<Rightarrow> db \<Rightarrow> bool \<times> db" where
  "revokeSession adminId publicId d =
     (n_where (\<lambda>s. s_admin_id s = adminId \<and> s_public_id s = publicId) (sessions d) > 0,
      delete_sessions (\<lambda>s. s_admin_id s = adminId \<and> s_public_id s = publicId) d)"

definition BOUND_COOKIE_TTL_MS :: ms where "BOUND_COOKIE_TTL_MS = 600000"
definition DBSC_CHALLENGE_TTL_MS :: ms where "DBSC_CHALLENGE_TTL_MS = 1800000"
definition GRACE_MS :: ms where "GRACE_MS = 60000"

definition offerBinding :: "runtime \<Rightarrow> ms \<Rightarrow> nat list \<Rightarrow> string \<Rightarrow> db \<Rightarrow> string option \<times> db" where
  "offerBinding R nw rnd24 sessionId d =
     (let idHash = rt_sha256 R sessionId
      in case find_session d idHash of
           None \<Rightarrow> (None, d)
         | Some row \<Rightarrow>
             (if s_dbsc_offered_at row \<noteq> None \<or> binding_of d idHash \<noteq> None \<or> \<not> s_totp_verified row
              then (None, d)
              else (let c = base64url rnd24
                    in (Some c, set_session (\<lambda>s. s_id_hash s = idHash)
                          (\<lambda>s. s\<lparr>s_dbsc_challenge := Some c, s_dbsc_offered_at := Some nw\<rparr>) d))))"

record IssuedCookie =
  is_bindingId :: string
  is_cookie :: string
  is_maxAgeSec :: nat
  is_nextChallenge :: "string option"

definition registerBinding ::
    "runtime \<Rightarrow> ms \<Rightarrow> nat list \<Rightarrow> nat list \<Rightarrow> string \<Rightarrow> string \<Rightarrow> IssuedCookie exec" where
  "registerBinding R nw cookieb idb sessionId jwt d =
     (let idHash = rt_sha256 R sessionId
      in case verifyProof R jwt None of
           Inl e \<Rightarrow> (Inl e, d)
         | Inr proof \<Rightarrow>
             transaction (\<lambda>d.
               case find_session d idHash of
                 None \<Rightarrow> (Inl (DbscError ''no session''), d)
               | Some row \<Rightarrow>
                   (if \<not> s_totp_verified row then (Inl (DbscError ''no session''), d)
                    else if binding_of d idHash \<noteq> None then (Inl (DbscError ''session already bound''), d)
                    else (case s_dbsc_challenge row of
                            None \<Rightarrow> (Inl (DbscError ''challenge mismatch''), d)
                          | Some c \<Rightarrow>
                              (if c = [] \<or> \<not> safeEqual (dp_jti proof) c
                               then (Inl (DbscError ''challenge mismatch''), d)
                               else (let cookie = base64url cookieb; bindingId = newId ''b'' idb;
                                         b = \<lparr>b_id = bindingId, b_session_hash = idHash, b_alg = dp_alg proof,
                                              b_jwk = (case dp_jwk proof of Some k \<Rightarrow> k | None \<Rightarrow> []),
                                              b_cookie_hash = rt_sha256 R cookie,
                                              b_cookie_expires_at = nw + BOUND_COOKIE_TTL_MS,
                                              b_prev_cookie_hash = None, b_prev_cookie_expires_at = None,
                                              b_challenge = None, b_challenge_expires_at = None,
                                              b_created_at = nw, b_refreshed_at = nw\<rparr>
                                     in case ins_binding b d of
                                          Inl e \<Rightarrow> (Inl e, d)
                                        | Inr d1 \<Rightarrow>
                                            (Inr \<lparr>is_bindingId = bindingId, is_cookie = cookie,
                                                  is_maxAgeSec = BOUND_COOKIE_TTL_MS div 1000,
                                                  is_nextChallenge = None\<rparr>,
                                             set_session (\<lambda>s. s_id_hash s = idHash)
                                               (\<lambda>s. s\<lparr>s_dbsc_challenge := None\<rparr>) d1)))))) d)"

datatype RefreshResult = RefreshEnded | RefreshChallenge string string | RefreshOk IssuedCookie

definition set_binding :: "string \<Rightarrow> (BindingRow \<Rightarrow> BindingRow) \<Rightarrow> db \<Rightarrow> db" where
  "set_binding i f d = d\<lparr>bindings := upd_where (\<lambda>b. b_id b = i) f (bindings d)\<rparr>"

definition fresh_challenge :: "ms \<Rightarrow> nat list \<Rightarrow> string \<Rightarrow> RefreshResult exec" where
  "fresh_challenge nw rnd24 bindingId d =
     (let c = base64url rnd24
      in (Inr (RefreshChallenge bindingId c),
          set_binding bindingId (\<lambda>b. b\<lparr>b_challenge := Some c,
            b_challenge_expires_at := Some (nw + DBSC_CHALLENGE_TTL_MS)\<rparr>) d))"

definition session_alive :: "ms \<Rightarrow> db \<Rightarrow> string \<Rightarrow> bool" where
  "session_alive nw d idHash =
     (case find_session d idHash of
        None \<Rightarrow> False
      | Some s \<Rightarrow>
          (case List.find (\<lambda>a. a_id a = s_admin_id s) (admins d) of
             None \<Rightarrow> False
           | Some a \<Rightarrow> s_expires_at s > nw \<and> a_disabled_at a = None))"

definition challenge_live :: "ms \<Rightarrow> BindingRow \<Rightarrow> string \<Rightarrow> bool" where
  "challenge_live nw b jti =
     (case (b_challenge b, b_challenge_expires_at b) of
        (Some c, Some e) \<Rightarrow> c \<noteq> [] \<and> e > nw \<and> safeEqual jti c
      | _ \<Rightarrow> False)"

definition refreshBinding ::
    "runtime \<Rightarrow> ms \<Rightarrow> nat list \<Rightarrow> nat list \<Rightarrow> string \<Rightarrow> string option \<Rightarrow> RefreshResult exec" where
  "refreshBinding R nw cookieb rnd24 bindingId jwt d =
     (case List.find (\<lambda>b. b_id b = bindingId) (bindings d) of
        None \<Rightarrow> (Inr RefreshEnded, d)
      | Some b \<Rightarrow>
          (if \<not> session_alive nw d (b_session_hash b) then (Inr RefreshEnded, d)
           else (case jwt of
                   None \<Rightarrow> fresh_challenge nw rnd24 (b_id b) d
                 | Some j \<Rightarrow>
                     (if j = [] then fresh_challenge nw rnd24 (b_id b) d
                      else (case verifyProof R j (Some (b_alg b, b_jwk b)) of
                              Inl e \<Rightarrow> (Inl e, d)
                            | Inr proof \<Rightarrow>
                                (if \<not> challenge_live nw b (dp_jti proof) then fresh_challenge nw rnd24 (b_id b) d
                                 else (let cookie = base64url cookieb; next = base64url rnd24
                                       in (Inr (RefreshOk \<lparr>is_bindingId = b_id b, is_cookie = cookie,
                                             is_maxAgeSec = BOUND_COOKIE_TTL_MS div 1000,
                                             is_nextChallenge = Some next\<rparr>),
                                           set_binding (b_id b)
                                             (\<lambda>b. b\<lparr>b_prev_cookie_hash := Some (b_cookie_hash b),
                                                    b_prev_cookie_expires_at := Some (b_cookie_expires_at b),
                                                    b_cookie_hash := rt_sha256 R cookie,
                                                    b_cookie_expires_at := nw + BOUND_COOKIE_TTL_MS,
                                                    b_challenge := Some next,
                                                    b_challenge_expires_at := Some (nw + DBSC_CHALLENGE_TTL_MS),
                                                    b_refreshed_at := nw\<rparr>) d))))))))"

datatype BoundCheck = Unbound | BoundOk | BoundRejected

text \<open>\<open>expires > cutoff\<close> with the cutoff a grace period ago, written without subtraction\<close>

definition checkBoundCookie :: "runtime \<Rightarrow> ms \<Rightarrow> db \<Rightarrow> string \<Rightarrow> string option \<Rightarrow> BoundCheck" where
  "checkBoundCookie R nw d sessionId boundCookie =
     (case binding_of d (rt_sha256 R sessionId) of
        None \<Rightarrow> Unbound
      | Some b \<Rightarrow>
          (case boundCookie of
             None \<Rightarrow> BoundRejected
           | Some cookie \<Rightarrow>
               (if cookie = [] \<or> length cookie > 128 then BoundRejected
                else (let h = rt_sha256 R cookie
                      in if safeEqual h (b_cookie_hash b) \<and> b_cookie_expires_at b + GRACE_MS > nw then BoundOk
                         else (case (b_prev_cookie_hash b, b_prev_cookie_expires_at b) of
                                 (Some ph, Some pe) \<Rightarrow>
                                   (if ph \<noteq> [] \<and> safeEqual h ph \<and> pe + GRACE_MS > nw then BoundOk else BoundRejected)
                               | _ \<Rightarrow> BoundRejected)))))"

end
