(* ===== verification/Items.thy ===== *)
theory Items
  imports Cases
begin

section \<open>Items: files and notes (src/services/items.ts)\<close>

text \<open>
  An item starts as \<open>Uploading\<close> (a file) or \<open>Ready\<close> (a note); each operation is one
  conditional UPDATE, so the guards of the transitions are in the WHERE clauses.
  A declared size is a JavaScript number: \<open>Some n\<close> with \<open>SizeInt n\<close> for an integer,
  \<open>SizeOther\<close> for a fraction or NaN.
\<close>

datatype jssize = SizeInt int | SizeOther

definition MAX_SAFE :: int where "MAX_SAFE = 9007199254740991"

definition is_ctrl :: "char \<Rightarrow> bool" where
  "is_ctrl c = (code_of c \<le> 31 \<or> code_of c = 127)"

definition is_slash :: "char \<Rightarrow> bool" where
  "is_slash c = (code_of c = 92 \<or> c = CHR ''/'')"

definition last_dot :: "string \<Rightarrow> nat option" where
  "last_dot s = (if CHR ''.'' \<in> set s
                 then Some (length s - 1 - length (takeWhile (\<lambda>c. c \<noteq> CHR ''.'') (rev s))) else None)"

definition sanitizeFilename :: "runtime \<Rightarrow> string option \<Rightarrow> string" where
  "sanitizeFilename R raw =
     (let n1 = rt_nfc R (case raw of None \<Rightarrow> [] | Some s \<Rightarrow> s);
          n2 = last (split_by is_slash n1);
          n3 = strip_class is_ctrl n2;
          n4 = trim n3;
          n5 = (if n4 \<noteq> [] \<and> (\<forall>c \<in> set n4. c = CHR ''.'') then [] else n4);
          n6 = (if length n5 > 255
                then (let ext = (case last_dot n5 of
                                   Some dot \<Rightarrow> (if dot > 0 \<and> length n5 - dot \<le> 16 then drop dot n5 else [])
                                 | None \<Rightarrow> [])
                      in take (255 - length ext) n5 @ ext)
                else n5)
      in or_else n6 ''unnamed'')"

definition createNote :: "ms \<Rightarrow> nat list \<Rightarrow> string \<Rightarrow> string \<Rightarrow> string \<Rightarrow> string option \<Rightarrow> ItemRow exec" where
  "createNote nw idb caseId title0 body0 adminId d =
     (let title = slice0 200 (trim title0); body = slice0 20000 (trim body0)
      in if title = [] \<or> body = [] then (Inl (JsError ''A note needs a title and a body''), d)
         else (let item = \<lparr>i_id = newId ''n'' idb, i_case_id = caseId, i_kind = INote, i_title = title,
                   i_body = Some body, i_upload_kind = None, i_status = Ready, i_declared_size = None,
                   i_size = None, i_sha256 = None, i_created_by = adminId, i_created_at = nw,
                   i_ready_at = Some nw, i_deleted_at = None\<rparr>
               in case ins_item item d of Inl e \<Rightarrow> (Inl e, d) | Inr d' \<Rightarrow> (Inr item, d')))"

record StartUploadInput =
  su_caseId :: string
  su_originalName :: string
  su_uploadKind :: upload_kind
  su_declaredSize :: "jssize option"
  su_adminId :: "string option"
  su_id :: "string option"

definition size_invalid :: "jssize option \<Rightarrow> bool" where
  "size_invalid s = (case s of None \<Rightarrow> False | Some SizeOther \<Rightarrow> True | Some (SizeInt n) \<Rightarrow> n < 0 \<or> n > MAX_SAFE)"

definition size_nat :: "jssize option \<Rightarrow> nat option" where
  "size_nat s = (case s of Some (SizeInt n) \<Rightarrow> Some (nat n) | _ \<Rightarrow> None)"

definition startUpload ::
    "runtime \<Rightarrow> Config \<Rightarrow> ms \<Rightarrow> nat list \<Rightarrow> StartUploadInput \<Rightarrow> (ItemRow \<times> nat) exec" where
  "startUpload R cfg nw idb inp d =
     (let declared = size_nat (su_declaredSize inp)
      in if size_invalid (su_declaredSize inp) then (Inl (JsError ''invalid declared size''), d)
         else if (case declared of None \<Rightarrow> False | Some n \<Rightarrow> n > maxFileBytes cfg)
         then (Inl (LimitError ''file_too_large'' (maxFileBytes cfg)), d)
         else (let item = \<lparr>i_id = (case su_id inp of Some i \<Rightarrow> i | None \<Rightarrow> newId ''f'' idb),
                   i_case_id = su_caseId inp, i_kind = IFile,
                   i_title = sanitizeFilename R (Some (su_originalName inp)), i_body = None,
                   i_upload_kind = Some (su_uploadKind inp), i_status = Uploading, i_declared_size = declared,
                   i_size = None, i_sha256 = None, i_created_by = su_adminId inp, i_created_at = nw,
                   i_ready_at = None, i_deleted_at = None\<rparr>
               in case ins_item item d of
                    Inl e \<Rightarrow> (Inl e, d)
                  | Inr d' \<Rightarrow> (Inr (item, case declared of Some n \<Rightarrow> n | None \<Rightarrow> maxFileBytes cfg), d')))"

text \<open>UPDATE items SET ... WHERE p: whether a row changed, and the new database\<close>

definition update_items :: "(ItemRow \<Rightarrow> bool) \<Rightarrow> (ItemRow \<Rightarrow> ItemRow) \<Rightarrow> db \<Rightarrow> bool \<times> db" where
  "update_items p f d = (n_where p (items d) > 0, d\<lparr>items := upd_where p f (items d)\<rparr>)"

definition completeUpload :: "ms \<Rightarrow> string \<Rightarrow> nat \<Rightarrow> string option \<Rightarrow> db \<Rightarrow> bool \<times> db" where
  "completeUpload nw itemId bytes sha256 =
     update_items (\<lambda>i. i_id i = itemId \<and> i_status i = Uploading)
       (\<lambda>i. i\<lparr>i_status := Ready, i_size := Some bytes,
              i_sha256 := (case sha256 of Some h \<Rightarrow> Some h | None \<Rightarrow> i_sha256 i), i_ready_at := Some nw\<rparr>)"

text \<open>The status argument is 'aborted' or 'expired' in the source.\<close>

definition failUpload :: "string \<Rightarrow> item_status \<Rightarrow> db \<Rightarrow> bool \<times> db" where
  "failUpload itemId status =
     update_items (\<lambda>i. i_id i = itemId \<and> i_status i = Uploading) (\<lambda>i. i\<lparr>i_status := status\<rparr>)"

definition markMissing :: "string \<Rightarrow> db \<Rightarrow> db" where
  "markMissing itemId d =
     snd (update_items (\<lambda>i. i_id i = itemId \<and> i_status i = Ready \<and> i_kind i = IFile)
            (\<lambda>i. i\<lparr>i_status := Missing\<rparr>) d)"

definition markDeleted :: "ms \<Rightarrow> string \<Rightarrow> db \<Rightarrow> bool \<times> db" where
  "markDeleted nw itemId =
     update_items (\<lambda>i. i_id i = itemId \<and> (i_status i = Ready \<or> i_status i = Missing))
       (\<lambda>i. i\<lparr>i_status := Deleted, i_deleted_at := Some nw\<rparr>)"

definition getItem :: "db \<Rightarrow> string \<Rightarrow> ItemRow option" where
  "getItem d i = List.find (\<lambda>r. i_id r = i) (items d)"

definition listItemsForCase :: "db \<Rightarrow> string \<Rightarrow> ItemRow list" where
  "listItemsForCase d caseId =
     sort_key (\<lambda>i. - int (i_created_at i))
       (filter (\<lambda>i. i_case_id i = caseId \<and> i_status i \<notin> {Aborted, Expired}) (items d))"

record RecipientItem =
  it_id :: string
  it_kind :: item_kind
  it_title :: string
  it_body :: "string option"
  it_size :: "nat option"
  it_ready_at :: "ms option"

definition recipient_view :: "ItemRow \<Rightarrow> RecipientItem" where
  "recipient_view i = \<lparr>it_id = i_id i, it_kind = i_kind i, it_title = i_title i, it_body = i_body i,
     it_size = i_size i, it_ready_at = i_ready_at i\<rparr>"

text \<open>Notes first, then by creation.\<close>

definition listItemsForRecipient :: "db \<Rightarrow> string \<Rightarrow> RecipientItem list" where
  "listItemsForRecipient d caseId =
     map recipient_view
       (sort_key (\<lambda>i. if i_kind i = INote then 0 else 1 :: nat)
         (sort_key i_created_at (filter (\<lambda>i. i_case_id i = caseId \<and> i_status i = Ready) (items d))))"

definition listStaleUploads :: "ms \<Rightarrow> ms \<Rightarrow> db \<Rightarrow> ItemRow list" where
  "listStaleUploads nw olderThanMs d =
     filter (\<lambda>i. i_status i = Uploading \<and> i_created_at i + olderThanMs < nw) (items d)"

definition listReadyFiles :: "db \<Rightarrow> ItemRow list" where
  "listReadyFiles d = filter (\<lambda>i. i_status i = Ready \<and> i_kind i = IFile) (items d)"

definition liveStorageKeys :: "db \<Rightarrow> string set" where
  "liveStorageKeys d =
     i_id ` set (filter (\<lambda>i. i_kind i = IFile \<and> (i_status i = Uploading \<or> i_status i = Ready)) (items d))"

end
