(* ===== verification/Http.thy ===== *)
theory Http
  imports I18n Config Crypto
begin

section \<open>Texts that leave the program: HTML, JSON, URLs, log lines (src/http/html.ts, src/log.ts)\<close>

text \<open>
  The escaping functions, with \<open>encodeURIComponent\<close> and \<open>decodeURIComponent\<close> of the language,
  and the filter in front of the log. The pages
  that are built with them are in theory Layout and the theories of the views.
\<close>

subsection \<open>HTML\<close>

definition ESCAPES :: "char \<Rightarrow> string" where
  "ESCAPES c =
     (if c = CHR ''&'' then ''&amp;'' else if c = CHR ''<'' then ''&lt;'' else if c = CHR ''>'' then ''&gt;''
      else if c = CHR 0x22 then ''&quot;'' else if c = CHR 0x27 then ''&#39;'' else [c])"

definition escapeHtml :: "string \<Rightarrow> string" where
  "escapeHtml value = concat (map ESCAPES value)"

datatype interp = INull | IBool bool | INum int | IStr string | ISafe string | IArr "interp list"

fun render :: "interp \<Rightarrow> string" where
  "render INull = []"
| "render (IBool b) = (if b then escapeHtml ''true'' else [])"
| "render (INum n) = escapeHtml (pval_text (PNum n))"
| "render (IStr s) = escapeHtml s"
| "render (ISafe s) = s"
| "render (IArr vs) = concat (map render vs)"

text \<open>The tagged template: the literal parts and the interpolated values, in turn\<close>

fun html :: "string list \<Rightarrow> interp list \<Rightarrow> string" where
  "html [] vs = []"
| "html (s # ss) [] = s @ html ss []"
| "html (s # ss) (v # vs) = s @ render v @ html ss vs"

definition tHtml :: "dictionary \<Rightarrow> Lang \<Rightarrow> string \<Rightarrow> (string \<times> interp) list \<Rightarrow> string" where
  "tHtml dict lang key params =
     replace_placeholders
       (\<lambda>name. case map_of params name of Some v \<Rightarrow> render v | None \<Rightarrow> ''{'' @ name @ ''}'')
       (escapeHtml (t dict lang key None))"

subsection \<open>JSON in a script element\<close>

definition hex_digit :: "nat \<Rightarrow> char" where
  "hex_digit n = ''0123456789abcdef'' ! n"

definition json_char :: "char \<Rightarrow> string" where
  "json_char c =
     (let n = code_of c
      in if n = 34 then [CHR 0x5c, CHR 0x22] else if n = 92 then [CHR 0x5c, CHR 0x5c]
         else if n = 8 then [CHR 0x5c, CHR ''b''] else if n = 9 then [CHR 0x5c, CHR ''t'']
         else if n = 10 then [CHR 0x5c, CHR ''n''] else if n = 12 then [CHR 0x5c, CHR ''f'']
         else if n = 13 then [CHR 0x5c, CHR ''r'']
         else if n < 32 then [CHR 0x5c] @ ''u00'' @ [hex_digit (n div 16), hex_digit (n mod 16)]
         else [c])"

definition json_str :: "string \<Rightarrow> string" where
  "json_str s = quoted (concat (map json_char s))"

fun stringify :: "json \<Rightarrow> string" where
  "stringify JNull = ''null''"
| "stringify (JBool b) = (if b then ''true'' else ''false'')"
| "stringify (JNum n) = pval_text (PNum n)"
| "stringify (JStr s) = json_str s"
| "stringify (JArr vs) = ''['' @ join '','' (map stringify vs) @ '']''"
| "stringify (JObj ms) = ''{'' @ join '','' (map (\<lambda>(k, v). json_str k @ '':'' @ stringify v) ms) @ ''}''"

text \<open>The separators U+2028 and U+2029 are outside the characters of the model.\<close>

definition jsonScript :: "string \<Rightarrow> json \<Rightarrow> string" where
  "jsonScript i data =
     ''<script type='' @ quoted ''application/json'' @ '' id='' @ quoted (escapeHtml i) @ ''>''
     @ concat (map (\<lambda>c. if c = CHR ''<'' then [CHR 0x5c] @ ''u003c'' else [c]) (stringify data)) @ ''</script>''"

subsection \<open>URL components\<close>

definition uri_unreserved :: "char \<Rightarrow> bool" where
  "uri_unreserved c = (is_alnum c \<or> c \<in> set ''-_.!~*()'' \<or> c = CHR 0x27)"

definition upper_hex :: "nat \<Rightarrow> char" where
  "upper_hex n = ''0123456789ABCDEF'' ! n"

definition percent :: "nat \<Rightarrow> string" where
  "percent b = [CHR ''%'', upper_hex (b div 16), upper_hex (b mod 16)]"

definition encodeURIComponent :: "string \<Rightarrow> string" where
  "encodeURIComponent s =
     concat (map (\<lambda>c. if uri_unreserved c then [c] else concat (map percent (utf8 [c]))) s)"

text \<open>\<open>URLSearchParams.toString\<close> and the URI a TOTP app scans (src/totp.ts)\<close>

definition form_encode :: "string \<Rightarrow> string" where
  "form_encode s =
     concat (map (\<lambda>c. if is_alnum c \<or> c \<in> set ''*-._'' then [c] else if c = CHR '' '' then ''+''
                      else concat (map percent (utf8 [c]))) s)"

definition otpauthUri :: "string \<Rightarrow> string \<Rightarrow> string \<Rightarrow> string" where
  "otpauthUri secret account issuer =
     ''otpauth://totp/'' @ encodeURIComponent (issuer @ '':'' @ account) @ ''?secret='' @ form_encode secret
     @ ''&issuer='' @ form_encode issuer @ ''&algorithm=SHA1&digits=6&period=30''"

fun hex_byte :: "string \<Rightarrow> nat option" where
  "hex_byte (p # h # l # _) =
     (if p = CHR ''%''
      then (case (digit_in 16 h, digit_in 16 l) of (Some a, Some b) \<Rightarrow> Some (16 * a + b) | _ \<Rightarrow> None)
      else None)"
| "hex_byte _ = None"

text \<open>
  \<open>None\<close> is the \<open>URIError\<close> of a malformed text. A sequence that decodes to a character outside
  the model counts as malformed too.
\<close>

function (sequential) decodeURIComponent :: "string \<Rightarrow> string option" where
  "decodeURIComponent [] = Some []"
| "decodeURIComponent (c # cs) =
     (if c \<noteq> CHR ''%'' then map_option ((#) c) (decodeURIComponent cs)
      else (case hex_byte (c # cs) of
              None \<Rightarrow> None
            | Some b \<Rightarrow>
                (if b < 128 then map_option ((#) (char_of b)) (decodeURIComponent (drop 2 cs))
                 else if b < 194 \<or> b > 195 then None
                 else (case hex_byte (drop 2 cs) of
                         None \<Rightarrow> None
                       | Some b2 \<Rightarrow>
                           (if b2 < 128 \<or> b2 \<ge> 192 then None
                            else map_option ((#) (char_of ((b - 192) * 64 + (b2 - 128))))
                                   (decodeURIComponent (drop 5 cs)))))))"
  by pat_completeness auto
termination by (relation "measure length") auto

subsection \<open>The log\<close>

text \<open>
  One global replacement: where \<open>pre\<close> recognises a prefix (its length, 0 for none) and the run
  of \<open>cls\<close> behind it is long enough, the run is replaced.
\<close>

function (sequential) replace_runs ::
    "(string \<Rightarrow> nat) \<Rightarrow> (char \<Rightarrow> bool) \<Rightarrow> bool \<Rightarrow> string \<Rightarrow> string \<Rightarrow> string" where
  "replace_runs pre cls need rep [] = []"
| "replace_runs pre cls need rep (c # cs) =
     (let n = pre (c # cs); after = drop n (c # cs)
      in if n > 0 \<and> (need \<longrightarrow> after \<noteq> [] \<and> cls (hd after))
         then take n (c # cs) @ rep @ replace_runs pre cls need rep (dropWhile cls after)
         else c # replace_runs pre cls need rep cs)"
  by pat_completeness auto
termination
proof (relation "measure (\<lambda>(pre, cls, need, rep, s). length s)", goal_cases)
  case (2 pre cls need rep c cs n after)
  then show ?case
    using length_dropWhile_le [of cls after] by (cases n) auto
qed auto

definition prefix_len :: "string \<Rightarrow> string \<Rightarrow> nat" where
  "prefix_len p s = (if starts_with s p then length p else 0)"

definition secret_params :: "string list" where
  "secret_params = [''token='', ''code='', ''access_token='', ''sig='']"

definition param_len :: "string \<Rightarrow> nat" where
  "param_len s =
     (case s of
        [] \<Rightarrow> 0
      | c # cs \<Rightarrow>
          (if c \<noteq> CHR ''?'' \<and> c \<noteq> CHR ''&'' then 0
           else (case List.find (\<lambda>p. starts_with (toLowerCase cs) p) secret_params of
                   None \<Rightarrow> 0 | Some p \<Rightarrow> Suc (length p))))"

definition redact_delivery :: "string \<Rightarrow> string" where
  "redact_delivery = replace_runs (prefix_len ''/d/'') (\<lambda>c. c \<notin> set ''/?#'' \<and> \<not> is_ws c) True ''[redacted]''"

definition redact_upload :: "string \<Rightarrow> string" where
  "redact_upload = replace_runs (prefix_len ''/api/upload/'') (\<lambda>c. c \<notin> set ''?#'' \<and> \<not> is_ws c) True ''[filename]''"

definition redact_params :: "string \<Rightarrow> string" where
  "redact_params = replace_runs param_len (\<lambda>c. c \<notin> set ''&#'' \<and> \<not> is_ws c) False ''[redacted]''"

definition redact :: "string \<Rightarrow> string" where
  "redact value = redact_params (redact_upload (redact_delivery value))"

text \<open>A field of a log call: \<open>None\<close> is \<open>undefined\<close>.\<close>

datatype logval = LogStr string | LogErr string string | LogOther json

definition LEVEL_ORDER :: "log_level \<Rightarrow> nat" where
  "LEVEL_ORDER l = (case l of LevelDebug \<Rightarrow> 10 | LevelInfo \<Rightarrow> 20 | LevelWarn \<Rightarrow> 30 | LevelError \<Rightarrow> 40)"

definition SECRET_FIELDS :: "string list" where
  "SECRET_FIELDS = [''authorization'', ''cookie'', ''token'', ''password'', ''code'', ''email'']"

definition log_field :: "string \<times> logval option \<Rightarrow> (string \<times> logval) option" where
  "log_field kv =
     (case kv of
        (k, None) \<Rightarrow> None
      | (k, Some v) \<Rightarrow>
          (if k \<in> set SECRET_FIELDS then None
           else Some (k, (case v of LogStr s \<Rightarrow> LogStr (redact s)
                          | LogErr name msg \<Rightarrow> LogErr name (redact msg)
                          | LogOther j \<Rightarrow> LogOther j))))"

text \<open>The line that is written: its level, its message and the fields that pass the filter (the time is left out)\<close>

definition level_name :: "log_level \<Rightarrow> string" where
  "level_name l =
     (case l of LevelDebug \<Rightarrow> ''debug'' | LevelInfo \<Rightarrow> ''info'' | LevelWarn \<Rightarrow> ''warn'' | LevelError \<Rightarrow> ''error'')"

definition emit ::
    "log_level \<Rightarrow> log_level \<Rightarrow> string \<Rightarrow> (string \<times> logval option) list \<Rightarrow> (string \<times> logval) list option" where
  "emit current level msg fs =
     (if LEVEL_ORDER level < LEVEL_ORDER current then None
      else Some ([(''level'', LogStr (level_name level)), (''msg'', LogStr msg)] @ List.map_filter log_field fs))"

end
