(* ===== verification/Mail.thy ===== *)
theory Mail
  imports Http
begin

section \<open>The code message and the log driver (src/mail/)\<close>

text \<open>
  The one message the program sends, the guard of its headers, the logo that travels with it
  and the ring of the log driver. Of the Graph driver the token cache is here, with the answers of
  the service as arguments; what it and the SMTP and SES drivers hand over is in theory Drivers.
\<close>

record InlineImage =
  ii_contentId :: string
  ii_filename :: string
  ii_contentType :: string
  ii_content :: "nat list"

record OutgoingMail =
  om_to :: string
  om_subject :: string
  om_text :: string
  om_html :: string
  om_inlineImages :: "InlineImage list"

definition is_newline :: "char \<Rightarrow> bool" where
  "is_newline c = (code_of c = 10 \<or> code_of c = 13)"

definition assertSafeHeader :: "string \<Rightarrow> string \<Rightarrow> exn + string" where
  "assertSafeHeader value what =
     (if \<exists>c \<in> set value. is_newline c then Inl (MailError (what @ '' must not contain line breaks'')) else Inr value)"

definition formatFrom :: "string \<Rightarrow> string \<Rightarrow> string" where
  "formatFrom address name =
     (let clean = trim (strip_class (\<lambda>c. is_newline c \<or> code_of c = 34 \<or> code_of c = 92) name)
      in if clean = [] then address
         else if list_all (\<lambda>c. is_alnum c \<or> c \<in> set '' .-'' \<or> code_of c = 39) clean
         then clean @ '' <'' @ address @ ''>''
         else quoted clean @ '' <'' @ address @ ''>'')"

definition esc :: "string \<Rightarrow> string" where
  "esc value = concat (map ESCAPES value)"

text \<open>An attribute \<open>name="value"\<close> of the markup\<close>

definition att :: "string \<Rightarrow> string \<Rightarrow> string" where
  "att name value = '' '' @ name @ ''='' @ quoted value"

definition htmlDocument :: "Brand \<Rightarrow> string option \<Rightarrow> string list \<Rightarrow> string" where
  "htmlDocument bd logoSrc paragraphs =
     (let header = (case logoSrc of
            Some src \<Rightarrow> ''<img'' @ att ''src'' (esc src) @ att ''alt'' (esc (br_name bd)) @ att ''height'' ''28''
              @ att ''style'' ''height:28px;max-width:220px;display:block;border:0;color:#ffffff;font-weight:600;font-size:16px'' @ ''>''
          | None \<Rightarrow> ''<span'' @ att ''style'' ''color:#ffffff;font-weight:600;font-size:16px'' @ ''>''
              @ esc (br_name bd) @ ''</span>'')
      in concat ([''<!doctype html><html><head><meta'' @ att ''charset'' ''utf-8'' @ ''><meta'' @ att ''name'' ''viewport''
            @ att ''content'' ''width=device-width,initial-scale=1'' @ ''></head>'',
          ''<body'' @ att ''style'' ''margin:0;padding:24px;background:#f6f7f9;font-family:system-ui,Segoe UI,Arial,sans-serif;color:#101418'' @ ''>'',
          ''<table'' @ att ''role'' ''presentation'' @ att ''cellpadding'' ''0'' @ att ''cellspacing'' ''0'' @ att ''border'' ''0''
            @ att ''width'' ''100%''
            @ att ''style'' ''max-width:560px;margin:0 auto;background:#ffffff;border:1px solid #e3e6ea;border-radius:10px;border-collapse:separate;overflow:hidden'' @ ''>'',
          ''<tr><td'' @ att ''style'' (''background:'' @ br_colorTopbar bd @ '';padding:16px 24px'') @ ''>'' @ header @ ''</td></tr>'',
          ''<tr><td'' @ att ''style'' ''padding:24px'' @ ''>'']
        @ paragraphs @ [''</td></tr></table></body></html>'']))"

record CodeMailInput =
  cmi_lang :: Lang
  cmi_to :: string
  cmi_brand :: Brand
  cmi_publicUrl :: "string option"
  cmi_inlineLogo :: "InlineImage option"
  cmi_caseName :: string
  cmi_code :: string
  cmi_ttlMinutes :: int

definition logo_src :: "CodeMailInput \<Rightarrow> string option" where
  "logo_src inp =
     (case cmi_inlineLogo inp of
        Some img \<Rightarrow> Some (''cid:'' @ ii_contentId img)
      | None \<Rightarrow>
          (case (br_logoPath (cmi_brand inp), cmi_publicUrl inp) of
             (Some p, Some u) \<Rightarrow> (if p \<noteq> [] \<and> u \<noteq> [] then Some (strip_slashes u @ ''/brand/logo'') else None)
           | _ \<Rightarrow> None))"

definition paragraph_tag :: "string \<Rightarrow> string \<Rightarrow> string" where
  "paragraph_tag style body = ''<p'' @ att ''style'' style @ ''>'' @ body @ ''</p>''"

definition accessCodeMail :: "dictionary \<Rightarrow> CodeMailInput \<Rightarrow> exn + OutgoingMail" where
  "accessCodeMail dict inp =
     (let tr = (\<lambda>key ps. t dict (cmi_lang inp) key ps);
          b = cmi_brand inp;
          brandName = br_name b;
          greeting = tr ''mail.code.greeting'' None;
          intro = tr ''mail.code.intro'' (Some [(''case'', PStr (cmi_caseName inp)), (''brand'', PStr brandName)]);
          validity = tr ''mail.code.validity'' (Some [(''minutes'', PNum (cmi_ttlMinutes inp))]);
          ignore' = tr ''mail.code.ignore'' None;
          footer = tr ''mail.code.footer'' (Some [(''brand'', PStr brandName)])
      in bind_res (assertSafeHeader (tr ''mail.code.subject'' (Some [(''code'', PStr (cmi_code inp))])) ''subject'')
           (\<lambda>subject. Inr \<lparr>om_to = cmi_to inp, om_subject = subject,
              om_text = join [char_of (10::nat)]
                ([greeting, [], intro, [], tr ''mail.code.code_line'' (Some [(''code'', PStr (cmi_code inp))]),
                  validity, [], ignore', [], ''--'', footer]
                 @ (if br_footerText b = [] then [] else [br_footerText b])),
              om_html = htmlDocument b (logo_src inp)
                [paragraph_tag ''margin:0 0 12px'' (esc greeting),
                 paragraph_tag ''margin:0 0 16px'' (esc intro),
                 ''<table'' @ att ''role'' ''presentation'' @ att ''cellpadding'' ''0'' @ att ''cellspacing'' ''0''
                   @ att ''border'' ''0'' @ att ''style'' ''margin:0 0 16px'' @ ''><tr>'',
                 ''<td'' @ att ''style'' (''border-left:4px solid '' @ br_colorAccent b
                   @ '';background:#f5f7fa;border-radius:0 6px 6px 0;padding:14px 20px'') @ ''>'',
                 ''<div'' @ att ''style'' ''font-size:30px;letter-spacing:8px;font-weight:700;font-family:ui-monospace,SFMono-Regular,Consolas,monospace''
                   @ ''>'' @ esc (cmi_code inp) @ ''</div>'',
                 ''<div'' @ att ''style'' ''margin-top:6px;color:#5b6472;font-size:13px'' @ ''>'' @ esc validity @ ''</div>'',
                 ''</td></tr></table>'',
                 paragraph_tag ''margin:0 0 16px;font-size:13px'' (esc ignore'),
                 paragraph_tag ''margin:0;color:#8a919c;font-size:12px'' (esc footer),
                 (if br_footerText b = [] then []
                  else paragraph_tag ''margin:4px 0 0;color:#8a919c;font-size:12px'' (esc (br_footerText b)))],
              om_inlineImages = (case cmi_inlineLogo inp of None \<Rightarrow> [] | Some img \<Rightarrow> [img])\<rparr>))"

subsection \<open>The logo\<close>

definition LOGO_CONTENT_ID :: string where "LOGO_CONTENT_ID = ''brand-logo@outletbox''"
definition MAX_INLINE_BYTES :: nat where "MAX_INLINE_BYTES = 524288"

text \<open>
  \<open>files\<close> reads a file, \<open>None\<close> when it cannot; the cache holds what was read for each path.
\<close>

type_synonym logo_cache = "string \<Rightarrow> InlineImage option option"

definition brandLogoImage ::
    "(string \<Rightarrow> nat list option) \<Rightarrow> Brand \<Rightarrow> logo_cache \<Rightarrow> InlineImage option \<times> logo_cache" where
  "brandLogoImage files bd cache =
     (case br_logoPath bd of
        None \<Rightarrow> (None, cache)
      | Some p \<Rightarrow>
          (if p = [] then (None, cache)
           else (case cache p of
                   Some cached \<Rightarrow> (cached, cache)
                 | None \<Rightarrow>
                     (let image = (case files p of
                            None \<Rightarrow> None
                          | Some content \<Rightarrow>
                              (case LOGO_MEDIA_TYPES (toLowerCase (extname p)) of
                                 None \<Rightarrow> None
                               | Some contentType \<Rightarrow>
                                   (if length content > MAX_INLINE_BYTES then None
                                    else Some \<lparr>ii_contentId = LOGO_CONTENT_ID, ii_filename = basename p,
                                               ii_contentType = contentType, ii_content = content\<rparr>)))
                      in (image, cache(p := Some image))))))"

subsection \<open>The log driver\<close>

record RecordedMail =
  rm_mail :: OutgoingMail
  rm_at :: ms
  rm_from :: string

record LogMailer =
  lm_from :: string
  lm_keep :: nat
  lm_ring :: "RecordedMail list"

definition log_send :: "ms \<Rightarrow> OutgoingMail \<Rightarrow> LogMailer \<Rightarrow> LogMailer" where
  "log_send nw msg m =
     (let ring = lm_ring m @ [\<lparr>rm_mail = msg, rm_at = nw, rm_from = lm_from m\<rparr>]
      in m\<lparr>lm_ring := (if length ring > lm_keep m then tl ring else ring)\<rparr>)"

definition log_recent :: "LogMailer \<Rightarrow> RecordedMail list" where
  "log_recent m = rev (lm_ring m)"

subsection \<open>The Graph driver: a cached token (src/mail/graph.ts)\<close>

text \<open>
  The answer of a request: \<open>None\<close> when the fetch is rejected. A token answer carries the HTTP
  status, the token and its life time in seconds.
\<close>

record GraphToken =
  gt_value :: string
  gt_expiresAt :: ms

type_synonym token_answer = "(nat \<times> string option \<times> nat option) option"

definition http_ok :: "nat \<Rightarrow> bool" where
  "http_ok status = (200 \<le> status \<and> status \<le> 299)"

definition fetch_token ::
    "ms \<Rightarrow> token_answer \<Rightarrow> GraphToken option \<Rightarrow> (exn + string) \<times> GraphToken option" where
  "fetch_token nw answer tok =
     (case answer of
        None \<Rightarrow> (Inl (MailError ''Graph token endpoint unreachable''), tok)
      | Some (status, access_token, expires_in) \<Rightarrow>
          (case access_token of
             None \<Rightarrow> (Inl (MailError ''Graph token request failed''), tok)
           | Some v \<Rightarrow>
               (if \<not> http_ok status \<or> v = [] then (Inl (MailError ''Graph token request failed''), tok)
                else (Inr v, Some \<lparr>gt_value = v,
                        gt_expiresAt = nw + (case expires_in of None \<Rightarrow> 3600 | Some s \<Rightarrow> s) * 1000\<rparr>))))"

definition graph_accessToken ::
    "ms \<Rightarrow> token_answer \<Rightarrow> GraphToken option \<Rightarrow> (exn + string) \<times> GraphToken option" where
  "graph_accessToken nw answer tok =
     (case tok of
        Some k \<Rightarrow> (if gt_expiresAt k > nw + 60000 then (Inr (gt_value k), tok) else fetch_token nw answer tok)
      | None \<Rightarrow> fetch_token nw answer tok)"

text \<open>\<open>send\<close>: the answer of sendMail is its HTTP status. A 401 or 403 drops the cached token.\<close>

definition graph_send ::
    "ms \<Rightarrow> token_answer \<Rightarrow> (string \<Rightarrow> nat option) \<Rightarrow> GraphToken option \<Rightarrow> (exn + unit) \<times> GraphToken option" where
  "graph_send nw answer sendMail tok =
     (case graph_accessToken nw answer tok of
        (Inl e, tok') \<Rightarrow> (Inl e, tok')
      | (Inr token, tok') \<Rightarrow>
          (case sendMail token of
             None \<Rightarrow> (Inl (MailError ''Graph sendMail unreachable''), tok')
           | Some status \<Rightarrow>
               (if http_ok status then Inr () else Inl (MailError ''Graph sendMail failed''),
                if status = 401 \<or> status = 403 then None else tok')))"

end
