(* ===== verification/Middleware.thy ===== *)
theory Middleware
  imports Access PanelSessions DeviceSessions Items Mail
begin

section \<open>Requests, responses and the guards in front of the handlers (src/http/middleware.ts)\<close>

text \<open>
  A request is a record of what the handlers read of it, with the fields the middleware
  attaches (\<open>None\<close> until it does). A response is its status, its headers and a body; a page is
  the data that its view renders. A handler returns a response or throws, and leaves a
  database. The rate limiters and the security headers are third-party middleware; their
  configurations are in theory Startup.
\<close>

datatype bval = BText string | BList "string list"

record Request =
  rq_method :: string
  rq_path :: string
  rq_originalUrl :: string
  rq_params :: "(string \<times> string) list"
  rq_next :: "bval option"
  rq_body :: "(string \<times> bval) list"
  rq_ip :: "string option"
  rq_protocol :: string
  rq_host :: string
  rq_cookie :: "string option"
  rq_acceptLanguage :: "string option"
  rq_userAgent :: "string option"
  rq_fetchSite :: "string option"
  rq_fetchDest :: "string option"
  rq_origin :: "string option"
  rq_csrfHeader :: "string option"
  rq_sessionResponse :: "string option"
  rq_secureSessionId :: "string option"
  rq_contentLength :: "string option"
  rq_transferEncoding :: "string option"
  rq_lang :: Lang
  rq_langExplicit :: bool
  rq_session :: "Session option"
  rq_sessionId :: "string option"
  rq_access :: "AccessSession option"
  rq_accessId :: "string option"
  rq_flowToken :: "string option"

record ViewCtx =
  vc_lang :: Lang
  vc_path :: string
  vc_flowToken :: string
  vc_base :: string

datatype view =
    EmailPage ViewCtx "string option" "string option"
  | CodePage ViewCtx nat "string option" "nat option"
  | PackagePage ViewCtx CaseRow LinkRow "string option" "RecipientItem list" "nat option" ms
  | UnavailablePage Lang string string
  | PanelPage string "(string \<times> string) list"

datatype body = BodyEmpty | BodyText string | BodyJson json | BodyView view | BodyFile "nat list"

record Response =
  rs_status :: nat
  rs_headers :: "(string \<times> string) list"
  rs_body :: body

definition respond :: "nat \<Rightarrow> body \<Rightarrow> Response" where
  "respond status b = \<lparr>rs_status = status, rs_headers = [], rs_body = b\<rparr>"

definition redirect :: "nat \<Rightarrow> string \<Rightarrow> Response" where
  "redirect status target = \<lparr>rs_status = status, rs_headers = [(''Location'', target)], rs_body = BodyEmpty\<rparr>"

definition with_header :: "string \<Rightarrow> string \<Rightarrow> Response \<Rightarrow> Response" where
  "with_header k v r = r\<lparr>rs_headers := rs_headers r @ [(k, v)]\<rparr>"

definition SESSION_COOKIE :: string where "SESSION_COOKIE = ''outletbox_sid''"
definition BOUND_COOKIE :: string where "BOUND_COOKIE = ''outletbox_bound''"
definition ACCESS_COOKIE :: string where "ACCESS_COOKIE = ''outletbox_access''"
definition FLOW_COOKIE :: string where "FLOW_COOKIE = ''outletbox_flow''"
definition LANG_COOKIE :: string where "LANG_COOKIE = ''outletbox_lang''"

subsection \<open>Cookies\<close>

definition cookie_pair :: "string \<Rightarrow> (string \<times> string) option" where
  "cookie_pair part =
     (if CHR ''='' \<notin> set part then None
      else (let k = trim (takeWhile (\<lambda>c. c \<noteq> CHR ''='') part);
                v = trim (tl (dropWhile (\<lambda>c. c \<noteq> CHR ''='') part))
            in if k = [] then None else map_option (Pair k) (decodeURIComponent v)))"

definition parseCookies :: "string option \<Rightarrow> string \<Rightarrow> string option" where
  "parseCookies header =
     (case header of
        None \<Rightarrow> Map.empty
      | Some h \<Rightarrow>
          (if h = [] then Map.empty
           else fold (\<lambda>part out. case cookie_pair part of None \<Rightarrow> out | Some (k, v) \<Rightarrow> out(k \<mapsto> v))
                  (split_by (\<lambda>c. c = CHR '';'') h) Map.empty))"

definition cookie :: "Config \<Rightarrow> string \<Rightarrow> string \<Rightarrow> nat \<Rightarrow> string" where
  "cookie cfg name value maxAgeSec =
     join ''; '' ([name @ ''='' @ encodeURIComponent value, ''Path=/'', ''HttpOnly'', ''SameSite=Lax'',
                   ''Max-Age='' @ nat_digits maxAgeSec] @ (if cookieSecure cfg then [''Secure''] else []))"

definition sessionCookie :: "Config \<Rightarrow> string \<Rightarrow> nat \<Rightarrow> string" where
  "sessionCookie cfg value maxAgeSec = cookie cfg SESSION_COOKIE value maxAgeSec"

definition accessCookie :: "Config \<Rightarrow> string \<Rightarrow> nat \<Rightarrow> string" where
  "accessCookie cfg value maxAgeSec = cookie cfg ACCESS_COOKIE value maxAgeSec"

definition flowCookie :: "Config \<Rightarrow> string \<Rightarrow> string" where
  "flowCookie cfg value = cookie cfg FLOW_COOKIE value 3600"

definition clearCookie :: "string \<Rightarrow> string" where
  "clearCookie name = name @ ''=; Path=/; HttpOnly; SameSite=Lax; Max-Age=0''"

definition langCookie :: "Config \<Rightarrow> string \<Rightarrow> string" where
  "langCookie cfg lang =
     join ''; '' ([LANG_COOKIE @ ''='' @ lang, ''Path=/'', ''SameSite=Lax'', ''Max-Age='' @ nat_digits (365 * 24 * 3600)]
                  @ (if cookieSecure cfg then [''Secure''] else []))"

subsection \<open>Language\<close>

definition languageMiddleware :: "Request \<Rightarrow> Request" where
  "languageMiddleware req =
     (let fromCookie = parseCookies (rq_cookie req) LANG_COOKIE
      in req\<lparr>rq_langExplicit := isLang fromCookie,
             rq_lang := (if isLang fromCookie then the fromCookie else negotiateLang (rq_acceptLanguage req))\<rparr>)"

subsection \<open>Panel sessions\<close>

definition sessionMiddleware :: "runtime \<Rightarrow> ms \<Rightarrow> Request \<Rightarrow> db \<Rightarrow> Request \<times> db" where
  "sessionMiddleware R nw req d =
     (let cookies = parseCookies (rq_cookie req)
      in case cookies SESSION_COOKIE of
           None \<Rightarrow> (req, d)
         | Some sid \<Rightarrow>
             (if sid = [] then (req, d)
              else (case getSession R nw sid d of
                      (None, d1) \<Rightarrow> (req, d1)
                    | (Some session, d1) \<Rightarrow>
                        (if checkBoundCookie R nw d1 sid (cookies BOUND_COOKIE) = BoundRejected then (req, d1)
                         else (req\<lparr>rq_session := Some session, rq_sessionId := Some sid\<rparr>, d1)))))"

text \<open>A guard passes (\<open>None\<close>) or answers.\<close>

definition requireAdmin :: "bool \<Rightarrow> Request \<Rightarrow> Response option" where
  "requireAdmin verified req =
     (if (case rq_session req of None \<Rightarrow> False | Some s \<Rightarrow> \<not> verified \<or> se_totpVerified s) then None
      else if rq_method req = ''GET'' \<or> rq_method req = ''HEAD''
      then Some (redirect 302 (if rq_session req = None then ''/admin/login'' else ''/admin/totp''))
      else if starts_with (rq_path req) ''/api/''
      then Some (respond 401 (BodyJson (JObj [(''error'', JStr ''unauthorized'')])))
      else Some (respond 401 (BodyText ''Unauthorized'')))"

definition requireConfirmed :: "ms \<Rightarrow> string \<Rightarrow> Request \<Rightarrow> Response option" where
  "requireConfirmed nw back req =
     (if (case rq_session req of None \<Rightarrow> False
          | Some s \<Rightarrow> (case se_confirmedUntil s of None \<Rightarrow> False | Some until \<Rightarrow> until > nw)) then None
      else Some (redirect 303 (''/admin/confirm?next='' @ encodeURIComponent
             (if rq_method req = ''GET'' \<or> rq_method req = ''HEAD'' then rq_originalUrl req else back))))"

definition safeNext :: "bval option \<Rightarrow> string" where
  "safeNext raw =
     (case raw of
        Some (BText s) \<Rightarrow>
          (if starts_with s ''/admin'' \<and> \<not> starts_with s ''//''
              \<and> \<not> (\<exists>c \<in> set s. code_of c = 92 \<or> code_of c = 13 \<or> code_of c = 10)
           then s else ''/admin'')
      | _ \<Rightarrow> ''/admin'')"

subsection \<open>Cross-site request forgery\<close>

definition checkOrigin :: "string option \<Rightarrow> string option \<Rightarrow> string \<Rightarrow> string \<Rightarrow> bool" where
  "checkOrigin fetchSite origin expectedOrigin hostOrigin =
     (if (case fetchSite of None \<Rightarrow> False | Some f \<Rightarrow> f \<noteq> [] \<and> f \<noteq> ''same-origin'' \<and> f \<noteq> ''none'') then False
      else if (case origin of None \<Rightarrow> False
               | Some o' \<Rightarrow> o' \<noteq> ''null'' \<and> o' \<noteq> expectedOrigin \<and> o' \<noteq> hostOrigin) then False
      else True)"

text \<open>\<open>new URL(cfg.publicUrl).origin\<close>; \<open>loadConfig\<close> has parsed the same URL.\<close>

definition public_origin :: "runtime \<Rightarrow> Config \<Rightarrow> string" where
  "public_origin R cfg = (case rt_url R (publicUrl cfg) of Some (_, origin, _) \<Rightarrow> origin | None \<Rightarrow> [])"

definition origin_ok :: "runtime \<Rightarrow> Config \<Rightarrow> Request \<Rightarrow> bool" where
  "origin_ok R cfg req =
     checkOrigin (rq_fetchSite req) (rq_origin req) (public_origin R cfg) (rq_protocol req @ ''://'' @ rq_host req)"

definition csrfProtect :: "runtime \<Rightarrow> Config \<Rightarrow> dictionary \<Rightarrow> Request \<Rightarrow> Response option" where
  "csrfProtect R cfg dict req =
     (if rq_method req \<in> {''GET'', ''HEAD'', ''OPTIONS''} then None
      else if \<not> origin_ok R cfg req
      then Some (respond 403 (BodyText (t dict (rq_lang req) ''error.cross_site'' None)))
      else (let token = (case rq_csrfHeader req of
                           Some h \<Rightarrow> (if h \<noteq> [] then Some (BText h) else map_of (rq_body req) ''_csrf'')
                         | None \<Rightarrow> map_of (rq_body req) ''_csrf'')
            in case (rq_session req, token) of
                 (Some s, Some (BText tok)) \<Rightarrow>
                   (if safeEqual tok (se_csrfToken s) then None
                    else Some (respond 403 (BodyText (t dict (rq_lang req) ''error.csrf'' None))))
               | _ \<Rightarrow> Some (respond 403 (BodyText (t dict (rq_lang req) ''error.csrf'' None)))))"

subsection \<open>The recipient's browser\<close>

text \<open>\<open>rnd\<close> are the random bytes of a new flow token; the second result is the Set-Cookie header.\<close>

definition flowMiddleware :: "Config \<Rightarrow> nat list \<Rightarrow> Request \<Rightarrow> Request \<times> (string \<times> string) list" where
  "flowMiddleware cfg rnd req =
     (case parseCookies (rq_cookie req) FLOW_COOKIE of
        Some existing \<Rightarrow>
          (if existing \<noteq> [] then (req\<lparr>rq_flowToken := Some existing\<rparr>, [])
           else (req\<lparr>rq_flowToken := Some (newFlowToken rnd)\<rparr>, [(''Set-Cookie'', flowCookie cfg (newFlowToken rnd))]))
      | None \<Rightarrow>
          (req\<lparr>rq_flowToken := Some (newFlowToken rnd)\<rparr>, [(''Set-Cookie'', flowCookie cfg (newFlowToken rnd))]))"

definition publicFormGuard :: "runtime \<Rightarrow> Config \<Rightarrow> dictionary \<Rightarrow> Request \<Rightarrow> Response option" where
  "publicFormGuard R cfg dict req =
     (if \<not> origin_ok R cfg req
      then Some (respond 403 (BodyText (t dict (rq_lang req) ''error.cross_site'' None)))
      else (case (parseCookies (rq_cookie req) FLOW_COOKIE, map_of (rq_body req) ''_flow'') of
              (Some cookieValue, Some (BText sent)) \<Rightarrow>
                (if cookieValue \<noteq> [] \<and> safeEqual sent cookieValue then None
                 else Some (respond 403 (BodyText (t dict (rq_lang req) ''error.csrf'' None))))
            | _ \<Rightarrow> Some (respond 403 (BodyText (t dict (rq_lang req) ''error.csrf'' None)))))"

definition accessMiddleware :: "runtime \<Rightarrow> ms \<Rightarrow> Request \<Rightarrow> db \<Rightarrow> Request \<times> db" where
  "accessMiddleware R nw req d =
     (case parseCookies (rq_cookie req) ACCESS_COOKIE of
        None \<Rightarrow> (req, d)
      | Some i \<Rightarrow>
          (if i = [] then (req, d)
           else (case getAccessSession R nw i d of
                   (None, d1) \<Rightarrow> (req, d1)
                 | (Some session, d1) \<Rightarrow> (req\<lparr>rq_access := Some session, rq_accessId := Some i\<rparr>, d1))))"

text \<open>The status and the message of a link that is not active\<close>

definition LINK_STATE_MESSAGES :: "LinkState \<Rightarrow> nat \<times> string" where
  "LINK_STATE_MESSAGES s =
     (case s of LExpired \<Rightarrow> (403, ''link.expired'') | LRevoked \<Rightarrow> (403, ''link.revoked'')
      | LCaseClosed \<Rightarrow> (403, ''link.case_closed'') | LExhausted \<Rightarrow> (403, ''link.exhausted'')
      | LActive \<Rightarrow> (200, []))"

text \<open>The switcher route /lang/:lang (src/http/app.ts)\<close>

definition switch_language :: "Config \<Rightarrow> string \<Rightarrow> bval option \<Rightarrow> Response" where
  "switch_language cfg lang next0 =
     (if \<not> isLang (Some lang) then respond 404 (BodyText ''Unknown language'')
      else (let next = (case next0 of Some (BText s) \<Rightarrow> s | _ \<Rightarrow> ''/'');
                target = (if starts_with next ''/'' \<and> \<not> starts_with next ''//''
                             \<and> \<not> starts_with next [CHR ''/'', CHR 0x5c] then next else ''/'')
            in with_header ''Set-Cookie'' (langCookie cfg lang) (redirect 303 target)))"

definition wantsJson :: "string \<Rightarrow> bool" where
  "wantsJson path = (starts_with path ''/api/'' \<or> starts_with path ''/admin/api/'')"

text \<open>The last handlers: a page that is not there, and an exception (\<open>status\<close> is what it carries, if anything).\<close>

definition not_found :: "dictionary \<Rightarrow> Request \<Rightarrow> Response" where
  "not_found dict req =
     (if wantsJson (rq_path req) then respond 404 (BodyJson (JObj [(''error'', JStr ''not_found'')]))
      else respond 404 (BodyView (PanelPage ''error''
        [(''title'', t dict (rq_lang req) ''error.not_found.title'' None),
         (''message'', t dict (rq_lang req) ''error.page_missing'' None),
         (''home'', if starts_with (rq_path req) ''/admin'' then ''/admin'' else ''/'')])))"

definition on_error :: "dictionary \<Rightarrow> nat option \<Rightarrow> string \<Rightarrow> Request \<Rightarrow> Response" where
  "on_error dict status0 message req =
     (let status = (case status0 of Some s \<Rightarrow> s | None \<Rightarrow> 500)
      in if wantsJson (rq_path req)
         then respond status (BodyJson (JObj [(''error'', JStr (if status \<ge> 500 then ''internal'' else ''bad_request'')),
                (''message'', JStr (if status \<ge> 500 then ''Internal error'' else message))]))
         else respond status (BodyView (PanelPage ''error''
           [(''title'', t dict (rq_lang req) (if status \<ge> 500 then ''error.server.title'' else ''error.bad_request.title'') None),
            (''message'', if status \<ge> 500 then t dict (rq_lang req) ''error.server'' None else message),
            (''home'', if starts_with (rq_path req) ''/admin'' then ''/admin'' else ''/'')])))"

subsection \<open>A request for the examples\<close>

definition sample_request :: Request where
  "sample_request =
     \<lparr>rq_method = ''GET'', rq_path = ''/'', rq_originalUrl = ''/'', rq_params = [], rq_next = None, rq_body = [],
      rq_ip = None, rq_protocol = ''https'', rq_host = ''x.y'', rq_cookie = Some ''outletbox_access=s1'',
      rq_acceptLanguage = None, rq_userAgent = None, rq_fetchSite = None, rq_fetchDest = None, rq_origin = None,
      rq_csrfHeader = None, rq_sessionResponse = None, rq_secureSessionId = None, rq_contentLength = None,
      rq_transferEncoding = None, rq_lang = ''en'', rq_langExplicit = True, rq_session = None, rq_sessionId = None,
      rq_access = None, rq_accessId = None, rq_flowToken = Some ''flow''\<rparr>"

end
