(* ===== verification/SecondFactor.thy ===== *)
theory SecondFactor
  imports PanelSessions
begin

section \<open>The TOTP second factor and recovery codes (the rest of src/services/auth.ts)\<close>

text \<open>
  Wrong codes are counted twice: per session and per account. The operations run in a
  transaction, so an exception of \<open>verifyTotp\<close> leaves the database as it was.
\<close>

datatype TotpLoginResult = TOk string string factor | TInvalid | TLocked "ms option"

definition isTotpLocked :: "AdminRow \<Rightarrow> ms \<Rightarrow> bool" where
  "isTotpLocked admin nw = (case a_totp_locked_until admin of None \<Rightarrow> False | Some u \<Rightarrow> u > nw)"

definition totpLockedUntil :: "db \<Rightarrow> string \<Rightarrow> ms \<Rightarrow> ms option" where
  "totpLockedUntil d adminId nw =
     (case admin_by_id d adminId of
        Some admin \<Rightarrow> (if isTotpLocked admin nw then a_totp_locked_until admin else None)
      | None \<Rightarrow> None)"

definition recordTotpFailure :: "string \<Rightarrow> nat \<Rightarrow> ms \<Rightarrow> db \<Rightarrow> ms option \<times> db" where
  "recordTotpFailure adminId failed_count nw d =
     (let count = failed_count + 1
      in if count \<ge> TOTP_ACCOUNT_LOCK_THRESHOLD
         then (let until = nw + TOTP_ACCOUNT_LOCK_MS
               in (Some until,
                   delete_sessions (\<lambda>s. s_admin_id s = adminId \<and> \<not> s_totp_verified s)
                     (set_admin (\<lambda>a. a_id a = adminId)
                        (\<lambda>a. a\<lparr>a_totp_failed_count := 0, a_totp_locked_until := Some until\<rparr>) d)))
         else (None, set_admin (\<lambda>a. a_id a = adminId) (\<lambda>a. a\<lparr>a_totp_failed_count := count\<rparr>) d))"

definition unused_code :: "runtime \<Rightarrow> string \<Rightarrow> string \<Rightarrow> RecoveryRow \<Rightarrow> bool" where
  "unused_code R adminId nrm c =
     (rc_admin_id c = adminId \<and> rc_code_hash c = rt_sha256 R nrm \<and> rc_used_at c = None)"

definition consumeRecoveryCode :: "runtime \<Rightarrow> ms \<Rightarrow> string \<Rightarrow> string \<Rightarrow> db \<Rightarrow> bool \<times> db" where
  "consumeRecoveryCode R nw adminId code d =
     (let nrm = normalizeRecoveryCode code
      in if length nrm \<noteq> 10 then (False, d)
         else (n_where (unused_code R adminId nrm) (recovery_codes d) > 0,
               d\<lparr>recovery_codes := upd_where (unused_code R adminId nrm)
                   (\<lambda>c. c\<lparr>rc_used_at := Some nw\<rparr>) (recovery_codes d)\<rparr>))"

text \<open>\<open>admin.totp_secret && admin.totp_enabled_at ? verifyTotp(...) : null\<close> with the replay guard\<close>

definition admin_totp :: "runtime \<Rightarrow> ms \<Rightarrow> AdminRow \<Rightarrow> string \<Rightarrow> exn + int option" where
  "admin_totp R nw admin code =
     (case a_totp_secret admin of
        None \<Rightarrow> Inr None
      | Some secret \<Rightarrow>
          (if secret = [] \<or> a_totp_enabled_at admin = None then Inr None
           else verifyTotp R secret code DEFAULTS 1 nw (a_totp_last_step admin)))"

definition set_last_step :: "string \<Rightarrow> int \<Rightarrow> db \<Rightarrow> db" where
  "set_last_step adminId step = set_admin (\<lambda>a. a_id a = adminId) (\<lambda>a. a\<lparr>a_totp_last_step := Some step\<rparr>)"

definition verifySessionTotp ::
    "runtime \<Rightarrow> ms \<Rightarrow> session_rnd \<Rightarrow> string \<Rightarrow> string \<Rightarrow> ms \<Rightarrow> TotpLoginResult exec" where
  "verifySessionTotp R nw rnd sessionId code ttlMs =
     transaction (\<lambda>d.
       let idHash = rt_sha256 R sessionId
       in case find_session d idHash of
            None \<Rightarrow> (Inr (TLocked None), d)
          | Some s \<Rightarrow>
              (case admin_by_id d (s_admin_id s) of
                 None \<Rightarrow> (Inr TInvalid, d)
               | Some admin \<Rightarrow>
                   (if \<not> hasSecondFactor (toAdmin d admin) then (Inr TInvalid, d)
                    else if isTotpLocked admin nw then (Inr (TLocked (a_totp_locked_until admin)), d)
                    else (case admin_totp R nw admin code of
                            Inl e \<Rightarrow> (Inl e, d)
                          | Inr step \<Rightarrow>
                              (let (fct, d1) = (case step of
                                     Some st \<Rightarrow> (Some FTotp, set_last_step (a_id admin) st d)
                                   | None \<Rightarrow> (let (used, d') = consumeRecoveryCode R nw (a_id admin) code d
                                             in (if used then Some FRecovery else None, d')))
                               in case fct of
                                    Some f \<Rightarrow>
                                      (case completeSecondFactor R nw rnd idHash (toAdmin d admin) ttlMs f d1 of
                                         (Inl e, d2) \<Rightarrow> (Inl e, d2)
                                       | (Inr (sid, csrf), d2) \<Rightarrow> (Inr (TOk sid csrf f), d2))
                                  | None \<Rightarrow>
                                      (let (lockedUntil, d2) =
                                             recordTotpFailure (a_id admin) (a_totp_failed_count admin) nw d1
                                       in if lockedUntil \<noteq> None then (Inr (TLocked lockedUntil), d2)
                                          else (let attempts = s_totp_attempts s + 1
                                                in if attempts \<ge> MAX_TOTP_ATTEMPTS
                                                   then (Inr (TLocked None),
                                                         delete_sessions (\<lambda>x. s_id_hash x = idHash) d2)
                                                   else (Inr TInvalid,
                                                         set_session (\<lambda>x. s_id_hash x = idHash)
                                                           (\<lambda>x. x\<lparr>s_totp_attempts := attempts\<rparr>) d2))))))))"

datatype ConfirmResult = ConfirmOk | ConfirmInvalid | ConfirmLocked

definition verifyConfirmCode :: "runtime \<Rightarrow> ms \<Rightarrow> string \<Rightarrow> string \<Rightarrow> ConfirmResult exec" where
  "verifyConfirmCode R nw adminId code =
     transaction (\<lambda>d.
       case admin_by_id d adminId of
         None \<Rightarrow> (Inr ConfirmInvalid, d)
       | Some admin \<Rightarrow>
           (if isTotpLocked admin nw then (Inr ConfirmLocked, d)
            else (case admin_totp R nw admin code of
                    Inl e \<Rightarrow> (Inl e, d)
                  | Inr (Some step) \<Rightarrow>
                      (Inr ConfirmOk, set_admin (\<lambda>a. a_id a = adminId)
                         (\<lambda>a. a\<lparr>a_totp_last_step := Some step, a_totp_failed_count := 0\<rparr>) d)
                  | Inr None \<Rightarrow>
                      (let (used, d1) = consumeRecoveryCode R nw adminId code d
                       in if used then (Inr ConfirmOk, d1)
                          else (let (lockedUntil, d2) = recordTotpFailure (a_id admin) (a_totp_failed_count admin) nw d1
                                in (Inr (if lockedUntil \<noteq> None then ConfirmLocked else ConfirmInvalid), d2))))))"

subsection \<open>Enrolment\<close>

definition beginTotpEnrolment :: "nat list \<Rightarrow> string \<Rightarrow> string exec" where
  "beginTotpEnrolment bytes20 adminId d =
     (case admin_by_id d adminId of
        None \<Rightarrow> (Inl (JsError ''admin not found''), d)
      | Some admin \<Rightarrow>
          (if a_totp_enabled_at admin \<noteq> None then (Inl (JsError ''TOTP is already enabled''), d)
           else (let secret = generateTotpSecret bytes20
                 in (Inr secret, set_admin (\<lambda>a. a_id a = adminId)
                       (\<lambda>a. a\<lparr>a_totp_secret := Some secret, a_totp_last_step := None\<rparr>) d))))"

definition pendingTotpSecret :: "db \<Rightarrow> string \<Rightarrow> string option" where
  "pendingTotpSecret d adminId =
     (case admin_by_id d adminId of
        Some admin \<Rightarrow> (if a_totp_enabled_at admin = None then a_totp_secret admin else None)
      | None \<Rightarrow> None)"

fun ins_codes :: "runtime \<Rightarrow> string \<Rightarrow> string list \<Rightarrow> db \<Rightarrow> exn + db" where
  "ins_codes R adminId [] d = Inr d"
| "ins_codes R adminId (c # cs) d =
     bind_res (ins_recovery \<lparr>rc_admin_id = adminId, rc_code_hash = rt_sha256 R (normalizeRecoveryCode c),
                 rc_used_at = None\<rparr> d) (ins_codes R adminId cs)"

definition replaceRecoveryCodes :: "runtime \<Rightarrow> nat list list \<Rightarrow> string \<Rightarrow> string list exec" where
  "replaceRecoveryCodes R draws adminId d =
     (let d1 = d\<lparr>recovery_codes := del_where (\<lambda>c. rc_admin_id c = adminId) (recovery_codes d)\<rparr>;
          codes = generateRecoveryCodes draws
      in case ins_codes R adminId codes d1 of Inl e \<Rightarrow> (Inl e, d1) | Inr d2 \<Rightarrow> (Inr codes, d2))"

definition exec_map :: "('a \<Rightarrow> 'b) \<Rightarrow> 'a exec \<Rightarrow> 'b exec" where
  "exec_map f m d = (case m d of (Inl e, d') \<Rightarrow> (Inl e, d') | (Inr x, d') \<Rightarrow> (Inr (f x), d'))"

definition confirmTotpEnrolment ::
    "runtime \<Rightarrow> ms \<Rightarrow> nat list list \<Rightarrow> string \<Rightarrow> string \<Rightarrow> string list option exec" where
  "confirmTotpEnrolment R nw draws adminId code =
     transaction (\<lambda>d.
       case admin_by_id d adminId of
         None \<Rightarrow> (Inr None, d)
       | Some admin \<Rightarrow>
           (case a_totp_secret admin of
              None \<Rightarrow> (Inr None, d)
            | Some secret \<Rightarrow>
                (if secret = [] \<or> a_totp_enabled_at admin \<noteq> None then (Inr None, d)
                 else (case verifyTotp R secret code DEFAULTS 1 nw None of
                         Inl e \<Rightarrow> (Inl e, d)
                       | Inr None \<Rightarrow> (Inr None, d)
                       | Inr (Some step) \<Rightarrow>
                           exec_map Some (replaceRecoveryCodes R draws adminId)
                             (set_session (\<lambda>s. s_admin_id s = adminId) (\<lambda>s. s\<lparr>s_totp_verified := True\<rparr>)
                                (set_admin (\<lambda>a. a_id a = adminId)
                                   (\<lambda>a. a\<lparr>a_totp_enabled_at := Some nw, a_totp_last_step := Some step\<rparr>) d))))))"

definition regenerateRecoveryCodes ::
    "runtime \<Rightarrow> ms \<Rightarrow> nat list list \<Rightarrow> string \<Rightarrow> string \<Rightarrow> string list option exec" where
  "regenerateRecoveryCodes R nw draws adminId code =
     transaction (\<lambda>d.
       case admin_by_id d adminId of
         None \<Rightarrow> (Inr None, d)
       | Some admin \<Rightarrow>
           (case admin_totp R nw admin code of
              Inl e \<Rightarrow> (Inl e, d)
            | Inr None \<Rightarrow> (Inr None, d)
            | Inr (Some step) \<Rightarrow>
                exec_map Some (replaceRecoveryCodes R draws adminId) (set_last_step adminId step d)))"

definition regenerateRecoveryCodesConfirmed ::
    "runtime \<Rightarrow> nat list list \<Rightarrow> string \<Rightarrow> string list option exec" where
  "regenerateRecoveryCodesConfirmed R draws adminId =
     transaction (\<lambda>d.
       case admin_by_id d adminId of
         None \<Rightarrow> (Inr None, d)
       | Some admin \<Rightarrow>
           (if \<not> hasSecondFactor (toAdmin d admin) then (Inr None, d)
            else exec_map Some (replaceRecoveryCodes R draws adminId) d))"

definition remainingRecoveryCodes :: "db \<Rightarrow> string \<Rightarrow> nat" where
  "remainingRecoveryCodes d adminId =
     n_where (\<lambda>c. rc_admin_id c = adminId \<and> rc_used_at c = None) (recovery_codes d)"

definition dropRecoveryCodesIfUnused :: "string \<Rightarrow> db \<Rightarrow> db" where
  "dropRecoveryCodesIfUnused adminId d =
     (case admin_by_id d adminId of
        Some admin \<Rightarrow>
          (if \<not> hasSecondFactor (toAdmin d admin)
           then d\<lparr>recovery_codes := del_where (\<lambda>c. rc_admin_id c = adminId) (recovery_codes d)\<rparr> else d)
      | None \<Rightarrow> d)"

definition forceDisableTotp :: "runtime \<Rightarrow> string \<Rightarrow> string option \<Rightarrow> db \<Rightarrow> db" where
  "forceDisableTotp R adminId keepSessionId d =
     endSessions R adminId keepSessionId
       (dropRecoveryCodesIfUnused adminId
          (set_admin (\<lambda>a. a_id a = adminId)
             (\<lambda>a. a\<lparr>a_totp_secret := None, a_totp_enabled_at := None, a_totp_last_step := None,
                    a_totp_failed_count := 0, a_totp_locked_until := None\<rparr>) d))"

definition disableTotp :: "runtime \<Rightarrow> ms \<Rightarrow> string \<Rightarrow> string \<Rightarrow> string \<Rightarrow> bool exec" where
  "disableTotp R nw adminId code keepSessionId =
     transaction (\<lambda>d.
       case admin_by_id d adminId of
         None \<Rightarrow> (Inr False, d)
       | Some admin \<Rightarrow>
           (if a_totp_secret admin = None \<or> a_totp_secret admin = Some [] \<or> a_totp_enabled_at admin = None
            then (Inr False, d)
            else (case admin_totp R nw admin code of
                    Inl e \<Rightarrow> (Inl e, d)
                  | Inr step \<Rightarrow>
                      (let (passed, d1) = (if step \<noteq> None then (True, d) else consumeRecoveryCode R nw adminId code d)
                       in if \<not> passed then (Inr False, d1)
                          else (Inr True, forceDisableTotp R adminId (Some keepSessionId) d1)))))"

definition resetSecondFactors :: "runtime \<Rightarrow> string \<Rightarrow> db \<Rightarrow> db" where
  "resetSecondFactors R adminId d =
     forceDisableTotp R adminId None
       (d\<lparr>passkeys := del_where (\<lambda>p. pk_admin_id p = adminId) (passkeys d)\<rparr>)"

end
