(* ===== verification/Passkeys.thy ===== *)
theory Passkeys
  imports SecondFactor Webauthn
begin

section \<open>Passkeys as a second factor (src/services/passkeys.ts)\<close>

text \<open>
  The pending challenge of a ceremony lives on the session row. \<open>rp\<close> is the origin and the
  relying-party id the ceremony must be bound to.
\<close>

type_synonym rp = "string \<times> string"

definition CEREMONY_TTL_MS :: ms where "CEREMONY_TTL_MS = 300000"
definition MAX_PASSKEYS :: nat where "MAX_PASSKEYS = 10"
definition PASSKEY_NAME_MAX :: nat where "PASSKEY_NAME_MAX = 64"

record Passkey =
  py_id :: string
  py_name :: string
  py_created_at :: ms
  py_last_used_at :: "ms option"

definition passkey_view :: "PasskeyRow \<Rightarrow> Passkey" where
  "passkey_view p = \<lparr>py_id = pk_id p, py_name = pk_name p, py_created_at = pk_created_at p,
     py_last_used_at = pk_last_used_at p\<rparr>"

definition listPasskeys :: "db \<Rightarrow> string \<Rightarrow> Passkey list" where
  "listPasskeys d adminId =
     map passkey_view (sort_key pk_created_at (filter (\<lambda>p. pk_admin_id p = adminId) (passkeys d)))"

definition beginCeremony :: "runtime \<Rightarrow> ms \<Rightarrow> nat list \<Rightarrow> string \<Rightarrow> purpose \<Rightarrow> db \<Rightarrow> string \<times> db" where
  "beginCeremony R nw rnd32 sessionId prp d =
     (let chal = base64url rnd32
      in (chal, set_session (\<lambda>s. s_id_hash s = rt_sha256 R sessionId)
            (\<lambda>s. s\<lparr>s_webauthn_challenge := Some chal, s_webauthn_purpose := Some prp,
                   s_webauthn_expires_at := Some (nw + CEREMONY_TTL_MS)\<rparr>) d))"

definition takeChallenge :: "ms \<Rightarrow> string \<Rightarrow> purpose \<Rightarrow> string exec" where
  "takeChallenge nw idHash prp d =
     (let row = find_session d idHash;
          d1 = set_session (\<lambda>s. s_id_hash s = idHash)
                 (\<lambda>s. s\<lparr>s_webauthn_challenge := None, s_webauthn_purpose := None,
                        s_webauthn_expires_at := None\<rparr>) d
      in case row of
           None \<Rightarrow> (Inl (WebAuthnError ''no pending challenge''), d1)
         | Some s \<Rightarrow>
             (case (s_webauthn_challenge s, s_webauthn_expires_at s) of
                (Some c, Some e) \<Rightarrow>
                  (if c = [] \<or> s_webauthn_purpose s \<noteq> Some prp \<or> e \<le> nw
                   then (Inl (WebAuthnError ''no pending challenge''), d1) else (Inr c, d1))
              | _ \<Rightarrow> (Inl (WebAuthnError ''no pending challenge''), d1)))"

definition credentialIds :: "db \<Rightarrow> string \<Rightarrow> string list" where
  "credentialIds d adminId = map pk_credential_id (filter (\<lambda>p. pk_admin_id p = adminId) (passkeys d))"

definition expected :: "rp \<Rightarrow> string \<Rightarrow> Expected" where
  "expected rp chal = \<lparr>ex_challenge = chal, ex_origin = fst rp, ex_rpId = snd rp\<rparr>"

definition registerPasskey ::
    "runtime \<Rightarrow> ms \<Rightarrow> nat list \<Rightarrow> string \<Rightarrow> string \<Rightarrow> string \<Rightarrow> RegistrationInput \<Rightarrow> rp \<Rightarrow> Passkey exec" where
  "registerPasskey R nw idb sessionId adminId name inp rp =
     transaction (\<lambda>d.
       case takeChallenge nw (rt_sha256 R sessionId) PRegister d of
         (Inl e, d1) \<Rightarrow> (Inl e, d1)
       | (Inr chal, d1) \<Rightarrow>
           (case verifyRegistration R inp (expected rp chal) of
              Inl e \<Rightarrow> (Inl e, d1)
            | Inr reg \<Rightarrow>
                (if n_where (\<lambda>p. pk_admin_id p = adminId) (passkeys d1) \<ge> MAX_PASSKEYS
                 then (Inl (WebAuthnError ''too many passkeys''), d1)
                 else if vr_credentialId reg \<in> pk_credential_id ` set (passkeys d1)
                 then (Inl (WebAuthnError ''passkey already registered''), d1)
                 else (let row = \<lparr>pk_id = newId ''pk'' idb, pk_admin_id = adminId,
                             pk_credential_id = vr_credentialId reg, pk_public_key = vr_publicKey reg,
                             pk_algorithm = vr_algorithm reg, pk_sign_count = vr_signCount reg,
                             pk_name = or_else (slice0 PASSKEY_NAME_MAX (trim name)) ''Passkey'',
                             pk_created_at = nw, pk_last_used_at = None\<rparr>
                       in case ins_passkey row d1 of
                            Inl e \<Rightarrow> (Inl e, d1)
                          | Inr d2 \<Rightarrow>
                              (Inr (passkey_view row),
                               set_session (\<lambda>s. s_id_hash s = rt_sha256 R sessionId)
                                 (\<lambda>s. s\<lparr>s_totp_verified := True\<rparr>) d2)))))"

definition checkAssertion ::
    "runtime \<Rightarrow> ms \<Rightarrow> string \<Rightarrow> string \<Rightarrow> purpose \<Rightarrow> string \<Rightarrow> AssertionInput \<Rightarrow> rp \<Rightarrow> unit exec" where
  "checkAssertion R nw idHash adminId prp credentialId inp rp d =
     (case takeChallenge nw idHash prp d of
        (Inl e, d1) \<Rightarrow> (Inl e, d1)
      | (Inr chal, d1) \<Rightarrow>
          (case List.find (\<lambda>p. pk_credential_id p = credentialId \<and> pk_admin_id p = adminId) (passkeys d1) of
             None \<Rightarrow> (Inl (WebAuthnError ''unknown passkey''), d1)
           | Some cred \<Rightarrow>
               (case verifyAssertion R inp \<lparr>sc_publicKey = pk_public_key cred, sc_algorithm = pk_algorithm cred,
                       sc_signCount = pk_sign_count cred\<rparr> (expected rp chal) of
                  Inl e \<Rightarrow> (Inl e, d1)
                | Inr (signCount, _) \<Rightarrow>
                    (Inr (), d1\<lparr>passkeys := upd_where (\<lambda>p. pk_id p = pk_id cred)
                        (\<lambda>p. p\<lparr>pk_sign_count := signCount, pk_last_used_at := Some nw\<rparr>) (passkeys d1)\<rparr>))))"

text \<open>
  The transaction catches the error of \<open>checkAssertion\<close> and commits, so that the challenge is
  consumed either way; the error is thrown afterwards.
\<close>

definition verifyPasskeyLogin ::
    "runtime \<Rightarrow> ms \<Rightarrow> session_rnd \<Rightarrow> string \<Rightarrow> Admin \<Rightarrow> ms \<Rightarrow> string \<Rightarrow> AssertionInput \<Rightarrow> rp
     \<Rightarrow> (string \<times> string) exec" where
  "verifyPasskeyLogin R nw rnd sessionId admin ttlMs credentialId inp rp d =
     (let idHash = rt_sha256 R sessionId
      in case transaction (\<lambda>d.
             case checkAssertion R nw idHash (ad_id admin) PLogin credentialId inp rp d of
               (Inl err, d1) \<Rightarrow> (Inr (Inl err), d1)
             | (Inr _, d1) \<Rightarrow>
                 (case completeSecondFactor R nw rnd idHash admin ttlMs FPasskey d1 of
                    (Inl e, d2) \<Rightarrow> (Inl e, d2)
                  | (Inr fresh, d2) \<Rightarrow> (Inr (Inr fresh), d2))) d of
           (Inl e, d') \<Rightarrow> (Inl e, d')
         | (Inr (Inl err), d') \<Rightarrow> (Inl err, d')
         | (Inr (Inr fresh), d') \<Rightarrow> (Inr fresh, d'))"

definition verifyPasskeyConfirm ::
    "runtime \<Rightarrow> ms \<Rightarrow> string \<Rightarrow> string \<Rightarrow> string \<Rightarrow> AssertionInput \<Rightarrow> rp \<Rightarrow> unit exec" where
  "verifyPasskeyConfirm R nw sessionId adminId credentialId inp rp d =
     checkAssertion R nw (rt_sha256 R sessionId) adminId PConfirm credentialId inp rp d"

definition removePasskey :: "runtime \<Rightarrow> string \<Rightarrow> string \<Rightarrow> string \<Rightarrow> db \<Rightarrow> Passkey option \<times> db" where
  "removePasskey R adminId passkeyId keepSessionId d =
     (case List.find (\<lambda>p. pk_id p = passkeyId \<and> pk_admin_id p = adminId) (passkeys d) of
        None \<Rightarrow> (None, d)
      | Some pk \<Rightarrow>
          (Some (passkey_view pk),
           destroyOtherSessions R adminId keepSessionId
             (dropRecoveryCodesIfUnused adminId
                (d\<lparr>passkeys := del_where (\<lambda>p. pk_id p = pk_id pk) (passkeys d)\<rparr>))))"

end
