(* ===== verification/AuditLog.thy ===== *)
theory AuditLog
  imports Config
begin

section \<open>The audit log (src/services/audit.ts)\<close>

text \<open>
  One row per event, numbered by AUTOINCREMENT. The details are the JSON members as texts.
  The line the function also writes to the process log is not part of the model.
\<close>

record AuditEvent =
  ev_actorType :: actor
  ev_actorId :: "string option"
  ev_action :: string
  ev_caseId :: "string option"
  ev_linkId :: "string option"
  ev_itemId :: "string option"
  ev_ip :: "string option"
  ev_details :: "(string \<times> string) list"

definition next_audit_id :: "db \<Rightarrow> nat" where
  "next_audit_id d = Suc (fold (\<lambda>r m. max (au_id r) m) (audit_log d) 0)"

definition audit :: "ms \<Rightarrow> AuditEvent \<Rightarrow> db \<Rightarrow> db" where
  "audit nw ev d =
     d\<lparr>audit_log := audit_log d @
         [\<lparr>au_id = next_audit_id d, au_ts = nw, au_actor_type = ev_actorType ev, au_actor_id = ev_actorId ev,
           au_action = ev_action ev, au_case_id = ev_caseId ev, au_link_id = ev_linkId ev,
           au_item_id = ev_itemId ev, au_ip = ev_ip ev, au_details = ev_details ev\<rparr>]\<rparr>"

definition actor_name :: "db \<Rightarrow> AuditRow \<Rightarrow> string option" where
  "actor_name d r =
     (if au_actor_type r = ActorAdmin
      then (case au_actor_id r of None \<Rightarrow> None
            | Some i \<Rightarrow> map_option a_username (List.find (\<lambda>a. a_id a = i) (admins d)))
      else None)"

definition listAudit :: "db \<Rightarrow> nat \<Rightarrow> (AuditRow \<times> string option) list" where
  "listAudit d limit =
     take limit (map (\<lambda>r. (r, actor_name d r)) (sort_key (\<lambda>r. - int (au_id r)) (audit_log d)))"

end
