(* ===== verification/PanelLogin.thy ===== *)
theory PanelLogin
  imports Middleware Passkeys AuditLog
begin

section \<open>Signing in to the panel (the first half of src/http/admin.ts)\<close>

text \<open>
  Each handler is a function of the request the middleware has prepared. The gates compose
  the guards in the order the router mounts them: \<open>gate_password\<close> for what needs a session
  and a CSRF token, \<open>gate_verified\<close> for what needs the second factor as well. A page is its
  name and its messages; the lists it also shows are the results of the listing functions of
  the services.
\<close>

definition field :: "Request \<Rightarrow> string \<Rightarrow> string" where
  "field req name = (case map_of (rq_body req) name of Some (BText v) \<Rightarrow> v | _ \<Rightarrow> [])"

definition param :: "Request \<Rightarrow> string \<Rightarrow> string option" where
  "param req name = map_of (rq_params req) name"

definition validId :: "string option \<Rightarrow> string option" where
  "validId i = (case i of None \<Rightarrow> None | Some s \<Rightarrow> (if s \<noteq> [] \<and> matches ID_RE s then Some s else None))"

definition panel_page :: "nat \<Rightarrow> string \<Rightarrow> (string \<times> string) list \<Rightarrow> Response" where
  "panel_page status name msgs = respond status (BodyView (PanelPage name msgs))"

definition sendError :: "dictionary \<Rightarrow> Request \<Rightarrow> string \<Rightarrow> string \<Rightarrow> nat \<Rightarrow> Response" where
  "sendError dict req titleKey messageKey status =
     panel_page status ''error'' [(''title'', t dict (rq_lang req) titleKey None),
       (''message'', t dict (rq_lang req) messageKey None)]"

definition sendJson :: "nat \<Rightarrow> (string \<times> json) list \<Rightarrow> Response" where
  "sendJson status ms = with_header ''Cache-Control'' ''no-store'' (respond status (BodyJson (JObj ms)))"

definition admin_event :: "string \<Rightarrow> string option \<Rightarrow> Request \<Rightarrow> (string \<times> string) list \<Rightarrow> AuditEvent" where
  "admin_event action who req details =
     \<lparr>ev_actorType = ActorAdmin, ev_actorId = who, ev_action = action, ev_caseId = None, ev_linkId = None,
      ev_itemId = None, ev_ip = rq_ip req, ev_details = details\<rparr>"

definition clearSessionCookie :: "Response \<Rightarrow> Response" where
  "clearSessionCookie r =
     with_header ''Set-Cookie'' (BOUND_COOKIE @ ''=; Path=/admin; HttpOnly; SameSite=Lax; Max-Age=0'')
       (with_header ''Set-Cookie'' (clearCookie SESSION_COOKIE) r)"

definition public_rp :: "runtime \<Rightarrow> Config \<Rightarrow> rp" where
  "public_rp R cfg = (case rt_url R (publicUrl cfg) of Some (_, origin, host) \<Rightarrow> (origin, host) | None \<Rightarrow> ([], []))"

subsection \<open>The gates\<close>

type_synonym session_handler = "Session \<Rightarrow> string \<Rightarrow> Response exec"

definition gate_password ::
    "runtime \<Rightarrow> Config \<Rightarrow> dictionary \<Rightarrow> Request \<Rightarrow> session_handler \<Rightarrow> Response exec" where
  "gate_password R cfg dict req k d =
     (case requireAdmin False req of
        Some r \<Rightarrow> (Inr r, d)
      | None \<Rightarrow>
          (case csrfProtect R cfg dict req of
             Some r \<Rightarrow> (Inr r, d)
           | None \<Rightarrow>
               (case (rq_session req, rq_sessionId req) of
                  (Some s, Some sid) \<Rightarrow> k s sid d
                | _ \<Rightarrow> (Inr (respond 500 BodyEmpty), d))))"

definition map_response :: "(Response \<Rightarrow> Response) \<Rightarrow> Response exec \<Rightarrow> Response exec" where
  "map_response f m d = (case m d of (Inl e, d') \<Rightarrow> (Inl e, d') | (Inr r, d') \<Rightarrow> (Inr (f r), d'))"

definition registration_header :: "string \<Rightarrow> string" where
  "registration_header chal =
     ''(ES256 RS256);path='' @ quoted ''/admin/dbsc/register'' @ '';challenge='' @ quoted chal"

text \<open>The second factor, and the offer to bind the session on the first document it loads\<close>

definition gate_verified ::
    "runtime \<Rightarrow> Config \<Rightarrow> dictionary \<Rightarrow> ms \<Rightarrow> nat list \<Rightarrow> Request \<Rightarrow> session_handler \<Rightarrow> Response exec" where
  "gate_verified R cfg dict nw rnd24 req k =
     gate_password R cfg dict req (\<lambda>s sid d.
       case requireAdmin True req of
         Some r \<Rightarrow> (Inr r, d)
       | None \<Rightarrow>
           (if deviceBoundSessions cfg \<and> cookieSecure cfg \<and> rq_method req = ''GET'' \<and> rq_fetchDest req = Some ''document''
            then (case offerBinding R nw rnd24 sid d of
                    (None, d1) \<Rightarrow> k s sid d1
                  | (Some chal, d1) \<Rightarrow>
                      map_response (with_header ''Secure-Session-Registration'' (registration_header chal)) (k s sid) d1)
            else k s sid d))"

text \<open>The gate in front of everything but the security page\<close>

definition gate_ready ::
    "runtime \<Rightarrow> Config \<Rightarrow> dictionary \<Rightarrow> ms \<Rightarrow> nat list \<Rightarrow> Request \<Rightarrow> session_handler \<Rightarrow> Response exec" where
  "gate_ready R cfg dict nw rnd24 req k =
     gate_verified R cfg dict nw rnd24 req (\<lambda>s sid d.
       let missing = (if ad_must_change_password (se_admin s) then Some ''Password change required''
                      else if adminRequireTotp cfg \<and> \<not> hasSecondFactor (se_admin s) then Some ''Second factor required''
                      else None)
       in case missing of
            None \<Rightarrow> k s sid d
          | Some msg \<Rightarrow>
              (if rq_method req = ''GET'' then (Inr (redirect 302 ''/admin/security''), d)
               else (Inr (respond 403 (BodyText msg)), d)))"

subsection \<open>Device-bound sessions\<close>

definition boundCookie :: "Config \<Rightarrow> IssuedCookie \<Rightarrow> string" where
  "boundCookie cfg c =
     BOUND_COOKIE @ ''='' @ is_cookie c @ ''; Path=/admin; HttpOnly; SameSite=Lax; Max-Age=''
     @ nat_digits (is_maxAgeSec c) @ (if cookieSecure cfg then ''; Secure'' else [])"

definition dbscConfig :: "runtime \<Rightarrow> Config \<Rightarrow> string \<Rightarrow> (string \<times> json) list" where
  "dbscConfig R cfg bindingId =
     [(''session_identifier'', JStr bindingId), (''refresh_url'', JStr ''/admin/dbsc/refresh''),
      (''scope'', JObj [(''origin'', JStr (public_origin R cfg)), (''include_site'', JBool False)]),
      (''credentials'', JArr [JObj [(''type'', JStr ''cookie''), (''name'', JStr BOUND_COOKIE),
         (''attributes'', JStr (''Path=/admin; HttpOnly; SameSite=Lax'' @ (if cookieSecure cfg then ''; Secure'' else [])))]])]"

definition session_proof :: "Request \<Rightarrow> string option" where
  "session_proof req = proofFromHeader (case rq_sessionResponse req of None \<Rightarrow> [] | Some v \<Rightarrow> [v])"

definition refused :: "string \<Rightarrow> nat \<Rightarrow> Response" where
  "refused msg status = sendJson status [(''error'', JStr msg)]"

definition dbscRegister :: "runtime \<Rightarrow> Config \<Rightarrow> ms \<Rightarrow> nat list \<Rightarrow> nat list \<Rightarrow> Request \<Rightarrow> Response exec" where
  "dbscRegister R cfg nw cookieb idb req d =
     (case (rq_session req, rq_sessionId req, session_proof req) of
        (Some s, Some sid, Some jwt) \<Rightarrow>
          (if \<not> se_totpVerified s \<or> sid = [] \<or> jwt = [] then (Inr (refused ''registration refused'' 400), d)
           else (case registerBinding R nw cookieb idb sid jwt d of
                   (Inl (DbscError e), d1) \<Rightarrow> (Inr (refused ''registration refused'' 400), d1)
                 | (Inl e, d1) \<Rightarrow> (Inl e, d1)
                 | (Inr issued, d1) \<Rightarrow>
                     (Inr (with_header ''Set-Cookie'' (boundCookie cfg issued)
                            (sendJson 200 (dbscConfig R cfg (is_bindingId issued)))),
                      audit nw (admin_event ''admin.session_bound'' (Some (ad_id (se_admin s))) req []) d1)))
      | _ \<Rightarrow> (Inr (refused ''registration refused'' 400), d))"

definition unquote :: "string \<Rightarrow> string" where
  "unquote s =
     (let a = (if s \<noteq> [] \<and> code_of (hd s) = 34 then tl s else s)
      in if a \<noteq> [] \<and> code_of (last a) = 34 then butlast a else a)"

definition challenge_header :: "string \<Rightarrow> string \<Rightarrow> string" where
  "challenge_header chal bindingId = quoted chal @ '';id='' @ quoted bindingId"

definition dbscRefresh :: "runtime \<Rightarrow> Config \<Rightarrow> ms \<Rightarrow> nat list \<Rightarrow> nat list \<Rightarrow> Request \<Rightarrow> Response exec" where
  "dbscRefresh R cfg nw cookieb rnd24 req d =
     (let bindingId = unquote (case rq_secureSessionId req of None \<Rightarrow> [] | Some v \<Rightarrow> v)
      in if \<not> matches ID_RE bindingId then (Inr (refused ''unknown session'' 400), d)
         else (case refreshBinding R nw cookieb rnd24 bindingId (session_proof req) d of
                 (Inl (DbscError e), d1) \<Rightarrow> (Inr (refused ''refresh refused'' 401), d1)
               | (Inl e, d1) \<Rightarrow> (Inl e, d1)
               | (Inr RefreshEnded, d1) \<Rightarrow> (Inr (sendJson 401 [(''continue'', JBool False)]), d1)
               | (Inr (RefreshChallenge b chal), d1) \<Rightarrow>
                   (Inr (with_header ''Secure-Session-Challenge'' (challenge_header chal b)
                          (refused ''challenge required'' 403)), d1)
               | (Inr (RefreshOk issued), d1) \<Rightarrow>
                   (Inr (with_header ''Secure-Session-Challenge''
                           (challenge_header (case is_nextChallenge issued of Some c \<Rightarrow> c | None \<Rightarrow> ''undefined'')
                              (is_bindingId issued))
                           (with_header ''Set-Cookie'' (boundCookie cfg issued)
                             (sendJson 200 (dbscConfig R cfg (is_bindingId issued))))), d1)))"

subsection \<open>Password and second factor\<close>

definition getLogin :: "Request \<Rightarrow> Response" where
  "getLogin req =
     (case rq_session req of
        Some s \<Rightarrow> redirect 302 (if se_totpVerified s then ''/admin'' else ''/admin/totp'')
      | None \<Rightarrow> panel_page 200 ''login'' [])"

definition set_sid :: "Config \<Rightarrow> string \<Rightarrow> Response \<Rightarrow> Response" where
  "set_sid cfg sid = with_header ''Set-Cookie'' (sessionCookie cfg sid (sessionTtlMs cfg div 1000))"

definition postLogin ::
    "runtime \<Rightarrow> Config \<Rightarrow> dictionary \<Rightarrow> ms \<Rightarrow> nat list \<Rightarrow> session_rnd \<Rightarrow> Request \<Rightarrow> Response exec" where
  "postLogin R cfg dict nw dummySalt rnd req d =
     (let username = trim (field req ''username''); password = field req ''password''
      in case (if username \<noteq> [] \<and> password \<noteq> [] then authenticate R dummySalt d username password else None) of
           None \<Rightarrow>
             (Inr (panel_page 401 ''login'' [(''error'', t dict (rq_lang req) ''login.failed'' None)]),
              audit nw \<lparr>ev_actorType = ActorSystem, ev_actorId = None, ev_action = ''admin.login_failed'',
                ev_caseId = None, ev_linkId = None, ev_itemId = None, ev_ip = rq_ip req, ev_details = []\<rparr> d)
         | Some admin \<Rightarrow>
             (case createSession R nw rnd admin (sessionTtlMs cfg) (rq_ip req) (rq_userAgent req) d of
                (Inl e, d1) \<Rightarrow> (Inl e, d1)
              | (Inr (sid, csrf), d1) \<Rightarrow>
                  (if hasSecondFactor admin
                   then (Inr (set_sid cfg sid (redirect 303 ''/admin/totp'')),
                         audit nw (admin_event ''admin.login_password'' (Some (ad_id admin)) req []) d1)
                   else (Inr (set_sid cfg sid (redirect 303
                           (if adminRequireTotp cfg \<or> ad_must_change_password admin then ''/admin/security'' else ''/admin''))),
                         audit nw (admin_event ''admin.login'' (Some (ad_id admin)) req [])
                           (recordLogin nw (ad_id admin) (snd (markConfirmed R nw sid (reauthWindowMs cfg) d1)))))))"

definition postLogout :: "runtime \<Rightarrow> Config \<Rightarrow> dictionary \<Rightarrow> ms \<Rightarrow> Request \<Rightarrow> Response exec" where
  "postLogout R cfg dict nw req =
     gate_password R cfg dict req (\<lambda>s sid d.
       (Inr (clearSessionCookie (redirect 303 ''/admin/login'')),
        audit nw (admin_event ''admin.logout'' (Some (ad_id (se_admin s))) req [])
          (if sid = [] then d else destroySession R sid d)))"

text \<open>A complete sign-in: the address to go to, and the database\<close>

definition signedIn :: "runtime \<Rightarrow> Config \<Rightarrow> ms \<Rightarrow> Request \<Rightarrow> Session \<Rightarrow> string \<Rightarrow> string \<Rightarrow> db \<Rightarrow> string \<times> db" where
  "signedIn R cfg nw req s sid fct d =
     (let admin = se_admin s
      in (if ad_must_change_password admin then ''/admin/security'' else ''/admin'',
          audit nw (admin_event ''admin.login'' (Some (ad_id admin)) req [(''second_factor'', fct)])
            (recordLogin nw (ad_id admin) (snd (markConfirmed R nw sid (reauthWindowMs cfg) d)))))"

definition factor_name :: "factor \<Rightarrow> string" where
  "factor_name f = (case f of FTotp \<Rightarrow> ''totp'' | FRecovery \<Rightarrow> ''recovery'' | FPasskey \<Rightarrow> ''passkey'')"

definition postTotp ::
    "runtime \<Rightarrow> Config \<Rightarrow> dictionary \<Rightarrow> ms \<Rightarrow> session_rnd \<Rightarrow> Request \<Rightarrow> Response exec" where
  "postTotp R cfg dict nw rnd req =
     gate_password R cfg dict req (\<lambda>s sid d.
       let who = Some (ad_id (se_admin s))
       in if se_totpVerified s then (Inr (redirect 303 ''/admin''), d)
          else (case verifySessionTotp R nw rnd sid (field req ''code'') (sessionTtlMs cfg) d of
                  (Inl e, d1) \<Rightarrow> (Inl e, d1)
                | (Inr (TOk fresh csrf f), d1) \<Rightarrow>
                    (let (target, d2) = signedIn R cfg nw req s fresh (factor_name f) d1
                     in (Inr (set_sid cfg fresh (redirect 303 target)), d2))
                | (Inr (TLocked until), d1) \<Rightarrow>
                    (Inr (clearSessionCookie (panel_page 401 ''login'' [(''error'', t dict (rq_lang req)
                       (if until \<noteq> None then ''login.account_locked'' else ''login.too_many_codes'') None)])),
                     audit nw (admin_event ''admin.totp_locked'' who req
                       [(''account_locked_until'', case until of Some u \<Rightarrow> nat_digits u | None \<Rightarrow> ''null'')]) d1)
                | (Inr TInvalid, d1) \<Rightarrow>
                    (Inr (panel_page 401 ''totp'' [(''error'', t dict (rq_lang req) ''totp.invalid'' None)]),
                     audit nw (admin_event ''admin.totp_failed'' who req []) d1)))"

definition ceremony_options :: "runtime \<Rightarrow> Config \<Rightarrow> string \<Rightarrow> string list \<Rightarrow> (string \<times> json) list" where
  "ceremony_options R cfg chal allow =
     [(''challenge'', JStr chal), (''rpId'', JStr (snd (public_rp R cfg))),
      (''allow'', JArr (map JStr allow)), (''timeout'', JNum (int CEREMONY_TTL_MS))]"

definition passkeyLoginOptions ::
    "runtime \<Rightarrow> Config \<Rightarrow> dictionary \<Rightarrow> ms \<Rightarrow> nat list \<Rightarrow> Request \<Rightarrow> Response exec" where
  "passkeyLoginOptions R cfg dict nw rnd32 req =
     gate_password R cfg dict req (\<lambda>s sid d.
       if se_totpVerified s then (Inr (sendJson 200 [(''redirect'', JStr ''/admin'')]), d)
       else (let allow = credentialIds d (ad_id (se_admin s))
             in if allow = [] then (Inr (refused (t dict (rq_lang req) ''passkey.failed'' None) 400), d)
                else (let (chal, d1) = beginCeremony R nw rnd32 sid PLogin d
                      in (Inr (sendJson 200 (ceremony_options R cfg chal allow)), d1))))"

definition assertion_form :: "Request \<Rightarrow> AssertionInput" where
  "assertion_form req = \<lparr>ai_clientDataJSON = field req ''client_data'',
     ai_authenticatorData = field req ''authenticator_data'', ai_signature = field req ''signature''\<rparr>"

definition passkeyLogin ::
    "runtime \<Rightarrow> Config \<Rightarrow> dictionary \<Rightarrow> ms \<Rightarrow> session_rnd \<Rightarrow> Request \<Rightarrow> Response exec" where
  "passkeyLogin R cfg dict nw rnd req =
     gate_password R cfg dict req (\<lambda>s sid d.
       if se_totpVerified s then (Inr (sendJson 200 [(''redirect'', JStr ''/admin'')]), d)
       else (case verifyPasskeyLogin R nw rnd sid (se_admin s) (sessionTtlMs cfg) (field req ''credential_id'')
                    (assertion_form req) (public_rp R cfg) d of
               (Inr (fresh, csrf), d1) \<Rightarrow>
                 (let (target, d2) = signedIn R cfg nw req s fresh ''passkey'' d1
                  in (Inr (set_sid cfg fresh (sendJson 200 [(''redirect'', JStr target)])), d2))
             | (Inl (WebAuthnError msg), d1) \<Rightarrow>
                 (Inr (refused (t dict (rq_lang req) ''passkey.failed'' None) 401),
                  audit nw (admin_event ''admin.passkey_failed'' (Some (ad_id (se_admin s))) req [(''reason'', msg)]) d1)
             | (Inl e, d1) \<Rightarrow> (Inl e, d1)))"

subsection \<open>Confirmation of sensitive actions\<close>

definition confirm_failed :: "dictionary \<Rightarrow> ms \<Rightarrow> Request \<Rightarrow> Session \<Rightarrow> string \<Rightarrow> string \<Rightarrow> Response exec" where
  "confirm_failed dict nw req s key how d =
     (Inr (panel_page 401 ''confirm'' [(''error'', t dict (rq_lang req) key None)]),
      audit nw (admin_event ''admin.confirm_failed'' (Some (ad_id (se_admin s))) req [(''method'', how)]) d)"

definition confirmed :: "runtime \<Rightarrow> Config \<Rightarrow> ms \<Rightarrow> Request \<Rightarrow> Session \<Rightarrow> string \<Rightarrow> string \<Rightarrow> db \<Rightarrow> db" where
  "confirmed R cfg nw req s sid how d =
     audit nw (admin_event ''admin.confirmed'' (Some (ad_id (se_admin s))) req [(''method'', how)])
       (snd (markConfirmed R nw sid (reauthWindowMs cfg) d))"

definition confirmCode ::
    "runtime \<Rightarrow> Config \<Rightarrow> dictionary \<Rightarrow> ms \<Rightarrow> nat list \<Rightarrow> Request \<Rightarrow> Response exec" where
  "confirmCode R cfg dict nw rnd24 req =
     gate_verified R cfg dict nw rnd24 req (\<lambda>s sid d.
       case verifyConfirmCode R nw (ad_id (se_admin s)) (field req ''code'') d of
         (Inl e, d1) \<Rightarrow> (Inl e, d1)
       | (Inr ConfirmOk, d1) \<Rightarrow>
           (Inr (redirect 303 (safeNext (Some (BText (field req ''next''))))), confirmed R cfg nw req s sid ''code'' d1)
       | (Inr ConfirmLocked, d1) \<Rightarrow> confirm_failed dict nw req s ''confirm.locked'' ''code'' d1
       | (Inr ConfirmInvalid, d1) \<Rightarrow> confirm_failed dict nw req s ''confirm.invalid'' ''code'' d1)"

definition confirmPassword ::
    "runtime \<Rightarrow> Config \<Rightarrow> dictionary \<Rightarrow> ms \<Rightarrow> nat list \<Rightarrow> nat list \<Rightarrow> Request \<Rightarrow> Response exec" where
  "confirmPassword R cfg dict nw dummySalt rnd24 req =
     gate_verified R cfg dict nw rnd24 req (\<lambda>s sid d.
       if hasSecondFactor (se_admin s)
          \<or> authenticate R dummySalt d (ad_username (se_admin s)) (field req ''password'') = None
       then confirm_failed dict nw req s ''confirm.invalid'' ''password'' d
       else (Inr (redirect 303 (safeNext (Some (BText (field req ''next''))))), confirmed R cfg nw req s sid ''password'' d))"

definition confirmPasskeyOptions ::
    "runtime \<Rightarrow> Config \<Rightarrow> dictionary \<Rightarrow> ms \<Rightarrow> nat list \<Rightarrow> nat list \<Rightarrow> Request \<Rightarrow> Response exec" where
  "confirmPasskeyOptions R cfg dict nw rnd24 rnd32 req =
     gate_verified R cfg dict nw rnd24 req (\<lambda>s sid d.
       let allow = credentialIds d (ad_id (se_admin s))
       in if allow = [] then (Inr (refused (t dict (rq_lang req) ''passkey.failed'' None) 400), d)
          else (let (chal, d1) = beginCeremony R nw rnd32 sid PConfirm d
                in (Inr (sendJson 200 (ceremony_options R cfg chal allow)), d1)))"

definition confirmPasskey ::
    "runtime \<Rightarrow> Config \<Rightarrow> dictionary \<Rightarrow> ms \<Rightarrow> nat list \<Rightarrow> Request \<Rightarrow> Response exec" where
  "confirmPasskey R cfg dict nw rnd24 req =
     gate_verified R cfg dict nw rnd24 req (\<lambda>s sid d.
       case verifyPasskeyConfirm R nw sid (ad_id (se_admin s)) (field req ''credential_id'') (assertion_form req)
              (public_rp R cfg) d of
         (Inr _, d1) \<Rightarrow>
           (Inr (sendJson 200 [(''redirect'', JStr (safeNext (rq_next req)))]), confirmed R cfg nw req s sid ''passkey'' d1)
       | (Inl (WebAuthnError msg), d1) \<Rightarrow>
           (Inr (refused (t dict (rq_lang req) ''passkey.failed'' None) 401),
            audit nw (admin_event ''admin.confirm_failed'' (Some (ad_id (se_admin s))) req
              [(''method'', ''passkey''), (''reason'', msg)]) d1)
       | (Inl e, d1) \<Rightarrow> (Inl e, d1))"

end
