(* ===== verification/PanelSecurity.thy ===== *)
theory PanelSecurity
  imports PanelLogin
begin

section \<open>The security page of the panel (src/http/admin.ts, /admin/security)\<close>

text \<open>
  Password, TOTP, passkeys, recovery codes and sessions of the account itself. The flashes
  are the in-memory notes a fetch leaves for the next view of the page.
\<close>

definition tx :: "dictionary \<Rightarrow> Request \<Rightarrow> string \<Rightarrow> string" where
  "tx dict req key = t dict (rq_lang req) key None"

definition security_page :: "dictionary \<Rightarrow> Request \<Rightarrow> string \<Rightarrow> string \<Rightarrow> nat \<Rightarrow> Response" where
  "security_page dict req kind key status = panel_page status ''security'' [(kind, tx dict req key)]"

definition codes_page :: "dictionary \<Rightarrow> Request \<Rightarrow> string \<Rightarrow> string list \<Rightarrow> Response" where
  "codes_page dict req key codes =
     panel_page 200 ''security'' ((''ok'', tx dict req key) # map (Pair ''code'') codes)"

text \<open>The message of an \<open>Error\<close>\<close>

definition exn_message :: "exn \<Rightarrow> string" where
  "exn_message e =
     (case e of JsError m \<Rightarrow> m | RecipientListError key ps \<Rightarrow> key | UserError key ps \<Rightarrow> key
      | ChallengeRateError n \<Rightarrow> ''too many code requests (limit '' @ nat_digits n @ ''/hour for this recipient of the link)'' | LimitError code n \<Rightarrow> ''File exceeds the maximum size of '' @ nat_digits n @ '' bytes''
      | WebAuthnError m \<Rightarrow> m | DbscError m \<Rightarrow> m | MailError m \<Rightarrow> m
      | StorageLimitError n \<Rightarrow> ''upload exceeds '' @ nat_digits n @ '' bytes''
      | StorageNotFoundError k \<Rightarrow> ''object not found: '' @ k | SqliteError \<Rightarrow> ''constraint failed'')"

definition own_event :: "string \<Rightarrow> Session \<Rightarrow> Request \<Rightarrow> (string \<times> string) list \<Rightarrow> AuditEvent" where
  "own_event action s req details = admin_event action (Some (ad_id (se_admin s))) req details"

abbreviation who_of :: "Session \<Rightarrow> string" where "who_of s \<equiv> ad_id (se_admin s)"

subsection \<open>Password\<close>

definition securityPassword ::
    "runtime \<Rightarrow> Config \<Rightarrow> dictionary \<Rightarrow> ms \<Rightarrow> nat list \<Rightarrow> nat list \<Rightarrow> Request \<Rightarrow> Response exec" where
  "securityPassword R cfg dict nw salt rnd24 req =
     gate_verified R cfg dict nw rnd24 req (\<lambda>s sid d.
       let new = field req ''new_password''
       in if new \<noteq> field req ''new_password_confirm''
          then (Inr (security_page dict req ''error'' ''security.password.mismatch'' 400), d)
          else (case changeAdminPassword R salt (who_of s) (field req ''current_password'') new d of
                  (Inl e, d1) \<Rightarrow> (Inr (panel_page 400 ''security'' [(''error'', exn_message e)]), d1)
                | (Inr False, d1) \<Rightarrow>
                    (Inr (security_page dict req ''error'' ''security.password.invalid_current'' 400), d1)
                | (Inr True, d1) \<Rightarrow>
                    (Inr (security_page dict req ''ok'' ''security.password.changed'' 200),
                     audit nw (own_event ''admin.password_changed'' s req [])
                       (destroyOtherSessions R (who_of s) sid d1))))"

subsection \<open>TOTP\<close>

definition when_confirmed :: "ms \<Rightarrow> string \<Rightarrow> Request \<Rightarrow> Response exec \<Rightarrow> Response exec" where
  "when_confirmed nw back req k d = (case requireConfirmed nw back req of Some r \<Rightarrow> (Inr r, d) | None \<Rightarrow> k d)"

definition totpBegin ::
    "runtime \<Rightarrow> Config \<Rightarrow> dictionary \<Rightarrow> ms \<Rightarrow> nat list \<Rightarrow> nat list \<Rightarrow> Request \<Rightarrow> Response exec" where
  "totpBegin R cfg dict nw bytes20 rnd24 req =
     gate_verified R cfg dict nw rnd24 req (\<lambda>s sid. when_confirmed nw ''/admin/security'' req (\<lambda>d.
       case beginTotpEnrolment bytes20 (who_of s) d of
         (Inl e, d1) \<Rightarrow> (Inr (panel_page 400 ''security'' [(''error'', exn_message e)]), d1)
       | (Inr secret, d1) \<Rightarrow> (Inr (panel_page 200 ''security'' [(''secret'', secret)]), d1)))"

definition totpConfirm ::
    "runtime \<Rightarrow> Config \<Rightarrow> dictionary \<Rightarrow> ms \<Rightarrow> nat list list \<Rightarrow> nat list \<Rightarrow> Request \<Rightarrow> Response exec" where
  "totpConfirm R cfg dict nw draws rnd24 req =
     gate_verified R cfg dict nw rnd24 req (\<lambda>s sid d.
       case confirmTotpEnrolment R nw draws (who_of s) (field req ''code'') d of
         (Inl e, d1) \<Rightarrow> (Inl e, d1)
       | (Inr None, d1) \<Rightarrow> (Inr (security_page dict req ''error'' ''security.msg.code_mismatch'' 400), d1)
       | (Inr (Some codes), d1) \<Rightarrow>
           (Inr (codes_page dict req ''security.msg.enabled'' codes),
            audit nw (own_event ''admin.totp_enabled'' s req []) (destroyOtherSessions R (who_of s) sid d1)))"

definition totpRecovery ::
    "runtime \<Rightarrow> Config \<Rightarrow> dictionary \<Rightarrow> ms \<Rightarrow> nat list list \<Rightarrow> nat list \<Rightarrow> Request \<Rightarrow> Response exec" where
  "totpRecovery R cfg dict nw draws rnd24 req =
     gate_verified R cfg dict nw rnd24 req (\<lambda>s sid d.
       case regenerateRecoveryCodes R nw draws (who_of s) (field req ''code'') d of
         (Inl e, d1) \<Rightarrow> (Inl e, d1)
       | (Inr None, d1) \<Rightarrow> (Inr (security_page dict req ''error'' ''security.msg.invalid_code'' 400), d1)
       | (Inr (Some codes), d1) \<Rightarrow>
           (Inr (codes_page dict req ''security.msg.regenerated'' codes),
            audit nw (own_event ''admin.recovery_codes_regenerated'' s req []) d1))"

definition totpDisable ::
    "runtime \<Rightarrow> Config \<Rightarrow> dictionary \<Rightarrow> ms \<Rightarrow> nat list \<Rightarrow> Request \<Rightarrow> Response exec" where
  "totpDisable R cfg dict nw rnd24 req =
     gate_verified R cfg dict nw rnd24 req (\<lambda>s sid d.
       if adminRequireTotp cfg \<and> ad_passkeys (se_admin s) = 0
       then (Inr (security_page dict req ''error'' ''security.msg.required'' 400), d)
       else (case disableTotp R nw (who_of s) (field req ''code'') sid d of
               (Inl e, d1) \<Rightarrow> (Inl e, d1)
             | (Inr False, d1) \<Rightarrow>
                 (Inr (security_page dict req ''error'' ''security.msg.invalid_code'' 400),
                  audit nw (own_event ''admin.totp_failed'' s req [(''context'', ''disable'')]) d1)
             | (Inr True, d1) \<Rightarrow>
                 (Inr (security_page dict req ''ok'' ''security.msg.disabled'' 200),
                  audit nw (own_event ''admin.totp_disabled'' s req []) d1)))"

subsection \<open>Passkeys\<close>

record flash =
  fl_ok :: string
  fl_recoveryCodes :: "string list option"
  fl_at :: ms

type_synonym flashes = "string \<Rightarrow> flash option"

definition flash_fresh :: "ms \<Rightarrow> flash \<Rightarrow> bool" where
  "flash_fresh nw f = (nw < fl_at f + 60000)"

definition takeFlash :: "ms \<Rightarrow> string \<Rightarrow> flashes \<Rightarrow> flash option \<times> flashes" where
  "takeFlash nw sid fl =
     ((case fl sid of None \<Rightarrow> None | Some f \<Rightarrow> (if flash_fresh nw f then Some f else None)), fl(sid := None))"

definition putFlash :: "ms \<Rightarrow> string \<Rightarrow> string \<Rightarrow> string list option \<Rightarrow> flashes \<Rightarrow> flashes" where
  "putFlash nw sid ok codes fl =
     (\<lambda>k. case fl k of None \<Rightarrow> None | Some f \<Rightarrow> (if flash_fresh nw f then Some f else None))
       (sid \<mapsto> \<lparr>fl_ok = ok, fl_recoveryCodes = codes, fl_at = nw\<rparr>)"

definition passkeyOptions ::
    "runtime \<Rightarrow> Config \<Rightarrow> dictionary \<Rightarrow> ms \<Rightarrow> nat list \<Rightarrow> nat list \<Rightarrow> Request \<Rightarrow> Response exec" where
  "passkeyOptions R cfg dict nw rnd24 rnd32 req =
     gate_verified R cfg dict nw rnd24 req (\<lambda>s sid d.
       if (case se_confirmedUntil s of None \<Rightarrow> True | Some until \<Rightarrow> until \<le> nw)
       then (Inr (sendJson 200 [(''redirect'', JStr ''/admin/confirm?next=%2Fadmin%2Fsecurity'')]), d)
       else (let exclude = credentialIds d (who_of s)
             in if length exclude \<ge> MAX_PASSKEYS
                then (Inr (refused (t dict (rq_lang req) ''passkeys.limit''
                        (Some [(''n'', PNum (int MAX_PASSKEYS))])) 400), d)
                else (let (chal, d1) = beginCeremony R nw rnd32 sid PRegister d
                      in (Inr (sendJson 200 [(''challenge'', JStr chal), (''rpId'', JStr (snd (public_rp R cfg))),
                             (''rpName'', JStr (br_name (brand cfg))),
                             (''userId'', JStr (base64url (utf8 (who_of s)))),
                             (''userName'', JStr (ad_username (se_admin s))),
                             (''exclude'', JArr (map JStr exclude)), (''timeout'', JNum (int CEREMONY_TTL_MS))]), d1))))"

definition integer_of :: "string \<Rightarrow> int option" where
  "integer_of s =
     (case js_number s of None \<Rightarrow> None | Some q \<Rightarrow> (if of_int \<lfloor>q\<rfloor> = q then Some \<lfloor>q\<rfloor> else None))"

definition registration_form :: "Request \<Rightarrow> RegistrationInput" where
  "registration_form req = \<lparr>rg_clientDataJSON = field req ''client_data'',
     rg_authenticatorData = field req ''authenticator_data'', rg_publicKey = field req ''public_key'',
     rg_algorithm = integer_of (field req ''algorithm''), rg_credentialId = field req ''credential_id''\<rparr>"

definition passkey_error_key :: "string \<Rightarrow> string" where
  "passkey_error_key msg =
     (if msg = ''too many passkeys'' then ''passkeys.limit''
      else if msg = ''passkey already registered'' then ''passkeys.duplicate'' else ''passkey.failed'')"

text \<open>The handler also leaves the flash: \<open>idb\<close> and \<open>draws\<close> are the random bytes of the passkey id and the codes.\<close>

definition passkeyAdd ::
    "runtime \<Rightarrow> Config \<Rightarrow> dictionary \<Rightarrow> ms \<Rightarrow> nat list \<Rightarrow> nat list list \<Rightarrow> Request \<Rightarrow> Session \<Rightarrow> string
     \<Rightarrow> db \<times> flashes \<Rightarrow> (exn + Response) \<times> db \<times> flashes" where
  "passkeyAdd R cfg dict nw idb draws req s sid st =
     (let wasFirst = (\<not> hasSecondFactor (se_admin s))
      in case registerPasskey R nw idb sid (who_of s) (field req ''name'') (registration_form req)
                (public_rp R cfg) (fst st) of
           (Inl (WebAuthnError msg), d1) \<Rightarrow>
             (Inr (refused (t dict (rq_lang req) (passkey_error_key msg) (Some [(''n'', PNum (int MAX_PASSKEYS))])) 400),
              audit nw (own_event ''admin.passkey_failed'' s req [(''context'', ''register''), (''reason'', msg)]) d1, snd st)
         | (Inl e, d1) \<Rightarrow> (Inl e, d1, snd st)
         | (Inr pk, d1) \<Rightarrow>
             (let d2 = audit nw (own_event ''admin.passkey_added'' s req [(''passkey'', py_id pk), (''name'', py_name pk)])
                         (destroyOtherSessions R (who_of s) sid d1)
              in case (if wasFirst then regenerateRecoveryCodesConfirmed R draws (who_of s) d2 else (Inr None, d2)) of
                   (Inl e, d3) \<Rightarrow> (Inl e, d3, snd st)
                 | (Inr codes, d3) \<Rightarrow>
                     (Inr (sendJson 200 [(''redirect'', JStr ''/admin/security'')]), d3,
                      putFlash nw sid (t dict (rq_lang req) ''passkeys.added'' (Some [(''name'', PStr (py_name pk))]))
                        codes (snd st))))"

definition passkeyRemove ::
    "runtime \<Rightarrow> Config \<Rightarrow> dictionary \<Rightarrow> ms \<Rightarrow> nat list \<Rightarrow> Request \<Rightarrow> Response exec" where
  "passkeyRemove R cfg dict nw rnd24 req =
     gate_verified R cfg dict nw rnd24 req (\<lambda>s sid. when_confirmed nw ''/admin/security'' req (\<lambda>d.
       if adminRequireTotp cfg \<and> \<not> ad_totp_enabled (se_admin s) \<and> ad_passkeys (se_admin s) \<le> 1
       then (Inr (security_page dict req ''error'' ''passkeys.last_required'' 400), d)
       else (case (case validId (param req ''id'') of None \<Rightarrow> (None, d)
                   | Some i \<Rightarrow> removePasskey R (who_of s) i sid d) of
               (None, d1) \<Rightarrow> (Inr (sendError dict req ''error.not_found.title'' ''error.not_found.title'' 404), d1)
             | (Some pk, d1) \<Rightarrow>
                 (Inr (panel_page 200 ''security''
                    [(''ok'', t dict (rq_lang req) ''passkeys.removed'' (Some [(''name'', PStr (py_name pk))]))]),
                  audit nw (own_event ''admin.passkey_removed'' s req [(''passkey'', py_id pk), (''name'', py_name pk)]) d1))))"

definition recoveryRegenerate ::
    "runtime \<Rightarrow> Config \<Rightarrow> dictionary \<Rightarrow> ms \<Rightarrow> nat list list \<Rightarrow> nat list \<Rightarrow> Request \<Rightarrow> Response exec" where
  "recoveryRegenerate R cfg dict nw draws rnd24 req =
     gate_verified R cfg dict nw rnd24 req (\<lambda>s sid. when_confirmed nw ''/admin/security'' req (\<lambda>d.
       case regenerateRecoveryCodesConfirmed R draws (who_of s) d of
         (Inl e, d1) \<Rightarrow> (Inl e, d1)
       | (Inr None, d1) \<Rightarrow> (Inr (security_page dict req ''error'' ''security.msg.invalid_code'' 400), d1)
       | (Inr (Some codes), d1) \<Rightarrow>
           (Inr (codes_page dict req ''security.msg.regenerated'' codes),
            audit nw (own_event ''admin.recovery_codes_regenerated'' s req []) d1)))"

subsection \<open>Sessions\<close>

definition PUBLIC_ID_RE :: rexp where
  "PUBLIC_ID_RE = Seq (Lit ''s_'') (Between 16 32 (Cls is_url64))"

definition sessionsRevokeOthers ::
    "runtime \<Rightarrow> Config \<Rightarrow> dictionary \<Rightarrow> ms \<Rightarrow> nat list \<Rightarrow> Request \<Rightarrow> Response exec" where
  "sessionsRevokeOthers R cfg dict nw rnd24 req =
     gate_verified R cfg dict nw rnd24 req (\<lambda>s sid d.
       (Inr (security_page dict req ''ok'' ''sessions.revoked_others'' 200),
        audit nw (own_event ''admin.sessions_revoked'' s req [(''scope'', ''others'')])
          (destroyOtherSessions R (who_of s) sid d)))"

definition sessionRevoke ::
    "runtime \<Rightarrow> Config \<Rightarrow> dictionary \<Rightarrow> ms \<Rightarrow> nat list \<Rightarrow> Request \<Rightarrow> Response exec" where
  "sessionRevoke R cfg dict nw rnd24 req =
     gate_verified R cfg dict nw rnd24 req (\<lambda>s sid d.
       let i = (case param req ''id'' of None \<Rightarrow> [] | Some v \<Rightarrow> v);
           missing = sendError dict req ''error.not_found.title'' ''error.not_found.title'' 404
       in if \<not> matches PUBLIC_ID_RE i \<or> i = se_publicId s then (Inr missing, d)
          else (case revokeSession (who_of s) i d of
                  (False, d1) \<Rightarrow> (Inr missing, d1)
                | (True, d1) \<Rightarrow>
                    (Inr (security_page dict req ''ok'' ''sessions.revoked'' 200),
                     audit nw (own_event ''admin.sessions_revoked'' s req [(''session'', i)]) d1)))"

end
