(* ===== verification/Users.thy ===== *)
theory Users
  imports SecondFactor Cases "HOL-Library.List_Lexorder"
begin

section \<open>Account management and case assignments (src/services/users.ts)\<close>

text \<open>
  An administrator manages accounts; nobody changes their own here, and the last active
  administrator cannot be demoted, disabled or deleted. \<open>canAccessCase\<close> is the one access
  rule for cases.
\<close>

record UserSummary =
  us_id :: string
  us_username :: string
  us_role :: role
  us_created_at :: ms
  us_last_login_at :: "ms option"
  us_disabled_at :: "ms option"
  us_must_change_password :: bool
  us_totp_enabled :: bool
  us_case_count :: nat

definition user_summary :: "db \<Rightarrow> AdminRow \<Rightarrow> UserSummary" where
  "user_summary d a =
     \<lparr>us_id = a_id a, us_username = a_username a, us_role = a_role a, us_created_at = a_created_at a,
      us_last_login_at = a_last_login_at a, us_disabled_at = a_disabled_at a,
      us_must_change_password = a_must_change_password a,
      us_totp_enabled = (a_totp_enabled_at a \<noteq> None \<or> (\<exists>p \<in> set (passkeys d). pk_admin_id p = a_id a)),
      us_case_count = n_where (\<lambda>m. m_admin_id m = a_id a) (case_members d)\<rparr>"

text \<open>Disabled accounts last, administrators first, then by name without regard to ASCII case.\<close>

definition listUsers :: "db \<Rightarrow> UserSummary list" where
  "listUsers d =
     map (user_summary d)
       (sort_key (\<lambda>a. if a_disabled_at a = None then 0 else 1 :: nat)
         (sort_key (\<lambda>a. if a_role a = RAdmin then 0 else 1 :: nat)
           (sort_key (\<lambda>a. map code_of (nocase (a_username a)) :: nat list) (admins d))))"

definition getUser :: "db \<Rightarrow> string \<Rightarrow> UserSummary option" where
  "getUser d i = List.find (\<lambda>u. us_id u = i) (listUsers d)"

definition active_admin :: "AdminRow \<Rightarrow> bool" where
  "active_admin a = (a_role a = RAdmin \<and> a_disabled_at a = None)"

definition activeAdminsOtherThan :: "db \<Rightarrow> string \<Rightarrow> nat" where
  "activeAdminsOtherThan d i = n_where (\<lambda>a. active_admin a \<and> a_id a \<noteq> i) (admins d)"

definition requireUser :: "db \<Rightarrow> string \<Rightarrow> string \<Rightarrow> exn + UserSummary" where
  "requireUser d actorId i =
     (case getUser d i of
        None \<Rightarrow> Inl (UserError ''users.missing'' [])
      | Some user \<Rightarrow> (if us_id user = actorId then Inl (UserError ''users.not_self'' []) else Inr user))"

text \<open>The role argument is typed; \<open>isRole\<close> is a check of the raw form value.\<close>

definition isRole :: "string \<Rightarrow> role option" where
  "isRole v = (if v = ''admin'' then Some RAdmin else if v = ''user'' then Some RUser else None)"

definition createUser ::
    "runtime \<Rightarrow> ms \<Rightarrow> nat list list \<Rightarrow> nat list \<Rightarrow> nat list \<Rightarrow> string \<Rightarrow> role \<Rightarrow> (Admin \<times> string) option exec" where
  "createUser R nw pwb idb salt username0 role d =
     (let username = trim username0
      in if \<not> isValidUsername username then (Inl (UserError ''users.invalid_username'' []), d)
         else if findAdminByUsername d username \<noteq> None
         then (Inl (UserError ''users.exists'' [(''username'', PStr username)]), d)
         else (case newTempPassword pwb of
                 None \<Rightarrow> (Inr None, d)
               | Some password \<Rightarrow>
                   (case createAdmin R nw idb salt username password role True d of
                      (Inl e, d') \<Rightarrow> (Inl e, d')
                    | (Inr user, d') \<Rightarrow> (Inr (Some (user, password)), d'))))"

definition setUserRole :: "string \<Rightarrow> string \<Rightarrow> role \<Rightarrow> UserSummary exec" where
  "setUserRole actorId i role =
     transaction (\<lambda>d.
       case requireUser d actorId i of
         Inl e \<Rightarrow> (Inl e, d)
       | Inr user \<Rightarrow>
           (if us_role user = RAdmin \<and> role \<noteq> RAdmin \<and> activeAdminsOtherThan d i = 0
            then (Inl (UserError ''users.last_admin'' []), d)
            else (Inr (user\<lparr>us_role := role\<rparr>), set_admin (\<lambda>a. a_id a = i) (\<lambda>a. a\<lparr>a_role := role\<rparr>) d)))"

definition setUserDisabled :: "ms \<Rightarrow> string \<Rightarrow> string \<Rightarrow> bool \<Rightarrow> UserSummary exec" where
  "setUserDisabled nw actorId i disabled =
     transaction (\<lambda>d.
       case requireUser d actorId i of
         Inl e \<Rightarrow> (Inl e, d)
       | Inr user \<Rightarrow>
           (if disabled \<and> us_role user = RAdmin \<and> activeAdminsOtherThan d i = 0
            then (Inl (UserError ''users.last_admin'' []), d)
            else (let at' = (if disabled then Some nw else None);
                      d1 = set_admin (\<lambda>a. a_id a = i) (\<lambda>a. a\<lparr>a_disabled_at := at'\<rparr>) d;
                      d2 = (if disabled then delete_sessions (\<lambda>s. s_admin_id s = i) d1 else d1)
                  in (Inr (user\<lparr>us_disabled_at := at'\<rparr>), d2))))"

definition resetUserPassword ::
    "runtime \<Rightarrow> nat list list \<Rightarrow> nat list \<Rightarrow> string \<Rightarrow> string \<Rightarrow> (UserSummary \<times> string) option exec" where
  "resetUserPassword R pwb salt actorId i =
     transaction (\<lambda>d.
       case requireUser d actorId i of
         Inl e \<Rightarrow> (Inl e, d)
       | Inr user \<Rightarrow>
           (case newTempPassword pwb of
              None \<Rightarrow> (Inr None, d)
            | Some password \<Rightarrow>
                (Inr (Some (user, password)),
                 delete_sessions (\<lambda>s. s_admin_id s = i)
                   (set_admin (\<lambda>a. a_id a = i)
                      (\<lambda>a. a\<lparr>a_password_hash := hashPassword R salt password,
                             a_must_change_password := True\<rparr>) d))))"

definition resetUserTotp :: "runtime \<Rightarrow> string \<Rightarrow> string \<Rightarrow> UserSummary exec" where
  "resetUserTotp R actorId i d =
     (case requireUser d actorId i of
        Inl e \<Rightarrow> (Inl e, d)
      | Inr user \<Rightarrow> (Inr user, resetSecondFactors R i d))"

definition deleteUser :: "string \<Rightarrow> string \<Rightarrow> UserSummary exec" where
  "deleteUser actorId i =
     transaction (\<lambda>d.
       case requireUser d actorId i of
         Inl e \<Rightarrow> (Inl e, d)
       | Inr user \<Rightarrow>
           (if us_role user = RAdmin \<and> activeAdminsOtherThan d i = 0
            then (Inl (UserError ''users.last_admin'' []), d)
            else (Inr user, delete_admin i d)))"

subsection \<open>Case assignments\<close>

definition canAccessCase :: "db \<Rightarrow> viewer \<Rightarrow> string \<Rightarrow> bool" where
  "canAccessCase d viewer caseId = (if snd viewer = RAdmin then True else is_assigned d caseId (fst viewer))"

record CaseMember =
  cm_id :: string
  cm_username :: string
  cm_role :: role
  cm_disabled_at :: "ms option"

definition member_view :: "AdminRow \<Rightarrow> CaseMember" where
  "member_view a = \<lparr>cm_id = a_id a, cm_username = a_username a, cm_role = a_role a,
     cm_disabled_at = a_disabled_at a\<rparr>"

definition by_username :: "AdminRow list \<Rightarrow> AdminRow list" where
  "by_username as = sort_key (\<lambda>a. map code_of (nocase (a_username a)) :: nat list) as"

definition caseMembers :: "db \<Rightarrow> string \<Rightarrow> CaseMember list" where
  "caseMembers d caseId = map member_view (by_username (filter (\<lambda>a. is_assigned d caseId (a_id a)) (admins d)))"

definition assignableUsers :: "db \<Rightarrow> string \<Rightarrow> CaseMember list" where
  "assignableUsers d caseId =
     map member_view (by_username (filter (\<lambda>a. a_role a = RUser \<and> a_disabled_at a = None
                                              \<and> \<not> is_assigned d caseId (a_id a)) (admins d)))"

text \<open>INSERT OR IGNORE: an assignment that exists is left alone; a missing case or account is an error.\<close>

definition addCaseMember :: "ms \<Rightarrow> string \<Rightarrow> string \<Rightarrow> bool exec" where
  "addCaseMember nw caseId adminId d =
     (if is_assigned d caseId adminId then (Inr False, d)
      else if \<not> has_case d caseId \<or> \<not> has_admin d adminId then (Inl SqliteError, d)
      else (Inr True, d\<lparr>case_members := case_members d @
              [\<lparr>m_case_id = caseId, m_admin_id = adminId, m_created_at = nw\<rparr>]\<rparr>))"

definition removeCaseMember :: "string \<Rightarrow> string \<Rightarrow> db \<Rightarrow> bool \<times> db" where
  "removeCaseMember caseId adminId d =
     (n_where (\<lambda>m. m_case_id m = caseId \<and> m_admin_id m = adminId) (case_members d) > 0,
      d\<lparr>case_members := del_where (\<lambda>m. m_case_id m = caseId \<and> m_admin_id m = adminId) (case_members d)\<rparr>)"

end
