(* ===== verification/AddressGroups.thy ===== *)
theory AddressGroups
  imports Addresses Cases "HOL-Library.List_Lexorder"
begin

section \<open>Address groups (src/services/groups.ts)\<close>

text \<open>
  A named list of addresses; its members are rows with their position. Names are compared
  without regard to ASCII case.
\<close>

record Group =
  gr_row :: GroupRow
  gr_created_by_name :: "string option"
  gr_members :: "RecipientInput list"

definition canEditGroup :: "viewer \<Rightarrow> Group \<Rightarrow> bool" where
  "canEditGroup viewer g = (snd viewer = RAdmin \<or> g_created_by (gr_row g) = Some (fst viewer))"

definition validName :: "string \<Rightarrow> exn + string" where
  "validName raw =
     (let name = trim raw
      in if name = [] \<or> length name > 200 then Inl (RecipientListError ''groups.name_required'' [])
         else Inr name)"

definition validMembers :: "RecipientInput list \<Rightarrow> exn + RecipientInput list" where
  "validMembers members =
     (if members = [] then Inl (RecipientListError ''recipients.none'' [])
      else if length members > MAX_RECIPIENTS
      then Inl (RecipientListError ''recipients.too_many'' [(''max'', PNum (int MAX_RECIPIENTS))])
      else Inr members)"

definition nameTaken :: "db \<Rightarrow> string \<Rightarrow> string option \<Rightarrow> bool" where
  "nameTaken d name exceptId =
     (case List.find (\<lambda>g. nocase (g_name g) = nocase name) (groups d) of
        None \<Rightarrow> False
      | Some row \<Rightarrow> Some (g_id row) \<noteq> exceptId)"

fun write_from :: "string \<Rightarrow> nat \<Rightarrow> RecipientInput list \<Rightarrow> db \<Rightarrow> exn + db" where
  "write_from groupId i [] d = Inr d"
| "write_from groupId i (m # ms) d =
     bind_res (ins_group_member \<lparr>gm_group_id = groupId, gm_email = ri_email m, gm_lang = ri_lang m,
                 gm_position = i\<rparr> d) (write_from groupId (Suc i) ms)"

definition writeMembers :: "string \<Rightarrow> RecipientInput list \<Rightarrow> db \<Rightarrow> exn + db" where
  "writeMembers groupId members d =
     write_from groupId 0 members
       (d\<lparr>group_members := del_where (\<lambda>m. gm_group_id m = groupId) (group_members d)\<rparr>)"

definition membersOf :: "db \<Rightarrow> string \<Rightarrow> RecipientInput list" where
  "membersOf d groupId =
     map (\<lambda>m. \<lparr>ri_email = gm_email m, ri_lang = gm_lang m\<rparr>)
       (sort_key gm_position (filter (\<lambda>m. gm_group_id m = groupId) (group_members d)))"

definition load_group :: "db \<Rightarrow> GroupRow \<Rightarrow> Group" where
  "load_group d g =
     \<lparr>gr_row = g,
      gr_created_by_name = (case g_created_by g of None \<Rightarrow> None
        | Some i \<Rightarrow> map_option a_username (List.find (\<lambda>a. a_id a = i) (admins d))),
      gr_members = membersOf d (g_id g)\<rparr>"

definition getGroup :: "db \<Rightarrow> string \<Rightarrow> Group option" where
  "getGroup d i = map_option (load_group d) (List.find (\<lambda>g. g_id g = i) (groups d))"

definition exec_unit :: "(db \<Rightarrow> exn + db) \<Rightarrow> unit exec" where
  "exec_unit f d = (case f d of Inl e \<Rightarrow> (Inl e, d) | Inr d' \<Rightarrow> (Inr (), d'))"

text \<open>\<open>getGroup(db, id)!\<close> is \<open>Some\<close>: the row was just written.\<close>

definition createGroup ::
    "ms \<Rightarrow> nat list \<Rightarrow> string \<Rightarrow> RecipientInput list \<Rightarrow> string option \<Rightarrow> Group option exec" where
  "createGroup nw idb name0 members0 createdBy d =
     (case validName name0 of Inl e \<Rightarrow> (Inl e, d) | Inr name \<Rightarrow>
      (case validMembers members0 of Inl e \<Rightarrow> (Inl e, d) | Inr members \<Rightarrow>
       (if nameTaken d name None then (Inl (RecipientListError ''groups.name_taken'' []), d)
        else (let i = newId ''g'' idb
              in case transaction (exec_unit (\<lambda>d.
                   bind_res (ins_group \<lparr>g_id = i, g_name = name, g_created_at = nw, g_updated_at = nw,
                               g_created_by = createdBy\<rparr> d) (writeMembers i members))) d of
                   (Inl e, d') \<Rightarrow> (Inl e, d')
                 | (Inr _, d') \<Rightarrow> (Inr (getGroup d' i), d')))))"

text \<open>The UPDATE of the name fails when another group's name folds to the same text.\<close>

definition rename_group :: "ms \<Rightarrow> string \<Rightarrow> string \<Rightarrow> db \<Rightarrow> exn + db" where
  "rename_group nw i name d =
     require (\<not> (\<exists>g \<in> set (groups d). g_id g \<noteq> i \<and> nocase (g_name g) = nocase name))
       (d\<lparr>groups := upd_where (\<lambda>g. g_id g = i) (\<lambda>g. g\<lparr>g_name := name, g_updated_at := nw\<rparr>) (groups d)\<rparr>)"

definition updateGroup ::
    "ms \<Rightarrow> string \<Rightarrow> string \<Rightarrow> RecipientInput list \<Rightarrow> Group option exec" where
  "updateGroup nw i name0 members0 d =
     (if getGroup d i = None then (Inr None, d)
      else
      (case validName name0 of Inl e \<Rightarrow> (Inl e, d) | Inr name \<Rightarrow>
      (case validMembers members0 of Inl e \<Rightarrow> (Inl e, d) | Inr members \<Rightarrow>
       (if nameTaken d name (Some i) then (Inl (RecipientListError ''groups.name_taken'' []), d)
        else (case transaction (exec_unit (\<lambda>d.
                bind_res (rename_group nw i name d) (writeMembers i members))) d of
                (Inl e, d') \<Rightarrow> (Inl e, d')
              | (Inr _, d') \<Rightarrow> (Inr (getGroup d' i), d'))))))"

definition deleteGroup :: "string \<Rightarrow> db \<Rightarrow> bool \<times> db" where
  "deleteGroup i d = (n_where (\<lambda>g. g_id g = i) (groups d) > 0, delete_group_rows i d)"

text \<open>\<open>ORDER BY g.name COLLATE NOCASE\<close>: by the code units of the folded names\<close>

definition listGroups :: "db \<Rightarrow> Group list" where
  "listGroups d = map (load_group d) (sort_key (\<lambda>g. map code_of (nocase (g_name g)) :: nat list) (groups d))"

definition groupMembers :: "db \<Rightarrow> string option \<Rightarrow> RecipientInput list" where
  "groupMembers d i =
     (case i of None \<Rightarrow> []
      | Some i \<Rightarrow> (if i = [] then [] else (case getGroup d i of None \<Rightarrow> [] | Some g \<Rightarrow> gr_members g)))"

end
