(* ===== verification/Storage.thy ===== *)
theory Storage
  imports Crypto Config
begin

section \<open>Storage of the files (src/storage/)\<close>

text \<open>
  \<open>LimitHashStream\<close> is a fold over the chunks of an upload. The local backend is a directory:
  a map from file names to their bytes and modification time. A key names its data file, and
  \<open>key.json\<close> is the bookkeeping file of a tus upload. The hash of the bytes is taken of the
  chunks that passed the limiter.
\<close>

definition KEY_RE :: rexp where
  "KEY_RE = Between 1 128 (Cls is_url64)"

definition assertValidKey :: "string \<Rightarrow> exn + unit" where
  "assertValidKey key = (if matches KEY_RE key then Inr () else Inl (JsError ''invalid storage key''))"

subsection \<open>The limiter\<close>

record limiter =
  li_size :: nat
  li_out :: "nat list"

text \<open>\<open>_transform\<close>: count, refuse above the limit, hash and pass on\<close>

definition limit_transform :: "nat \<Rightarrow> nat list \<Rightarrow> limiter \<Rightarrow> (exn + unit) \<times> limiter" where
  "limit_transform maxBytes chunk st =
     (let st1 = st\<lparr>li_size := li_size st + length chunk\<rparr>
      in if li_size st1 > maxBytes then (Inl (StorageLimitError maxBytes), st1)
         else (Inr (), st1\<lparr>li_out := li_out st1 @ chunk\<rparr>))"

fun limit_stream :: "nat \<Rightarrow> nat list list \<Rightarrow> limiter \<Rightarrow> (exn + unit) \<times> limiter" where
  "limit_stream maxBytes [] st = (Inr (), st)"
| "limit_stream maxBytes (chunk # chunks) st =
     (case limit_transform maxBytes chunk st of
        (Inl e, st') \<Rightarrow> (Inl e, st')
      | (Inr _, st') \<Rightarrow> limit_stream maxBytes chunks st')"

subsection \<open>The local backend\<close>

record stored =
  st_bytes :: "nat list"
  st_mtime :: ms

type_synonym directory = "(string \<times> stored) list"

record PutResult =
  pr_size :: nat
  pr_sha256 :: "nat list"

definition rm_force :: "string \<Rightarrow> directory \<Rightarrow> directory" where
  "rm_force name dir = filter (\<lambda>e. fst e \<noteq> name) dir"

text \<open>
  A source is the chunks it delivers and whether it ends normally. The write stream is opened
  with the flag wx, so the file must not exist. Any error removes the path, also the error
  that the file was there.
\<close>

definition local_put ::
    "runtime \<Rightarrow> ms \<Rightarrow> string \<Rightarrow> nat list list \<times> bool \<Rightarrow> nat \<Rightarrow> directory \<Rightarrow> (exn + PutResult) \<times> directory" where
  "local_put R nw key source maxBytes dir =
     (case assertValidKey key of
        Inl e \<Rightarrow> (Inl e, dir)
      | Inr _ \<Rightarrow>
          (if map_of dir key \<noteq> None then (Inl (JsError ''EEXIST''), rm_force key dir)
           else (case limit_stream maxBytes (fst source) \<lparr>li_size = 0, li_out = []\<rparr> of
                   (Inl e, _) \<Rightarrow> (Inl e, rm_force key dir)
                 | (Inr _, st) \<Rightarrow>
                     (if \<not> snd source then (Inl (JsError ''ERR_STREAM_PREMATURE_CLOSE''), rm_force key dir)
                      else (Inr \<lparr>pr_size = li_size st, pr_sha256 = rt_sha256_bytes R (li_out st)\<rparr>,
                            (key, \<lparr>st_bytes = li_out st, st_mtime = nw\<rparr>) # dir)))))"

definition local_get :: "string \<Rightarrow> directory \<Rightarrow> exn + nat list" where
  "local_get key dir =
     bind_res (assertValidKey key) (\<lambda>_.
       case map_of dir key of None \<Rightarrow> Inl (StorageNotFoundError key) | Some f \<Rightarrow> Inr (st_bytes f))"

definition local_stat :: "string \<Rightarrow> directory \<Rightarrow> exn + nat option" where
  "local_stat key dir =
     bind_res (assertValidKey key) (\<lambda>_.
       Inr (map_option (\<lambda>f. length (st_bytes f)) (map_of dir key)))"

definition local_delete :: "string \<Rightarrow> directory \<Rightarrow> (exn + unit) \<times> directory" where
  "local_delete key dir =
     (case assertValidKey key of
        Inl e \<Rightarrow> (Inl e, dir)
      | Inr _ \<Rightarrow> (Inr (), rm_force (key @ ''.json'') (rm_force key dir)))"

definition local_removeTusSidecar :: "string \<Rightarrow> directory \<Rightarrow> (exn + unit) \<times> directory" where
  "local_removeTusSidecar key dir =
     (case assertValidKey key of
        Inl e \<Rightarrow> (Inl e, dir)
      | Inr _ \<Rightarrow> (Inr (), rm_force (key @ ''.json'') dir))"

definition ARTEFACT_RE :: rexp where
  "ARTEFACT_RE = Seq (Lit ''f_'') (Seq (Times 16 (Cls is_url64)) (Opt (Lit ''.json'')))"

definition artefact_key :: "string \<Rightarrow> string" where
  "artefact_key name = (if ends_with name ''.json'' then take (length name - 5) name else name)"

definition orphan :: "ms \<Rightarrow> ms \<Rightarrow> (string \<Rightarrow> bool) \<Rightarrow> string \<times> stored \<Rightarrow> bool" where
  "orphan nw olderThanMs isLive e =
     (matches ARTEFACT_RE (fst e) \<and> \<not> isLive (artefact_key (fst e)) \<and> st_mtime (snd e) + olderThanMs \<le> nw)"

definition local_cleanupOrphans :: "ms \<Rightarrow> ms \<Rightarrow> (string \<Rightarrow> bool) \<Rightarrow> directory \<Rightarrow> nat \<times> directory" where
  "local_cleanupOrphans nw olderThanMs isLive dir =
     (length (filter (orphan nw olderThanMs isLive) dir),
      filter (\<lambda>e. \<not> orphan nw olderThanMs isLive e) dir)"

subsection \<open>The orphan sweep of the S3 backend\<close>

text \<open>
  The answers of the listing requests are arguments: the pages of unfinished multipart uploads
  and the pages of objects, each entry with the fields the code reads. The result is the list
  of the commands that are sent, which is also what \<open>removed\<close> counts. A missing date reads
  as 0.
\<close>

record s3_upload =
  su_key :: string
  su_uploadId :: string
  su_initiated :: ms

record s3_object =
  so_key :: string
  so_modified :: ms

datatype s3_command = AbortUpload string string | DeleteObject string

definition s3_stale_upload :: "ms \<Rightarrow> ms \<Rightarrow> (string \<Rightarrow> bool) \<Rightarrow> s3_upload \<Rightarrow> bool" where
  "s3_stale_upload nw olderThanMs isLive u =
     (su_key u \<noteq> [] \<and> su_uploadId u \<noteq> [] \<and> su_initiated u + olderThanMs \<le> nw \<and> \<not> isLive (su_key u))"

text \<open>\<open>obj.Key.replace(/\.(info|part)$/, '')\<close>\<close>

definition s3_base :: "string \<Rightarrow> string" where
  "s3_base key = (if ends_with key ''.info'' \<or> ends_with key ''.part'' then take (length key - 5) key else key)"

definition s3_stale_object :: "ms \<Rightarrow> ms \<Rightarrow> (string \<Rightarrow> bool) \<Rightarrow> s3_object \<Rightarrow> bool" where
  "s3_stale_object nw olderThanMs isLive ob =
     (so_key ob \<noteq> [] \<and> \<not> isLive (s3_base (so_key ob)) \<and> so_modified ob + olderThanMs \<le> nw)"

definition s3_cleanupOrphans ::
    "ms \<Rightarrow> ms \<Rightarrow> (string \<Rightarrow> bool) \<Rightarrow> s3_upload list list \<Rightarrow> s3_object list list \<Rightarrow> s3_command list" where
  "s3_cleanupOrphans nw olderThanMs isLive uploads objects =
     map (\<lambda>u. AbortUpload (su_key u) (su_uploadId u))
       (filter (s3_stale_upload nw olderThanMs isLive) (concat uploads))
     @ map (\<lambda>ob. DeleteObject (so_key ob)) (filter (s3_stale_object nw olderThanMs isLive) (concat objects))"

end
