(* ===== verification/Cleanup.thy ===== *)
theory Cleanup
  imports PanelSessions Access Items AuditLog Storage
begin

section \<open>Housekeeping (src/services/cleanup.ts)\<close>

text \<open>
  The periodic job over the database and the local storage directory. \<open>tusRemove\<close> is the
  \<open>remove\<close> of the third-party tus store: what it does to the directory, \<open>None\<close> when it
  rejects.
\<close>

type_synonym tus_remove = "string \<Rightarrow> directory \<Rightarrow> directory option"

record CleanupReport =
  rep_staleUploads :: nat
  rep_missingFiles :: nat
  rep_orphans :: nat
  rep_sessions :: nat
  rep_accessSessions :: nat
  rep_challenges :: nat

definition discardUploadData :: "tus_remove \<Rightarrow> ItemRow \<Rightarrow> directory \<Rightarrow> directory" where
  "discardUploadData tusRemove item dir =
     (if i_kind item \<noteq> IFile then dir
      else (let dir1 = (if i_upload_kind item = Some UTus
                        then (case tusRemove (i_id item) dir of None \<Rightarrow> dir | Some dir' \<Rightarrow> dir') else dir)
            in snd (local_delete (i_id item) dir1)))"

definition system_event :: "string \<Rightarrow> ItemRow \<Rightarrow> AuditEvent" where
  "system_event action item =
     \<lparr>ev_actorType = ActorSystem, ev_actorId = None, ev_action = action, ev_caseId = Some (i_case_id item),
      ev_linkId = None, ev_itemId = Some (i_id item), ev_ip = None, ev_details = []\<rparr>"

fun expire_uploads ::
    "tus_remove \<Rightarrow> ms \<Rightarrow> ItemRow list \<Rightarrow> db \<times> directory \<Rightarrow> nat \<times> db \<times> directory" where
  "expire_uploads tusRemove nw [] (d, dir) = (0, d, dir)"
| "expire_uploads tusRemove nw (item # rest) (d, dir) =
     (let dir1 = discardUploadData tusRemove item dir;
          (changed, d1) = failUpload (i_id item) Expired d;
          d2 = (if changed then audit nw (system_event ''upload.expired'' item) d1 else d1);
          (n, d3, dir3) = expire_uploads tusRemove nw rest (d2, dir1)
      in (if changed then Suc n else n, d3, dir3))"

text \<open>An error of \<open>stat\<close> skips the file; only a definite absence flags it.\<close>

fun flag_missing :: "ms \<Rightarrow> directory \<Rightarrow> ItemRow list \<Rightarrow> db \<Rightarrow> nat \<times> db" where
  "flag_missing nw dir [] d = (0, d)"
| "flag_missing nw dir (item # rest) d =
     (case local_stat (i_id item) dir of
        Inr None \<Rightarrow>
          (let (n, d') = flag_missing nw dir rest
                 (audit nw (system_event ''file.missing'' item) (markMissing (i_id item) d))
           in (Suc n, d'))
      | _ \<Rightarrow> flag_missing nw dir rest d)"

definition runCleanup ::
    "tus_remove \<Rightarrow> Config \<Rightarrow> ms \<Rightarrow> ms option \<Rightarrow> bool \<Rightarrow> db \<times> directory \<Rightarrow> CleanupReport \<times> db \<times> directory" where
  "runCleanup tusRemove cfg nw ttlMs0 verifyFiles st =
     (let ttlMs = (case ttlMs0 of Some n \<Rightarrow> n | None \<Rightarrow> incompleteUploadTtlMs cfg);
          (stale, d1, dir1) = expire_uploads tusRemove nw (listStaleUploads nw ttlMs (fst st)) st;
          (missing, d2) = (if verifyFiles then flag_missing nw dir1 (listReadyFiles d1) d1 else (0, d1));
          live = liveStorageKeys d2;
          (removed, dir2) = local_cleanupOrphans nw ttlMs (\<lambda>key. key \<in> live) dir1;
          (nSessions, d3) = purgeExpiredSessions nw d2;
          ((nAccess, nChallenges), d4) = purgeExpiredAccess nw d3
      in (\<lparr>rep_staleUploads = stale, rep_missingFiles = missing, rep_orphans = removed,
           rep_sessions = nSessions, rep_accessSessions = nAccess, rep_challenges = nChallenges\<rparr>, d4, dir2))"

end
