(* ===== verification/PanelCases.thy ===== *)
theory PanelCases
  imports PanelSecurity Users AddressGroups Cleanup
begin

section \<open>Cases, links, items and assignments in the panel (src/http/admin.ts)\<close>

text \<open>
  The routes behind \<open>gate_ready\<close>. Every one of them goes through \<open>caseFor\<close>: a case the
  account is not assigned to answers like one that does not exist.
\<close>

definition viewer_of :: "Session \<Rightarrow> viewer" where
  "viewer_of s = (ad_id (se_admin s), ad_role (se_admin s))"

definition caseFor :: "db \<Rightarrow> Session \<Rightarrow> string option \<Rightarrow> CaseRow option" where
  "caseFor d s i =
     (case i of None \<Rightarrow> None
      | Some i \<Rightarrow>
          (if i = [] then None
           else (case getCase d i of
                   None \<Rightarrow> None
                 | Some c \<Rightarrow> (if canAccessCase d (viewer_of s) (c_id c) then Some c else None))))"

text \<open>The page of a case with its messages, which asks \<open>caseFor\<close> again\<close>

definition renderCase ::
    "dictionary \<Rightarrow> Request \<Rightarrow> Session \<Rightarrow> string \<Rightarrow> (string \<times> string) list \<Rightarrow> nat \<Rightarrow> db \<Rightarrow> Response" where
  "renderCase dict req s caseId msgs status d =
     (case caseFor d s (Some caseId) of
        None \<Rightarrow> sendError dict req ''error.not_found.title'' ''error.case_missing'' 404
      | Some c \<Rightarrow> panel_page status ''case'' ((''case'', c_id c) # msgs))"

definition case_event :: "string \<Rightarrow> Session \<Rightarrow> Request \<Rightarrow> string \<Rightarrow> (string \<times> string) list \<Rightarrow> AuditEvent" where
  "case_event action s req caseId details = (own_event action s req details)\<lparr>ev_caseId := Some caseId\<rparr>"

definition link_event :: "string \<Rightarrow> Session \<Rightarrow> Request \<Rightarrow> LinkRow \<Rightarrow> (string \<times> string) list \<Rightarrow> AuditEvent" where
  "link_event action s req l details =
     (case_event action s req (l_case_id l) details)\<lparr>ev_linkId := Some (l_id l)\<rparr>"

definition item_event :: "string \<Rightarrow> Session \<Rightarrow> Request \<Rightarrow> ItemRow \<Rightarrow> (string \<times> string) list \<Rightarrow> AuditEvent" where
  "item_event action s req i details =
     (case_event action s req (i_case_id i) details)\<lparr>ev_itemId := Some (i_id i)\<rparr>"

definition errorText :: "dictionary \<Rightarrow> Request \<Rightarrow> exn \<Rightarrow> string" where
  "errorText dict req e =
     (case e of RecipientListError key ps \<Rightarrow> t dict (rq_lang req) key (Some ps) | _ \<Rightarrow> exn_message e)"

definition formLang :: "Request \<Rightarrow> Lang" where
  "formLang req = (let v = field req ''lang'' in if isLang (Some v) then v else rq_lang req)"

subsection \<open>Cases\<close>

definition postCases ::
    "runtime \<Rightarrow> Config \<Rightarrow> dictionary \<Rightarrow> ms \<Rightarrow> nat list \<Rightarrow> nat list \<Rightarrow> Request \<Rightarrow> Response exec" where
  "postCases R cfg dict nw idb rnd24 req =
     gate_ready R cfg dict nw rnd24 req (\<lambda>s sid d.
       let failed = (\<lambda>e d1. (Inr (panel_page 400 ''cases'' [(''error'', exn_message e)]), d1))
       in case createCase nw idb (field req ''name'') (Some (field req ''description'')) d of
            (Inl e, d1) \<Rightarrow> failed e d1
          | (Inr c, d1) \<Rightarrow>
              (case (if ad_role (se_admin s) \<noteq> RAdmin then addCaseMember nw (c_id c) (who_of s) d1 else (Inr False, d1)) of
                 (Inl e, d2) \<Rightarrow> failed e d2
               | (Inr _, d2) \<Rightarrow>
                   (Inr (redirect 303 (''/admin/cases/'' @ c_id c)),
                    audit nw (case_event ''case.create'' s req (c_id c) [(''name'', c_name c)]) d2)))"

text \<open>A handler under /cases/:id: the case must be one this account may work on.\<close>

definition with_case ::
    "dictionary \<Rightarrow> Request \<Rightarrow> Session \<Rightarrow> (string \<Rightarrow> CaseRow \<Rightarrow> Response exec) \<Rightarrow> Response exec" where
  "with_case dict req s k d =
     (case validId (param req ''id'') of
        None \<Rightarrow> (Inr (renderCase dict req s [] [] 200 d), d)
      | Some i \<Rightarrow>
          (case caseFor d s (Some i) of
             None \<Rightarrow> (Inr (renderCase dict req s [] [] 200 d), d)
           | Some c \<Rightarrow> k i c d))"

definition postCase ::
    "runtime \<Rightarrow> Config \<Rightarrow> dictionary \<Rightarrow> ms \<Rightarrow> nat list \<Rightarrow> Request \<Rightarrow> Response exec" where
  "postCase R cfg dict nw rnd24 req =
     gate_ready R cfg dict nw rnd24 req (\<lambda>s sid. with_case dict req s (\<lambda>i c d.
       case updateCase nw i (Some (field req ''name'')) (Some (field req ''description'')) None d of
         (Inl e, d1) \<Rightarrow> (Inr (renderCase dict req s i [(''error'', exn_message e)] 400 d1), d1)
       | (Inr None, d1) \<Rightarrow> (Inr (renderCase dict req s [] [] 200 d1), d1)
       | (Inr (Some c'), d1) \<Rightarrow>
           (let d2 = audit nw (case_event ''case.update'' s req i []) d1
            in (Inr (renderCase dict req s i [(''ok'', tx dict req ''case.saved'')] 200 d2), d2))))"

definition postCaseStatus ::
    "runtime \<Rightarrow> Config \<Rightarrow> dictionary \<Rightarrow> ms \<Rightarrow> nat list \<Rightarrow> Request \<Rightarrow> Response exec" where
  "postCaseStatus R cfg dict nw rnd24 req =
     gate_ready R cfg dict nw rnd24 req (\<lambda>s sid. with_case dict req s (\<lambda>i c d.
       let closing = (field req ''status'' = ''closed'')
       in case updateCase nw i None None (Some (if closing then CaseClosed else CaseOpen)) d of
            (Inl e, d1) \<Rightarrow> (Inl e, d1)
          | (Inr None, d1) \<Rightarrow> (Inr (renderCase dict req s [] [] 200 d1), d1)
          | (Inr (Some c'), d1) \<Rightarrow>
              (Inr (redirect 303 (''/admin/cases/'' @ i)),
               audit nw (case_event (if closing then ''case.close'' else ''case.reopen'') s req i [])
                 (if closing then snd (destroyAccessSessionsForCase i d1) else d1))))"

definition postNote ::
    "runtime \<Rightarrow> Config \<Rightarrow> dictionary \<Rightarrow> ms \<Rightarrow> nat list \<Rightarrow> nat list \<Rightarrow> Request \<Rightarrow> Response exec" where
  "postNote R cfg dict nw idb rnd24 req =
     gate_ready R cfg dict nw rnd24 req (\<lambda>s sid. with_case dict req s (\<lambda>i c d.
       case createNote nw idb i (field req ''title'') (field req ''body'') (Some (who_of s)) d of
         (Inl e, d1) \<Rightarrow> (Inr (renderCase dict req s i [(''error'', tx dict req ''items.note_empty'')] 400 d1), d1)
       | (Inr note, d1) \<Rightarrow>
           (let d2 = audit nw (item_event ''note.create'' s req note [(''title'', i_title note)]) d1
            in (Inr (renderCase dict req s i [(''ok'', tx dict req ''items.note_added'')] 200 d2), d2))))"

subsection \<open>Links\<close>

text \<open>
  \<open>parse_date\<close> is \<open>Date.parse\<close>. The three random arguments are the bytes of the token, the
  link id and the recipient ids.
\<close>

definition recipientsFromForm :: "runtime \<Rightarrow> db \<Rightarrow> Request \<Rightarrow> exn + RecipientInput list" where
  "recipientsFromForm R d req =
     requireRecipients R (field req ''recipients'') (formLang req) (groupMembers d (validId (Some (field req ''group''))))"

definition jsnum_of :: "string \<Rightarrow> jsnum" where
  "jsnum_of s = (case integer_of s of Some n \<Rightarrow> JInt n | None \<Rightarrow> JOther)"

definition link_input ::
    "runtime \<Rightarrow> dictionary \<Rightarrow> (string \<Rightarrow> ms option) \<Rightarrow> db \<Rightarrow> Request \<Rightarrow> string \<Rightarrow> exn + CreateLinkInput" where
  "link_input R dict parse_date d req caseId =
     (let expiresRaw = trim (field req ''expires_at'');
          expiry = parse_date (if ends_with expiresRaw ''Z'' then expiresRaw else expiresRaw @ ''Z'');
          maxOpensRaw = trim (field req ''max_opens'')
      in if expiresRaw \<noteq> [] \<and> expiry = None then Inl (JsError (tx dict req ''error.invalid_expiry''))
         else bind_res (recipientsFromForm R d req) (\<lambda>recipients.
           Inr \<lparr>cl_caseId = caseId, cl_label = field req ''label'', cl_recipients = recipients,
                cl_expiresAt = (if expiresRaw = [] then None else expiry),
                cl_maxOpens = (if maxOpensRaw = [] then None else Some (jsnum_of maxOpensRaw))\<rparr>))"

record link_rnd =
  lr_token :: "nat list"
  lr_id :: "nat list"
  lr_recipients :: "nat list list"

definition recipient_text :: "RecipientRow \<Rightarrow> string" where
  "recipient_text r = r_email r @ '' '' @ r_lang r"

definition postLinks ::
    "runtime \<Rightarrow> Config \<Rightarrow> dictionary \<Rightarrow> (string \<Rightarrow> ms option) \<Rightarrow> ms \<Rightarrow> link_rnd \<Rightarrow> nat list \<Rightarrow> Request \<Rightarrow> Response exec" where
  "postLinks R cfg dict parse_date nw rnd rnd24 req =
     gate_ready R cfg dict nw rnd24 req (\<lambda>s sid.
       when_confirmed nw (''/admin/cases/'' @ (case validId (param req ''id'') of Some i \<Rightarrow> i | None \<Rightarrow> [])) req
       (with_case dict req s (\<lambda>i c d.
         if c_status c \<noteq> CaseOpen
         then (Inr (renderCase dict req s i [(''error'', tx dict req ''case.closed_no_links'')] 400 d), d)
         else (case (case link_input R dict parse_date d req i of
                       Inl e \<Rightarrow> (Inl e, d)
                     | Inr inp \<Rightarrow> createLink R cfg nw (lr_token rnd) (lr_id rnd) (lr_recipients rnd) inp d) of
                 (Inl e, d1) \<Rightarrow> (Inr (renderCase dict req s i [(''error'', errorText dict req e)] 400 d1), d1)
               | (Inr created, d1) \<Rightarrow>
                   (let l = cr_link created;
                        d2 = audit nw (link_event ''link.create'' s req l
                               ((''label'', l_label l) # map (\<lambda>r. (''recipient'', recipient_text r)) (cr_recipients created))) d1
                    in (Inr (renderCase dict req s i [(''label'', l_label l), (''url'', cr_url created)] 200 d2), d2))))))"

definition backToLinkCase :: "db \<Rightarrow> Request \<Rightarrow> string" where
  "backToLinkCase d req =
     (case getLink d (case validId (param req ''id'') of Some i \<Rightarrow> i | None \<Rightarrow> []) of
        Some l \<Rightarrow> ''/admin/cases/'' @ l_case_id l | None \<Rightarrow> ''/admin'')"

definition with_link ::
    "dictionary \<Rightarrow> Request \<Rightarrow> Session \<Rightarrow> (LinkRow \<Rightarrow> Response exec) \<Rightarrow> Response exec" where
  "with_link dict req s k d =
     (case (case validId (param req ''id'') of None \<Rightarrow> None | Some i \<Rightarrow> getLink d i) of
        None \<Rightarrow> (Inr (sendError dict req ''error.not_found.title'' ''error.link_missing'' 404), d)
      | Some l \<Rightarrow>
          (if caseFor d s (Some (l_case_id l)) = None
           then (Inr (sendError dict req ''error.not_found.title'' ''error.link_missing'' 404), d)
           else k l d))"

definition linkReissue ::
    "runtime \<Rightarrow> Config \<Rightarrow> dictionary \<Rightarrow> ms \<Rightarrow> nat list \<Rightarrow> nat list \<Rightarrow> Request \<Rightarrow> Response exec" where
  "linkReissue R cfg dict nw tokb rnd24 req =
     gate_ready R cfg dict nw rnd24 req (\<lambda>s sid d.
       when_confirmed nw (backToLinkCase d req) req (with_link dict req s (\<lambda>l d.
         case getCase d (l_case_id l) of
           None \<Rightarrow> (Inr (sendError dict req ''error.not_found.title'' ''error.case_missing'' 404), d)
         | Some c \<Rightarrow>
             (case rotateLinkToken R cfg tokb (l_id l) d of
                (Inl e, d1) \<Rightarrow> (Inl e, d1)
              | (Inr None, d1) \<Rightarrow> (Inr (sendError dict req ''error.not_found.title'' ''error.link_missing'' 404), d1)
              | (Inr (Some (token, url)), d1) \<Rightarrow>
                  (let d2 = audit nw (link_event ''link.reissue'' s req l [])
                              (snd (destroyAccessSessionsForLink nw (l_id l) d1))
                   in (Inr (renderCase dict req s (c_id c) [(''label'', l_label l), (''url'', url)] 200 d2), d2))))) d)"

definition linkAddRecipients ::
    "runtime \<Rightarrow> Config \<Rightarrow> dictionary \<Rightarrow> ms \<Rightarrow> nat list list \<Rightarrow> nat list \<Rightarrow> Request \<Rightarrow> Response exec" where
  "linkAddRecipients R cfg dict nw ids rnd24 req =
     gate_ready R cfg dict nw rnd24 req (\<lambda>s sid d.
       when_confirmed nw (backToLinkCase d req) req (with_link dict req s (\<lambda>l d.
         if l_revoked_at l \<noteq> None
         then (Inr (renderCase dict req s (l_case_id l) [(''error'', tx dict req ''links.revoked_no_changes'')] 400 d), d)
         else (case (case recipientsFromForm R d req of
                       Inl e \<Rightarrow> (Inl e, d) | Inr rs \<Rightarrow> addRecipients R nw ids (l_id l) rs d) of
                 (Inl e, d1) \<Rightarrow> (Inr (renderCase dict req s (l_case_id l) [(''error'', errorText dict req e)] 400 d1), d1)
               | (Inr added, d1) \<Rightarrow>
                   (let d2 = (if added = [] then d1
                              else audit nw (link_event ''link.recipients_add'' s req l
                                     (map (\<lambda>r. (''recipient'', recipient_text r)) added)) d1)
                    in (Inr (renderCase dict req s (l_case_id l)
                          [(''ok'', t dict (rq_lang req) ''links.recipients_added''
                             (Some [(''n'', PNum (int (length added))), (''label'', PStr (l_label l))]))] 200 d2), d2))))) d)"

definition linkRemoveRecipient ::
    "runtime \<Rightarrow> Config \<Rightarrow> dictionary \<Rightarrow> ms \<Rightarrow> nat list \<Rightarrow> Request \<Rightarrow> Response exec" where
  "linkRemoveRecipient R cfg dict nw rnd24 req =
     gate_ready R cfg dict nw rnd24 req (\<lambda>s sid. with_link dict req s (\<lambda>l d.
       case (case validId (param req ''rid'') of
               None \<Rightarrow> (Inr NoSuchRecipient, d) | Some rid \<Rightarrow> removeRecipient (l_id l) rid d) of
         (Inl e, d1) \<Rightarrow> (Inl e, d1)
       | (Inr LastRecipient, d1) \<Rightarrow>
           (Inr (renderCase dict req s (l_case_id l) [(''error'', tx dict req ''links.last_recipient'')] 400 d1), d1)
       | (Inr NoSuchRecipient, d1) \<Rightarrow>
           (Inr (renderCase dict req s (l_case_id l) [(''error'', tx dict req ''error.recipient_missing'')] 404 d1), d1)
       | (Inr (Removed r), d1) \<Rightarrow>
           (let d2 = audit nw (link_event ''link.recipient_remove'' s req l [(''email'', r_email r)]) d1
            in (Inr (renderCase dict req s (l_case_id l) [(''ok'', t dict (rq_lang req) ''links.recipient_removed''
                   (Some [(''email'', PStr (r_email r)), (''label'', PStr (l_label l))]))] 200 d2), d2))))"

definition linkRevoke ::
    "runtime \<Rightarrow> Config \<Rightarrow> dictionary \<Rightarrow> ms \<Rightarrow> nat list \<Rightarrow> Request \<Rightarrow> Response exec" where
  "linkRevoke R cfg dict nw rnd24 req =
     gate_ready R cfg dict nw rnd24 req (\<lambda>s sid. with_link dict req s (\<lambda>l d.
       let (changed, d1) = revokeLink nw (l_id l) d;
           d2 = (if changed then snd (destroyAccessSessionsForLink nw (l_id l)
                                        (audit nw (link_event ''link.revoke'' s req l []) d1)) else d1)
       in (Inr (redirect 303 (''/admin/cases/'' @ l_case_id l)), d2)))"

subsection \<open>Case assignments\<close>

definition memberAdd ::
    "runtime \<Rightarrow> Config \<Rightarrow> dictionary \<Rightarrow> ms \<Rightarrow> nat list \<Rightarrow> Request \<Rightarrow> Response exec" where
  "memberAdd R cfg dict nw rnd24 req =
     gate_ready R cfg dict nw rnd24 req (\<lambda>s sid. with_case dict req s (\<lambda>i c d.
       case getUser d (case validId (Some (field req ''user_id'')) of Some u \<Rightarrow> u | None \<Rightarrow> []) of
         None \<Rightarrow> (Inr (renderCase dict req s (c_id c) [(''error'', tx dict req ''users.missing'')] 400 d), d)
       | Some user \<Rightarrow>
           (if us_role user \<noteq> RUser \<or> us_disabled_at user \<noteq> None
            then (Inr (renderCase dict req s (c_id c) [(''error'', tx dict req ''users.missing'')] 400 d), d)
            else (case addCaseMember nw (c_id c) (us_id user) d of
                    (Inl e, d1) \<Rightarrow> (Inl e, d1)
                  | (Inr added, d1) \<Rightarrow>
                      (let d2 = (if added then audit nw (case_event ''case.member_add'' s req (c_id c)
                                   [(''user'', us_id user), (''username'', us_username user)]) d1 else d1)
                       in (Inr (renderCase dict req s (c_id c) [(''ok'', t dict (rq_lang req) ''members.added''
                             (Some [(''username'', PStr (us_username user))]))] 200 d2), d2))))))"

definition memberRemove ::
    "runtime \<Rightarrow> Config \<Rightarrow> dictionary \<Rightarrow> ms \<Rightarrow> nat list \<Rightarrow> Request \<Rightarrow> Response exec" where
  "memberRemove R cfg dict nw rnd24 req =
     gate_ready R cfg dict nw rnd24 req (\<lambda>s sid. with_case dict req s (\<lambda>i c d.
       case getUser d (case validId (param req ''uid'') of Some u \<Rightarrow> u | None \<Rightarrow> []) of
         None \<Rightarrow> (Inr (renderCase dict req s (c_id c) [(''error'', tx dict req ''users.missing'')] 404 d), d)
       | Some user \<Rightarrow>
           (if us_id user = who_of s
            then (Inr (renderCase dict req s (c_id c) [(''error'', tx dict req ''members.not_self'')] 400 d), d)
            else (let (removed, d1) = removeCaseMember (c_id c) (us_id user) d
                  in if \<not> removed
                     then (Inr (renderCase dict req s (c_id c) [(''error'', tx dict req ''users.missing'')] 404 d1), d1)
                     else (let d2 = audit nw (case_event ''case.member_remove'' s req (c_id c)
                                 [(''user'', us_id user), (''username'', us_username user)]) d1
                           in (Inr (renderCase dict req s (c_id c) [(''ok'', t dict (rq_lang req) ''members.removed''
                                 (Some [(''username'', PStr (us_username user))]))] 200 d2), d2))))))"

end
