(* ===== verification/Deliver.thy ===== *)
theory Deliver
  imports Middleware Items AuditLog Storage
begin

section \<open>The recipient's routes (src/http/deliver.ts)\<close>

text \<open>
  Everything under /d/TOKEN: the page, the address form, the code form, starting over,
  closing the session and the downloads. \<open>load\<close> resolves the token or answers with the page
  that says why not. The address form hands a message to the mail driver and answers when
  the driver has: its handler is split at that point into \<open>email_start\<close>, \<open>email_sent\<close> and
  \<open>email_failed\<close>, and \<open>postEmail\<close> composes them for a driver that answers at once. The
  moments the source writes into audit details are written as their milliseconds.
\<close>

definition recipient_event ::
    "string \<Rightarrow> string option \<Rightarrow> ResolvedLink \<Rightarrow> Request \<Rightarrow> (string \<times> string) list \<Rightarrow> AuditEvent" where
  "recipient_event action who resolved req details =
     \<lparr>ev_actorType = ActorRecipient, ev_actorId = who, ev_action = action,
      ev_caseId = Some (c_id (rl_case resolved)), ev_linkId = Some (l_id (rl_link resolved)),
      ev_itemId = None, ev_ip = rq_ip req, ev_details = details\<rparr>"

definition access_to :: "Request \<Rightarrow> ResolvedLink \<Rightarrow> bool" where
  "access_to req resolved =
     (case rq_access req of None \<Rightarrow> False | Some a \<Rightarrow> ac_linkId a = l_id (rl_link resolved))"

definition recipient_by_id :: "ResolvedLink \<Rightarrow> string option \<Rightarrow> RecipientRow option" where
  "recipient_by_id resolved i = List.find (\<lambda>r. Some (r_id r) = i) (rl_recipients resolved)"

definition access_recipient :: "Request \<Rightarrow> ResolvedLink \<Rightarrow> RecipientRow option" where
  "access_recipient req resolved =
     (case rq_access req of None \<Rightarrow> None | Some a \<Rightarrow> recipient_by_id resolved (ac_recipientId a))"

definition unavailable :: "dictionary \<Rightarrow> Request \<Rightarrow> ResolvedLink option \<Rightarrow> Response option" where
  "unavailable dict req resolved =
     (case resolved of
        None \<Rightarrow> Some (respond 404 (BodyView (UnavailablePage (rq_lang req)
                  (t dict (rq_lang req) ''link.invalid.title'' None) (t dict (rq_lang req) ''link.invalid'' None))))
      | Some rl \<Rightarrow>
          (if rl_state rl = LActive then None
           else if rl_state rl = LExhausted \<and> access_to req rl then None
           else (let (status, message) = LINK_STATE_MESSAGES (rl_state rl)
                 in Some (respond status (BodyView (UnavailablePage (rq_lang req)
                      (t dict (rq_lang req) ''link.unavailable.title'' None) (t dict (rq_lang req) message None)))))))"

definition page_lang :: "Request \<Rightarrow> ResolvedLink \<Rightarrow> Lang" where
  "page_lang req resolved =
     (if rq_langExplicit req then rq_lang req
      else (let me = (if access_to req resolved then access_recipient req resolved else None);
                lang = (case me of Some r \<Rightarrow> Some (r_lang r) | None \<Rightarrow> sharedLang (rl_recipients resolved))
            in case lang of Some l \<Rightarrow> (if l = [] then rq_lang req else l) | None \<Rightarrow> rq_lang req))"

definition load :: "runtime \<Rightarrow> dictionary \<Rightarrow> ms \<Rightarrow> string \<Rightarrow> Request \<Rightarrow> db \<Rightarrow> Response + Request \<times> ResolvedLink" where
  "load R dict nw token req d =
     (let resolved = (if matches TOKEN_RE token then resolveToken R nw d token else None);
          req1 = (case resolved of None \<Rightarrow> req | Some rl \<Rightarrow> req\<lparr>rq_lang := page_lang req rl\<rparr>)
      in case unavailable dict req1 resolved of
           Some r \<Rightarrow> Inl r
         | None \<Rightarrow> (case resolved of Some rl \<Rightarrow> Inr (req1, rl) | None \<Rightarrow> Inl (respond 500 BodyEmpty)))"

definition base_path :: "string \<Rightarrow> string" where
  "base_path token = ''/d/'' @ token"

definition flow_of :: "Request \<Rightarrow> string" where
  "flow_of req = (case rq_flowToken req of Some f \<Rightarrow> f | None \<Rightarrow> [])"

definition form_view :: "string \<Rightarrow> Request \<Rightarrow> ViewCtx" where
  "form_view token req = \<lparr>vc_lang = rq_lang req, vc_path = base_path token, vc_flowToken = flow_of req,
     vc_base = base_path token\<rparr>"

definition code_minutes :: "Config \<Rightarrow> nat" where
  "code_minutes cfg = (accessCodeTtlMs cfg + 30000) div 60000"

definition codeFromBody :: "(string \<times> bval) list \<Rightarrow> string" where
  "codeFromBody body =
     slice0 64 (case map_of body ''code'' of None \<Rightarrow> [] | Some (BText s) \<Rightarrow> s | Some (BList vs) \<Rightarrow> concat vs)"

definition pendingChallenge :: "runtime \<Rightarrow> ms \<Rightarrow> db \<Rightarrow> string \<Rightarrow> string \<Rightarrow> bool" where
  "pendingChallenge R nw d linkId flowToken = (\<exists>c \<in> set (challenges d). is_pending R nw linkId flowToken c)"

subsection \<open>The page\<close>

definition getPage :: "runtime \<Rightarrow> Config \<Rightarrow> dictionary \<Rightarrow> ms \<Rightarrow> string \<Rightarrow> Request \<Rightarrow> Response exec" where
  "getPage R cfg dict nw token req0 d =
     (case load R dict nw token req0 d of
        Inl r \<Rightarrow> (Inr r, d)
      | Inr (req, resolved) \<Rightarrow>
          (let v = (form_view token req)\<lparr>vc_path := rq_originalUrl req\<rparr>;
               page = (\<lambda>b. with_header ''Cache-Control'' ''no-store'' (respond 200 (BodyView b)))
           in case rq_access req of
                Some a \<Rightarrow>
                  (if ac_linkId a = l_id (rl_link resolved)
                   then (Inr (page (PackagePage v (rl_case resolved) (rl_link resolved)
                           (map_option r_email (access_recipient req resolved))
                           (listItemsForRecipient d (c_id (rl_case resolved)))
                           (openingsLeft (rl_link resolved)) (ac_expiresAt a))), d)
                   else (let d1 = touchLink nw (l_id (rl_link resolved)) d
                         in if pendingChallenge R nw d1 (l_id (rl_link resolved)) (flow_of req)
                            then (Inr (page (CodePage v (code_minutes cfg) None None)), d1)
                            else (Inr (page (EmailPage v None None)), d1)))
              | None \<Rightarrow>
                  (let d1 = touchLink nw (l_id (rl_link resolved)) d
                   in if pendingChallenge R nw d1 (l_id (rl_link resolved)) (flow_of req)
                      then (Inr (page (CodePage v (code_minutes cfg) None None)), d1)
                      else (Inr (page (EmailPage v None None)), d1))))"

subsection \<open>Step 1: the address\<close>

record challenge_rnd =
  cr_code :: "nat list list"
  cr_id :: "nat list"
  cr_salt :: "nat list"

record Mailing =
  ml_mail :: OutgoingMail
  ml_req :: Request
  ml_resolved :: ResolvedLink
  ml_recipient :: RecipientRow
  ml_token :: string

datatype email_step = Answered Response | Sending Mailing

definition typed_email :: "runtime \<Rightarrow> Request \<Rightarrow> string" where
  "typed_email R req =
     normalizeEmail R (case map_of (rq_body req) ''email'' of
        None \<Rightarrow> [] | Some (BText s) \<Rightarrow> s | Some (BList vs) \<Rightarrow> join '','' vs)"

definition code_mail ::
    "dictionary \<Rightarrow> Config \<Rightarrow> InlineImage option \<Rightarrow> ResolvedLink \<Rightarrow> RecipientRow \<Rightarrow> string \<Rightarrow> exn + OutgoingMail" where
  "code_mail dict cfg logo resolved recipient code =
     accessCodeMail dict \<lparr>cmi_lang = r_lang recipient, cmi_to = r_email recipient, cmi_brand = brand cfg,
       cmi_publicUrl = Some (publicUrl cfg), cmi_inlineLogo = logo, cmi_caseName = c_name (rl_case resolved),
       cmi_code = code, cmi_ttlMinutes = int (code_minutes cfg)\<rparr>"

text \<open>
  The result is \<open>None\<close> only when the listed random blocks of the code are used up. \<open>logo\<close> is
  the image the driver carries, if it carries any.
\<close>

definition email_start ::
    "runtime \<Rightarrow> Config \<Rightarrow> dictionary \<Rightarrow> InlineImage option \<Rightarrow> ms \<Rightarrow> challenge_rnd \<Rightarrow> string \<Rightarrow> Request
     \<Rightarrow> email_step option exec" where
  "email_start R cfg dict logo nw rnd token req0 d =
     (case load R dict nw token req0 d of
        Inl r \<Rightarrow> (Inr (Some (Answered r)), d)
      | Inr (req, resolved) \<Rightarrow>
          (let v = form_view token req; typed = typed_email R req; linkId = l_id (rl_link resolved)
           in if \<not> isValidEmail typed
              then (Inr (Some (Answered (respond 400 (BodyView (EmailPage v
                      (Some (t dict (rq_lang req) ''deliver.email.invalid'' None)) None))))), d)
              else (case findRecipient R (rl_recipients resolved) typed of
                      None \<Rightarrow>
                        (Inr (Some (Answered (respond 200 (BodyView (CodePage v (code_minutes cfg) None None))))),
                         audit nw (recipient_event ''access.email_mismatch'' None resolved req []) d)
                    | Some recipient \<Rightarrow>
                        (let who = Some (r_id recipient); details = [(''email'', r_email recipient)]
                         in case createChallenge R cfg nw (cr_code rnd) (cr_id rnd) (cr_salt rnd) linkId
                                   (r_id recipient) (flow_of req) (rq_ip req) d of
                              (Inl (ChallengeRateError n), d1) \<Rightarrow>
                                (Inr (Some (Answered (respond 429 (BodyView (EmailPage v
                                        (Some (t dict (rq_lang req) ''deliver.too_many'' None)) None))))),
                                 audit nw (recipient_event ''access.rate_limited'' who resolved req details) d1)
                            | (Inl e, d1) \<Rightarrow> (Inl e, d1)
                            | (Inr None, d1) \<Rightarrow> (Inr None, d1)
                            | (Inr (Some (challenge, code)), d1) \<Rightarrow>
                                (case code_mail dict cfg logo resolved recipient code of
                                   Inl e \<Rightarrow> (Inl e, d1)
                                 | Inr msg \<Rightarrow>
                                     (Inr (Some (Sending \<lparr>ml_mail = msg, ml_req = req, ml_resolved = resolved,
                                        ml_recipient = recipient, ml_token = token\<rparr>)), d1))))))"

definition mailing_event :: "string \<Rightarrow> Mailing \<Rightarrow> AuditEvent" where
  "mailing_event action m =
     recipient_event action (Some (r_id (ml_recipient m))) (ml_resolved m) (ml_req m)
       [(''email'', r_email (ml_recipient m))]"

definition email_sent :: "Config \<Rightarrow> ms \<Rightarrow> Mailing \<Rightarrow> db \<Rightarrow> Response \<times> db" where
  "email_sent cfg nw m d =
     (respond 200 (BodyView (CodePage (form_view (ml_token m) (ml_req m)) (code_minutes cfg) None None)),
      audit nw (mailing_event ''access.code_sent'' m) d)"

definition email_failed :: "dictionary \<Rightarrow> ms \<Rightarrow> Mailing \<Rightarrow> db \<Rightarrow> Response \<times> db" where
  "email_failed dict nw m d =
     (respond 502 (BodyView (EmailPage (form_view (ml_token m) (ml_req m))
        (Some (t dict (rq_lang (ml_req m)) ''deliver.mail_failed'' None)) None)),
      audit nw (mailing_event ''access.code_send_failed'' m) d)"

definition postEmail ::
    "runtime \<Rightarrow> Config \<Rightarrow> dictionary \<Rightarrow> InlineImage option \<Rightarrow> (OutgoingMail \<Rightarrow> bool) \<Rightarrow> ms \<Rightarrow> challenge_rnd
     \<Rightarrow> string \<Rightarrow> Request \<Rightarrow> Response option exec" where
  "postEmail R cfg dict logo send nw rnd token req d =
     (case publicFormGuard R cfg dict req of
        Some r \<Rightarrow> (Inr (Some r), d)
      | None \<Rightarrow>
          (case email_start R cfg dict logo nw rnd token req d of
             (Inl e, d1) \<Rightarrow> (Inl e, d1)
           | (Inr None, d1) \<Rightarrow> (Inr None, d1)
           | (Inr (Some (Answered r)), d1) \<Rightarrow> (Inr (Some r), d1)
           | (Inr (Some (Sending m)), d1) \<Rightarrow>
               (let (r, d2) = (if send (ml_mail m) then email_sent cfg nw m d1 else email_failed dict nw m d1)
                in (Inr (Some r), d2))))"

subsection \<open>Step 2: the code\<close>

text \<open>\<open>sidb\<close> and \<open>csrfb\<close> are the random bytes of the access session.\<close>

definition grant_access ::
    "runtime \<Rightarrow> Config \<Rightarrow> ms \<Rightarrow> nat list \<Rightarrow> nat list \<Rightarrow> string \<Rightarrow> Request \<Rightarrow> ResolvedLink \<Rightarrow> string option
     \<Rightarrow> Response exec" where
  "grant_access R cfg nw sidb csrfb token req resolved recipientId d1 =
     (let linkId = l_id (rl_link resolved);
          recipient = recipient_by_id resolved recipientId;
          d2 = (case recipient of Some r \<Rightarrow> recordRecipientOpen nw (r_id r) d1 | None \<Rightarrow> d1)
      in case createAccessSession R cfg nw sidb csrfb linkId (map_option r_id recipient) (rq_ip req) d2 of
           (Inl e, d3) \<Rightarrow> (Inl e, d3)
         | (Inr (sessionId, session), d3) \<Rightarrow>
             (Inr (with_header ''Set-Cookie'' (accessCookie cfg sessionId (accessSessionTtlMs cfg div 1000))
                     (redirect 303 (base_path token))),
              audit nw (recipient_event ''access.granted''
                  (Some (case recipient of Some r \<Rightarrow> r_id r | None \<Rightarrow> linkId)) resolved req
                  ((case recipient of Some r \<Rightarrow> [(''email'', r_email r)] | None \<Rightarrow> [])
                   @ [(''expires_at'', nat_digits (ac_expiresAt session))])) d3))"

definition code_submitted ::
    "runtime \<Rightarrow> Config \<Rightarrow> dictionary \<Rightarrow> ms \<Rightarrow> nat list \<Rightarrow> nat list \<Rightarrow> string \<Rightarrow> Request \<Rightarrow> Response exec" where
  "code_submitted R cfg dict nw sidb csrfb token req0 d =
     (case load R dict nw token req0 d of
        Inl r \<Rightarrow> (Inr r, d)
      | Inr (req, resolved) \<Rightarrow>
          (let v = form_view token req; linkId = l_id (rl_link resolved)
           in case verifyChallenge R cfg nw linkId (flow_of req) (codeFromBody (rq_body req)) d of
                (VInvalid left, d1) \<Rightarrow>
                  (Inr (respond 401 (BodyView (CodePage v (code_minutes cfg)
                     (Some (t dict (rq_lang req) ''deliver.code.invalid'' None)) (Some left)))),
                   audit nw (recipient_event ''access.code_failed'' None resolved req
                     [(''attempts_left'', nat_digits left)]) d1)
              | (VGone, d1) \<Rightarrow>
                  (Inr (respond 401 (BodyView (EmailPage v
                     (Some (t dict (rq_lang req) ''deliver.code.expired'' None)) None))),
                   audit nw (recipient_event ''access.code_expired'' None resolved req []) d1)
              | (VOk recipientId, d1) \<Rightarrow>
                  (case registerOpen nw linkId d1 of
                     (False, d2) \<Rightarrow>
                       (Inr (respond 403 (BodyView (UnavailablePage (rq_lang req)
                          (t dict (rq_lang req) ''link.unavailable.title'' None)
                          (t dict (rq_lang req) ''link.exhausted'' None)))), d2)
                   | (True, d2) \<Rightarrow> grant_access R cfg nw sidb csrfb token req resolved recipientId d2)))"

definition postCode ::
    "runtime \<Rightarrow> Config \<Rightarrow> dictionary \<Rightarrow> ms \<Rightarrow> nat list \<Rightarrow> nat list \<Rightarrow> string \<Rightarrow> Request \<Rightarrow> Response exec" where
  "postCode R cfg dict nw sidb csrfb token req d =
     (case publicFormGuard R cfg dict req of
        Some r \<Rightarrow> (Inr r, d)
      | None \<Rightarrow> code_submitted R cfg dict nw sidb csrfb token req d)"

subsection \<open>Starting over and closing\<close>

definition postRestart :: "runtime \<Rightarrow> Config \<Rightarrow> dictionary \<Rightarrow> ms \<Rightarrow> string \<Rightarrow> Request \<Rightarrow> Response exec" where
  "postRestart R cfg dict nw token req0 d =
     (case publicFormGuard R cfg dict req0 of
        Some r \<Rightarrow> (Inr r, d)
      | None \<Rightarrow>
          (case load R dict nw token req0 d of
             Inl r \<Rightarrow> (Inr r, d)
           | Inr (req, resolved) \<Rightarrow>
               (Inr (redirect 303 (base_path token)),
                set_challenge (\<lambda>c. ch_link_id c = l_id (rl_link resolved)
                                   \<and> ch_flow_hash c = rt_sha256 R (flow_of req) \<and> ch_consumed_at c = None)
                  (\<lambda>c. c\<lparr>ch_consumed_at := Some nw\<rparr>) d)))"

definition postClose :: "runtime \<Rightarrow> Config \<Rightarrow> dictionary \<Rightarrow> ms \<Rightarrow> string \<Rightarrow> Request \<Rightarrow> Response exec" where
  "postClose R cfg dict nw token req0 d =
     (case publicFormGuard R cfg dict req0 of
        Some r \<Rightarrow> (Inr r, d)
      | None \<Rightarrow>
          (case load R dict nw token req0 d of
             Inl r \<Rightarrow> (Inr r, d)
           | Inr (req, resolved) \<Rightarrow>
               (let d1 = (case rq_accessId req of
                      None \<Rightarrow> d
                    | Some i \<Rightarrow>
                        (if i = [] then d
                         else audit nw (recipient_event ''access.closed''
                                (Some (case rq_access req of
                                         Some a \<Rightarrow> (case ac_recipientId a of Some r \<Rightarrow> r | None \<Rightarrow> l_id (rl_link resolved))
                                       | None \<Rightarrow> l_id (rl_link resolved))) resolved req [])
                              (destroyAccessSession R i d)))
                in (Inr (with_header ''Set-Cookie'' (clearCookie ACCESS_COOKIE)
                      (respond 200 (BodyView (EmailPage (form_view token req) None
                         (Some (t dict (rq_lang req) ''deliver.session_over'' None)))))), d1))))"

subsection \<open>Downloads\<close>

text \<open>
  \<open>sendAttachment\<close> of src/http/admin.ts; \<open>disposition\<close> is the third-party function that
  writes the file name into the header.
\<close>

definition sendAttachment :: "(string \<Rightarrow> string) \<Rightarrow> string \<Rightarrow> nat option \<Rightarrow> nat list \<Rightarrow> Response" where
  "sendAttachment disposition filename bytes content =
     \<lparr>rs_status = 200,
      rs_headers = [(''Content-Type'', ''application/octet-stream''), (''Content-Disposition'', disposition filename),
        (''X-Content-Type-Options'', ''nosniff''),
        (''Content-Security-Policy'', ''default-src '' @ [CHR 0x27] @ ''none'' @ [CHR 0x27] @ ''; sandbox''),
        (''Cache-Control'', ''no-store'')]
        @ (case bytes of None \<Rightarrow> [] | Some n \<Rightarrow> [(''Content-Length'', nat_digits n)]),
      rs_body = BodyFile content\<rparr>"

definition getFile ::
    "runtime \<Rightarrow> dictionary \<Rightarrow> (string \<Rightarrow> string) \<Rightarrow> directory \<Rightarrow> ms \<Rightarrow> string \<Rightarrow> string \<Rightarrow> Request \<Rightarrow> Response exec" where
  "getFile R dict disposition dir nw token itemId req0 d =
     (case load R dict nw token req0 d of
        Inl r \<Rightarrow> (Inr r, d)
      | Inr (req, resolved) \<Rightarrow>
          (if \<not> access_to req resolved then (Inr (redirect 303 (base_path token)), d)
           else (case (if matches ID_RE itemId then getItem d itemId else None) of
                   None \<Rightarrow> (Inr (respond 404 (BodyView (UnavailablePage (rq_lang req)
                             (t dict (rq_lang req) ''error.not_found.title'' None)
                             (t dict (rq_lang req) ''error.item_missing'' None)))), d)
                 | Some item \<Rightarrow>
                     (if i_case_id item \<noteq> c_id (rl_case resolved) \<or> i_kind item \<noteq> IFile \<or> i_status item \<noteq> Ready
                      then (Inr (respond 404 (BodyView (UnavailablePage (rq_lang req)
                             (t dict (rq_lang req) ''error.not_found.title'' None)
                             (t dict (rq_lang req) ''error.item_missing'' None)))), d)
                      else (case local_get (i_id item) dir of
                              Inl (StorageNotFoundError k) \<Rightarrow>
                                (Inr (respond 410 (BodyView (UnavailablePage (rq_lang req)
                                   (t dict (rq_lang req) ''error.storage_missing.title'' None)
                                   (t dict (rq_lang req) ''error.item_missing'' None)))), d)
                            | Inl e \<Rightarrow> (Inl e, d)
                            | Inr content \<Rightarrow>
                                (let me = access_recipient req resolved;
                                     ev = recipient_event ''item.download''
                                       (Some (case me of Some r \<Rightarrow> r_id r | None \<Rightarrow> l_id (rl_link resolved))) resolved req
                                       ([(''name'', i_title item)] @ (case me of Some r \<Rightarrow> [(''email'', r_email r)] | None \<Rightarrow> []))
                                 in (Inr (sendAttachment disposition (i_title item) (i_size item) content),
                                     audit nw (ev\<lparr>ev_caseId := Some (i_case_id item), ev_itemId := Some (i_id item)\<rparr>) d)))))))"

subsection \<open>Lemmas\<close>

lemma load_Inr:
  assumes "load R dict nw token req d = Inr (req1, rl)"
  shows "resolveToken R nw d token = Some rl" "req1 = req\<lparr>rq_lang := page_lang req rl\<rparr>"
    "rl_state rl = LActive \<or> rl_state rl = LExhausted \<and> access_to req rl"
  using assms
  by (auto simp: load_def unavailable_def Let_def access_to_def split: option.splits if_splits prod.splits)

lemma access_lang [simp]: "access_to (req\<lparr>rq_lang := l\<rparr>) = access_to req"
  "access_recipient (req\<lparr>rq_lang := l\<rparr>) = access_recipient req"
  by (auto simp: fun_eq_iff access_to_def access_recipient_def)

lemma accessMiddleware_access:
  assumes "rq_access req = None" "accessMiddleware R nw req d = (req1, d1)" "rq_access req1 = Some a"
  shows "\<exists>sid row. parseCookies (rq_cookie req) ACCESS_COOKIE = Some sid \<and> row \<in> set (access_sessions d)
    \<and> as_id_hash row = rt_sha256 R sid \<and> nw < as_expires_at row \<and> ac_linkId a = as_link_id row
    \<and> ac_recipientId a = as_recipient_id row \<and> d1 = d"
proof (cases "parseCookies (rq_cookie req) ACCESS_COOKIE")
  case None
  then show ?thesis using assms by (simp add: accessMiddleware_def)
next
  case (Some sid)
  show ?thesis
  proof (cases "List.find (\<lambda>s. as_id_hash s = rt_sha256 R sid) (access_sessions d)")
    case None
    then show ?thesis using assms Some by (simp add: accessMiddleware_def getAccessSession_def split: if_split_asm)
  next
    case row: (Some row)
    show ?thesis
    proof (cases "as_expires_at row \<le> nw \<or> sid = []")
      case True
      then show ?thesis using assms Some row
        by (cases "sid = []") (auto simp: accessMiddleware_def getAccessSession_def)
    next
      case False
      then have "d1 = d" "ac_linkId a = as_link_id row" "ac_recipientId a = as_recipient_id row"
        using assms Some row by (auto simp: accessMiddleware_def getAccessSession_def)
      then show ?thesis
        using Some False find_SomeD [OF row] by (intro exI [of _ sid] exI [of _ row]) simp
    qed
  qed
qed

lemma load_Inl:
  "load R dict nw token req d = Inl r \<Longrightarrow> (\<exists>v. rs_body r = BodyView v) \<or> rs_body r = BodyEmpty"
  by (auto simp: load_def unavailable_def respond_def Let_def split: option.split_asm if_split_asm prod.split_asm)

lemma getFile_served:
  assumes g: "getFile R dict disp dir nw token itemId req d = (Inr resp, d')" and b: "rs_body resp = BodyFile content"
  shows "\<exists>rl item. resolveToken R nw d token = Some rl
    \<and> (rl_state rl = LActive \<or> rl_state rl = LExhausted) \<and> access_to req rl
    \<and> item \<in> set (items d) \<and> i_id item = itemId \<and> i_case_id item = c_id (rl_case rl) \<and> i_kind item = IFile
    \<and> i_status item = Ready \<and> local_get itemId dir = Inr content"
proof (cases "load R dict nw token req d")
  case (Inl r)
  then show ?thesis using load_Inl [OF Inl] g b by (auto simp: getFile_def)
next
  case (Inr p)
  obtain req1 rl where l: "load R dict nw token req d = Inr (req1, rl)" using Inr by (cases p) simp
  note rl = load_Inr [OF l]
  show ?thesis
  proof (cases "access_to req rl")
    case False
    then show ?thesis using g b by (auto simp: getFile_def l rl(2) redirect_def)
  next
    case acc: True
    show ?thesis
    proof (cases "if matches ID_RE itemId then getItem d itemId else None")
      case None
      then show ?thesis using g b acc by (auto simp: getFile_def l rl(2) respond_def)
    next
      case (Some item)
      then have item: "i_id item = itemId" "item \<in> set (items d)"
        by (auto simp: getItem_def dest!: find_SomeD split: if_split_asm)
      show ?thesis
      proof (cases "i_case_id item \<noteq> c_id (rl_case rl) \<or> i_kind item \<noteq> IFile \<or> i_status item \<noteq> Ready")
        case True
        then show ?thesis using g b acc Some by (simp add: getFile_def l rl(2) respond_def split: if_split_asm) auto
      next
        case False
        with g b acc Some have "local_get itemId dir = Inr content"
          by (cases "local_get itemId dir"; cases "projl (local_get itemId dir)")
            (auto simp: getFile_def l rl(2) respond_def sendAttachment_def Let_def item(1) simp del: split_paired_All split: if_split_asm)
        then show ?thesis using rl acc False item by auto
      qed
    qed
  qed
qed

subsection \<open>Properties\<close>

text \<open>
  C2. A file is sent to a recipient only under an access cookie whose session is stored, alive
  and of the link the URL's token names; the link is neither revoked nor expired, its case is
  open, and the item is a ready file of that case. What is sent are the stored bytes.
\<close>

theorem download_authorised:
  assumes "rq_access req = None" and "accessMiddleware R nw req d = (req1, d1)"
    and "getFile R dict disp dir nw token itemId req1 d1 = (Inr resp, d2)" and "rs_body resp = BodyFile content"
  shows "\<exists>sid row link c item. parseCookies (rq_cookie req) ACCESS_COOKIE = Some sid
    \<and> row \<in> set (access_sessions d) \<and> as_id_hash row = rt_sha256 R sid \<and> nw < as_expires_at row
    \<and> link \<in> set (links d) \<and> l_token_hash link = rt_sha256 R token \<and> as_link_id row = l_id link
    \<and> c \<in> set (cases d) \<and> c_id c = l_case_id link \<and> linkState nw link c \<in> {LActive, LExhausted}
    \<and> item \<in> set (items d) \<and> i_id item = itemId \<and> i_case_id item = c_id c \<and> i_kind item = IFile
    \<and> i_status item = Ready \<and> local_get itemId dir = Inr content"
proof -
  from getFile_served [OF assms(3,4)] obtain rl item where
    rl: "resolveToken R nw d1 token = Some rl" "rl_state rl = LActive \<or> rl_state rl = LExhausted" "access_to req1 rl"
    and item: "item \<in> set (items d1)" "i_id item = itemId" "i_case_id item = c_id (rl_case rl)" "i_kind item = IFile"
      "i_status item = Ready" "local_get itemId dir = Inr content" by blast
  from rl(3) obtain a where a: "rq_access req1 = Some a" "ac_linkId a = l_id (rl_link rl)"
    by (auto simp: access_to_def split: option.splits)
  obtain sid row where "parseCookies (rq_cookie req) ACCESS_COOKIE = Some sid" "row \<in> set (access_sessions d)"
    "as_id_hash row = rt_sha256 R sid" "nw < as_expires_at row" "ac_linkId a = as_link_id row" "d1 = d"
    using accessMiddleware_access [OF assms(1,2) a(1)] by blast
  then show ?thesis
    using resolveToken_SomeD [OF rl(1)] rl(2) item a(2)
    by (intro exI [of _ sid] exI [of _ row] exI [of _ "rl_link rl"] exI [of _ "rl_case rl"] exI [of _ item]) auto
qed

definition sample_dir :: directory where
  "sample_dir = [(sample_item_id, \<lparr>st_bytes = [104, 105], st_mtime = 3\<rparr>)]"

lemma sample_download:
  "case getFile sample_runtime (\<lambda>_ _. None) id sample_dir 10 sample_token sample_item_id
          (fst (accessMiddleware sample_runtime 10 sample_request sample_db)) sample_db of
     (Inr resp, d) \<Rightarrow> rs_body resp = BodyFile [104, 105] | _ \<Rightarrow> False"
  "accessMiddleware sample_runtime 10 sample_request sample_db
     = (fst (accessMiddleware sample_runtime 10 sample_request sample_db), sample_db)"
  "rq_access sample_request = None"
  by code_simp+

theorem download_authorised_witness:
  "\<exists>item \<in> set (items sample_db). i_id item = sample_item_id \<and> i_status item = Ready
     \<and> local_get sample_item_id sample_dir = Inr [104, 105]"
proof -
  obtain resp d2 where "getFile sample_runtime (\<lambda>_ _. None) id sample_dir 10 sample_token sample_item_id
      (fst (accessMiddleware sample_runtime 10 sample_request sample_db)) sample_db = (Inr resp, d2)"
    "rs_body resp = BodyFile [104, 105]"
    using sample_download(1) by (auto split: prod.splits sum.splits)
  from download_authorised [OF sample_download(3,2) this] show ?thesis by blast
qed

end
