(* ===== verification/PanelFiles.thy ===== *)
theory PanelFiles
  imports PanelCases Deliver
begin

section \<open>Uploads, downloads and deletions (src/http/admin.ts, src/http/tus.ts)\<close>

text \<open>
  The state is the database and the local storage directory. An upload body is its chunks and
  whether the stream ended normally; \<open>gone\<close> says that the client's socket is closed when the
  answer would be sent. The hooks of the tus server are the functions the third-party server
  calls; its own protocol handling is not modelled.
\<close>

type_synonym 'a fexec = "db \<times> directory \<Rightarrow> (exn + 'a) \<times> db \<times> directory"

definition hex_of :: "nat list \<Rightarrow> string" where
  "hex_of bs = concat (map (\<lambda>b. [hex_digit (b div 16), hex_digit (b mod 16)]) bs)"

subsection \<open>The direct upload\<close>

definition declaredLength :: "Request \<Rightarrow> jssize option" where
  "declaredLength req =
     (if (case rq_transferEncoding req of None \<Rightarrow> False | Some e \<Rightarrow> e \<noteq> []) then None
      else (case rq_contentLength req of
              None \<Rightarrow> None
            | Some raw \<Rightarrow>
                (case integer_of raw of
                   None \<Rightarrow> None
                 | Some n \<Rightarrow> (if 0 \<le> n \<and> n \<le> MAX_SAFE then Some (SizeInt n) else None))))"

definition safeDecode :: "string \<Rightarrow> string" where
  "safeDecode v = (case decodeURIComponent v of Some s \<Rightarrow> s | None \<Rightarrow> v)"

definition json_error :: "nat \<Rightarrow> (string \<times> json) list \<Rightarrow> Response" where
  "json_error status ms = respond status (BodyJson (JObj ms))"

definition size_json :: "nat option \<Rightarrow> string" where
  "size_json s = (case s of Some n \<Rightarrow> nat_digits n | None \<Rightarrow> ''null'')"

text \<open>What storing the body yields: the checks after \<open>put\<close> included\<close>

definition store_upload ::
    "runtime \<Rightarrow> ms \<Rightarrow> string \<Rightarrow> nat list list \<times> bool \<Rightarrow> nat \<Rightarrow> nat option \<Rightarrow> directory
     \<Rightarrow> (exn + PutResult) \<times> directory" where
  "store_upload R nw key source maxBytes declared dir =
     (case local_put R nw key source maxBytes dir of
        (Inl e, dir1) \<Rightarrow> (Inl e, dir1)
      | (Inr res, dir1) \<Rightarrow>
          (if (case declared of None \<Rightarrow> False | Some n \<Rightarrow> pr_size res \<noteq> n)
           then (Inl (JsError (''received '' @ nat_digits (pr_size res) @ '' bytes, Content-Length was '' @ size_json declared)), dir1)
           else (Inr res, dir1)))"

definition directUpload ::
    "runtime \<Rightarrow> Config \<Rightarrow> ms \<Rightarrow> nat list \<Rightarrow> bool \<Rightarrow> nat list list \<times> bool \<Rightarrow> Request \<Rightarrow> Session
     \<Rightarrow> Response option fexec" where
  "directUpload R cfg nw idb gone source req s st =
     (let (d, dir) = st
      in case caseFor d s (validId (param req ''caseId'')) of
           None \<Rightarrow> (Inr (Some (json_error 404 [(''error'', JStr ''case_not_found'')])), st)
         | Some c \<Rightarrow>
             (if c_status c \<noteq> CaseOpen then (Inr (Some (json_error 403 [(''error'', JStr ''case_closed'')])), st)
              else (let originalName = sanitizeFilename R (Some (case param req ''name'' of Some n \<Rightarrow> safeDecode n | None \<Rightarrow> []));
                        declared = declaredLength req
                    in case startUpload R cfg nw idb \<lparr>su_caseId = c_id c, su_originalName = originalName,
                              su_uploadKind = UDirect, su_declaredSize = declared, su_adminId = Some (who_of s),
                              su_id = None\<rparr> d of
                         (Inl (LimitError code limit), d1) \<Rightarrow>
                           (Inr (Some (json_error 413 [(''error'', JStr code),
                               (''message'', JStr (exn_message (LimitError code limit))), (''limit'', JNum (int limit))])), d1, dir)
                       | (Inl e, d1) \<Rightarrow> (Inl e, d1, dir)
                       | (Inr (item, maxBytes), d1) \<Rightarrow>
                           (let d2 = audit nw (item_event ''upload.start'' s req item
                                  [(''kind'', ''direct''), (''size'', size_json (size_nat declared))]) d1
                            in case store_upload R nw (i_id item) source maxBytes (size_nat declared) dir of
                                 (Inl e, dir1) \<Rightarrow>
                                   (let d3 = snd (failUpload (i_id item) Aborted d2);
                                        dir2 = snd (local_delete (i_id item) dir1)
                                    in (case e of
                                          StorageLimitError m \<Rightarrow>
                                            (Inr (Some (with_header ''Connection'' ''close''
                                               (json_error 413 [(''error'', JStr ''file_too_large''),
                                                 (''message'', JStr (''Upload exceeded the allowed '' @ nat_digits maxBytes @ '' bytes'')),
                                                 (''limit'', JNum (int maxBytes))]))),
                                             audit nw (item_event ''upload.rejected'' s req item
                                               [(''reason'', ''limit''), (''maxBytes'', nat_digits maxBytes)]) d3, dir2)
                                        | _ \<Rightarrow>
                                            (Inr (if gone then None
                                                  else Some (with_header ''Connection'' ''close''
                                                    (json_error 400 [(''error'', JStr ''upload_incomplete''),
                                                      (''message'', JStr ''Connection closed before the upload completed'')]))),
                                             audit nw (item_event ''upload.aborted'' s req item
                                               [(''reason'', exn_message e)]) d3, dir2)))
                               | (Inr res, dir1) \<Rightarrow>
                                   (let d3 = snd (completeUpload nw (i_id item) (pr_size res) (Some (hex_of (pr_sha256 res))) d2)
                                    in (Inr (Some (json_error 201 [(''id'', JStr (i_id item)), (''name'', JStr originalName),
                                          (''size'', JNum (int (pr_size res))), (''sha256'', JStr (hex_of (pr_sha256 res))),
                                          (''status'', JStr ''ready'')])),
                                        audit nw (item_event ''upload.complete'' s req item
                                          [(''kind'', ''direct''), (''size'', nat_digits (pr_size res)), (''name'', originalName)]) d3,
                                        dir1))))))"

subsection \<open>Items\<close>

definition itemDownload ::
    "runtime \<Rightarrow> Config \<Rightarrow> dictionary \<Rightarrow> (string \<Rightarrow> string) \<Rightarrow> directory \<Rightarrow> ms \<Rightarrow> nat list \<Rightarrow> Request \<Rightarrow> Response exec" where
  "itemDownload R cfg dict disposition dir nw rnd24 req =
     gate_ready R cfg dict nw rnd24 req (\<lambda>s sid. when_confirmed nw ''/admin'' req (\<lambda>d.
       let missing = (Inr (sendError dict req ''error.not_found.title'' ''error.item_missing'' 404), d)
       in case (case validId (param req ''id'') of None \<Rightarrow> None | Some i \<Rightarrow> getItem d i) of
            None \<Rightarrow> missing
          | Some item \<Rightarrow>
              (if i_kind item \<noteq> IFile \<or> i_status item \<noteq> Ready \<or> caseFor d s (Some (i_case_id item)) = None then missing
               else (case local_get (i_id item) dir of
                       Inl (StorageNotFoundError k) \<Rightarrow>
                         (Inr (sendError dict req ''error.storage_missing.title'' ''error.storage_missing'' 410), d)
                     | Inl e \<Rightarrow> (Inl e, d)
                     | Inr content \<Rightarrow>
                         (Inr (sendAttachment disposition (i_title item) (i_size item) content),
                          audit nw (item_event ''item.download'' s req item []) d)))))"

definition itemDelete ::
    "tus_remove \<Rightarrow> dictionary \<Rightarrow> ms \<Rightarrow> Request \<Rightarrow> Session \<Rightarrow> Response fexec" where
  "itemDelete tusRemove dict nw req s st =
     (let (d, dir) = st
      in case (case validId (param req ''id'') of None \<Rightarrow> None | Some i \<Rightarrow> getItem d i) of
           None \<Rightarrow> (Inr (sendError dict req ''error.not_found.title'' ''error.item_not_exist'' 404), st)
         | Some item \<Rightarrow>
             (if caseFor d s (Some (i_case_id item)) = None
              then (Inr (sendError dict req ''error.not_found.title'' ''error.item_not_exist'' 404), st)
              else (let back = redirect 303 (''/admin/cases/'' @ i_case_id item);
                        (deleted, d1) = markDeleted nw (i_id item) d
                    in if deleted
                       then (case (if i_kind item = IFile then local_delete (i_id item) dir else (Inr (), dir)) of
                               (Inl e, dir1) \<Rightarrow> (Inl e, d1, dir1)
                             | (Inr _, dir1) \<Rightarrow>
                                 (Inr back, audit nw (item_event ''item.delete'' s req item
                                    [(''title'', i_title item), (''size'', size_json (i_size item))]) d1, dir1))
                       else if i_status item = Uploading
                       then (Inr back, snd (failUpload (i_id item) Aborted d1), discardUploadData tusRemove item dir)
                       else (Inr back, d1, dir))))"

subsection \<open>The hooks of the tus server\<close>

text \<open>An error of a hook is the status and the code it answers with.\<close>

type_synonym tus_error = "nat \<times> string"

definition status_text :: "item_status \<Rightarrow> string" where
  "status_text s = (case s of Uploading \<Rightarrow> ''uploading'' | Ready \<Rightarrow> ''ready'' | Aborted \<Rightarrow> ''aborted''
     | Expired \<Rightarrow> ''expired'' | Missing \<Rightarrow> ''missing'' | Deleted \<Rightarrow> ''deleted'')"

definition onIncomingRequest :: "db \<Rightarrow> Request \<Rightarrow> string \<Rightarrow> tus_error + unit" where
  "onIncomingRequest d req uploadId =
     (case rq_session req of
        None \<Rightarrow> Inl (401, ''unauthorized'')
      | Some s \<Rightarrow>
          (if rq_method req = ''POST'' \<or> rq_method req = ''OPTIONS'' then Inr ()
           else (case getItem d uploadId of
                   None \<Rightarrow> Inl (404, ''upload_not_found'')
                 | Some item \<Rightarrow>
                     (if \<not> canAccessCase d (viewer_of s) (i_case_id item) then Inl (404, ''upload_not_found'')
                      else if i_status item \<noteq> Uploading then Inl (410, ''upload_finished'')
                      else Inr ()))))"

record TusUpload =
  tu_id :: string
  tu_size :: "nat option"
  tu_offset :: nat
  tu_caseId :: "string option"
  tu_filename :: "string option"

definition onUploadCreate ::
    "runtime \<Rightarrow> Config \<Rightarrow> ms \<Rightarrow> Request \<Rightarrow> TusUpload \<Rightarrow> db \<Rightarrow> (tus_error + unit) \<times> db" where
  "onUploadCreate R cfg nw req up d =
     (case rq_session req of
        None \<Rightarrow> (Inl (401, ''unauthorized''), d)
      | Some s \<Rightarrow>
          (case tu_size up of
             None \<Rightarrow> (Inl (400, ''length_required''), d)
           | Some n \<Rightarrow>
               (let caseId = (case tu_caseId up of None \<Rightarrow> [] | Some c \<Rightarrow> c)
                in if \<not> matches ID_RE caseId then (Inl (400, ''case_required''), d)
                   else (case getCase d caseId of
                           None \<Rightarrow> (Inl (404, ''case_not_found''), d)
                         | Some c \<Rightarrow>
                             (if \<not> canAccessCase d (viewer_of s) (c_id c) then (Inl (404, ''case_not_found''), d)
                              else if c_status c \<noteq> CaseOpen then (Inl (403, ''case_closed''), d)
                              else (case startUpload R cfg nw [] \<lparr>su_caseId = caseId,
                                       su_originalName = (case tu_filename up of Some f \<Rightarrow> f | None \<Rightarrow> ''unnamed''),
                                       su_uploadKind = UTus, su_declaredSize = Some (SizeInt (int n)),
                                       su_adminId = Some (who_of s), su_id = Some (tu_id up)\<rparr> d of
                                      (Inl (LimitError code limit), d1) \<Rightarrow> (Inl (413, code), d1)
                                    | (Inl e, d1) \<Rightarrow> (Inl (500, ''internal''), d1)
                                    | (Inr (item, _), d1) \<Rightarrow>
                                        (Inr (), audit nw (item_event ''upload.start'' s req item
                                           [(''kind'', ''tus''), (''size'', nat_digits n)]) d1)))))))"

definition onUploadFinish ::
    "ms \<Rightarrow> Request \<Rightarrow> TusUpload \<Rightarrow> db \<times> directory \<Rightarrow> (tus_error + unit) \<times> db \<times> directory" where
  "onUploadFinish nw req up st =
     (let (d, dir) = st
      in case rq_session req of
        None \<Rightarrow> (Inl (401, ''unauthorized''), st)
      | Some s \<Rightarrow>
          (case tu_size up of
             None \<Rightarrow> (Inl (500, ''incomplete''), st)
           | Some n \<Rightarrow>
               (if tu_offset up \<noteq> n then (Inl (500, ''incomplete''), st)
                else (let item = getItem d (tu_id up);
                          (changed, d1) = completeUpload nw (tu_id up) n None d;
                          ev = (own_event ''upload.complete'' s req
                                 ([(''kind'', ''tus''), (''size'', nat_digits n)]
                                  @ (case tu_filename up of Some f \<Rightarrow> [(''name'', f)] | None \<Rightarrow> [])))
                                 \<lparr>ev_caseId := map_option i_case_id item, ev_itemId := Some (tu_id up)\<rparr>
                      in if changed
                         then (Inr (), audit nw ev d1, snd (local_removeTusSidecar (tu_id up) dir))
                         else (Inr (), d1, dir)))))"

definition onTerminate :: "ms \<Rightarrow> string \<Rightarrow> db \<Rightarrow> db" where
  "onTerminate nw i d =
     (case getItem d i of
        None \<Rightarrow> d
      | Some item \<Rightarrow>
          (let (changed, d1) = failUpload i Aborted d
           in if changed
              then audit nw \<lparr>ev_actorType = ActorAdmin, ev_actorId = None, ev_action = ''upload.cancel'',
                     ev_caseId = Some (i_case_id item), ev_linkId = None, ev_itemId = Some i, ev_ip = None,
                     ev_details = []\<rparr> d1
              else d1))"

text \<open>The express adapter: GET is refused before the server sees it (\<open>None\<close> hands over).\<close>

definition tusHandler :: "Request \<Rightarrow> Response option" where
  "tusHandler req =
     (if rq_method req = ''GET''
      then Some (json_error 405 [(''error'', JStr ''method_not_allowed''),
             (''message'', JStr ''Uploads cannot be read back through tus'')])
      else None)"

end
