(* ===== verification/PanelAccounts.thy ===== *)
theory PanelAccounts
  imports PanelCases
begin

section \<open>Address groups, accounts and the audit page (src/http/admin.ts)\<close>

text \<open>
  Groups are shared: anyone may create one, its creator or an administrator changes it.
  Accounts and the audit log are the administrators' alone.
\<close>

subsection \<open>Address groups\<close>

definition groups_page :: "(string \<times> string) list \<Rightarrow> nat \<Rightarrow> Response" where
  "groups_page msgs status = panel_page status ''groups'' msgs"

text \<open>The group behind the id if this account may change it, or the page that refuses\<close>

definition editableGroup :: "dictionary \<Rightarrow> Request \<Rightarrow> Session \<Rightarrow> db \<Rightarrow> Response + Group" where
  "editableGroup dict req s d =
     (case (case validId (param req ''id'') of None \<Rightarrow> None | Some i \<Rightarrow> getGroup d i) of
        None \<Rightarrow> Inl (groups_page [(''error'', tx dict req ''groups.missing'')] 404)
      | Some g \<Rightarrow>
          (if canEditGroup (viewer_of s) g then Inr g
           else Inl (groups_page [(''error'', tx dict req ''groups.not_yours'')] 403)))"

definition group_details :: "Group \<Rightarrow> (string \<times> string) list" where
  "group_details g = [(''group'', g_id (gr_row g)), (''name'', g_name (gr_row g)),
     (''members'', nat_digits (length (gr_members g)))]"

definition named :: "dictionary \<Rightarrow> Request \<Rightarrow> string \<Rightarrow> string \<Rightarrow> string \<Rightarrow> string" where
  "named dict req key what v = t dict (rq_lang req) key (Some [(what, PStr v)])"

definition group_failed :: "dictionary \<Rightarrow> Request \<Rightarrow> exn \<Rightarrow> Response" where
  "group_failed dict req e =
     groups_page [(''error'', errorText dict req e), (''draft_name'', field req ''name''),
                  (''draft_members'', field req ''recipients'')] 400"

definition postGroups ::
    "runtime \<Rightarrow> Config \<Rightarrow> dictionary \<Rightarrow> ms \<Rightarrow> nat list \<Rightarrow> nat list \<Rightarrow> Request \<Rightarrow> Response exec" where
  "postGroups R cfg dict nw idb rnd24 req =
     gate_ready R cfg dict nw rnd24 req (\<lambda>s sid d.
       case (case requireRecipients R (field req ''recipients'') (formLang req) [] of
               Inl e \<Rightarrow> (Inl e, d)
             | Inr members \<Rightarrow> createGroup nw idb (field req ''name'') members (Some (who_of s)) d) of
         (Inl e, d1) \<Rightarrow> (Inr (group_failed dict req e), d1)
       | (Inr None, d1) \<Rightarrow> (Inl (JsError ''Cannot read properties of null''), d1)
       | (Inr (Some g), d1) \<Rightarrow>
           (Inr (groups_page [(''ok'', named dict req ''groups.created'' ''name'' (g_name (gr_row g)))] 200),
            audit nw (own_event ''group.create'' s req (group_details g)) d1))"

definition postGroup ::
    "runtime \<Rightarrow> Config \<Rightarrow> dictionary \<Rightarrow> ms \<Rightarrow> nat list \<Rightarrow> Request \<Rightarrow> Response exec" where
  "postGroup R cfg dict nw rnd24 req =
     gate_ready R cfg dict nw rnd24 req (\<lambda>s sid d.
       case editableGroup dict req s d of
         Inl r \<Rightarrow> (Inr r, d)
       | Inr existing \<Rightarrow>
           (case (case requireRecipients R (field req ''recipients'') (formLang req) [] of
                    Inl e \<Rightarrow> (Inl e, d)
                  | Inr members \<Rightarrow> updateGroup nw (g_id (gr_row existing)) (field req ''name'') members d) of
              (Inl e, d1) \<Rightarrow> (Inr (group_failed dict req e), d1)
            | (Inr None, d1) \<Rightarrow> (Inr (group_failed dict req (JsError ''Cannot read properties of null'')), d1)
            | (Inr (Some g), d1) \<Rightarrow>
                (Inr (groups_page [(''ok'', named dict req ''groups.saved'' ''name'' (g_name (gr_row g)))] 200),
                 audit nw (own_event ''group.update'' s req (group_details g)) d1)))"

definition groupDelete ::
    "runtime \<Rightarrow> Config \<Rightarrow> dictionary \<Rightarrow> ms \<Rightarrow> nat list \<Rightarrow> Request \<Rightarrow> Response exec" where
  "groupDelete R cfg dict nw rnd24 req =
     gate_ready R cfg dict nw rnd24 req (\<lambda>s sid d.
       case editableGroup dict req s d of
         Inl r \<Rightarrow> (Inr r, d)
       | Inr g \<Rightarrow>
           (Inr (groups_page [(''ok'', named dict req ''groups.deleted'' ''name'' (g_name (gr_row g)))] 200),
            audit nw (own_event ''group.delete'' s req [(''group'', g_id (gr_row g)), (''name'', g_name (gr_row g))])
              (snd (deleteGroup (g_id (gr_row g)) d))))"

subsection \<open>Accounts\<close>

definition users_page :: "(string \<times> string) list \<Rightarrow> nat \<Rightarrow> Response" where
  "users_page msgs status = panel_page status ''users'' msgs"

definition adminsOnly :: "dictionary \<Rightarrow> Request \<Rightarrow> Session \<Rightarrow> Response option" where
  "adminsOnly dict req s =
     (if ad_role (se_admin s) = RAdmin then None
      else Some (sendError dict req ''error.forbidden.title'' ''error.forbidden'' 403))"

text \<open>\<open>userErrorText\<close>: a \<open>UserError\<close> becomes a message, anything else is thrown again.\<close>

definition user_failed :: "dictionary \<Rightarrow> Request \<Rightarrow> exn \<Rightarrow> exn + Response" where
  "user_failed dict req e =
     (case e of
        UserError key ps \<Rightarrow> Inr (users_page [(''error'', t dict (rq_lang req) key (Some ps))] 400)
      | _ \<Rightarrow> Inl e)"

definition gate_admins ::
    "runtime \<Rightarrow> Config \<Rightarrow> dictionary \<Rightarrow> ms \<Rightarrow> nat list \<Rightarrow> Request \<Rightarrow> session_handler \<Rightarrow> Response exec" where
  "gate_admins R cfg dict nw rnd24 req k =
     gate_ready R cfg dict nw rnd24 req (\<lambda>s sid d.
       case adminsOnly dict req s of
         Some r \<Rightarrow> (Inr r, d)
       | None \<Rightarrow> when_confirmed nw ''/admin/users'' req (k s sid) d)"

record user_rnd =
  ur_password :: "nat list list"
  ur_id :: "nat list"
  ur_salt :: "nat list"

definition role_text :: "role \<Rightarrow> string" where
  "role_text r = (case r of RAdmin \<Rightarrow> ''admin'' | RUser \<Rightarrow> ''user'')"

text \<open>The outer option is \<open>None\<close> when the listed random blocks of the password are used up.\<close>

definition postUsers ::
    "runtime \<Rightarrow> Config \<Rightarrow> dictionary \<Rightarrow> ms \<Rightarrow> user_rnd \<Rightarrow> nat list \<Rightarrow> Request \<Rightarrow> Response exec" where
  "postUsers R cfg dict nw rnd rnd24 req =
     gate_admins R cfg dict nw rnd24 req (\<lambda>s sid d.
       case createUser R nw (ur_password rnd) (ur_id rnd) (ur_salt rnd) (field req ''username'')
              (case isRole (field req ''role'') of Some r \<Rightarrow> r | None \<Rightarrow> RUser) d of
         (Inl e, d1) \<Rightarrow> (user_failed dict req e, d1)
       | (Inr None, d1) \<Rightarrow> (Inr (respond 500 BodyEmpty), d1)
       | (Inr (Some (user, password)), d1) \<Rightarrow>
           (Inr (users_page [(''issued_username'', ad_username user), (''issued_password'', password)] 200),
            audit nw (own_event ''user.create'' s req [(''user'', ad_id user), (''username'', ad_username user),
              (''role'', role_text (ad_role user))]) d1))"

text \<open>\<open>userAction\<close>: \<open>f\<close> runs the action and yields the account, the messages and further details.\<close>

type_synonym user_action =
  "string \<Rightarrow> string \<Rightarrow> (UserSummary \<times> (string \<times> string) list \<times> (string \<times> string) list) exec"

definition userAction ::
    "runtime \<Rightarrow> Config \<Rightarrow> dictionary \<Rightarrow> ms \<Rightarrow> string \<Rightarrow> user_action \<Rightarrow> nat list \<Rightarrow> Request \<Rightarrow> Response exec" where
  "userAction R cfg dict nw action f rnd24 req =
     gate_admins R cfg dict nw rnd24 req (\<lambda>s sid d.
       case validId (param req ''id'') of
         None \<Rightarrow> (Inr (users_page [(''error'', tx dict req ''users.missing'')] 404), d)
       | Some i \<Rightarrow>
           (case f (who_of s) i d of
              (Inl e, d1) \<Rightarrow> (user_failed dict req e, d1)
            | (Inr (user, msgs, details), d1) \<Rightarrow>
                (Inr (users_page msgs 200),
                 audit nw (own_event action s req
                   ([(''user'', us_id user), (''username'', us_username user)] @ details)) d1)))"

definition action_role :: "dictionary \<Rightarrow> Request \<Rightarrow> user_action" where
  "action_role dict req actor i d =
     (case isRole (field req ''role'') of
        None \<Rightarrow> (Inl (UserError ''users.invalid_role'' []), d)
      | Some role \<Rightarrow>
          exec_map (\<lambda>user. (user, [(''ok'', t dict (rq_lang req) ''users.role_changed''
               (Some [(''username'', PStr (us_username user)),
                      (''role'', PStr (tx dict req (if role = RAdmin then ''users.role.admin'' else ''users.role.user'')))]))],
               [(''role'', role_text role)]))
            (setUserRole actor i role) d)"

definition action_password :: "runtime \<Rightarrow> user_rnd \<Rightarrow> dictionary \<Rightarrow> Request \<Rightarrow> user_action" where
  "action_password R rnd dict req actor i d =
     (case resetUserPassword R (ur_password rnd) (ur_salt rnd) actor i d of
        (Inl e, d1) \<Rightarrow> (Inl e, d1)
      | (Inr None, d1) \<Rightarrow> (Inl (JsError ''no more random bytes''), d1)
      | (Inr (Some (user, password)), d1) \<Rightarrow>
          (Inr (user, [(''ok'', named dict req ''users.password_reset'' ''username'' (us_username user)),
             (''issued_username'', us_username user), (''issued_password'', password)], []), d1))"

definition action_totp :: "runtime \<Rightarrow> dictionary \<Rightarrow> Request \<Rightarrow> user_action" where
  "action_totp R dict req actor i =
     exec_map (\<lambda>user. (user, [(''ok'', named dict req ''users.totp_reset'' ''username'' (us_username user))], []))
       (resetUserTotp R actor i)"

definition action_disable :: "ms \<Rightarrow> bool \<Rightarrow> dictionary \<Rightarrow> Request \<Rightarrow> user_action" where
  "action_disable nw disabled dict req actor i =
     exec_map (\<lambda>user. (user, [(''ok'', named dict req (if disabled then ''users.disabled'' else ''users.enabled'')
                 ''username'' (us_username user))], []))
       (setUserDisabled nw actor i disabled)"

definition action_delete :: "dictionary \<Rightarrow> Request \<Rightarrow> user_action" where
  "action_delete dict req actor i =
     exec_map (\<lambda>user. (user, [(''ok'', named dict req ''users.deleted'' ''username'' (us_username user))], []))
       (deleteUser actor i)"

definition getAudit ::
    "runtime \<Rightarrow> Config \<Rightarrow> dictionary \<Rightarrow> ms \<Rightarrow> nat list \<Rightarrow> Request \<Rightarrow> Response exec" where
  "getAudit R cfg dict nw rnd24 req =
     gate_ready R cfg dict nw rnd24 req (\<lambda>s sid d.
       case adminsOnly dict req s of
         Some r \<Rightarrow> (Inr r, d)
       | None \<Rightarrow> (Inr (panel_page 200 ''audit'' (map (\<lambda>(r, n). (au_action r, case n of Some u \<Rightarrow> u | None \<Rightarrow> [])) (listAudit d 300))), d))"

end
