(* ===== verification/Invariants.thy ===== *)
theory Invariants
  imports PanelFiles PanelAccounts
begin

section \<open>Invariants of the database\<close>

text \<open>
  An invariant of the tables is checked once per operation of the services that touches what
  it looks at. \<open>db_invariant\<close> is a predicate with the rules that carry it through cases, lets
  and transactions; \<open>server_invariant\<close> adds the operations it must survive, named one by one,
  and derives every other operation of the services.
\<close>

definition admin_key :: "AdminRow \<Rightarrow> string \<times> role \<times> ms option" where
  "admin_key a = (a_id a, a_role a, a_disabled_at a)"

definition core :: "db \<Rightarrow> (LinkRow list \<times> RecipientRow list \<times> AccessRow list) \<times> ChallengeRow list \<times> AuditRow list
    \<times> (string \<times> role \<times> ms option) list \<times> CaseRow list \<times> MemberRow list \<times> ItemRow list" where
  "core d = ((links d, link_recipients d, access_sessions d), challenges d, audit_log d, map admin_key (admins d),
     cases d, case_members d, items d)"

lemma core_frame [simp]:
  "core (d\<lparr>recovery_codes := x1\<rparr>) = core d" "core (d\<lparr>sessions := x2\<rparr>) = core d"
  "core (d\<lparr>passkeys := x3\<rparr>) = core d" "core (d\<lparr>bindings := x4\<rparr>) = core d"
  "core (d\<lparr>groups := x8\<rparr>) = core d" "core (d\<lparr>group_members := x9\<rparr>) = core d"
  by (simp_all add: core_def)

lemma core_set_admin: "(\<And>a. admin_key (f a) = admin_key a) \<Longrightarrow> core (set_admin p f d) = core d"
  by (simp add: core_def set_admin_def upd_where_def comp_def if_distrib [of admin_key])

lemma core_delete_sessions [simp]: "core (delete_sessions p d) = core d"
  by (simp add: delete_sessions_def Let_def)

text \<open>A predicate on the database, and how it passes through the constructs the handlers are built from\<close>

locale db_invariant =
  fixes I :: "db \<Rightarrow> bool"
begin

lemma keeps_return: "I d \<Longrightarrow> I (snd (r, d))"
  by simp

lemma keeps_prod: "I (snd p) \<Longrightarrow> (\<And>a d'. I d' \<Longrightarrow> I (snd (f a d'))) \<Longrightarrow> I (snd (case p of (a, d') \<Rightarrow> f a d'))"
  by (cases p) simp

lemma keeps_pair: "(\<And>a b. I (snd (f a b))) \<Longrightarrow> I (snd (case p of (a, b) \<Rightarrow> f a b))"
  by (cases p) simp

lemma keeps_triple:
  "(\<And>a b c. I (snd (f a b c))) \<Longrightarrow> I (snd (case p of (a, b, c) \<Rightarrow> f a b c))"
  by (cases p) simp

lemma keeps_sum:
  "(\<And>e. s = Inl e \<Longrightarrow> I (snd (f e))) \<Longrightarrow> (\<And>x. s = Inr x \<Longrightarrow> I (snd (g x))) \<Longrightarrow> I (snd (case s of Inl e \<Rightarrow> f e | Inr x \<Rightarrow> g x))"
  by (cases s) simp_all

lemma keeps_option: "I (snd a) \<Longrightarrow> (\<And>x. I (snd (f x))) \<Longrightarrow> I (snd (case s of None \<Rightarrow> a | Some x \<Rightarrow> f x))"
  by (cases s) simp_all

lemma keeps_bool: "I (snd a) \<Longrightarrow> I (snd b) \<Longrightarrow> I (snd (if c then a else b))"
  by simp

lemma keeps_let: "I (snd (f x)) \<Longrightarrow> I (snd (Let x f))"
  by simp

lemma keeps_db_if: "I a \<Longrightarrow> I b \<Longrightarrow> I (if c then a else b)"
  by simp

lemma keeps_db_let: "I (f x) \<Longrightarrow> I (Let x f)"
  by simp

lemma keeps_db_option: "I a \<Longrightarrow> (\<And>x. I (f x)) \<Longrightarrow> I (case s of None \<Rightarrow> a | Some x \<Rightarrow> f x)"
  by (cases s) simp_all

lemma keeps_transaction: "(\<And>d. I d \<Longrightarrow> I (snd (f d))) \<Longrightarrow> I d \<Longrightarrow> I (snd (transaction f d))"
  by (cases "f d"; cases "fst (f d)") (auto simp: transaction_def dest: meta_spec [of _ d])

lemma keeps_exec_map: "I (snd (m d)) \<Longrightarrow> I (snd (exec_map f m d))"
  by (cases "m d"; cases "fst (m d)") (simp_all add: exec_map_def)

lemma keeps_exn:
  "(\<And>x. I (snd (f1 x))) \<Longrightarrow> (\<And>x y. I (snd (f2 x y))) \<Longrightarrow> (\<And>x y. I (snd (f3 x y))) \<Longrightarrow> (\<And>x. I (snd (f4 x)))
   \<Longrightarrow> (\<And>x y. I (snd (f5 x y))) \<Longrightarrow> (\<And>x. I (snd (f6 x))) \<Longrightarrow> (\<And>x. I (snd (f7 x))) \<Longrightarrow> (\<And>x. I (snd (f8 x)))
   \<Longrightarrow> (\<And>x. I (snd (f9 x))) \<Longrightarrow> (\<And>x. I (snd (f10 x))) \<Longrightarrow> I (snd f11)
   \<Longrightarrow> I (snd (case e of JsError x \<Rightarrow> f1 x | RecipientListError x y \<Rightarrow> f2 x y | UserError x y \<Rightarrow> f3 x y
       | ChallengeRateError x \<Rightarrow> f4 x | LimitError x y \<Rightarrow> f5 x y | WebAuthnError x \<Rightarrow> f6 x | DbscError x \<Rightarrow> f7 x
       | MailError x \<Rightarrow> f8 x | StorageLimitError x \<Rightarrow> f9 x | StorageNotFoundError x \<Rightarrow> f10 x | SqliteError \<Rightarrow> f11))"
  by (cases e) simp_all

lemma keeps_exec_unit: "(\<And>d'. f d = Inr d' \<Longrightarrow> I d') \<Longrightarrow> I d \<Longrightarrow> I (snd (exec_unit f d))"
  by (cases "f d") (simp_all add: exec_unit_def)

lemma keeps_flag: "I (snd a) \<Longrightarrow> I (snd b) \<Longrightarrow> I (snd (case c of True \<Rightarrow> a | False \<Rightarrow> b))"
  by (cases c) simp_all

lemma keeps_verdict:
  "(\<And>i. I (snd (f i))) \<Longrightarrow> (\<And>n. I (snd (g n))) \<Longrightarrow> I (snd h)
   \<Longrightarrow> I (snd (case v of VOk i \<Rightarrow> f i | VInvalid n \<Rightarrow> g n | VGone \<Rightarrow> h))"
  by (cases v) simp_all

lemmas keeps_flow = keeps_return keeps_prod keeps_sum keeps_option keeps_bool keeps_let keeps_db_if keeps_db_let
  keeps_db_option keeps_exec_map keeps_exn keeps_pair keeps_flag keeps_verdict

end

text \<open>
  An invariant that does not look at the tables of accounts, sessions and address groups: it
  survives everything an account does about itself. \<open>keeps_core\<close> names the tables it may
  look at.
\<close>

locale account_invariant = db_invariant I for I :: "db \<Rightarrow> bool" +
  assumes keeps_core: "core d' = core d \<Longrightarrow> I d \<Longrightarrow> I d'"
    and keeps_audit: "I d \<Longrightarrow> ev_action ev \<noteq> ''access.granted'' \<Longrightarrow> I (audit nw ev d)"
begin

lemma keeps_recovery: "I d \<Longrightarrow> I (d\<lparr>recovery_codes := x\<rparr>)" by (rule keeps_core [rotated]) simp_all
lemma keeps_sessions: "I d \<Longrightarrow> I (d\<lparr>sessions := x\<rparr>)" by (rule keeps_core [rotated]) simp_all
lemma keeps_passkeys: "I d \<Longrightarrow> I (d\<lparr>passkeys := x\<rparr>)" by (rule keeps_core [rotated]) simp_all
lemma keeps_bindings: "I d \<Longrightarrow> I (d\<lparr>bindings := x\<rparr>)" by (rule keeps_core [rotated]) simp_all
lemma keeps_groups: "I d \<Longrightarrow> I (d\<lparr>groups := x\<rparr>)" by (rule keeps_core [rotated]) simp_all
lemma keeps_group_members: "I d \<Longrightarrow> I (d\<lparr>group_members := x\<rparr>)" by (rule keeps_core [rotated]) simp_all

lemma keeps_set_admin: "(\<And>a. admin_key (f a) = admin_key a) \<Longrightarrow> I d \<Longrightarrow> I (set_admin p f d)"
  by (rule keeps_core [OF core_set_admin])

lemma keeps_set_session: "I d \<Longrightarrow> I (set_session p f d)"
  by (simp add: set_session_def keeps_sessions)

lemma keeps_delete_sessions: "I d \<Longrightarrow> I (delete_sessions p d)"
  by (rule keeps_core [rotated]) simp_all

lemma keeps_set_binding: "I d \<Longrightarrow> I (set_binding i f d)"
  by (simp add: set_binding_def keeps_bindings)

lemmas keeps_tables = keeps_recovery keeps_sessions keeps_passkeys keeps_bindings keeps_groups keeps_group_members
  keeps_set_session keeps_delete_sessions keeps_set_binding

lemma keeps_inserts:
  "ins_session r1 d = Inr d' \<Longrightarrow> I d \<Longrightarrow> I d'" "ins_recovery r2 d = Inr d' \<Longrightarrow> I d \<Longrightarrow> I d'"
  "ins_passkey r3 d = Inr d' \<Longrightarrow> I d \<Longrightarrow> I d'" "ins_binding r4 d = Inr d' \<Longrightarrow> I d \<Longrightarrow> I d'"
  "ins_group r7 d = Inr d' \<Longrightarrow> I d \<Longrightarrow> I d'" "ins_group_member r8 d = Inr d' \<Longrightarrow> I d \<Longrightarrow> I d'"
  "rename_group nw i n d = Inr d' \<Longrightarrow> I d \<Longrightarrow> I d'"
  by (auto simp: ins_session_def ins_recovery_def ins_passkey_def ins_binding_def ins_group_def
      ins_group_member_def rename_group_def intro: keeps_tables)

lemmas keeps_rules = keeps_flow keeps_tables

subsection \<open>The services that keep to the accounts\<close>

lemma keeps_createSession: "I d \<Longrightarrow> I (snd (createSession R nw rnd adm ttl ip ua d))"
  unfolding createSession_def by (intro keeps_rules; (assumption | (erule keeps_inserts, assumption)))

lemma keeps_markConfirmed: "I d \<Longrightarrow> I (snd (markConfirmed R nw sid w d))"
  unfolding markConfirmed_def by (intro keeps_rules)

lemma keeps_completeSecondFactor: "I d \<Longrightarrow> I (snd (completeSecondFactor R nw rnd h adm ttl fct d))"
  unfolding completeSecondFactor_def
  by (intro keeps_rules keeps_createSession keeps_set_admin; (assumption | simp add: admin_key_def))

lemma keeps_getSession: "I d \<Longrightarrow> I (snd (getSession R nw sid d))"
  unfolding getSession_def by (intro keeps_rules)

lemma keeps_destroySession: "I d \<Longrightarrow> I (destroySession R sid d)"
  unfolding destroySession_def by (intro keeps_rules)

lemma keeps_destroyOtherSessions: "I d \<Longrightarrow> I (destroyOtherSessions R a sid d)"
  unfolding destroyOtherSessions_def by (intro keeps_rules)

lemma keeps_purgeSessions: "I d \<Longrightarrow> I (snd (purgeExpiredSessions nw d))"
  unfolding purgeExpiredSessions_def by (intro keeps_rules)

lemma keeps_endSessions: "I d \<Longrightarrow> I (endSessions R a k d)"
  by (cases k) (simp_all add: endSessions_def keeps_rules)

lemma keeps_changePassword: "I d \<Longrightarrow> I (snd (changeAdminPassword R salt a p q d))"
  unfolding changeAdminPassword_def
  by (intro keeps_rules keeps_set_admin; (assumption | simp add: admin_key_def))

lemma keeps_recordLogin: "I d \<Longrightarrow> I (recordLogin nw a d)"
  unfolding recordLogin_def by (intro keeps_set_admin; (assumption | simp add: admin_key_def))

lemma keeps_totpFailure: "I d \<Longrightarrow> I (snd (recordTotpFailure a n nw d))"
  unfolding recordTotpFailure_def
  by (intro keeps_rules keeps_set_admin; (assumption | simp add: admin_key_def))

lemma keeps_consumeRecovery: "I d \<Longrightarrow> I (snd (consumeRecoveryCode R nw a c d))"
  unfolding consumeRecoveryCode_def by (intro keeps_rules)

lemma keeps_lastStep: "I d \<Longrightarrow> I (set_last_step a st d)"
  unfolding set_last_step_def by (intro keeps_set_admin; (assumption | simp add: admin_key_def))

lemmas keeps_auth = keeps_createSession keeps_markConfirmed keeps_completeSecondFactor keeps_destroySession
  keeps_destroyOtherSessions keeps_purgeSessions keeps_endSessions keeps_changePassword keeps_recordLogin
  keeps_totpFailure keeps_consumeRecovery keeps_lastStep

lemma keeps_verifySessionTotp: "I d \<Longrightarrow> I (snd (verifySessionTotp R nw rnd sid c ttl d))"
  unfolding verifySessionTotp_def
  by (rule keeps_transaction, intro keeps_rules keeps_auth; (assumption | simp split: prod.split))

lemma keeps_verifyConfirmCode: "I d \<Longrightarrow> I (snd (verifyConfirmCode R nw a c d))"
  unfolding verifyConfirmCode_def
  by (rule keeps_transaction, intro keeps_rules keeps_auth keeps_set_admin; (assumption | simp add: admin_key_def))

lemma keeps_beginTotp: "I d \<Longrightarrow> I (snd (beginTotpEnrolment b a d))"
  unfolding beginTotpEnrolment_def
  by (intro keeps_rules keeps_set_admin; (assumption | simp add: admin_key_def))

lemma keeps_ins_codes: "ins_codes R a cs d = Inr d' \<Longrightarrow> I d \<Longrightarrow> I d'"
  by (induction cs arbitrary: d) (auto simp: bind_res_Inr_iff dest: keeps_inserts)

lemma keeps_replaceCodes: "I d \<Longrightarrow> I (snd (replaceRecoveryCodes R draws a d))"
  unfolding replaceRecoveryCodes_def
  by (intro keeps_rules; (assumption | (erule keeps_ins_codes, intro keeps_rules, assumption)))

lemma keeps_confirmTotp: "I d \<Longrightarrow> I (snd (confirmTotpEnrolment R nw draws a c d))"
  unfolding confirmTotpEnrolment_def
  by (rule keeps_transaction, intro keeps_rules keeps_replaceCodes keeps_set_admin; (assumption | simp add: admin_key_def))

lemma keeps_regenerate: "I d \<Longrightarrow> I (snd (regenerateRecoveryCodes R nw draws a c d))"
  unfolding regenerateRecoveryCodes_def
  by (rule keeps_transaction, intro keeps_rules keeps_replaceCodes keeps_lastStep)

lemma keeps_regenerateConfirmed: "I d \<Longrightarrow> I (snd (regenerateRecoveryCodesConfirmed R draws a d))"
  unfolding regenerateRecoveryCodesConfirmed_def
  by (rule keeps_transaction, intro keeps_rules keeps_replaceCodes)

lemma keeps_dropCodes: "I d \<Longrightarrow> I (dropRecoveryCodesIfUnused a d)"
  unfolding dropRecoveryCodesIfUnused_def by (intro keeps_rules)

lemma keeps_forceDisable: "I d \<Longrightarrow> I (forceDisableTotp R a k d)"
  unfolding forceDisableTotp_def
  by (intro keeps_endSessions keeps_dropCodes keeps_set_admin; (assumption | simp add: admin_key_def))

lemma keeps_disableTotp: "I d \<Longrightarrow> I (snd (disableTotp R nw a c k d))"
  unfolding disableTotp_def by (rule keeps_transaction, intro keeps_rules keeps_forceDisable keeps_consumeRecovery)

lemma keeps_resetFactors: "I d \<Longrightarrow> I (resetSecondFactors R a d)"
  unfolding resetSecondFactors_def by (intro keeps_forceDisable keeps_rules)

lemmas keeps_factors = keeps_verifySessionTotp keeps_verifyConfirmCode keeps_beginTotp keeps_confirmTotp keeps_regenerate
  keeps_regenerateConfirmed keeps_disableTotp keeps_resetFactors

lemma keeps_beginCeremony: "I d \<Longrightarrow> I (snd (beginCeremony R nw r sid prp d))"
  unfolding beginCeremony_def by (intro keeps_rules)

lemma keeps_takeChallenge: "I d \<Longrightarrow> I (snd (takeChallenge nw h prp d))"
  unfolding takeChallenge_def Let_def
  by (intro keeps_rules; (assumption | simp add: keeps_set_session split: option.split))

lemma keeps_registerPasskey: "I d \<Longrightarrow> I (snd (registerPasskey R nw idb sid a n inp rp d))"
  unfolding registerPasskey_def
  by (rule keeps_transaction, intro keeps_rules keeps_takeChallenge; (assumption | (erule keeps_inserts, assumption)))

lemma keeps_checkAssertion: "I d \<Longrightarrow> I (snd (checkAssertion R nw h a prp c inp rp d))"
  unfolding checkAssertion_def
  by (intro keeps_rules keeps_takeChallenge; (assumption | simp add: keeps_passkeys split: prod.split))

lemma keeps_passkeyLogin: "I d \<Longrightarrow> I (snd (verifyPasskeyLogin R nw rnd sid adm ttl c inp rp d))"
  unfolding verifyPasskeyLogin_def
  by (intro keeps_rules keeps_transaction keeps_checkAssertion keeps_completeSecondFactor)

lemma keeps_passkeyConfirm: "I d \<Longrightarrow> I (snd (verifyPasskeyConfirm R nw sid a c inp rp d))"
  unfolding verifyPasskeyConfirm_def by (rule keeps_checkAssertion)

lemma keeps_removePasskey: "I d \<Longrightarrow> I (snd (removePasskey R a i k d))"
  unfolding removePasskey_def by (intro keeps_rules keeps_destroyOtherSessions keeps_dropCodes)

lemma keeps_offer: "I d \<Longrightarrow> I (snd (offerBinding R nw rnd24 sid d))"
  unfolding offerBinding_def by (intro keeps_rules)

lemma keeps_registerBinding: "I d \<Longrightarrow> I (snd (registerBinding R nw cb idb sid jwt d))"
  unfolding registerBinding_def
  by (intro keeps_rules keeps_transaction; (assumption | (erule keeps_inserts, assumption)))

lemma keeps_refreshBinding: "I d \<Longrightarrow> I (snd (refreshBinding R nw cb rnd24 b jwt d))"
  unfolding refreshBinding_def fresh_challenge_def by (intro keeps_rules)

lemma keeps_revokeSession: "I d \<Longrightarrow> I (snd (revokeSession a i d))"
  unfolding revokeSession_def by (intro keeps_rules)

lemmas keeps_devices = keeps_beginCeremony keeps_registerPasskey keeps_passkeyLogin keeps_passkeyConfirm keeps_removePasskey
  keeps_offer keeps_registerBinding keeps_refreshBinding keeps_revokeSession

lemma keeps_write_from: "write_from g n ms0 d = Inr d' \<Longrightarrow> I d \<Longrightarrow> I d'"
  by (induction ms0 arbitrary: n d) (auto simp: bind_res_Inr_iff dest: keeps_inserts)

lemma keeps_writeMembers: "writeMembers g ms0 d = Inr d' \<Longrightarrow> I d \<Longrightarrow> I d'"
  unfolding writeMembers_def by (erule keeps_write_from) (intro keeps_rules)

lemma keeps_group_written:
  "bind_res (ins_group g d) (writeMembers i ms0) = Inr d' \<Longrightarrow> I d \<Longrightarrow> I d'"
  "bind_res (rename_group nw i n d) (writeMembers i ms0) = Inr d' \<Longrightarrow> I d \<Longrightarrow> I d'"
  by (auto simp: bind_res_Inr_iff dest: keeps_inserts keeps_writeMembers)

lemma keeps_createGroup: "I d \<Longrightarrow> I (snd (createGroup nw idb n ms0 a d))"
  unfolding createGroup_def
  by (intro keeps_rules keeps_transaction keeps_exec_unit; (assumption | (erule keeps_group_written, assumption)))

lemma keeps_updateGroup: "I d \<Longrightarrow> I (snd (updateGroup nw i n ms0 d))"
  unfolding updateGroup_def
  by (intro keeps_rules keeps_transaction keeps_exec_unit; (assumption | (erule keeps_group_written, assumption)))

lemma keeps_deleteGroup: "I d \<Longrightarrow> I (snd (deleteGroup i d))"
  unfolding deleteGroup_def snd_conv by (rule keeps_core [rotated]) (simp_all add: delete_group_rows_def)

lemma keeps_resetPassword: "I d \<Longrightarrow> I (snd (resetUserPassword R pwb salt actor i d))"
  unfolding resetUserPassword_def
  by (rule keeps_transaction, intro keeps_rules keeps_set_admin; (assumption | simp add: admin_key_def))

lemma keeps_setPassword: "I d \<Longrightarrow> I (snd (setAdminPassword R salt u p d))"
  unfolding setAdminPassword_def
  by (intro keeps_rules keeps_set_admin; (assumption | simp add: admin_key_def))

lemma keeps_resetTotp: "I d \<Longrightarrow> I (snd (resetUserTotp R actor i d))"
  unfolding resetUserTotp_def by (intro keeps_rules keeps_resetFactors)

lemmas keeps_groups_written = keeps_createGroup keeps_updateGroup keeps_deleteGroup keeps_resetPassword keeps_resetTotp

end

text \<open>
  An invariant of the database that every operation of the services keeps: the laws name the
  operations on the tables it may look at.
\<close>

locale server_invariant = account_invariant I for I :: "db \<Rightarrow> bool" +
  fixes R :: runtime and cfg :: Config
  assumes keeps_items: "I d \<Longrightarrow> I (d\<lparr>items := x\<rparr>)"
    and keeps_members: "I d \<Longrightarrow> I (d\<lparr>case_members := y\<rparr>)"
    and keeps_touch: "I d \<Longrightarrow> I (touchLink nw i d)"
    and keeps_createLink: "I d \<Longrightarrow> I (snd (createLink R cfg nw tokb idb ids inp d))"
    and keeps_addRecipients: "I d \<Longrightarrow> I (snd (addRecipients R nw ids l rs d))"
    and keeps_removeRecipient: "I d \<Longrightarrow> I (snd (removeRecipient l i d))"
    and keeps_revoked: "I d \<Longrightarrow> I (snd (destroyAccessSessionsForLink nw2 i (snd (revokeLink nw i d))))"
    and keeps_createCase: "I d \<Longrightarrow> I (snd (createCase nw idb n ds d))"
    and keeps_editCase: "I d \<Longrightarrow> I (snd (updateCase nw i (Some n) ds None d))"
    and keeps_reopen: "I d \<Longrightarrow> I (snd (updateCase nw i None None (Some CaseOpen) d))"
    and keeps_close: "I d \<Longrightarrow> I (snd (destroyAccessSessionsForCase i (snd (updateCase nw i None None (Some CaseClosed) d))))"
    and keeps_rotate: "I d \<Longrightarrow> I (snd (rotateLinkToken R cfg tokb i d))"
    and keeps_createChallenge: "I d \<Longrightarrow> I (snd (createChallenge R cfg nw codeb idb salt l rid f ip d))"
    and keeps_consume: "I d \<Longrightarrow> I (set_challenge p (\<lambda>c. c\<lparr>ch_consumed_at := Some nw\<rparr>) d)"
    and keeps_code: "I d \<Longrightarrow> I (snd (code_submitted R cfg dict nw sidb csrfb token req d))"
    and keeps_destroyAccess: "I d \<Longrightarrow> I (destroyAccessSession R sid d)"
    and keeps_destroyLink: "I d \<Longrightarrow> I (snd (destroyAccessSessionsForLink nw i d))"
    and keeps_destroyCase: "I d \<Longrightarrow> I (snd (destroyAccessSessionsForCase i d))"
    and keeps_purgeAccess: "I d \<Longrightarrow> I (snd (purgeExpiredAccess nw d))"
    and keeps_createAdmin: "I d \<Longrightarrow> I (snd (createAdmin R nw idb salt u pw r b d))"
    and keeps_setRole: "I d \<Longrightarrow> I (snd (setUserRole actor i r d))"
    and keeps_setDisabled: "I d \<Longrightarrow> I (snd (setUserDisabled nw actor i b d))"
    and keeps_deleteUser: "I d \<Longrightarrow> I (snd (deleteUser actor i d))"
begin

subsection \<open>The services on cases, links and items\<close>

lemma keeps_update_items: "I d \<Longrightarrow> I (snd (update_items p f d))"
  by (simp add: update_items_def keeps_items)

lemma keeps_ins_item: "ins_item r d = Inr d' \<Longrightarrow> I d \<Longrightarrow> I d'"
  by (auto simp: ins_item_def intro: keeps_items)

lemma keeps_addMember: "I d \<Longrightarrow> I (snd (addCaseMember nw c a d))"
  unfolding addCaseMember_def by (intro keeps_rules keeps_members)

lemma keeps_removeMember: "I d \<Longrightarrow> I (snd (removeCaseMember c a d))"
  unfolding removeCaseMember_def by (intro keeps_rules keeps_members)

lemma keeps_createNote: "I d \<Longrightarrow> I (snd (createNote nw idb c ti bd a d))"
  unfolding createNote_def by (intro keeps_rules; (assumption | (erule keeps_ins_item, assumption)))

lemma keeps_startUpload: "I d \<Longrightarrow> I (snd (startUpload R cfg nw idb inp d))"
  unfolding startUpload_def by (intro keeps_rules; (assumption | (erule keeps_ins_item, assumption)))

lemma keeps_item_states:
  "I d \<Longrightarrow> I (snd (completeUpload nw i n h d))" "I d \<Longrightarrow> I (snd (failUpload i st d))" "I d \<Longrightarrow> I (markMissing i d)"
  "I d \<Longrightarrow> I (snd (markDeleted nw i d))"
  by (simp_all add: completeUpload_def failUpload_def markMissing_def markDeleted_def keeps_update_items keeps_items
      update_items_def keeps_rules)

lemma keeps_createUser: "I d \<Longrightarrow> I (snd (createUser R nw pwb idb salt u r d))"
  unfolding createUser_def by (intro keeps_rules keeps_createAdmin)

lemmas keeps_content = keeps_createCase keeps_editCase keeps_reopen keeps_addMember keeps_removeMember keeps_createNote
  keeps_startUpload keeps_item_states keeps_groups_written

lemmas keeps_services = keeps_auth keeps_factors keeps_devices keeps_content keeps_touch keeps_createLink keeps_addRecipients
  keeps_removeRecipient keeps_rotate keeps_createChallenge keeps_consume keeps_destroyAccess keeps_destroyLink
  keeps_destroyCase keeps_purgeAccess keeps_createUser keeps_setRole keeps_setDisabled keeps_deleteUser

end

end
