(* ===== verification/PanelPages.thy ===== *)
theory PanelPages
  imports PanelAccounts
begin

section \<open>The pages of the panel (the GET routes of src/http/admin.ts)\<close>

text \<open>
  Each page is its name and the rows it lists, by their ids. The second step of a sign-in
  names the factors the account may use. Only the security page changes a state: it takes the
  flash an earlier request left.
\<close>

definition flag_text :: "bool \<Rightarrow> string" where
  "flag_text b = (if b then ''true'' else ''false'')"

definition secondStep :: "db \<Rightarrow> Admin \<Rightarrow> (string \<times> string) list" where
  "secondStep d admin =
     [(''passkey'', flag_text (ad_passkeys admin > 0)), (''totp'', flag_text (ad_totp_enabled admin)),
      (''codes'', flag_text (ad_totp_enabled admin \<or> remainingRecoveryCodes d (ad_id admin) > 0))]"

definition getTotp :: "runtime \<Rightarrow> Config \<Rightarrow> dictionary \<Rightarrow> ms \<Rightarrow> Request \<Rightarrow> Response exec" where
  "getTotp R cfg dict nw req =
     gate_password R cfg dict req (\<lambda>s sid d.
       if se_totpVerified s then (Inr (redirect 302 ''/admin''), d)
       else (Inr (panel_page 200 ''totp''
               ((case totpLockedUntil d (ad_id (se_admin s)) nw of
                   None \<Rightarrow> [] | Some u \<Rightarrow> [(''lockedUntil'', nat_digits u)]) @ secondStep d (se_admin s))), d))"

definition getConfirm :: "runtime \<Rightarrow> Config \<Rightarrow> dictionary \<Rightarrow> ms \<Rightarrow> nat list \<Rightarrow> Request \<Rightarrow> Response exec" where
  "getConfirm R cfg dict nw rnd24 req =
     gate_verified R cfg dict nw rnd24 req (\<lambda>s sid d.
       (Inr (panel_page 200 ''confirm''
          ([(''next'', safeNext (case rq_next req of Some v \<Rightarrow> Some v | None \<Rightarrow> Some (BText (field req ''next'')))),
            (''password'', flag_text (\<not> hasSecondFactor (se_admin s)))] @ secondStep d (se_admin s))), d))"

definition renderSecurity :: "Session \<Rightarrow> string \<Rightarrow> flash option \<Rightarrow> runtime \<Rightarrow> ms \<Rightarrow> db \<Rightarrow> Response" where
  "renderSecurity s sid fl R nw d =
     panel_page 200 ''security''
       ((case (if ad_totp_enabled (se_admin s) then None else pendingTotpSecret d (who_of s)) of
           None \<Rightarrow> [] | Some secret \<Rightarrow> (if secret = [] then [] else [(''secret'', secret)]))
        @ [(''recoveryLeft'', nat_digits (if hasSecondFactor (se_admin s) then remainingRecoveryCodes d (who_of s) else 0))]
        @ map (\<lambda>p. (''passkey'', py_id p)) (listPasskeys d (who_of s))
        @ map (\<lambda>x. (''session'', ss_public_id x)) (listSessions R nw d (who_of s) sid)
        @ (case fl of None \<Rightarrow> [] | Some f \<Rightarrow>
             (''ok'', fl_ok f) # map (Pair ''code'') (case fl_recoveryCodes f of None \<Rightarrow> [] | Some cs \<Rightarrow> cs)))"

definition getSecurity :: "runtime \<Rightarrow> ms \<Rightarrow> Session \<Rightarrow> string \<Rightarrow> db \<Rightarrow> flashes \<Rightarrow> Response \<times> flashes" where
  "getSecurity R nw s sid d fl =
     (let (f, fl') = takeFlash nw sid fl in (renderSecurity s sid f R nw d, fl'))"

definition getCases :: "runtime \<Rightarrow> Config \<Rightarrow> dictionary \<Rightarrow> ms \<Rightarrow> nat list \<Rightarrow> Request \<Rightarrow> Response exec" where
  "getCases R cfg dict nw rnd24 req =
     gate_ready R cfg dict nw rnd24 req (\<lambda>s sid d.
       (Inr (panel_page 200 ''cases'' (map (\<lambda>c. (''case'', c_id (cs_case c))) (listCases d (viewer_of s)))), d))"

definition getCasePage :: "runtime \<Rightarrow> Config \<Rightarrow> dictionary \<Rightarrow> ms \<Rightarrow> nat list \<Rightarrow> Request \<Rightarrow> Response exec" where
  "getCasePage R cfg dict nw rnd24 req =
     gate_ready R cfg dict nw rnd24 req (\<lambda>s sid d.
       (Inr (renderCase dict req s (case validId (param req ''id'') of None \<Rightarrow> [] | Some i \<Rightarrow> i) [] 200 d), d))"

definition getGroups :: "runtime \<Rightarrow> Config \<Rightarrow> dictionary \<Rightarrow> ms \<Rightarrow> nat list \<Rightarrow> Request \<Rightarrow> Response exec" where
  "getGroups R cfg dict nw rnd24 req =
     gate_ready R cfg dict nw rnd24 req (\<lambda>s sid d.
       (Inr (groups_page (map (\<lambda>g. (''group'', g_id (gr_row g))) (listGroups d)) 200), d))"

definition getUsers :: "runtime \<Rightarrow> Config \<Rightarrow> dictionary \<Rightarrow> ms \<Rightarrow> nat list \<Rightarrow> Request \<Rightarrow> Response exec" where
  "getUsers R cfg dict nw rnd24 req =
     gate_ready R cfg dict nw rnd24 req (\<lambda>s sid d.
       case adminsOnly dict req s of
         Some r \<Rightarrow> (Inr r, d)
       | None \<Rightarrow> (Inr (users_page (map (\<lambda>u. (''user'', us_id u)) (listUsers d)) 200), d))"

end
