(* ===== verification/AccountHandlers.thy ===== *)
theory AccountHandlers
  imports Invariants PanelPages
begin

section \<open>Handlers that keep to the accounts\<close>

text \<open>
  The gates of the panel, signing in, the security page, the address groups and every page that
  is only shown, each for an arbitrary invariant of the accounts: none of them changes a case, a
  link or an item.
\<close>

context account_invariant begin

subsection \<open>The gates of the panel\<close>

lemma keeps_results:
  "(\<And>a b c. I (snd (f1 a b c))) \<Longrightarrow> I (snd f2) \<Longrightarrow> (\<And>u. I (snd (f3 u)))
     \<Longrightarrow> I (snd (case tr of TOk a b c \<Rightarrow> f1 a b c | TInvalid \<Rightarrow> f2 | TLocked u \<Rightarrow> f3 u))"
  "I (snd g1) \<Longrightarrow> I (snd g2) \<Longrightarrow> I (snd g3)
     \<Longrightarrow> I (snd (case cr of ConfirmOk \<Rightarrow> g1 | ConfirmInvalid \<Rightarrow> g2 | ConfirmLocked \<Rightarrow> g3))"
  "(\<And>i. I (snd (h1 i))) \<Longrightarrow> (\<And>b c. I (snd (h2 b c))) \<Longrightarrow> I (snd h3)
     \<Longrightarrow> I (snd (case rr of RefreshOk i \<Rightarrow> h1 i | RefreshChallenge b c \<Rightarrow> h2 b c | RefreshEnded \<Rightarrow> h3))"
  "(\<And>r. I (snd (k1 r))) \<Longrightarrow> I (snd k2) \<Longrightarrow> I (snd k3)
     \<Longrightarrow> I (snd (case rm of Removed r \<Rightarrow> k1 r | NoSuchRecipient \<Rightarrow> k2 | LastRecipient \<Rightarrow> k3))"
  "(\<And>r. I (snd (m1 r))) \<Longrightarrow> (\<And>m. I (snd (m2 m)))
     \<Longrightarrow> I (snd (case es of Answered r \<Rightarrow> m1 r | Sending m \<Rightarrow> m2 m))"
      apply (cases tr; simp)
     apply (cases cr; simp)
    apply (cases rr; simp)
   apply (cases rm; simp)
  apply (cases es; simp)
  done

lemma keeps_admin_events:
  "I d \<Longrightarrow> a \<noteq> ''access.granted'' \<Longrightarrow> I (audit nw (admin_event a w2 req ds) d)"
  "I d \<Longrightarrow> a \<noteq> ''access.granted'' \<Longrightarrow> I (audit nw (own_event a s req ds) d)"
  "I d \<Longrightarrow> a \<noteq> ''access.granted'' \<Longrightarrow> I (audit nw (case_event a s req i ds) d)"
  "I d \<Longrightarrow> a \<noteq> ''access.granted'' \<Longrightarrow> I (audit nw (link_event a s req l ds) d)"
  "I d \<Longrightarrow> a \<noteq> ''access.granted'' \<Longrightarrow> I (audit nw (item_event a s req it ds) d)"
  "I d \<Longrightarrow> a \<noteq> ''access.granted'' \<Longrightarrow> I (audit nw (system_event a it) d)"
  "I d \<Longrightarrow> a \<noteq> ''access.granted'' \<Longrightarrow> I (audit nw (mailing_event a m) d)"
  "I d \<Longrightarrow> a \<noteq> ''access.granted'' \<Longrightarrow> I (audit nw (recipient_event a who rl req ds) d)"
  by (simp_all add: keeps_audit admin_event_def own_event_def case_event_def link_event_def item_event_def
      system_event_def mailing_event_def recipient_event_def)

lemma keeps_gate_password:
  assumes k: "\<And>s sid d. I d \<Longrightarrow> I (snd (k s sid d))" and d: "I d"
  shows "I (snd (gate_password R cfg dict req k d))"
  using d by (simp add: gate_password_def k split: option.split)

lemma keeps_map_response: "I (snd (m d)) \<Longrightarrow> I (snd (map_response f m d))"
  by (cases "m d"; cases "fst (m d)") (simp_all add: map_response_def)

lemma keeps_gate_verified:
  assumes k: "\<And>s sid d. I d \<Longrightarrow> I (snd (k s sid d))" and d: "I d"
  shows "I (snd (gate_verified R cfg dict nw rnd24 req k d))"
  unfolding gate_verified_def
  by (rule keeps_gate_password [OF _ d]) (intro keeps_rules keeps_offer keeps_map_response k)

lemma keeps_gate_ready:
  assumes k: "\<And>s sid d. I d \<Longrightarrow> I (snd (k s sid d))" and d: "I d"
  shows "I (snd (gate_ready R cfg dict nw rnd24 req k d))"
  unfolding gate_ready_def by (rule keeps_gate_verified [OF _ d]) (intro keeps_rules k)

lemma keeps_when_confirmed: "I (snd (k d)) \<Longrightarrow> I d \<Longrightarrow> I (snd (when_confirmed nw back req k d))"
  by (simp add: when_confirmed_def split: option.split)

lemma keeps_gate_admins:
  assumes k: "\<And>s sid d. I d \<Longrightarrow> I (snd (k s sid d))" and d: "I d"
  shows "I (snd (gate_admins R cfg dict nw rnd24 req k d))"
  unfolding gate_admins_def by (rule keeps_gate_ready [OF _ d]) (intro keeps_rules keeps_when_confirmed k)

lemma keeps_with_case: "(\<And>i c. I (snd (k i c d))) \<Longrightarrow> I d \<Longrightarrow> I (snd (with_case dict req s k d))"
  by (simp add: with_case_def split: option.split)

lemma keeps_with_link: "(\<And>l. I (snd (k l d))) \<Longrightarrow> I d \<Longrightarrow> I (snd (with_link dict req s k d))"
  by (simp add: with_link_def split: option.split)

lemmas keeps_gates = keeps_gate_password keeps_gate_verified keeps_gate_ready keeps_gate_admins keeps_when_confirmed
  keeps_with_case keeps_with_link

lemmas keeps_panel = keeps_gates keeps_rules keeps_results keeps_auth keeps_factors keeps_devices keeps_groups_written
  keeps_admin_events

subsection \<open>Signing in\<close>

lemma keeps_dbscRegister: "I d \<Longrightarrow> I (snd (dbscRegister R cfg nw cb idb req d))"
  unfolding dbscRegister_def by (intro keeps_panel; (assumption | simp))

lemma keeps_dbscRefresh: "I d \<Longrightarrow> I (snd (dbscRefresh R cfg nw cb rnd24 req d))"
  unfolding dbscRefresh_def by (intro keeps_panel; (assumption | simp))

lemma keeps_postLogin: "I d \<Longrightarrow> I (snd (postLogin R cfg dict nw salt rnd req d))"
  unfolding postLogin_def by (intro keeps_panel keeps_audit; (assumption | simp))

lemma keeps_postLogout: "I d \<Longrightarrow> I (snd (postLogout R cfg dict nw req d))"
  unfolding postLogout_def by (intro keeps_panel; (assumption | simp))

lemma keeps_signedIn: "I d \<Longrightarrow> I (snd (signedIn R cfg nw req s sid f d))"
  unfolding signedIn_def Let_def snd_conv by (intro keeps_panel; (assumption | simp))

lemma keeps_postTotp: "I d \<Longrightarrow> I (snd (postTotp R cfg dict nw rnd req d))"
  unfolding postTotp_def by (intro keeps_panel keeps_signedIn; (assumption | simp))

lemma keeps_passkeyLoginOptions: "I d \<Longrightarrow> I (snd (passkeyLoginOptions R cfg dict nw rnd32 req d))"
  unfolding passkeyLoginOptions_def by (intro keeps_panel; (assumption | simp))

lemma keeps_passkeyLogin_route: "I d \<Longrightarrow> I (snd (passkeyLogin R cfg dict nw rnd req d))"
  unfolding passkeyLogin_def
  by (intro keeps_panel keeps_pair keeps_signedIn; (assumption | simp))

lemma keeps_confirm_failed: "I d \<Longrightarrow> I (snd (confirm_failed dict nw req s key how d))"
  unfolding confirm_failed_def snd_conv by (intro keeps_panel; (assumption | simp))

lemma keeps_confirmed: "I d \<Longrightarrow> I (confirmed R cfg nw req s sid how d)"
  unfolding confirmed_def by (intro keeps_panel; (assumption | simp))

lemma keeps_confirmCode: "I d \<Longrightarrow> I (snd (confirmCode R cfg dict nw rnd24 req d))"
  unfolding confirmCode_def by (intro keeps_panel keeps_confirm_failed keeps_confirmed; (assumption | simp))

lemma keeps_confirmPassword: "I d \<Longrightarrow> I (snd (confirmPassword R cfg dict nw salt rnd24 req d))"
  unfolding confirmPassword_def by (intro keeps_panel keeps_confirm_failed keeps_confirmed; (assumption | simp))

lemma keeps_confirmPasskeyOptions: "I d \<Longrightarrow> I (snd (confirmPasskeyOptions R cfg dict nw rnd24 rnd32 req d))"
  unfolding confirmPasskeyOptions_def by (intro keeps_panel; (assumption | simp))

lemma keeps_confirmPasskey: "I d \<Longrightarrow> I (snd (confirmPasskey R cfg dict nw rnd24 req d))"
  unfolding confirmPasskey_def by (intro keeps_panel keeps_confirmed; (assumption | simp))

subsection \<open>The security page\<close>

lemma keeps_securityPassword: "I d \<Longrightarrow> I (snd (securityPassword R cfg dict nw salt rnd24 req d))"
  unfolding securityPassword_def by (intro keeps_panel; (assumption | simp))

lemma keeps_totpBegin: "I d \<Longrightarrow> I (snd (totpBegin R cfg dict nw b rnd24 req d))"
  unfolding totpBegin_def by (intro keeps_panel; (assumption | simp))

lemma keeps_totpConfirm: "I d \<Longrightarrow> I (snd (totpConfirm R cfg dict nw draws rnd24 req d))"
  unfolding totpConfirm_def by (intro keeps_panel; (assumption | simp))

lemma keeps_totpRecovery: "I d \<Longrightarrow> I (snd (totpRecovery R cfg dict nw draws rnd24 req d))"
  unfolding totpRecovery_def by (intro keeps_panel; (assumption | simp))

lemma keeps_totpDisable: "I d \<Longrightarrow> I (snd (totpDisable R cfg dict nw rnd24 req d))"
  unfolding totpDisable_def by (intro keeps_panel; (assumption | simp))

lemma keeps_passkeyOptions: "I d \<Longrightarrow> I (snd (passkeyOptions R cfg dict nw rnd24 rnd32 req d))"
  unfolding passkeyOptions_def by (intro keeps_panel; (assumption | simp))

lemma keeps_passkeyRemove: "I d \<Longrightarrow> I (snd (passkeyRemove R cfg dict nw rnd24 req d))"
  unfolding passkeyRemove_def by (intro keeps_panel; (assumption | simp))

lemma keeps_recoveryRegenerate: "I d \<Longrightarrow> I (snd (recoveryRegenerate R cfg dict nw draws rnd24 req d))"
  unfolding recoveryRegenerate_def by (intro keeps_panel; (assumption | simp))

lemma keeps_sessionsRevokeOthers: "I d \<Longrightarrow> I (snd (sessionsRevokeOthers R cfg dict nw rnd24 req d))"
  unfolding sessionsRevokeOthers_def by (intro keeps_panel; (assumption | simp))

lemma keeps_sessionRevoke: "I d \<Longrightarrow> I (snd (sessionRevoke R cfg dict nw rnd24 req d))"
  unfolding sessionRevoke_def by (intro keeps_panel; (assumption | simp))

subsection \<open>Address groups and accounts\<close>

lemma keeps_postGroups: "I d \<Longrightarrow> I (snd (postGroups R cfg dict nw idb rnd24 req d))"
  unfolding postGroups_def by (intro keeps_panel; (assumption | simp))

lemma keeps_postGroup: "I d \<Longrightarrow> I (snd (postGroup R cfg dict nw rnd24 req d))"
  unfolding postGroup_def by (intro keeps_panel; (assumption | simp))

lemma keeps_groupDelete: "I d \<Longrightarrow> I (snd (groupDelete R cfg dict nw rnd24 req d))"
  unfolding groupDelete_def by (intro keeps_panel; (assumption | simp))

lemma keeps_userAction:
  assumes f: "\<And>actor i d. I d \<Longrightarrow> I (snd (f actor i d))" and action: "action \<noteq> ''access.granted''" and d: "I d"
  shows "I (snd (userAction R cfg dict nw action f rnd24 req d))"
  unfolding userAction_def by (intro keeps_panel keeps_triple f d action)

subsection \<open>Every route\<close>

lemma keeps_sessionMiddleware: "I d \<Longrightarrow> I (snd (sessionMiddleware R nw req d))"
  unfolding sessionMiddleware_def by (intro keeps_panel keeps_getSession; (assumption | simp))

lemma keeps_itemDownload: "I d \<Longrightarrow> I (snd (itemDownload R cfg dict disp dir nw rnd24 req d))"
  unfolding itemDownload_def by (intro keeps_panel; (assumption | simp))

subsection \<open>Handlers that change the directory as well\<close>

lemma keeps2_return: "I d \<Longrightarrow> I (fst (snd (r, d, x)))"
  by simp

lemma keeps2_exec:
  "I (snd p) \<Longrightarrow> (\<And>a d'. I d' \<Longrightarrow> I (fst (snd (f a d')))) \<Longrightarrow> I (fst (snd (case p of (a, d') \<Rightarrow> f a d')))"
  by (cases p) simp

lemma keeps2_files: "(\<And>a x. I (fst (snd (f a x)))) \<Longrightarrow> I (fst (snd (case p of (a, x) \<Rightarrow> f a x)))"
  by (cases p) simp

lemma keeps2_sum:
  "(\<And>e. I (fst (snd (f e)))) \<Longrightarrow> (\<And>x. I (fst (snd (g x)))) \<Longrightarrow> I (fst (snd (case s of Inl e \<Rightarrow> f e | Inr x \<Rightarrow> g x)))"
  by (cases s) simp_all

lemma keeps2_option: "I (fst (snd a)) \<Longrightarrow> (\<And>x. I (fst (snd (f x)))) \<Longrightarrow> I (fst (snd (case s of None \<Rightarrow> a | Some x \<Rightarrow> f x)))"
  by (cases s) simp_all

lemma keeps2_bool: "I (fst (snd a)) \<Longrightarrow> I (fst (snd b)) \<Longrightarrow> I (fst (snd (if c then a else b)))"
  by simp

lemma keeps2_let: "I (fst (snd (f x))) \<Longrightarrow> I (fst (snd (Let x f)))"
  by simp

lemma keeps2_exn:
  "(\<And>x. I (fst (snd (f1 x)))) \<Longrightarrow> (\<And>x y. I (fst (snd (f2 x y)))) \<Longrightarrow> (\<And>x y. I (fst (snd (f3 x y))))
   \<Longrightarrow> (\<And>x. I (fst (snd (f4 x)))) \<Longrightarrow> (\<And>x y. I (fst (snd (f5 x y)))) \<Longrightarrow> (\<And>x. I (fst (snd (f6 x))))
   \<Longrightarrow> (\<And>x. I (fst (snd (f7 x)))) \<Longrightarrow> (\<And>x. I (fst (snd (f8 x)))) \<Longrightarrow> (\<And>x. I (fst (snd (f9 x))))
   \<Longrightarrow> (\<And>x. I (fst (snd (f10 x)))) \<Longrightarrow> I (fst (snd f11))
   \<Longrightarrow> I (fst (snd (case e of JsError x \<Rightarrow> f1 x | RecipientListError x y \<Rightarrow> f2 x y | UserError x y \<Rightarrow> f3 x y
       | ChallengeRateError x \<Rightarrow> f4 x | LimitError x y \<Rightarrow> f5 x y | WebAuthnError x \<Rightarrow> f6 x | DbscError x \<Rightarrow> f7 x
       | MailError x \<Rightarrow> f8 x | StorageLimitError x \<Rightarrow> f9 x | StorageNotFoundError x \<Rightarrow> f10 x | SqliteError \<Rightarrow> f11)))"
  by (cases e) simp_all

lemmas keeps2_rules = keeps2_return keeps2_exec keeps2_files keeps2_sum keeps2_option keeps2_bool keeps2_let keeps2_exn

lemma keeps_passkeyAdd: "I (fst st) \<Longrightarrow> I (fst (snd (passkeyAdd R cfg dict nw idb draws req s sid st)))"
  unfolding passkeyAdd_def
  by (intro keeps2_rules keeps_panel; (assumption | simp))

subsection \<open>The pages\<close>

lemma keeps_pages:
  "I d \<Longrightarrow> I (snd (getTotp R cfg dict nw req d))" "I d \<Longrightarrow> I (snd (getConfirm R cfg dict nw o24 req d))"
  "I d \<Longrightarrow> I (snd (getCases R cfg dict nw o24 req d))" "I d \<Longrightarrow> I (snd (getCasePage R cfg dict nw o24 req d))"
  "I d \<Longrightarrow> I (snd (getGroups R cfg dict nw o24 req d))" "I d \<Longrightarrow> I (snd (getUsers R cfg dict nw o24 req d))"
  "I d \<Longrightarrow> I (snd (getAudit R cfg dict nw o24 req d))"
  unfolding getTotp_def getConfirm_def getCases_def getCasePage_def getGroups_def getUsers_def getAudit_def
  by (intro keeps_panel; assumption)+

lemmas keeps_account_handlers = keeps_pages keeps_dbscRegister keeps_dbscRefresh keeps_postLogin keeps_postLogout keeps_postTotp
  keeps_passkeyLoginOptions keeps_passkeyLogin_route keeps_confirmCode keeps_confirmPassword keeps_confirmPasskeyOptions
  keeps_confirmPasskey keeps_securityPassword keeps_totpBegin keeps_totpConfirm keeps_totpRecovery keeps_totpDisable
  keeps_passkeyOptions keeps_passkeyRemove keeps_recoveryRegenerate keeps_sessionsRevokeOthers keeps_sessionRevoke
  keeps_itemDownload keeps_postGroups keeps_postGroup keeps_groupDelete

end

end
