(* ===== verification/Handlers.thy ===== *)
theory Handlers
  imports AccountHandlers
begin

section \<open>Every handler keeps the invariants\<close>

text \<open>
  The handlers on cases, links, items and accounts, those of the recipients and the housekeeping
  job, each for an arbitrary invariant of the services.
\<close>

lemma audit_commutes:
  "snd (destroyAccessSessionsForLink nw2 i (audit nw ev d)) = audit nw ev (snd (destroyAccessSessionsForLink nw2 i d))"
  by (simp add: destroyAccessSessionsForLink_def audit_def next_audit_id_def)

lemma updateCase_fails: "updateCase nw i n ds st d = (Inl e, d1) \<Longrightarrow> d1 = d"
  by (auto simp: updateCase_def Let_def split: option.splits if_splits)

lemma updateCase_None: "updateCase nw i n ds st d = (Inr None, d1) \<Longrightarrow> d1 = d"
proof (cases "getCase d i")
  case (Some c)
  assume u: "updateCase nw i n ds st d = (Inr None, d1)"
  have "c_id ` set (upd_where (\<lambda>c. c_id c = i) f (cases d)) = c_id ` set (cases d)" if "\<And>x. c_id (f x) = c_id x" for f
    unfolding list.set_map [symmetric] by (simp add: map_upd_where_key that)
  moreover have "getCase D i \<noteq> None \<longleftrightarrow> i \<in> c_id ` set (cases D)" for D
    unfolding getCase_def by (simp add: find_None_iff) blast
  ultimately have "getCase (d\<lparr>cases := upd_where (\<lambda>c. c_id c = i) f (cases d)\<rparr>) i \<noteq> None" if "\<And>x. c_id (f x) = c_id x" for f
    using that Some by (simp, metis)
  then have found: "getCase (d\<lparr>cases := upd_where (\<lambda>c. c_id c = i)
      (\<lambda>x. x\<lparr>c_name := m, c_description := e, c_status := k, c_updated_at := nw\<rparr>) (cases d)\<rparr>) i \<noteq> None" for m e k
    by simp
  show ?thesis using u by (simp add: updateCase_def Some Let_def found split: if_splits)
qed (simp add: updateCase_def)

context server_invariant begin

lemmas keeps_routes = keeps_panel keeps_services

subsection \<open>Cases and links\<close>

lemma keeps_postCases: "I d \<Longrightarrow> I (snd (postCases R cfg dict nw idb rnd24 req d))"
  unfolding postCases_def by (intro keeps_routes; (assumption | simp))

lemma keeps_postCase: "I d \<Longrightarrow> I (snd (postCase R cfg dict nw rnd24 req d))"
  unfolding postCase_def by (intro keeps_routes; (assumption | simp))

lemma keeps_closing:
  assumes d: "I d" and u: "updateCase nw i None None (Some st) d = (r, d1)"
  shows "I (case r of Inr (Some c) \<Rightarrow> (if st = CaseClosed then snd (destroyAccessSessionsForCase i d1) else d1) | _ \<Rightarrow> d1)"
  using u d keeps_close [OF d, of i nw] keeps_reopen [OF d, of nw i]
  by (cases st) (auto split: sum.split option.split dest: updateCase_fails updateCase_None)

lemma keeps_postCaseStatus: "I d \<Longrightarrow> I (snd (postCaseStatus R cfg dict nw rnd24 req d))"
  unfolding postCaseStatus_def
proof (intro keeps_gates)
  fix s :: Session and sid i and c :: CaseRow and d
  assume d: "I d"
  define st where "st = (if field req ''status'' = ''closed'' then CaseClosed else CaseOpen)"
  obtain r d1 where u: "updateCase nw i None None (Some st) d = (r, d1)" by fastforce
  note k = keeps_closing [OF d u]
  show "I (snd (let closing = (field req ''status'' = ''closed'')
       in case updateCase nw i None None (Some (if closing then CaseClosed else CaseOpen)) d of
            (Inl e, d1) \<Rightarrow> (Inl e, d1)
          | (Inr None, d1) \<Rightarrow> (Inr (renderCase dict req s [] [] 200 d1), d1)
          | (Inr (Some c'), d1) \<Rightarrow>
              (Inr (redirect 303 (''/admin/cases/'' @ i)),
               audit nw (case_event (if closing then ''case.close'' else ''case.reopen'') s req i [])
                 (if closing then snd (destroyAccessSessionsForCase i d1) else d1))))"
    unfolding Let_def st_def [symmetric] u prod.case
    using k by (auto split: sum.splits option.splits simp: st_def intro!: keeps_admin_events split: if_splits)
qed

lemma keeps_postNote: "I d \<Longrightarrow> I (snd (postNote R cfg dict nw idb rnd24 req d))"
  unfolding postNote_def by (intro keeps_routes; (assumption | simp))

lemma keeps_postLinks: "I d \<Longrightarrow> I (snd (postLinks R cfg dict pd nw rnd rnd24 req d))"
  unfolding postLinks_def by (intro keeps_routes; (assumption | simp))

lemma keeps_linkReissue: "I d \<Longrightarrow> I (snd (linkReissue R cfg dict nw tokb rnd24 req d))"
  unfolding linkReissue_def by (intro keeps_routes; (assumption | simp))

lemma keeps_linkAddRecipients: "I d \<Longrightarrow> I (snd (linkAddRecipients R cfg dict nw ids rnd24 req d))"
  unfolding linkAddRecipients_def by (intro keeps_routes; (assumption | simp))

lemma keeps_linkRemoveRecipient: "I d \<Longrightarrow> I (snd (linkRemoveRecipient R cfg dict nw rnd24 req d))"
  unfolding linkRemoveRecipient_def by (intro keeps_routes; (assumption | simp))

lemma keeps_revoke_pair:
  assumes d: "I d" and r: "revokeLink nw i d = (ch, d1)"
  shows "I (if ch then snd (destroyAccessSessionsForLink nw2 i d1) else d1)"
proof (cases ch)
  case True
  then show ?thesis using keeps_revoked [OF d, of nw2 i nw] r by simp
next
  case False
  then have "d1 = d" using r by (auto simp: revokeLink_def n_where_0_iff upd_where_id)
  then show ?thesis using d False by simp
qed

lemma keeps_linkRevoke: "I d \<Longrightarrow> I (snd (linkRevoke R cfg dict nw rnd24 req d))"
  unfolding linkRevoke_def
proof (intro keeps_gates)
  fix s :: Session and sid and l :: LinkRow and d
  assume d: "I d"
  obtain ch d1 where r: "revokeLink nw (l_id l) d = (ch, d1)" by fastforce
  show "I (snd (let (changed, d1) = revokeLink nw (l_id l) d;
           d2 = (if changed then snd (destroyAccessSessionsForLink nw (l_id l)
                                        (audit nw (link_event ''link.revoke'' s req l []) d1)) else d1)
       in (Inr (redirect 303 (''/admin/cases/'' @ l_case_id l)), d2)))"
    unfolding r Let_def prod.case snd_conv audit_commutes
    using keeps_revoke_pair [OF d r, of nw] by (auto intro!: keeps_admin_events)
qed

lemma keeps_memberAdd: "I d \<Longrightarrow> I (snd (memberAdd R cfg dict nw rnd24 req d))"
  unfolding memberAdd_def by (intro keeps_routes; (assumption | simp))

lemma keeps_memberRemove: "I d \<Longrightarrow> I (snd (memberRemove R cfg dict nw rnd24 req d))"
  unfolding memberRemove_def by (intro keeps_routes; (assumption | simp))

subsection \<open>Address groups and accounts\<close>

lemma keeps_postUsers: "I d \<Longrightarrow> I (snd (postUsers R cfg dict nw rnd rnd24 req d))"
  unfolding postUsers_def by (intro keeps_routes; (assumption | simp))

lemma keeps_actions:
  "I d \<Longrightarrow> I (snd (action_role dict req actor i d))" "I d \<Longrightarrow> I (snd (action_password R rnd dict req actor i d))"
  "I d \<Longrightarrow> I (snd (action_totp R dict req actor i d))" "I d \<Longrightarrow> I (snd (action_disable nw b dict req actor i d))"
  "I d \<Longrightarrow> I (snd (action_delete dict req actor i d))"
  unfolding action_role_def action_password_def action_totp_def action_disable_def action_delete_def
  by (intro keeps_routes; assumption)+

subsection \<open>The recipient's routes\<close>

lemma keeps_accessMiddleware: "I d \<Longrightarrow> I (snd (accessMiddleware R nw req d))"
  unfolding accessMiddleware_def getAccessSession_def by (intro keeps_routes; (assumption | simp))

lemma keeps_getPage: "I d \<Longrightarrow> I (snd (getPage R cfg dict nw token req d))"
  unfolding getPage_def by (intro keeps_routes; (assumption | simp))

lemma keeps_email_start: "I d \<Longrightarrow> I (snd (email_start R cfg dict logo nw rnd token req d))"
  unfolding email_start_def by (intro keeps_routes; (assumption | simp))

lemma keeps_email_sent: "I d \<Longrightarrow> I (snd (email_sent cfg nw m d))"
  unfolding email_sent_def snd_conv by (intro keeps_routes; (assumption | simp))

lemma keeps_email_failed: "I d \<Longrightarrow> I (snd (email_failed dict nw m d))"
  unfolding email_failed_def snd_conv by (intro keeps_routes; (assumption | simp))

lemma keeps_postCode: "I d \<Longrightarrow> I (snd (postCode R cfg dict nw sidb csrfb token req d))"
  unfolding postCode_def by (intro keeps_routes keeps_code; (assumption | simp))

lemma keeps_postRestart: "I d \<Longrightarrow> I (snd (postRestart R cfg dict nw token req d))"
  unfolding postRestart_def by (intro keeps_routes; (assumption | simp))

lemma keeps_postClose: "I d \<Longrightarrow> I (snd (postClose R cfg dict nw token req d))"
  unfolding postClose_def by (intro keeps_routes; (assumption | simp))

lemma keeps_getFile: "I d \<Longrightarrow> I (snd (getFile R dict disp dir nw token i req d))"
  unfolding getFile_def
  by (intro keeps_routes; (assumption | (rule keeps_audit, assumption, simp add: recipient_event_def)))

subsection \<open>Handlers that change the directory as well\<close>

lemma keeps_snd_states: "I d \<Longrightarrow> I (snd (failUpload i st d))" "I d \<Longrightarrow> I (snd (completeUpload nw i n h d))"
  by (rule keeps_item_states, assumption)+

lemma keeps_directUpload: "I (fst st) \<Longrightarrow> I (fst (snd (directUpload R cfg nw idb gone source req s st)))"
  unfolding directUpload_def
  by (cases st) (simp only: prod.case Let_def [of "(_, _)"], intro keeps2_rules keeps_routes; (assumption | simp))

lemma keeps_itemDelete: "I (fst st) \<Longrightarrow> I (fst (snd (itemDelete tr dict nw req s st)))"
  unfolding itemDelete_def
  by (cases st) (simp only: prod.case Let_def [of "(_, _)"], intro keeps2_rules keeps_routes; (assumption | simp))

lemma keeps_onUploadCreate: "I d \<Longrightarrow> I (snd (onUploadCreate R cfg nw req up d))"
  unfolding onUploadCreate_def by (intro keeps_routes; (assumption | simp))

lemma keeps_onUploadFinish: "I (fst st) \<Longrightarrow> I (fst (snd (onUploadFinish nw req up st)))"
  unfolding onUploadFinish_def
  by (cases st) (simp only: prod.case Let_def [of "(_, _)"], intro keeps2_rules keeps_routes; (assumption | (rule keeps_audit, assumption, simp add: own_event_def admin_event_def) | simp))

lemma keeps_onTerminate: "I d \<Longrightarrow> I (onTerminate nw i d)"
proof -
  assume d: "I d"
  then have "I (snd (failUpload i Aborted d))" by (rule keeps_item_states)
  then show ?thesis using d
    by (cases "failUpload i Aborted d") (simp add: onTerminate_def keeps_audit split: option.split)
qed

subsection \<open>Housekeeping\<close>

lemma keeps_expire_uploads: "I (fst st) \<Longrightarrow> I (fst (snd (expire_uploads tr nw its st)))"
proof (induction its arbitrary: st)
  case Nil
  then show ?case by (cases st) simp
next
  case (Cons item rest)
  obtain d dir where st: "st = (d, dir)" by (cases st)
  obtain ch d1 where f: "failUpload (i_id item) Expired d = (ch, d1)" by fastforce
  have "I d1" using Cons.prems keeps_item_states(2) [of d "i_id item" Expired] by (simp add: st f)
  then have "I (if ch then audit nw (system_event ''upload.expired'' item) d1 else d1)"
    by (simp add: keeps_admin_events)
  then have "I (fst (snd (expire_uploads tr nw rest
      (if ch then audit nw (system_event ''upload.expired'' item) d1 else d1, discardUploadData tr item dir))))"
    by (intro Cons.IH) simp
  then show ?case by (cases ch) (auto simp: st f Let_def split: prod.split)
qed

lemma keeps_flag_missing: "I d \<Longrightarrow> I (snd (flag_missing nw dir its d))"
proof (induction its arbitrary: d)
  case (Cons item rest)
  have "I (audit nw (system_event ''file.missing'' item) (markMissing (i_id item) d))"
    using Cons.prems by (simp add: keeps_admin_events keeps_item_states)
  from Cons.IH [OF this] Cons show ?case
    by (cases "local_stat (i_id item) dir"; cases "projr (local_stat (i_id item) dir)") (auto split: prod.splits)
qed simp

lemma keeps_runCleanup:
  assumes st: "I (fst st)"
  shows "I (fst (snd (runCleanup tr cfg nw ttl b st)))"
proof -
  let ?ttl = "case ttl of Some n \<Rightarrow> n | None \<Rightarrow> incompleteUploadTtlMs cfg"
  obtain n d1 dir1 where e: "expire_uploads tr nw (listStaleUploads nw ?ttl (fst st)) st = (n, d1, dir1)"
    by (cases "expire_uploads tr nw (listStaleUploads nw ?ttl (fst st)) st")
  obtain m d2 where m: "(if b then flag_missing nw dir1 (listReadyFiles d1) d1 else (0, d1)) = (m, d2)" by fastforce
  obtain k dir2 where k: "local_cleanupOrphans nw ?ttl (\<lambda>key. key \<in> liveStorageKeys d2) dir1 = (k, dir2)" by fastforce
  obtain ns d3 where ns: "purgeExpiredSessions nw d2 = (ns, d3)" by fastforce
  obtain na nc d4 where na: "purgeExpiredAccess nw d3 = ((na, nc), d4)" by (cases "purgeExpiredAccess nw d3") auto
  have "I d1" using keeps_expire_uploads [OF st] e by (metis fst_conv snd_conv)
  then have "I d2" using m keeps_flag_missing [of d1 nw dir1 "listReadyFiles d1"] by (cases b) auto
  then have "I d4" using ns na keeps_purgeSessions [of d2 nw] keeps_purgeAccess [of d3 nw] by simp
  then show ?thesis by (simp add: runCleanup_def Let_def e m k ns na)
qed

end

end
