(* ===== verification/Server.thy ===== *)
theory Server
  imports PanelPages PanelFiles
begin

section \<open>The server: middleware, routes and steps (src/http/app.ts, src/server.ts, src/cli.ts)\<close>

text \<open>
  The state of the running server is the database, the storage directory, the flashes of the
  security page and the messages the mail driver has not answered for yet. A step is one
  request with its handler, one answer of the mail driver, one run of the housekeeping job or
  one command of the command line tool. The limiters in front of some routes can only refuse
  a request, so a limited request is one that is not routed. The mail driver's answer comes
  at any later moment, in any order; every other handler runs in one step.
\<close>

record world =
  w_db :: db
  w_dir :: directory
  w_flashes :: flashes
  w_mail :: "Mailing list"

text \<open>What the process is configured with, the third-party functions included\<close>

record server =
  sv_runtime :: runtime
  sv_cfg :: Config
  sv_dict :: dictionary
  sv_logo :: "InlineImage option"
  sv_disposition :: "string \<Rightarrow> string"
  sv_parseDate :: "string \<Rightarrow> ms option"
  sv_tusRemove :: tus_remove

type_synonym reply = "(exn + Response) option"

definition in_db :: "Response exec \<Rightarrow> world \<Rightarrow> reply \<times> world" where
  "in_db h w = (case h (w_db w) of (r, d) \<Rightarrow> (Some r, w\<lparr>w_db := d\<rparr>))"

definition in_files :: "Response option fexec \<Rightarrow> world \<Rightarrow> reply \<times> world" where
  "in_files h w =
     (case h (w_db w, w_dir w) of
        (r, d, dir) \<Rightarrow>
          ((case r of Inl e \<Rightarrow> Some (Inl e) | Inr None \<Rightarrow> None | Inr (Some x) \<Rightarrow> Some (Inr x)),
           w\<lparr>w_db := d, w_dir := dir\<rparr>))"

text \<open>A request as it arrives: the fields that only the middleware sets are empty.\<close>

definition incoming :: "Request \<Rightarrow> Request" where
  "incoming req = languageMiddleware (req\<lparr>rq_session := None, rq_sessionId := None, rq_access := None,
     rq_accessId := None, rq_flowToken := None\<rparr>)"

subsection \<open>The routes under /d\<close>

datatype (plugins only: code size) deliver_call =
    CPage | CEmail challenge_rnd | CCode "nat list" "nat list" | CRestart | CClose | CFile string

definition queue_mail :: "email_step option exec \<Rightarrow> world \<Rightarrow> reply \<times> world" where
  "queue_mail h w =
     (case h (w_db w) of
        (Inl e, d) \<Rightarrow> (Some (Inl e), w\<lparr>w_db := d\<rparr>)
      | (Inr None, d) \<Rightarrow> (None, w\<lparr>w_db := d\<rparr>)
      | (Inr (Some (Answered r)), d) \<Rightarrow> (Some (Inr r), w\<lparr>w_db := d\<rparr>)
      | (Inr (Some (Sending m)), d) \<Rightarrow> (None, w\<lparr>w_db := d, w_mail := w_mail w @ [m]\<rparr>))"

definition deliver_handler ::
    "server \<Rightarrow> ms \<Rightarrow> string \<Rightarrow> deliver_call \<Rightarrow> Request \<Rightarrow> world \<Rightarrow> reply \<times> world" where
  "deliver_handler S nw token call req w =
     (let R = sv_runtime S; cfg = sv_cfg S; dict = sv_dict S
      in case call of
           CPage \<Rightarrow> in_db (getPage R cfg dict nw token req) w
         | CEmail rnd \<Rightarrow>
             (case publicFormGuard R cfg dict req of
                Some r \<Rightarrow> (Some (Inr r), w)
              | None \<Rightarrow> queue_mail (email_start R cfg dict (sv_logo S) nw rnd token req) w)
         | CCode sidb csrfb \<Rightarrow> in_db (postCode R cfg dict nw sidb csrfb token req) w
         | CRestart \<Rightarrow> in_db (postRestart R cfg dict nw token req) w
         | CClose \<Rightarrow> in_db (postClose R cfg dict nw token req) w
         | CFile i \<Rightarrow> in_db (getFile R dict (sv_disposition S) (w_dir w) nw token i req) w)"

definition add_headers :: "(string \<times> string) list \<Rightarrow> reply \<Rightarrow> reply" where
  "add_headers hs r =
     (case r of Some (Inr x) \<Rightarrow> Some (Inr (x\<lparr>rs_headers := hs @ rs_headers x\<rparr>)) | _ \<Rightarrow> r)"

text \<open>\<open>sessionMiddleware\<close> runs for every route, then the flow cookie and the access session.\<close>

definition deliver_route ::
    "server \<Rightarrow> ms \<Rightarrow> nat list \<Rightarrow> string \<Rightarrow> deliver_call \<Rightarrow> Request \<Rightarrow> world \<Rightarrow> reply \<times> world" where
  "deliver_route S nw flowb token call req0 w =
     (let (req1, d1) = sessionMiddleware (sv_runtime S) nw (incoming req0) (w_db w);
          (req2, hs) = flowMiddleware (sv_cfg S) flowb req1;
          (req3, d2) = accessMiddleware (sv_runtime S) nw req2 d1;
          (r, w') = deliver_handler S nw token call req3 (w\<lparr>w_db := d2\<rparr>)
      in (add_headers hs r, w'))"

text \<open>The mail driver answers for the message at position \<open>i\<close>.\<close>

definition mail_answer :: "server \<Rightarrow> ms \<Rightarrow> nat \<Rightarrow> bool \<Rightarrow> world \<Rightarrow> reply \<times> world" where
  "mail_answer S nw i ok w =
     (if i < length (w_mail w)
      then (let m = w_mail w ! i;
                (r, d) = (if ok then email_sent (sv_cfg S) nw m (w_db w)
                          else email_failed (sv_dict S) nw m (w_db w))
            in (Some (Inr r), w\<lparr>w_db := d, w_mail := take i (w_mail w) @ drop (Suc i) (w_mail w)\<rparr>))
      else (None, w))"

subsection \<open>The routes under /admin\<close>

text \<open>
  The handlers whose state is more than the database run behind the same guards, written here
  for a request that is not a GET, where no offer to bind the session is made.
\<close>

definition verified_guard :: "server \<Rightarrow> Request \<Rightarrow> Response option" where
  "verified_guard S req =
     (case requireAdmin False req of
        Some r \<Rightarrow> Some r
      | None \<Rightarrow>
          (case csrfProtect (sv_runtime S) (sv_cfg S) (sv_dict S) req of
             Some r \<Rightarrow> Some r | None \<Rightarrow> requireAdmin True req))"

definition ready_guard :: "server \<Rightarrow> Request \<Rightarrow> Response option" where
  "ready_guard S req =
     (case verified_guard S req of
        Some r \<Rightarrow> Some r
      | None \<Rightarrow>
          (case rq_session req of
             None \<Rightarrow> Some (respond 500 BodyEmpty)
           | Some s \<Rightarrow>
               (if ad_must_change_password (se_admin s) then Some (respond 403 (BodyText ''Password change required''))
                else if adminRequireTotp (sv_cfg S) \<and> \<not> hasSecondFactor (se_admin s)
                then Some (respond 403 (BodyText ''Second factor required'')) else None)))"

definition guarded ::
    "Response option \<Rightarrow> (Session \<Rightarrow> string \<Rightarrow> world \<Rightarrow> reply \<times> world) \<Rightarrow> Request \<Rightarrow> world \<Rightarrow> reply \<times> world" where
  "guarded guard k req w =
     (case guard of
        Some r \<Rightarrow> (Some (Inr r), w)
      | None \<Rightarrow>
          (case (rq_session req, rq_sessionId req) of
             (Some s, Some sid) \<Rightarrow> k s sid w | _ \<Rightarrow> (Some (Inr (respond 500 BodyEmpty)), w)))"

text \<open>Each handler with the random bytes it draws; \<open>o24\<close> are those of an offer to bind the session.\<close>

datatype (plugins only: code size) panel_call =
    ADbscRegister "nat list" "nat list" | ADbscRefresh "nat list" "nat list" | AGetLogin
  | ALogin "nat list" session_rnd | ALogout | ATotp session_rnd
  | APasskeyLoginOptions "nat list" | APasskeyLogin session_rnd
  | AConfirmCode | AConfirmPassword "nat list" | AConfirmPasskeyOptions "nat list" | AConfirmPasskey
  | ASecurityPassword "nat list" | ATotpBegin "nat list" | ATotpConfirm "nat list list"
  | ATotpRecovery "nat list list" | ATotpDisable | APasskeyOptions "nat list"
  | APasskeyAdd "nat list" "nat list list" | APasskeyRemove | ARecoveryRegenerate "nat list list"
  | ARevokeOthers | ARevokeSession
  | ACases "nat list" | ACase | ACaseStatus | ANote "nat list" | ALinks link_rnd | AReissue "nat list"
  | AAddRecipients "nat list list" | ARemoveRecipient | ARevokeLink | AMemberAdd | AMemberRemove
  | AUpload "nat list" bool "nat list list \<times> bool" | ADownload | AItemDelete
  | ATusCreate TusUpload | ATusFinish TusUpload | ATusTerminate string
  | AGroups "nat list" | AGroup | AGroupDelete
  | AUsers user_rnd | AUserRole | AUserPassword user_rnd | AUserTotp | AUserDisable bool | AUserDelete | AAudit
  | AGetTotp | AGetConfirm | AGetSecurity | AGetCases | AGetCase | AGetGroups | AGetUsers

text \<open>The answer of a hook: the third-party server writes the rest of the response.\<close>

definition hook_reply :: "tus_error + unit \<Rightarrow> reply" where
  "hook_reply r = (case r of Inl (status, code) \<Rightarrow> Some (Inr (respond status (BodyText code))) | Inr _ \<Rightarrow> None)"

definition panel_db ::
    "server \<Rightarrow> ms \<Rightarrow> nat list \<Rightarrow> directory \<Rightarrow> panel_call \<Rightarrow> Request \<Rightarrow> Response exec option" where
  "panel_db S nw o24 dir call req =
     (let R = sv_runtime S; cfg = sv_cfg S; dict = sv_dict S
      in case call of
           ADbscRegister cookieb idb \<Rightarrow> Some (dbscRegister R cfg nw cookieb idb req)
         | ADbscRefresh cookieb rnd24 \<Rightarrow> Some (dbscRefresh R cfg nw cookieb rnd24 req)
         | AGetLogin \<Rightarrow> Some (Pair (Inr (getLogin req)))
         | ALogin dummySalt rnd \<Rightarrow> Some (postLogin R cfg dict nw dummySalt rnd req)
         | ALogout \<Rightarrow> Some (postLogout R cfg dict nw req)
         | ATotp rnd \<Rightarrow> Some (postTotp R cfg dict nw rnd req)
         | APasskeyLoginOptions rnd32 \<Rightarrow> Some (passkeyLoginOptions R cfg dict nw rnd32 req)
         | APasskeyLogin rnd \<Rightarrow> Some (passkeyLogin R cfg dict nw rnd req)
         | AConfirmCode \<Rightarrow> Some (confirmCode R cfg dict nw o24 req)
         | AConfirmPassword dummySalt \<Rightarrow> Some (confirmPassword R cfg dict nw dummySalt o24 req)
         | AConfirmPasskeyOptions rnd32 \<Rightarrow> Some (confirmPasskeyOptions R cfg dict nw o24 rnd32 req)
         | AConfirmPasskey \<Rightarrow> Some (confirmPasskey R cfg dict nw o24 req)
         | ASecurityPassword salt \<Rightarrow> Some (securityPassword R cfg dict nw salt o24 req)
         | ATotpBegin bytes20 \<Rightarrow> Some (totpBegin R cfg dict nw bytes20 o24 req)
         | ATotpConfirm draws \<Rightarrow> Some (totpConfirm R cfg dict nw draws o24 req)
         | ATotpRecovery draws \<Rightarrow> Some (totpRecovery R cfg dict nw draws o24 req)
         | ATotpDisable \<Rightarrow> Some (totpDisable R cfg dict nw o24 req)
         | APasskeyOptions rnd32 \<Rightarrow> Some (passkeyOptions R cfg dict nw o24 rnd32 req)
         | APasskeyRemove \<Rightarrow> Some (passkeyRemove R cfg dict nw o24 req)
         | ARecoveryRegenerate draws \<Rightarrow> Some (recoveryRegenerate R cfg dict nw draws o24 req)
         | ARevokeOthers \<Rightarrow> Some (sessionsRevokeOthers R cfg dict nw o24 req)
         | ARevokeSession \<Rightarrow> Some (sessionRevoke R cfg dict nw o24 req)
         | ACases idb \<Rightarrow> Some (postCases R cfg dict nw idb o24 req)
         | ACase \<Rightarrow> Some (postCase R cfg dict nw o24 req)
         | ACaseStatus \<Rightarrow> Some (postCaseStatus R cfg dict nw o24 req)
         | ANote idb \<Rightarrow> Some (postNote R cfg dict nw idb o24 req)
         | ALinks rnd \<Rightarrow> Some (postLinks R cfg dict (sv_parseDate S) nw rnd o24 req)
         | AReissue tokb \<Rightarrow> Some (linkReissue R cfg dict nw tokb o24 req)
         | AAddRecipients ids \<Rightarrow> Some (linkAddRecipients R cfg dict nw ids o24 req)
         | ARemoveRecipient \<Rightarrow> Some (linkRemoveRecipient R cfg dict nw o24 req)
         | ARevokeLink \<Rightarrow> Some (linkRevoke R cfg dict nw o24 req)
         | AMemberAdd \<Rightarrow> Some (memberAdd R cfg dict nw o24 req)
         | AMemberRemove \<Rightarrow> Some (memberRemove R cfg dict nw o24 req)
         | ADownload \<Rightarrow> Some (itemDownload R cfg dict (sv_disposition S) dir nw o24 req)
         | AGroups idb \<Rightarrow> Some (postGroups R cfg dict nw idb o24 req)
         | AGroup \<Rightarrow> Some (postGroup R cfg dict nw o24 req)
         | AGroupDelete \<Rightarrow> Some (groupDelete R cfg dict nw o24 req)
         | AUsers rnd \<Rightarrow> Some (postUsers R cfg dict nw rnd o24 req)
         | AUserRole \<Rightarrow> Some (userAction R cfg dict nw ''user.role'' (action_role dict req) o24 req)
         | AUserPassword rnd \<Rightarrow> Some (userAction R cfg dict nw ''user.password_reset'' (action_password R rnd dict req) o24 req)
         | AUserTotp \<Rightarrow> Some (userAction R cfg dict nw ''user.totp_reset'' (action_totp R dict req) o24 req)
         | AUserDisable b \<Rightarrow> Some (userAction R cfg dict nw (if b then ''user.disable'' else ''user.enable'')
                               (action_disable nw b dict req) o24 req)
         | AUserDelete \<Rightarrow> Some (userAction R cfg dict nw ''user.delete'' (action_delete dict req) o24 req)
         | AAudit \<Rightarrow> Some (getAudit R cfg dict nw o24 req)
         | AGetTotp \<Rightarrow> Some (getTotp R cfg dict nw req)
         | AGetConfirm \<Rightarrow> Some (getConfirm R cfg dict nw o24 req)
         | AGetCases \<Rightarrow> Some (getCases R cfg dict nw o24 req)
         | AGetCase \<Rightarrow> Some (getCasePage R cfg dict nw o24 req)
         | AGetGroups \<Rightarrow> Some (getGroups R cfg dict nw o24 req)
         | AGetUsers \<Rightarrow> Some (getUsers R cfg dict nw o24 req)
         | _ \<Rightarrow> None)"

text \<open>The handlers that also touch the directory or the flashes, and the hooks\<close>

definition panel_files ::
    "server \<Rightarrow> ms \<Rightarrow> nat list \<Rightarrow> panel_call \<Rightarrow> Request \<Rightarrow> world \<Rightarrow> reply \<times> world" where
  "panel_files S nw o24 call req w =
     (let R = sv_runtime S; cfg = sv_cfg S; dict = sv_dict S
      in case call of
           APasskeyAdd idb draws \<Rightarrow>
             guarded (case verified_guard S req of Some r \<Rightarrow> Some r | None \<Rightarrow> requireConfirmed nw ''/admin/security'' req)
               (\<lambda>s sid w. case passkeyAdd R cfg dict nw idb draws req s sid (w_db w, w_flashes w) of
                  (r, d, fl) \<Rightarrow> (Some r, w\<lparr>w_db := d, w_flashes := fl\<rparr>)) req w
         | AUpload idb gone source \<Rightarrow>
             guarded (ready_guard S req) (\<lambda>s sid. in_files (directUpload R cfg nw idb gone source req s)) req w
         | AItemDelete \<Rightarrow>
             guarded (ready_guard S req)
               (\<lambda>s sid w. case itemDelete (sv_tusRemove S) dict nw req s (w_db w, w_dir w) of
                  (r, d, dir) \<Rightarrow> (Some r, w\<lparr>w_db := d, w_dir := dir\<rparr>)) req w
         | ATusCreate up \<Rightarrow>
             guarded (ready_guard S req)
               (\<lambda>s sid w. case onIncomingRequest (w_db w) req [] of
                  Inl e \<Rightarrow> (hook_reply (Inl e), w)
                | Inr _ \<Rightarrow> (case onUploadCreate R cfg nw req up (w_db w) of
                    (r, d) \<Rightarrow> (hook_reply r, w\<lparr>w_db := d\<rparr>))) req w
         | ATusFinish up \<Rightarrow>
             guarded (ready_guard S req)
               (\<lambda>s sid w. case onIncomingRequest (w_db w) req (tu_id up) of
                  Inl e \<Rightarrow> (hook_reply (Inl e), w)
                | Inr _ \<Rightarrow> (case onUploadFinish nw req up (w_db w, w_dir w) of
                    (r, d, dir) \<Rightarrow> (hook_reply r, w\<lparr>w_db := d, w_dir := dir\<rparr>))) req w
         | ATusTerminate i \<Rightarrow>
             guarded (ready_guard S req)
               (\<lambda>s sid w. case onIncomingRequest (w_db w) req i of
                  Inl e \<Rightarrow> (hook_reply (Inl e), w)
                | Inr _ \<Rightarrow> (None, w\<lparr>w_db := onTerminate nw i (w_db w)\<rparr>)) req w
         | _ \<Rightarrow> (None, w))"

text \<open>The security page is behind the gate that may offer to bind the session.\<close>

definition security_route :: "server \<Rightarrow> ms \<Rightarrow> nat list \<Rightarrow> Request \<Rightarrow> world \<Rightarrow> reply \<times> world" where
  "security_route S nw o24 req w =
     (case gate_verified (sv_runtime S) (sv_cfg S) (sv_dict S) nw o24 req
             (\<lambda>s sid d. (Inr (fst (getSecurity (sv_runtime S) nw s sid d (w_flashes w))), d)) (w_db w) of
        (r, d) \<Rightarrow>
          (Some r, w\<lparr>w_db := d,
             w_flashes := (case (verified_guard S req, rq_session req, rq_sessionId req) of
                 (None, Some s, Some sid) \<Rightarrow> snd (getSecurity (sv_runtime S) nw s sid d (w_flashes w))
               | _ \<Rightarrow> w_flashes w)\<rparr>))"

definition panel_route ::
    "server \<Rightarrow> ms \<Rightarrow> nat list \<Rightarrow> panel_call \<Rightarrow> Request \<Rightarrow> world \<Rightarrow> reply \<times> world" where
  "panel_route S nw o24 call req0 w =
     (let (req, d1) = sessionMiddleware (sv_runtime S) nw (incoming req0) (w_db w);
          w1 = w\<lparr>w_db := d1\<rparr>
      in if call = AGetSecurity then security_route S nw o24 req w1
         else (case panel_db S nw o24 (w_dir w1) call req of
                 Some h \<Rightarrow> in_db h w1
               | None \<Rightarrow> panel_files S nw o24 call req w1))"

subsection \<open>The command line\<close>

datatype command =
    CreateAdmin string string | ResetPassword string string | DisableTotp string | RunCleanup "ms option"

definition cli ::
    "server \<Rightarrow> ms \<Rightarrow> nat list \<Rightarrow> nat list \<Rightarrow> command \<Rightarrow> world \<Rightarrow> (exn + unit) \<times> world" where
  "cli S nw idb salt cmd w =
     (let R = sv_runtime S; d = w_db w
      in case cmd of
           CreateAdmin username password \<Rightarrow>
             (case createAdmin R nw idb salt username password RAdmin False d of
                (r, d1) \<Rightarrow> (map_sum id (\<lambda>_. ()) r, w\<lparr>w_db := d1\<rparr>))
         | ResetPassword username password \<Rightarrow>
             (case setAdminPassword R salt username password d of
                (Inl e, d1) \<Rightarrow> (Inl e, w\<lparr>w_db := d1\<rparr>)
              | (Inr found, d1) \<Rightarrow>
                  ((if found then Inr () else Inl (JsError (''No admin named '' @ quoted username))), w\<lparr>w_db := d1\<rparr>))
         | DisableTotp username \<Rightarrow>
             (case findAdminByUsername d username of
                None \<Rightarrow> (Inl (JsError (''No admin named '' @ quoted username)), w)
              | Some admin \<Rightarrow> (Inr (), w\<lparr>w_db := resetSecondFactors R (ad_id admin) d\<rparr>))
         | RunCleanup ttlMs \<Rightarrow>
             (case runCleanup (sv_tusRemove S) (sv_cfg S) nw ttlMs True (d, w_dir w) of
                (rep, d1, dir1) \<Rightarrow> (Inr (), w\<lparr>w_db := d1, w_dir := dir1\<rparr>)))"

subsection \<open>Steps and reachable states\<close>

inductive server_step :: "server \<Rightarrow> world \<Rightarrow> world \<Rightarrow> bool" for S where
  deliver_request: "deliver_route S nw flowb token call req w = (r, w') \<Longrightarrow> server_step S w w'"
| panel_request: "panel_route S nw o24 call req w = (r, w') \<Longrightarrow> server_step S w w'"
| mail_answered: "mail_answer S nw i ok w = (r, w') \<Longrightarrow> server_step S w w'"
| command_run: "cli S nw idb salt cmd w = (r, w') \<Longrightarrow> server_step S w w'"
| housekeeping:
    "runCleanup (sv_tusRemove S) (sv_cfg S) nw None True (w_db w, w_dir w) = (rep, d, dir)
     \<Longrightarrow> server_step S w (w\<lparr>w_db := d, w_dir := dir\<rparr>)"

inductive_cases server_stepE: "server_step S w w'"

text \<open>A new installation: migrated tables and nothing else\<close>

definition new_world :: world where
  "new_world = \<lparr>w_db = empty_db, w_dir = [], w_flashes = Map.empty, w_mail = []\<rparr>"

inductive reachable :: "server \<Rightarrow> world \<Rightarrow> bool" for S where
  installed: "reachable S new_world"
| stepped: "reachable S w \<Longrightarrow> server_step S w w' \<Longrightarrow> reachable S w'"

end
