(* ===== verification/Steps.thy ===== *)
theory Steps
  imports Handlers Server
begin

section \<open>Every step keeps the invariants\<close>

text \<open>The routes, the answers of the mail driver and the command line, and with them every reachable state\<close>

context server_invariant begin

subsection \<open>Every step\<close>

lemmas keeps_handlers = keeps_account_handlers keeps_postCases keeps_postCase keeps_postCaseStatus keeps_postNote
  keeps_postLinks keeps_linkReissue keeps_linkAddRecipients keeps_linkRemoveRecipient keeps_linkRevoke keeps_memberAdd
  keeps_memberRemove keeps_postUsers

lemma keeps_account:
  "I d \<Longrightarrow> I (snd (userAction R cfg dict nw ''user.role'' (action_role dict req) o24 req d))"
  "I d \<Longrightarrow> I (snd (userAction R cfg dict nw ''user.password_reset'' (action_password R rnd dict req) o24 req d))"
  "I d \<Longrightarrow> I (snd (userAction R cfg dict nw ''user.totp_reset'' (action_totp R dict req) o24 req d))"
  "I d \<Longrightarrow> I (snd (userAction R cfg dict nw ''user.disable'' (action_disable nw True dict req) o24 req d))"
  "I d \<Longrightarrow> I (snd (userAction R cfg dict nw ''user.enable'' (action_disable nw False dict req) o24 req d))"
  "I d \<Longrightarrow> I (snd (userAction R cfg dict nw ''user.delete'' (action_delete dict req) o24 req d))"
  by (rule keeps_userAction; (rule keeps_actions, assumption | simp))+

lemma keeps_panel_db:
  assumes S: "sv_runtime S = R" "sv_cfg S = cfg" and h: "panel_db S nw o24 dir call req = Some h" and d: "I d"
  shows "I (snd (h d))"
  using h d
  by (cases call) (auto simp: panel_db_def S Let_def intro: keeps_handlers keeps_account)

lemma keeps_in_db: "I (snd (h (w_db w))) \<Longrightarrow> I (w_db (snd (in_db h w)))"
  by (auto simp: in_db_def split: prod.split)

lemma keeps_in_files: "I (fst (snd (h (w_db w, w_dir w)))) \<Longrightarrow> I (w_db (snd (in_files h w)))"
  by (auto simp: in_files_def split: prod.split)

lemma keeps_queue_mail: "I (snd (h (w_db w))) \<Longrightarrow> I (w_db (snd (queue_mail h w)))"
  by (auto simp: queue_mail_def split: prod.split sum.split option.split email_step.split)

lemma keeps_guarded:
  "(\<And>s sid. I (w_db (snd (k s sid w)))) \<Longrightarrow> I (w_db w) \<Longrightarrow> I (w_db (snd (guarded g k req w)))"
  by (simp add: guarded_def split: option.split)

lemma keeps_deliver_handler:
  assumes S: "sv_runtime S = R" "sv_cfg S = cfg" and d: "I (w_db w)"
  shows "I (w_db (snd (deliver_handler S nw token call req w)))"
  using d
  by (cases call)
    (auto simp: deliver_handler_def S Let_def split: option.split
      intro!: keeps_in_db keeps_queue_mail keeps_getPage keeps_email_start keeps_postCode keeps_postRestart
        keeps_postClose keeps_getFile)

lemma keeps_deliver_route:
  assumes S: "sv_runtime S = R" "sv_cfg S = cfg" and d: "I (w_db w)"
  shows "I (w_db (snd (deliver_route S nw flowb token call req w)))"
proof -
  have 1: "I (snd (sessionMiddleware R nw q (w_db w)))" for q using d by (rule keeps_sessionMiddleware)
  have "I (snd (accessMiddleware R nw q (snd (sessionMiddleware R nw q' (w_db w)))))" for q q'
    using 1 by (rule keeps_accessMiddleware)
  then show ?thesis
    using keeps_deliver_handler [OF S]
    by (simp add: deliver_route_def S Let_def split_beta)
qed

lemma keeps_mail_answer:
  assumes S: "sv_cfg S = cfg" and d: "I (w_db w)"
  shows "I (w_db (snd (mail_answer S nw i ok w)))"
  using d keeps_email_sent keeps_email_failed by (auto simp: mail_answer_def S Let_def split_beta)

lemma keeps_panel_files:
  assumes S: "sv_runtime S = R" "sv_cfg S = cfg" and d: "I (w_db w)"
  shows "I (w_db (snd (panel_files S nw o24 call req w)))"
  using d
  by (cases call)
    (auto simp: panel_files_def S Let_def split_beta
      intro!: keeps_guarded keeps_in_files keeps_passkeyAdd keeps_directUpload keeps_itemDelete keeps_onUploadCreate
        keeps_onUploadFinish keeps_onTerminate split: sum.split)

lemma keeps_security_route:
  assumes S: "sv_runtime S = R" "sv_cfg S = cfg" and d: "I (w_db w)"
  shows "I (w_db (snd (security_route S nw o24 req w)))"
proof -
  have "I (snd (gate_verified R cfg dict nw o24 req (\<lambda>s sid d. (Inr (f s sid d), d)) (w_db w)))" for dict f
    by (rule keeps_gate_verified [OF _ d]) simp
  then show ?thesis by (simp add: security_route_def S split_beta)
qed

lemma keeps_panel_route:
  assumes S: "sv_runtime S = R" "sv_cfg S = cfg" and d: "I (w_db w)"
  shows "I (w_db (snd (panel_route S nw o24 call req0 w)))"
proof -
  define req where "req = fst (sessionMiddleware R nw (incoming req0) (w_db w))"
  define w1 where "w1 = w\<lparr>w_db := snd (sessionMiddleware R nw (incoming req0) (w_db w))\<rparr>"
  have "I (w_db w1)" using keeps_sessionMiddleware [OF d] by (simp add: w1_def)
  then show ?thesis
    by (auto simp: panel_route_def S Let_def split_beta simp flip: req_def w1_def split: option.split
        intro!: keeps_security_route [OF S] keeps_panel_files [OF S] keeps_in_db intro: keeps_panel_db [OF S])
qed

lemma keeps_cli:
  assumes S: "sv_runtime S = R" "sv_cfg S = cfg" and d: "I (w_db w)"
  shows "I (w_db (snd (cli S nw idb salt cmd w)))"
  using d keeps_createAdmin keeps_setPassword keeps_resetFactors keeps_runCleanup
  by (cases cmd) (auto simp: cli_def S Let_def split_beta split: option.split sum.split)

theorem keeps_step:
  assumes S: "sv_runtime S = R" "sv_cfg S = cfg" and step: "server_step S w w'" and d: "I (w_db w)"
  shows "I (w_db w')"
  using step
proof cases
  case (deliver_request nw flowb token call req r)
  then show ?thesis using keeps_deliver_route [OF S d] by (metis snd_conv)
next
  case (panel_request nw o24 call req r)
  then show ?thesis using keeps_panel_route [OF S d] by (metis snd_conv)
next
  case (mail_answered nw i ok r)
  then show ?thesis using keeps_mail_answer [OF S(2) d] by (metis snd_conv)
next
  case (command_run nw idb salt cmd r)
  then show ?thesis using keeps_cli [OF S d] by (metis snd_conv)
next
  case (housekeeping nw rep db dir)
  then show ?thesis using keeps_runCleanup [of "(w_db w, w_dir w)" "sv_tusRemove S" nw None True] d S by simp
qed

theorem keeps_reachable:
  assumes S: "sv_runtime S = R" "sv_cfg S = cfg" and start: "I empty_db" and w: "reachable S w"
  shows "I (w_db w)"
  using w by induction (simp_all add: new_world_def start keeps_step [OF S])

end

end
