(* ===== verification/OpeningCounts.thy ===== *)
theory OpeningCounts
  imports Steps
begin

section \<open>The openings of a link\<close>

text \<open>
  The counter of a link against its cap and against the entries of the audit log. Only an
  accepted code counts, and it is counted before it is logged.
\<close>


text \<open>What the invariant of the openings looks at\<close>

definition link_key :: "LinkRow \<Rightarrow> string \<times> nat option \<times> nat" where
  "link_key l = (l_id l, l_max_opens l, l_opens_used l)"

definition is_grant :: "AuditRow \<Rightarrow> bool" where
  "is_grant a = (au_action a = ''access.granted'')"

definition openings :: "db \<Rightarrow> (string \<times> nat option \<times> nat) list \<times> AuditRow list" where
  "openings d = (map link_key (links d), filter is_grant (audit_log d))"

lemma openings_frame [simp]:
  "openings (d\<lparr>admins := x1\<rparr>) = openings d" "openings (d\<lparr>recovery_codes := x2\<rparr>) = openings d"
  "openings (d\<lparr>sessions := x3\<rparr>) = openings d" "openings (d\<lparr>passkeys := x4\<rparr>) = openings d"
  "openings (d\<lparr>bindings := x5\<rparr>) = openings d" "openings (d\<lparr>cases := x6\<rparr>) = openings d"
  "openings (d\<lparr>case_members := x7\<rparr>) = openings d" "openings (d\<lparr>items := x8\<rparr>) = openings d"
  "openings (d\<lparr>link_recipients := x9\<rparr>) = openings d" "openings (d\<lparr>groups := x10\<rparr>) = openings d"
  "openings (d\<lparr>group_members := x11\<rparr>) = openings d" "openings (d\<lparr>challenges := x12\<rparr>) = openings d"
  "openings (d\<lparr>access_sessions := x13\<rparr>) = openings d"
  by (simp_all add: openings_def)

lemma openings_audit: "ev_action ev \<noteq> ''access.granted'' \<Longrightarrow> openings (audit nw ev d) = openings d"
  by (simp add: openings_def audit_def is_grant_def)

lemma openings_upd_links:
  "(\<And>l. link_key (f l) = link_key l) \<Longrightarrow> openings (d\<lparr>links := upd_where p f (links d)\<rparr>) = openings d"
  by (simp add: openings_def upd_where_def comp_def if_distrib [of link_key])

lemma openings_touch [simp]: "openings (touchLink nw i d) = openings d"
  unfolding touchLink_def by (rule openings_upd_links) (simp add: link_key_def)

lemma ev_action_simps [simp]:
  "ev_action (recipient_event a w rl req ds) = a" "ev_action (admin_event a w2 req ds) = a"
  "ev_action (own_event a s req ds) = a" "ev_action (case_event a s req i ds) = a"
  "ev_action (link_event a s req l ds) = a" "ev_action (item_event a s req it ds) = a"
  "ev_action (system_event a it) = a" "ev_action (mailing_event a m) = a"
  by (simp_all add: recipient_event_def admin_event_def own_event_def case_event_def link_event_def item_event_def
      system_event_def mailing_event_def)

lemma openings_createChallenge:
  "createChallenge R cfg nw codeb idb salt l rid f ip d = (r, d') \<Longrightarrow> openings d' = openings d"
  by (erule createChallenge_cases) simp_all

lemma openings_set_challenge [simp]: "openings (set_challenge p f d) = openings d"
  by (simp add: set_challenge_def)

lemma openings_destroyAccess [simp]: "openings (destroyAccessSession R i d) = openings d"
  by (simp add: destroyAccessSession_def)

text \<open>The openings of a link that the log records\<close>

definition granted :: "db \<Rightarrow> string \<Rightarrow> nat" where
  "granted d i = n_where (\<lambda>a. is_grant a \<and> au_link_id a = Some i) (audit_log d)"

definition link_fits :: "db \<Rightarrow> LinkRow \<Rightarrow> bool" where
  "link_fits d l =
     ((case l_max_opens l of None \<Rightarrow> True | Some m \<Rightarrow> l_opens_used l \<le> m) \<and> granted d (l_id l) \<le> l_opens_used l)"

definition openings_inv :: "db \<Rightarrow> bool" where
  "openings_inv d =
     (distinct (map l_id (links d)) \<and> list_all (link_fits d) (links d)
      \<and> list_all (\<lambda>a. is_grant a \<longrightarrow> au_link_id a \<in> (Some \<circ> l_id) ` set (links d)) (audit_log d))"

lemma granted_openings: "granted d i = length (filter (\<lambda>a. au_link_id a = Some i) (snd (openings d)))"
  by (simp add: granted_def openings_def n_where_def conj_commute)

lemma link_key_fst [simp]: "fst (link_key l) = l_id l" "fst \<circ> link_key = l_id"
  by (auto simp: link_key_def)

lemma openings_inv_view:
  "openings_inv d \<longleftrightarrow> distinct (map fst (fst (openings d)))
     \<and> (\<forall>(i, m, u) \<in> set (fst (openings d)). (case m of None \<Rightarrow> True | Some m \<Rightarrow> u \<le> m)
          \<and> length (filter (\<lambda>a. au_link_id a = Some i) (snd (openings d))) \<le> u)
     \<and> (\<forall>a \<in> set (snd (openings d)). au_link_id a \<in> Some ` fst ` set (fst (openings d)))"
  unfolding openings_inv_def link_fits_def granted_openings
  by (auto simp: openings_def list_all_iff image_image comp_def) (auto simp: link_key_def)

lemma openings_inv_cong: "openings d' = openings d \<Longrightarrow> openings_inv d' = openings_inv d"
  by (simp add: openings_inv_view)

lemma register_key:
  "map link_key (links (snd (registerOpen nw i d))) =
     map (\<lambda>l. if may_open i l then (l_id l, l_max_opens l, l_opens_used l + 1) else link_key l) (links d)"
  by (simp add: registerOpen_def upd_where_def link_key_def comp_def)

text \<open>Counting an opening keeps the invariant, and leaves room for one more entry of the log.\<close>

lemma register_inv:
  assumes inv: "openings_inv d" and ok: "fst (registerOpen nw i d)"
  shows "openings_inv (snd (registerOpen nw i d))"
    and "\<exists>l \<in> set (links (snd (registerOpen nw i d))). l_id l = i
        \<and> (case l_max_opens l of None \<Rightarrow> True | Some m \<Rightarrow> l_opens_used l \<le> m)
        \<and> granted (snd (registerOpen nw i d)) i + 1 \<le> l_opens_used l"
proof -
  let ?d = "snd (registerOpen nw i d)" and ?f = "\<lambda>l. l\<lparr>l_opens_used := l_opens_used l + 1, l_last_used_at := Some nw\<rparr>"
  have links: "links ?d = upd_where (may_open i) ?f (links d)" and log: "audit_log ?d = audit_log d"
    by (simp_all add: registerOpen_def)
  have g: "granted ?d j = granted d j" for j by (simp add: granted_def log)
  have m: "map l_id (links ?d) = map l_id (links d)" unfolding links by (rule map_upd_where_key) simp
  have ids: "l_id ` set (links ?d) = l_id ` set (links d)" unfolding list.set_map [symmetric] m ..
  have "distinct (map l_id (links ?d))" using inv by (simp add: m openings_inv_def)
  moreover have "link_fits ?d (if may_open i l then ?f l else l)" if "l \<in> set (links d)" for l
  proof -
    have "link_fits d l" using inv that by (simp add: openings_inv_def list_all_iff)
    then show ?thesis by (auto simp: link_fits_def g may_open_def split: option.splits)
  qed
  then have "list_all (link_fits ?d) (links ?d)" unfolding links list_all_iff by (blast elim: in_upd_where [THEN iffD1, THEN bexE])
  moreover have "(Some \<circ> l_id) ` set (links ?d) = (Some \<circ> l_id) ` set (links d)" using ids by (simp flip: image_image)
  ultimately show "openings_inv ?d" using inv by (simp add: openings_inv_def log)
  from ok obtain l where l: "l \<in> set (links d)" "may_open i l" by (auto simp: registerOpen_sel)
  have "?f l \<in> set (links ?d)" unfolding links using l by (auto simp: in_upd_where)
  moreover have "link_fits d l" using inv l(1) by (simp add: openings_inv_def list_all_iff)
  then have "l_id (?f l) = i \<and> (case l_max_opens (?f l) of None \<Rightarrow> True | Some m \<Rightarrow> l_opens_used (?f l) \<le> m)
        \<and> granted ?d i + 1 \<le> l_opens_used (?f l)"
    using l(2) by (auto simp: link_fits_def g may_open_def split: option.splits)
  ultimately show "\<exists>l \<in> set (links ?d). l_id l = i \<and> (case l_max_opens l of None \<Rightarrow> True | Some m \<Rightarrow> l_opens_used l \<le> m)
        \<and> granted ?d i + 1 \<le> l_opens_used l" by blast
qed

lemma grant_logged:
  assumes inv: "openings_inv d" and l: "l \<in> set (links d)" "l_id l = i"
    and room: "granted d i + 1 \<le> l_opens_used l"
    and ev: "ev_action ev = ''access.granted''" "ev_linkId ev = Some i"
  shows "openings_inv (audit nw ev d)"
proof -
  let ?d = "audit nw ev d"
  have g: "granted ?d j = granted d j + (if j = i then 1 else 0)" for j
    using ev by (simp add: granted_def audit_def is_grant_def)
  have links: "links ?d = links d" by (simp add: audit_def)
  have "list_all (link_fits ?d) (links d)"
    unfolding list_all_iff
  proof
    fix k
    assume k: "k \<in> set (links d)"
    show "link_fits ?d k"
    proof (cases "l_id k = i")
      case True
      then have "k = l" using inv k l by (auto simp: openings_inv_def dest: distinct_key_unique)
      then show ?thesis using inv l room True by (auto simp: openings_inv_def list_all_iff link_fits_def g)
    next
      case False
      then show ?thesis using inv k by (auto simp: openings_inv_def list_all_iff link_fits_def g)
    qed
  qed
  then show ?thesis
    using inv l ev unfolding openings_inv_def links
    by (auto simp: audit_def is_grant_def list_all_iff)
qed

lemma openings_recordOpen [simp]: "openings (recordRecipientOpen nw r d) = openings d"
  by (simp add: recordRecipientOpen_def)

lemma openings_createAccess:
  "openings (snd (createAccessSession R cfg nw sidb csrfb l rid ip d)) = openings d"
  by (simp add: createAccessSession_def ins_access_def require_def Let_def)

lemma grant_inv:
  assumes inv: "openings_inv d" and l: "l \<in> set (links d)" "l_id l = l_id (rl_link resolved)"
    and room: "granted d (l_id l) + 1 \<le> l_opens_used l"
  shows "openings_inv (snd (grant_access R cfg nw sidb csrfb token req resolved rid d))"
proof -
  let ?i = "l_id (rl_link resolved)" and ?rec = "recipient_by_id resolved rid"
  define d2 where "d2 = (case ?rec of Some r \<Rightarrow> recordRecipientOpen nw (r_id r) d | None \<Rightarrow> d)"
  define c where "c = createAccessSession R cfg nw sidb csrfb ?i (map_option r_id ?rec) (rq_ip req) d2"
  have v: "openings (snd c) = openings d"
    unfolding c_def d2_def by (simp add: openings_createAccess split: option.split)
  have links: "links (snd c) = links d"
    unfolding c_def d2_def
    by (simp add: createAccessSession_def ins_access_def require_def recordRecipientOpen_def Let_def split: option.split)
  have gr: "granted (snd c) j = granted d j" for j by (simp add: granted_openings v)
  have inv': "openings_inv (snd c)" using inv openings_inv_cong [OF v] by simp
  show ?thesis
  proof (cases "fst c")
    case (Inl e)
    then have "snd (grant_access R cfg nw sidb csrfb token req resolved rid d) = snd c"
      by (cases c) (simp add: grant_access_def Let_def flip: d2_def, simp flip: c_def)
    then show ?thesis using inv' by simp
  next
    case (Inr p)
    have "\<exists>ev. snd (grant_access R cfg nw sidb csrfb token req resolved rid d) = audit nw ev (snd c)
      \<and> ev_action ev = ''access.granted'' \<and> ev_linkId ev = Some ?i"
      using Inr
      by (cases c; cases p)
        (simp add: grant_access_def Let_def flip: d2_def, simp flip: c_def, intro exI conjI, rule refl,
         simp_all add: recipient_event_def)
    then obtain ev where "snd (grant_access R cfg nw sidb csrfb token req resolved rid d) = audit nw ev (snd c)"
      "ev_action ev = ''access.granted''" "ev_linkId ev = Some ?i" by blast
    moreover have "l \<in> set (links (snd c))" "granted (snd c) ?i + 1 \<le> l_opens_used l"
      using l room by (simp_all add: links gr)
    ultimately show ?thesis using grant_logged [OF inv', of l ?i] l(2) by simp
  qed
qed

lemma openings_verify: "openings (snd (verifyChallenge R cfg nw l f code d)) = openings d"
  by (simp add: verifyChallenge_def Let_def split: option.split)

lemma code_inv:
  assumes inv: "openings_inv d"
  shows "openings_inv (snd (code_submitted R cfg dict nw sidb csrfb token req0 d))"
proof (cases "load R dict nw token req0 d")
  case (Inl r)
  then show ?thesis using inv by (simp add: code_submitted_def)
next
  case (Inr p)
  obtain req rl where l: "load R dict nw token req0 d = Inr (req, rl)" using Inr by (cases p) simp
  let ?v = "verifyChallenge R cfg nw (l_id (rl_link rl)) (flow_of req) (codeFromBody (rq_body req)) d"
  obtain res d1 where v: "?v = (res, d1)" by fastforce
  have view: "openings d1 = openings d"
    using openings_verify [of R cfg nw "l_id (rl_link rl)" "flow_of req" "codeFromBody (rq_body req)" d] v by simp
  then have inv1: "openings_inv d1" using inv openings_inv_cong by blast
  show ?thesis
  proof (cases res)
    case (VOk rid)
    obtain ok d2 where r: "registerOpen nw (l_id (rl_link rl)) d1 = (ok, d2)" by fastforce
    show ?thesis
    proof (cases ok)
      case True
      then have "fst (registerOpen nw (l_id (rl_link rl)) d1)" using r by simp
      from register_inv [OF inv1 this] r obtain k where "openings_inv d2" "k \<in> set (links d2)" "l_id k = l_id (rl_link rl)"
        "granted d2 (l_id k) + 1 \<le> l_opens_used k" by auto
      then show ?thesis using v r VOk True grant_inv [of d2 k rl] by (simp add: code_submitted_def l)
    next
      case False
      then have "openings d2 = openings d1"
        using r registerOpen_sel [of nw "l_id (rl_link rl)" d1] register_key [of nw "l_id (rl_link rl)" d1]
        by (auto simp: registerOpen_def n_where_pos_iff openings_def upd_where_id)
      then show ?thesis using v r VOk False inv1 openings_inv_cong [of d2 d1] by (simp add: code_submitted_def l)
    qed
  qed (use v inv1 openings_inv_cong [OF openings_audit] in \<open>simp_all add: code_submitted_def l\<close>)
qed

lemma openings_insertRecipients: "openings (snd (insertRecipients nw l ids rs d)) = openings d"
proof -
  obtain r d' where e: "insertRecipients nw l ids rs d = (r, d')" by fastforce
  show ?thesis using insertRecipients_frame [OF e] e by auto
qed

lemma openings_transaction:
  "(\<And>d. openings (snd (f d)) = openings d) \<Longrightarrow> openings (snd (transaction f d)) = openings d"
  by (auto simp: transaction_def split: prod.split sum.split) (metis snd_conv)

text \<open>A link is created with nothing used, a cap of at least one and an id no entry of the log has.\<close>

lemma new_link_inv:
  assumes inv: "openings_inv d" and fresh: "\<not> has_link d (l_id l)" and l: "l_opens_used l = 0"
  shows "openings_inv (d\<lparr>links := links d @ [l]\<rparr>)"
proof -
  let ?d = "d\<lparr>links := links d @ [l]\<rparr>"
  have g: "granted ?d j = granted d j" for j by (simp add: granted_def)
  have "\<not> (is_grant a \<and> au_link_id a = Some (l_id l))" if "a \<in> set (audit_log d)" for a
  proof
    assume a: "is_grant a \<and> au_link_id a = Some (l_id l)"
    have "\<forall>a \<in> set (audit_log d). is_grant a \<longrightarrow> au_link_id a \<in> (Some \<circ> l_id) ` set (links d)"
      using inv unfolding openings_inv_def list_all_iff by blast
    from bspec [OF this that] a show False using fresh by auto
  qed
  then have "granted d (l_id l) = 0" by (simp add: granted_def n_where_0_iff)
  then have "link_fits ?d l" using l by (simp add: link_fits_def g split: option.split)
  moreover have "link_fits ?d = link_fits d" by (simp add: fun_eq_iff link_fits_def g)
  with inv have "list_all (link_fits ?d) (links d)" by (simp add: openings_inv_def)
  ultimately show ?thesis using inv fresh by (auto simp: openings_inv_def list_all_iff)
qed

lemma createLink_inv:
  assumes inv: "openings_inv d"
  shows "openings_inv (snd (createLink R cfg nw tokb idb ids inp d))"
proof -
  define l where "l = \<lparr>l_id = newId ''l'' idb, l_case_id = cl_caseId inp,
       l_label = or_else (slice0 200 (trim (cl_label inp))) ''Recipient'',
       l_token_hash = rt_sha256 R (newToken tokb), l_token_hint = slice0 6 (newToken tokb),
       l_expires_at = cl_expiresAt inp, l_revoked_at = None,
       l_max_opens = (case cl_maxOpens inp of Some (JInt n) \<Rightarrow> Some (nat n) | _ \<Rightarrow> None),
       l_opens_used = 0, l_created_at = nw, l_last_used_at = None\<rparr>"
  define f where "f rs = (\<lambda>d. case ins_link l d of Inl e \<Rightarrow> (Inl e, d) | Inr d1 \<Rightarrow> insertRecipients nw (l_id l) ids rs d1)" for rs
  have f: "openings_inv (snd (transaction (f rs) d))" for rs
  proof (cases "fst (f rs d)")
    case (Inl e)
    then show ?thesis using inv by (cases "f rs d") (simp add: transaction_def)
  next
    case (Inr r)
    then have ok: "ins_link l d = Inr (d\<lparr>links := links d @ [l]\<rparr>)" "\<not> has_link d (l_id l)"
      by (auto simp: f_def ins_link_def require_def split: if_split_asm sum.split_asm)
    have "openings_inv (d\<lparr>links := links d @ [l]\<rparr>)"
      by (rule new_link_inv [OF inv ok(2)]) (simp add: l_def)
    then have "openings_inv (snd (f rs d))"
      using openings_inv_cong [OF openings_insertRecipients] by (simp add: f_def ok(1))
    then show ?thesis using Inr by (cases "f rs d") (simp add: transaction_def)
  qed
  show ?thesis
  proof (cases "checkRecipients R (cl_recipients inp)")
    case (Inl e)
    then show ?thesis using inv by (simp add: createLink_def)
  next
    case (Inr rs)
    define bad where "bad \<longleftrightarrow> (case cl_maxOpens inp of None \<Rightarrow> False | Some JOther \<Rightarrow> True | Some (JInt n) \<Rightarrow> n < 1)"
    have "createLink R cfg nw tokb idb ids inp d =
      (if bad then (Inl (JsError ''max opens must be a positive integer''), d)
       else if (case cl_expiresAt inp of None \<Rightarrow> False | Some e \<Rightarrow> e \<le> nw) then (Inl (JsError ''Expiry must be in the future''), d)
       else if getCase d (cl_caseId inp) = None then (Inl (JsError ''Case not found''), d)
       else (case transaction (f rs) d of (Inl e, d') \<Rightarrow> (Inl e, d')
             | (Inr recipients, d') \<Rightarrow> (Inr \<lparr>cr_link = l, cr_recipients = recipients, cr_token = newToken tokb,
                  cr_url = linkUrl cfg (newToken tokb)\<rparr>, d')))"
      unfolding createLink_def Let_def Inr sum.case bad_def f_def l_def ..
    then show ?thesis
      using inv f [of rs] by (cases "transaction (f rs) d"; cases "fst (transaction (f rs) d)") simp_all
  qed
qed

lemma openings_addRecipients: "openings (snd (addRecipients R nw ids l inp d)) = openings d"
  unfolding addRecipients_def
  by (cases "checkRecipients R inp")
    (simp_all add: Let_def openings_insertRecipients openings_transaction)

lemma openings_removeRecipient: "openings (snd (removeRecipient l r d)) = openings d"
  by (simp add: removeRecipient_def transaction_def delete_recipient_def split: option.split prod.split sum.split)

lemma openings_revoke: "openings (snd (revokeLink nw i d)) = openings d"
  by (simp add: revokeLink_def openings_upd_links link_key_def)

lemma openings_rotate: "openings (snd (rotateLinkToken R cfg tokb i d)) = openings d"
  by (simp add: rotateLinkToken_def Let_def openings_upd_links link_key_def split: option.split)

lemma openings_destroyLink [simp]: "openings (snd (destroyAccessSessionsForLink nw i d)) = openings d"
  by (simp add: destroyAccessSessionsForLink_def)

lemma openings_destroyCase [simp]: "openings (snd (destroyAccessSessionsForCase i d)) = openings d"
  by (simp add: destroyAccessSessionsForCase_def)


lemma openings_admins:
  "openings (snd (createAdmin R nw idb salt u pw r b d)) = openings d"
  "openings (snd (setUserRole actor i r d)) = openings d"
  "openings (snd (setUserDisabled nw actor i bb d)) = openings d"
  "openings (snd (deleteUser actor i d)) = openings d"
  by (simp_all add: createAdmin_def ins_admin_def require_def Let_def setUserRole_def setUserDisabled_def deleteUser_def
      transaction_def set_admin_def delete_sessions_def delete_admin_def split: sum.split prod.split)

lemma openings_purge: "openings (snd (purgeExpiredAccess nw d)) = openings d"
  by (simp add: purgeExpiredAccess_def openings_def)

lemma openings_core: "core d' = core d \<Longrightarrow> openings d' = openings d"
  by (simp add: core_def openings_def)

lemma openings_newChallenge: "openings (snd (createChallenge R cfg nw codeb idb salt l rid f ip d)) = openings d"
  by (cases "createChallenge R cfg nw codeb idb salt l rid f ip d") (simp add: openings_createChallenge)

lemma openings_cases:
  "openings (snd (createCase nw idb n ds d)) = openings d" "openings (snd (updateCase nw i nm ds st d)) = openings d"
  by (simp_all add: createCase_def ins_case_def updateCase_def require_def Let_def split: option.split)

lemmas openings_frames = openings_audit openings_touch openings_addRecipients openings_removeRecipient openings_revoke
  openings_rotate openings_cases openings_newChallenge openings_set_challenge openings_destroyAccess openings_destroyLink
  openings_destroyCase openings_purge openings_admins

lemmas openings_inv_frames = openings_frames [THEN openings_inv_cong] openings_frame(7,8) [THEN openings_inv_cong]

interpretation openings: server_invariant openings_inv R cfg for R cfg
proof (unfold_locales, goal_cases)
  case (1 d' d)
  then show ?case using openings_inv_cong [OF openings_core] by blast
qed (simp_all add: openings_inv_frames createLink_inv code_inv)

end
