(* ===== verification/OpenSessions.thy ===== *)
theory OpenSessions
  imports Steps
begin

section \<open>The sessions of recipients\<close>

text \<open>
  A session exists only on a link that is not revoked, of a case that is open, and for a
  recipient who is still on it.
\<close>


definition link_open :: "db \<Rightarrow> LinkRow \<Rightarrow> bool" where
  "link_open d l = (l_revoked_at l = None \<and> (\<exists>c \<in> set (cases d). c_id c = l_case_id l \<and> c_status c = CaseOpen))"

definition session_sound :: "db \<Rightarrow> AccessRow \<Rightarrow> bool" where
  "session_sound d s =
     ((\<exists>l \<in> set (links d). l_id l = as_link_id s \<and> link_open d l)
      \<and> opt_ref (\<lambda>i. \<exists>r \<in> set (link_recipients d). r_id r = i \<and> r_link_id r = as_link_id s) (as_recipient_id s))"

definition access_inv :: "db \<Rightarrow> bool" where
  "access_inv d =
     (distinct (map l_id (links d)) \<and> distinct (map c_id (cases d)) \<and> list_all (session_sound d) (access_sessions d))"

text \<open>What the invariant looks at\<close>

definition case_key :: "CaseRow \<Rightarrow> string \<times> case_status" where
  "case_key c = (c_id c, c_status c)"

definition access_view :: "db \<Rightarrow> (string \<times> string \<times> bool) list \<times> (string \<times> case_status) list
    \<times> (string \<times> string) list \<times> AccessRow list" where
  "access_view d = (map (\<lambda>l. (l_id l, l_case_id l, l_revoked_at l = None)) (links d), map case_key (cases d),
     map (\<lambda>r. (r_id r, r_link_id r)) (link_recipients d), access_sessions d)"

definition open_links :: "db \<Rightarrow> string set" where
  "open_links d = l_id ` {l \<in> set (links d). link_open d l}"

lemma open_link_view:
  "(\<exists>l \<in> set (links d). l_id l = i \<and> link_open d l) \<longleftrightarrow>
     (\<exists>c. (i, c, True) \<in> set (fst (access_view d)) \<and> (c, CaseOpen) \<in> set (fst (snd (access_view d))))"
proof
  assume "\<exists>l \<in> set (links d). l_id l = i \<and> link_open d l"
  then obtain l c where "l \<in> set (links d)" "l_id l = i" "l_revoked_at l = None" "c \<in> set (cases d)"
    "c_id c = l_case_id l" "c_status c = CaseOpen" by (auto simp: link_open_def)
  then show "\<exists>c. (i, c, True) \<in> set (fst (access_view d)) \<and> (c, CaseOpen) \<in> set (fst (snd (access_view d)))"
    by (intro exI [of _ "l_case_id l"] conjI) (simp_all add: access_view_def case_key_def image_iff, (metis)+)
next
  assume "\<exists>c. (i, c, True) \<in> set (fst (access_view d)) \<and> (c, CaseOpen) \<in> set (fst (snd (access_view d)))"
  then show "\<exists>l \<in> set (links d). l_id l = i \<and> link_open d l"
    unfolding access_view_def case_key_def link_open_def by fastforce
qed

lemma recipient_view:
  "(\<exists>r \<in> set (link_recipients d). r_id r = i \<and> r_link_id r = l) \<longleftrightarrow> (i, l) \<in> set (fst (snd (snd (access_view d))))"
  by (force simp: access_view_def)

lemma access_inv_alt:
  "access_inv d \<longleftrightarrow> distinct (map fst (fst (access_view d))) \<and> distinct (map fst (fst (snd (access_view d))))
    \<and> (\<forall>s \<in> set (snd (snd (snd (access_view d)))).
        (\<exists>c. (as_link_id s, c, True) \<in> set (fst (access_view d)) \<and> (c, CaseOpen) \<in> set (fst (snd (access_view d))))
        \<and> opt_ref (\<lambda>i. (i, as_link_id s) \<in> set (fst (snd (snd (access_view d))))) (as_recipient_id s))"
  unfolding access_inv_def session_sound_def open_link_view recipient_view list_all_iff
  by (simp add: access_view_def case_key_def comp_def)

lemma access_inv_mono:
  assumes inv: "access_inv d"
    and keys: "distinct (map l_id (links d'))" "distinct (map c_id (cases d'))"
    and links: "\<And>l. l \<in> set (links d) \<Longrightarrow> link_open d l \<Longrightarrow> (\<exists>s \<in> set (access_sessions d'). as_link_id s = l_id l)
        \<Longrightarrow> \<exists>l' \<in> set (links d'). l_id l' = l_id l \<and> link_open d' l'"
    and recs: "\<And>r. r \<in> set (link_recipients d) \<Longrightarrow> (\<exists>s \<in> set (access_sessions d'). as_recipient_id s = Some (r_id r))
        \<Longrightarrow> \<exists>r' \<in> set (link_recipients d'). r_id r' = r_id r \<and> r_link_id r' = r_link_id r"
    and sessions: "set (access_sessions d') \<subseteq> set (access_sessions d)"
  shows "access_inv d'"
  unfolding access_inv_def list_all_iff
proof (intro conjI keys ballI)
  fix s
  assume s: "s \<in> set (access_sessions d')"
  then have "session_sound d s" using inv sessions by (auto simp: access_inv_def list_all_iff)
  then obtain l where l: "l \<in> set (links d)" "l_id l = as_link_id s" "link_open d l"
    and r: "opt_ref (\<lambda>i. \<exists>r \<in> set (link_recipients d). r_id r = i \<and> r_link_id r = as_link_id s) (as_recipient_id s)"
    by (auto simp: session_sound_def)
  from links [OF l(1,3)] s l(2) obtain l' where "l' \<in> set (links d')" "l_id l' = as_link_id s" "link_open d' l'" by metis
  moreover have "opt_ref (\<lambda>i. \<exists>r \<in> set (link_recipients d'). r_id r = i \<and> r_link_id r = as_link_id s) (as_recipient_id s)"
  proof (cases "as_recipient_id s")
    case (Some i)
    then obtain r0 where "r0 \<in> set (link_recipients d)" "r_id r0 = i" "r_link_id r0 = as_link_id s"
      using r by (auto simp: opt_ref_def)
    with recs [OF this(1)] s Some show ?thesis by (auto simp: opt_ref_def)
  qed (simp add: opt_ref_def)
  ultimately show "session_sound d' s" by (auto simp: session_sound_def)
qed

text \<open>An operation that leaves the view alone keeps the invariant.\<close>

lemma access_inv_cong: "access_view d' = access_view d \<Longrightarrow> access_inv d' = access_inv d"
  by (simp add: access_inv_alt)

lemma access_frame [simp]:
  "access_view (d\<lparr>admins := x1\<rparr>) = access_view d" "access_view (d\<lparr>recovery_codes := x2\<rparr>) = access_view d"
  "access_view (d\<lparr>sessions := x3\<rparr>) = access_view d" "access_view (d\<lparr>passkeys := x4\<rparr>) = access_view d"
  "access_view (d\<lparr>bindings := x5\<rparr>) = access_view d" "access_view (d\<lparr>case_members := x7\<rparr>) = access_view d"
  "access_view (d\<lparr>items := x8\<rparr>) = access_view d" "access_view (d\<lparr>groups := x10\<rparr>) = access_view d"
  "access_view (d\<lparr>group_members := x11\<rparr>) = access_view d" "access_view (d\<lparr>challenges := x12\<rparr>) = access_view d"
  "access_view (d\<lparr>audit_log := x13\<rparr>) = access_view d"
  by (simp_all add: access_view_def)

lemma access_upd_links:
  "(\<And>l. l_id (f l) = l_id l) \<Longrightarrow> (\<And>l. l_case_id (f l) = l_case_id l) \<Longrightarrow> (\<And>l. l_revoked_at (f l) = l_revoked_at l)
   \<Longrightarrow> access_view (d\<lparr>links := upd_where p f (links d)\<rparr>) = access_view d"
  by (simp add: access_view_def upd_where_def comp_def if_distrib [of l_id] if_distrib [of l_case_id]
      if_distrib [of l_revoked_at] cong: if_cong)

lemma access_upd_recipients:
  "(\<And>r. r_id (f r) = r_id r) \<Longrightarrow> (\<And>r. r_link_id (f r) = r_link_id r)
   \<Longrightarrow> access_view (d\<lparr>link_recipients := upd_where p f (link_recipients d)\<rparr>) = access_view d"
  by (simp add: access_view_def upd_where_def comp_def if_distrib [of r_id] if_distrib [of r_link_id])

lemma access_frames:
  "access_view (audit nw ev d) = access_view d" "access_view (touchLink nw i d) = access_view d"
  "access_view (set_challenge p g d) = access_view d" "access_view (recordRecipientOpen nw i d) = access_view d"
  "access_view (snd (registerOpen nw i d)) = access_view d"
  by (simp_all add: audit_def touchLink_def set_challenge_def recordRecipientOpen_def registerOpen_def
      access_upd_links access_upd_recipients)

lemma access_rotate: "access_view (snd (rotateLinkToken R cfg tokb i d)) = access_view d"
  by (simp add: rotateLinkToken_def Let_def access_upd_links split: option.split)

lemma access_createChallenge: "access_view (snd (createChallenge R cfg nw codeb idb salt l rid f ip d)) = access_view d"
proof -
  obtain r d' where e: "createChallenge R cfg nw codeb idb salt l rid f ip d = (r, d')" by fastforce
  then have "access_view d' = access_view d" by (rule createChallenge_cases) simp_all
  then show ?thesis by (simp add: e)
qed

lemma access_verify: "access_view (snd (verifyChallenge R cfg nw l f code d)) = access_view d"
  by (simp add: verifyChallenge_def Let_def access_frames split: option.split)

lemma access_admins:
  "access_view (snd (createAdmin R nw idb salt u pw r b d)) = access_view d"
  "access_view (snd (setUserRole actor i r d)) = access_view d"
  "access_view (snd (setUserDisabled nw actor i bb d)) = access_view d"
  "access_view (snd (deleteUser actor i d)) = access_view d"
  by (simp_all add: createAdmin_def ins_admin_def require_def Let_def setUserRole_def setUserDisabled_def deleteUser_def
      transaction_def set_admin_def delete_sessions_def delete_admin_def split: sum.split prod.split)

lemma access_core: "core d' = core d \<Longrightarrow> access_view d' = access_view d"
  by (simp add: core_def access_view_def)

lemmas access_inv_frames = access_frame(6,7) [THEN access_inv_cong] access_frames [THEN access_inv_cong] access_rotate [THEN access_inv_cong]
  access_createChallenge [THEN access_inv_cong] access_admins [THEN access_inv_cong]

subsection \<open>The operations on cases, links and sessions\<close>

interpretation access_db: db_invariant access_inv .

lemma access_insertRecipients: "access_inv d \<Longrightarrow> access_inv (snd (insertRecipients nw l ids rs d))"
proof -
  assume inv: "access_inv d"
  obtain r d' where e: "insertRecipients nw l ids rs d = (r, d')" by fastforce
  then obtain new where d': "d' = d\<lparr>link_recipients := link_recipients d @ new\<rparr>" using insertRecipients_frame by blast
  show ?thesis unfolding e snd_conv
    by (rule access_inv_mono [OF inv]) (use inv in \<open>auto simp: d' access_inv_def link_open_def\<close>)
qed

lemma access_new_link:
  assumes inv: "access_inv d" and l: "ins_link l d = Inr d'"
  shows "access_inv d'"
  by (rule access_inv_mono [OF inv]) (use inv l in \<open>auto simp: ins_link_def access_inv_def link_open_def\<close>)

lemma access_createLink: "access_inv d \<Longrightarrow> access_inv (snd (createLink R cfg nw tokb idb ids inp d))"
  unfolding createLink_def
  by (intro access_db.keeps_flow access_db.keeps_transaction access_insertRecipients;
      (assumption | (erule access_new_link [rotated], assumption)))

lemma access_addRecipients: "access_inv d \<Longrightarrow> access_inv (snd (addRecipients R nw ids l rs d))"
  unfolding addRecipients_def
  by (intro access_db.keeps_flow access_db.keeps_transaction access_insertRecipients)

lemma access_removeRecipient: "access_inv d \<Longrightarrow> access_inv (snd (removeRecipient l i d))"
proof -
  assume inv: "access_inv d"
  have "access_inv (delete_recipient i d)"
    by (rule access_inv_mono [OF inv]) (use inv in \<open>auto simp: delete_recipient_def access_inv_def link_open_def del_where_def\<close>)
  then show ?thesis using inv by (simp add: removeRecipient_def transaction_def split: option.split)
qed

lemma access_del: "access_inv d \<Longrightarrow> access_inv (d\<lparr>access_sessions := del_where p (access_sessions d)\<rparr>)"
  by (rule access_inv_mono [of d]) (auto simp: access_inv_def link_open_def del_where_def)

lemma access_destroys:
  "access_inv d \<Longrightarrow> access_inv (destroyAccessSession R sid d)"
  "access_inv d \<Longrightarrow> access_inv (snd (destroyAccessSessionsForLink nw l d))"
  "access_inv d \<Longrightarrow> access_inv (snd (destroyAccessSessionsForCase c d))"
  "access_inv d \<Longrightarrow> access_inv (snd (purgeExpiredAccess nw d))"
  by (simp_all add: destroyAccessSession_def destroyAccessSessionsForLink_def destroyAccessSessionsForCase_def
      purgeExpiredAccess_def access_del access_inv_cong [OF access_frame(10)])

lemma access_revoked: "access_inv d \<Longrightarrow> access_inv (snd (destroyAccessSessionsForLink nw2 i (snd (revokeLink nw i d))))"
proof -
  assume inv: "access_inv d"
  let ?f = "\<lambda>l. l\<lparr>l_revoked_at := Some nw\<rparr>" and ?p = "\<lambda>l. l_id l = i \<and> l_revoked_at l = None"
  have ids: "map l_id (upd_where ?p ?f (links d)) = map l_id (links d)" by (rule map_upd_where_key) simp
  let ?d = "d\<lparr>links := upd_where ?p ?f (links d), access_sessions := del_where (\<lambda>s. as_link_id s = i) (access_sessions d)\<rparr>"
  have "access_inv ?d"
  proof (rule access_inv_mono [OF inv])
    fix l
    assume l: "l \<in> set (links d)" "link_open d l" "\<exists>s \<in> set (access_sessions ?d). as_link_id s = l_id l"
    then have "\<not> ?p l" by (auto simp: del_where_def)
    then have "l \<in> set (links ?d)" using l(1) by (auto simp: in_upd_where intro!: bexI [of _ l])
    then show "\<exists>l' \<in> set (links ?d). l_id l' = l_id l \<and> link_open ?d l'" using l(2) by (auto simp: link_open_def)
  qed (use inv in \<open>auto simp: ids access_inv_def del_where_def\<close>)
  then show ?thesis
    by (simp add: destroyAccessSessionsForLink_def revokeLink_def access_inv_cong [OF access_frame(10)])
qed

lemma access_createCase: "access_inv d \<Longrightarrow> access_inv (snd (createCase nw idb n ds d))"
proof -
  assume inv: "access_inv d"
  have "access_inv (d\<lparr>cases := cases d @ [c]\<rparr>)" if "\<not> has_case d (c_id c)" for c
    by (rule access_inv_mono [OF inv]) (use inv that in \<open>auto simp: access_inv_def link_open_def\<close>)
  then show ?thesis using inv by (simp add: createCase_def Let_def ins_case_def require_def)
qed

text \<open>Changing the row of the case with the id \<open>i\<close>, which is the only one\<close>

lemma access_updateCase:
  assumes inv: "access_inv d"
    and u: "\<And>c. getCase d i = Some c \<Longrightarrow> c_status c = CaseOpen \<Longrightarrow> st = CaseOpen \<or> (\<forall>s \<in> set (access_sessions d). \<not> link_of_case d i (as_link_id s))"
    and f: "\<And>c. c_id (f c) = c_id c" "\<And>c. c_status (f c) = st"
  shows "access_inv (d\<lparr>cases := upd_where (\<lambda>c. c_id c = i) f (cases d)\<rparr>)"
proof (rule access_inv_mono [OF inv])
  let ?d = "d\<lparr>cases := upd_where (\<lambda>c. c_id c = i) f (cases d)\<rparr>"
  have ids: "map c_id (cases ?d) = map c_id (cases d)" by (simp add: map_upd_where_key f)
  show "distinct (map c_id (cases ?d))" unfolding ids using inv by (simp add: access_inv_def)
  fix l
  assume l: "l \<in> set (links d)" "link_open d l" "\<exists>s \<in> set (access_sessions ?d). as_link_id s = l_id l"
  then obtain c where c: "c \<in> set (cases d)" "c_id c = l_case_id l" "c_status c = CaseOpen" "l_revoked_at l = None"
    by (auto simp: link_open_def)
  have "\<exists>c' \<in> set (cases ?d). c_id c' = l_case_id l \<and> c_status c' = CaseOpen"
  proof (cases "c_id c = i")
    case True
    have "getCase d i = Some c"
      using inv c(1) True by (simp add: getCase_def access_inv_def find_key_Some_iff)
    moreover from l(3) obtain s where "s \<in> set (access_sessions d)" "as_link_id s = l_id l" by auto
    moreover from this have "link_of_case d i (as_link_id s)" using l(1) c(2) True by (auto simp: link_of_case_def intro!: bexI [of _ l])
    ultimately have "st = CaseOpen" using u c(3) by blast
    moreover have "f c \<in> set (cases ?d)" using c(1) True by (auto simp: in_upd_where intro!: bexI [of _ c])
    ultimately show ?thesis using f c(2) by (intro bexI [of _ "f c"]) auto
  next
    case False
    then have "c \<in> set (cases ?d)" using c(1) by (auto simp: in_upd_where intro!: bexI [of _ c])
    then show ?thesis using c by auto
  qed
  then show "\<exists>l' \<in> set (links ?d). l_id l' = l_id l \<and> link_open ?d l'" using l(1) c(4) by (auto simp: link_open_def)
qed (use inv in \<open>auto simp: access_inv_def\<close>)

lemma access_editCase: "access_inv d \<Longrightarrow> access_inv (snd (updateCase nw i n ds None d))"
  by (auto simp: updateCase_def Let_def split: option.split intro: access_updateCase)

lemma access_reopen: "access_inv d \<Longrightarrow> access_inv (snd (updateCase nw i n ds (Some CaseOpen) d))"
  by (auto simp: updateCase_def Let_def split: option.split intro!: access_updateCase)

lemma access_close: "access_inv d \<Longrightarrow> access_inv (snd (destroyAccessSessionsForCase i (snd (updateCase nw i n ds (Some CaseClosed) d))))"
proof -
  assume inv: "access_inv d"
  let ?g = "\<lambda>d. d\<lparr>access_sessions := del_where (\<lambda>s. link_of_case d i (as_link_id s)) (access_sessions d)\<rparr>"
  have eq: "?g (d\<lparr>cases := cs\<rparr>) = (?g d)\<lparr>cases := cs\<rparr>" for cs by (simp add: link_of_case_def)
  have "access_inv (?g (d\<lparr>cases := upd_where (\<lambda>c. c_id c = i) f (cases d)\<rparr>))"
    if "\<And>c. c_id (f c) = c_id c" "\<And>c. c_status (f c) = CaseClosed" for f
    using access_updateCase [OF access_del [OF inv, of "\<lambda>s. link_of_case d i (as_link_id s)"], of i CaseClosed f] that
    unfolding eq by (auto simp: link_of_case_def del_where_def)
  then show ?thesis using inv access_del [OF inv]
    by (auto simp: destroyAccessSessionsForCase_def updateCase_def Let_def split: option.split)
qed

subsection \<open>A code is accepted\<close>

lemma access_grant:
  assumes inv: "access_inv d" and l: "l \<in> set (links d)" "l_id l = i" "link_open d l"
    and r: "opt_ref (\<lambda>j. \<exists>r \<in> set (link_recipients d). r_id r = j \<and> r_link_id r = i) rid"
  shows "access_inv (snd (createAccessSession R cfg nw sidb csrfb i rid ip d))"
proof -
  have "access_inv (d\<lparr>access_sessions := access_sessions d @ [s]\<rparr>)" if "as_link_id s = i" "as_recipient_id s = rid" for s
    using inv l r that
    by (auto simp: access_inv_def list_all_iff session_sound_def link_open_def)
  then show ?thesis using inv by (simp add: createAccessSession_def Let_def ins_access_def require_def)
qed

lemma access_grant_access:
  assumes inv: "access_inv d" and l: "l \<in> set (links d)" "l_id l = l_id (rl_link rl)" "link_open d l"
    and recs: "\<And>r. r \<in> set (rl_recipients rl) \<Longrightarrow> \<exists>r' \<in> set (link_recipients d). r_id r' = r_id r \<and> r_link_id r' = l_id (rl_link rl)"
  shows "access_inv (snd (grant_access R cfg nw sidb csrfb token req rl rid d))"
proof -
  define d2 where "d2 = (case recipient_by_id rl rid of Some r \<Rightarrow> recordRecipientOpen nw (r_id r) d | None \<Rightarrow> d)"
  have v: "access_view d2 = access_view d" by (simp add: d2_def access_frames split: option.split)
  have inv2: "access_inv d2" using inv access_inv_cong [OF v] by simp
  have l2: "\<exists>k \<in> set (links d2). l_id k = l_id (rl_link rl) \<and> link_open d2 k"
    using l unfolding open_link_view v by (subst open_link_view [symmetric]) auto
  have r2: "opt_ref (\<lambda>j. \<exists>r \<in> set (link_recipients d2). r_id r = j \<and> r_link_id r = l_id (rl_link rl))
      (map_option r_id (recipient_by_id rl rid))"
  proof (cases "recipient_by_id rl rid")
    case (Some r)
    then have "r \<in> set (rl_recipients rl)" by (auto simp: recipient_by_id_def dest: find_SomeD)
    from recs [OF this] have "(r_id r, l_id (rl_link rl)) \<in> set (fst (snd (snd (access_view d))))"
      by (subst recipient_view [symmetric]) auto
    then show ?thesis unfolding recipient_view v using Some by (simp add: opt_ref_def)
  qed (simp add: opt_ref_def)
  from l2 obtain k where k: "k \<in> set (links d2)" "l_id k = l_id (rl_link rl)" "link_open d2 k" by blast
  have "access_inv (snd (createAccessSession R cfg nw sidb csrfb (l_id (rl_link rl)) (map_option r_id (recipient_by_id rl rid))
      (rq_ip req) d2))"
    by (rule access_grant [OF inv2 k r2])
  then show ?thesis
    unfolding grant_access_def Let_def d2_def [symmetric]
    by (auto simp: access_inv_frames split: sum.split prod.split)
qed

lemma access_code: "access_inv d \<Longrightarrow> access_inv (snd (code_submitted R cfg dict nw sidb csrfb token req0 d))"
proof (cases "load R dict nw token req0 d")
  case (Inr p)
  assume inv: "access_inv d"
  obtain req rl where l: "load R dict nw token req0 d = Inr (req, rl)" using Inr by (cases p) simp
  note L = load_Inr [OF l]
  define d1 where "d1 = snd (verifyChallenge R cfg nw (l_id (rl_link rl)) (flow_of req) (codeFromBody (rq_body req)) d)"
  have v1: "access_view d1 = access_view d" by (simp add: d1_def access_verify)
  define d2 where "d2 = snd (registerOpen nw (l_id (rl_link rl)) d1)"
  have v2: "access_view d2 = access_view d" by (simp add: d2_def access_frames v1)
  have c: "rl_case rl \<in> set (cases d)" "c_id (rl_case rl) = l_case_id (rl_link rl)" "c_status (rl_case rl) = CaseOpen"
    "rl_link rl \<in> set (links d)" "l_revoked_at (rl_link rl) = None" "rl_recipients rl = listRecipients d (l_id (rl_link rl))"
    using resolveToken_SomeD [OF L(1)] L(3) by (auto simp: linkState_active_iff linkState_exhausted_iff)
  then have "\<exists>k \<in> set (links d). l_id k = l_id (rl_link rl) \<and> link_open d k" by (auto simp: link_open_def)
  then have "\<exists>k \<in> set (links d2). l_id k = l_id (rl_link rl) \<and> link_open d2 k"
    unfolding open_link_view v2 .
  then obtain k where k: "k \<in> set (links d2)" "l_id k = l_id (rl_link rl)" "link_open d2 k" by blast
  have recs: "\<exists>r' \<in> set (link_recipients d2). r_id r' = r_id r \<and> r_link_id r' = l_id (rl_link rl)"
    if "r \<in> set (rl_recipients rl)" for r
    unfolding recipient_view v2 using that c(6) by (subst recipient_view [symmetric]) (auto simp: listRecipients_def)
  have inv1: "access_inv d1" and inv2: "access_inv d2" using inv access_inv_cong [OF v1] access_inv_cong [OF v2] by simp_all
  note g = access_grant_access [OF inv2 k recs]
  obtain res where v: "verifyChallenge R cfg nw (l_id (rl_link rl)) (flow_of req) (codeFromBody (rq_body req)) d = (res, d1)"
    by (metis d1_def prod.collapse)
  obtain ok where r: "registerOpen nw (l_id (rl_link rl)) d1 = (ok, d2)" by (metis d2_def prod.collapse)
  show ?thesis
    using inv1 inv2 g by (cases res; cases ok) (simp_all add: code_submitted_def l Let_def v r access_inv_frames)
qed (simp add: code_submitted_def)

lemmas access_laws = access_createLink access_addRecipients access_removeRecipient access_revoked access_createCase
  access_editCase access_reopen access_close access_code access_destroys

interpretation delivery: server_invariant access_inv R cfg for R cfg
proof (unfold_locales, goal_cases)
  case (1 d' d)
  then show ?case using access_inv_cong [OF access_core] by blast
qed (simp_all add: access_inv_frames access_laws)

end
