(* ===== verification/PendingCodes.thy ===== *)
theory PendingCodes
  imports Steps
begin

section \<open>Pending codes\<close>

text \<open>A recipient has at most one code that can still be used, and it has attempts left.\<close>

definition attempts_left :: "Config \<Rightarrow> ChallengeRow \<Rightarrow> bool" where
  "attempts_left cfg c = (ch_consumed_at c = None \<longrightarrow> ch_attempts c < max 1 (maxCodeAttempts cfg))"

definition one_pending :: "ChallengeRow list \<Rightarrow> bool" where
  "one_pending cs = (\<forall>r. length (filter (pending_of r) cs) \<le> 1)"

definition challenge_inv :: "Config \<Rightarrow> db \<Rightarrow> bool" where
  "challenge_inv cfg d =
     (distinct (map ch_id (challenges d)) \<and> list_all (attempts_left cfg) (challenges d) \<and> one_pending (challenges d))"

lemma challenge_inv_cong: "challenges d' = challenges d \<Longrightarrow> challenge_inv cfg d' = challenge_inv cfg d"
  by (simp add: challenge_inv_def)

lemma filter_upd_length:
  "(\<And>c. p c \<Longrightarrow> q (g c) \<Longrightarrow> q c) \<Longrightarrow> length (filter q (upd_where p g cs)) \<le> length (filter q cs)"
  by (induction cs) (auto simp: upd_where_def)

lemma challenge_upd:
  assumes inv: "challenge_inv cfg d"
    and g: "\<And>c. ch_id (g c) = ch_id c" "\<And>c r. p c \<Longrightarrow> pending_of r (g c) \<Longrightarrow> pending_of r c"
      "\<And>c. p c \<Longrightarrow> attempts_left cfg (g c)"
  shows "challenge_inv cfg (d\<lparr>challenges := upd_where p g (challenges d)\<rparr>)"
proof -
  have "length (filter (pending_of r) (upd_where p g (challenges d))) \<le> 1" for r
    using filter_upd_length [of p "pending_of r" g "challenges d"] g(2) inv
    by (auto simp: challenge_inv_def one_pending_def intro: order_trans)
  then show ?thesis
    using inv g by (auto simp: challenge_inv_def one_pending_def list_all_iff in_upd_where map_upd_where_key)
qed

lemma challenge_consume: "challenge_inv cfg d \<Longrightarrow> challenge_inv cfg (set_challenge p (\<lambda>c. c\<lparr>ch_consumed_at := Some nw\<rparr>) d)"
  unfolding set_challenge_def by (rule challenge_upd) (auto simp: pending_of_def attempts_left_def)

lemma filter_del_length: "length (filter q (del_where p cs)) \<le> length (filter q cs)"
  by (induction cs) (auto simp: del_where_def)

lemma challenge_del: "challenge_inv cfg d \<Longrightarrow> challenge_inv cfg (d\<lparr>challenges := del_where p (challenges d)\<rparr>)"
proof -
  assume inv: "challenge_inv cfg d"
  then have "length (filter (pending_of r) (del_where p (challenges d))) \<le> 1" for r
    using filter_del_length [of "pending_of r" p "challenges d"]
    by (auto simp: challenge_inv_def one_pending_def intro: order_trans)
  then show ?thesis using inv
    by (auto simp: challenge_inv_def one_pending_def list_all_iff del_where_def distinct_map_filter)
qed

lemma challenge_verify: "challenge_inv cfg d \<Longrightarrow> challenge_inv cfg (snd (verifyChallenge R cfg nw l f code d))"
proof (cases "newest ch_created_at (filter (is_pending R nw l f) (challenges d))")
  case (Some row)
  assume inv: "challenge_inv cfg d"
  have same: "challenge_inv cfg (set_challenge (\<lambda>c. ch_id c = ch_id row) (\<lambda>c. c\<lparr>ch_attempts := k\<rparr>) d)"
    if "k < maxCodeAttempts cfg" for k
    unfolding set_challenge_def by (rule challenge_upd [OF inv]) (use that in \<open>auto simp: pending_of_def attempts_left_def\<close>)
  have used: "challenge_inv cfg (set_challenge (\<lambda>c. ch_id c = ch_id row) (\<lambda>c. c\<lparr>ch_attempts := k, ch_consumed_at := Some nw\<rparr>) d)" for k
    unfolding set_challenge_def by (rule challenge_upd [OF inv]) (auto simp: pending_of_def attempts_left_def)
  show ?thesis using challenge_consume [OF inv] same used by (simp add: verifyChallenge_def Some Let_def)
qed (simp add: verifyChallenge_def)

lemma challenge_create: "challenge_inv cfg d \<Longrightarrow> challenge_inv cfg (snd (createChallenge R cfg nw codeb idb salt l rid f ip d))"
proof -
  assume inv: "challenge_inv cfg d"
  obtain r d' where e: "createChallenge R cfg nw codeb idb salt l rid f ip d = (r, d')" by fastforce
  then have "challenge_inv cfg d'"
  proof (rule createChallenge_cases)
    fix code
    assume fresh: "newId ''ch'' idb \<notin> ch_id ` set (challenges d)"
      and d': "d' = d\<lparr>challenges := consumed nw rid (challenges d) @ [new_challenge R cfg nw idb salt l rid f ip code]\<rparr>"
    let ?d = "d\<lparr>challenges := consumed nw rid (challenges d)\<rparr>"
    have inv1: "challenge_inv cfg ?d"
      by (rule challenge_upd [OF inv]) (auto simp: pending_of_def attempts_left_def)
    have ids: "map ch_id (consumed nw rid (challenges d)) = map ch_id (challenges d)"
      by (rule map_upd_where_key) simp
    have none: "filter (pending_of rid) (consumed nw rid (challenges d)) = []"
      by (auto simp: filter_empty_conv in_upd_where pending_of_def)
    have "length (filter (pending_of j) (consumed nw rid (challenges d) @ [new_challenge R cfg nw idb salt l rid f ip code])) \<le> 1" for j
      using inv1 none by (cases "j = rid") (auto simp: challenge_inv_def one_pending_def pending_of_def)
    moreover have "ch_id ` set (consumed nw rid (challenges d)) = ch_id ` set (challenges d)"
      unfolding list.set_map [symmetric] ids ..
    ultimately show ?thesis
      using inv1 fresh by (simp add: d' challenge_inv_def one_pending_def attempts_left_def list_all_iff image_iff)
  qed (use inv in simp_all)
  then show ?thesis by (simp add: e)
qed

text \<open>The operations that leave the challenges alone\<close>

lemma same_challenges:
  "challenges (audit nw ev d) = challenges d" "challenges (touchLink nw i d) = challenges d"
  "challenges (snd (rotateLinkToken R cfg tokb i d)) = challenges d"
  "challenges (destroyAccessSession R sid d) = challenges d"
  "challenges (snd (destroyAccessSessionsForCase i d)) = challenges d"
  "challenges (snd (createAdmin R nw idb salt u pw r b d)) = challenges d"
  "challenges (snd (setUserRole actor i r d)) = challenges d"
  "challenges (snd (setUserDisabled nw actor i bb d)) = challenges d"
  "challenges (snd (deleteUser actor i d)) = challenges d"
  "challenges (snd (createCase nw idb n ds d)) = challenges d" "challenges (snd (updateCase nw i nm ds st d)) = challenges d"
  by (simp_all add: audit_def touchLink_def rotateLinkToken_def destroyAccessSession_def destroyAccessSessionsForCase_def
      createAdmin_def ins_admin_def require_def Let_def setUserRole_def setUserDisabled_def deleteUser_def
      transaction_def set_admin_def delete_sessions_def delete_admin_def createCase_def ins_case_def updateCase_def
      split: sum.split prod.split option.split)

lemma same_challenges_links:
  "challenges (snd (insertRecipients nw l ids rs d)) = challenges d"
  using insertRecipients_frame [of nw l ids rs d] by (cases "insertRecipients nw l ids rs d") auto

interpretation challenge_db: db_invariant "challenge_inv cfg" for cfg .

lemma challenge_links:
  "challenge_inv c d \<Longrightarrow> challenge_inv c (snd (insertRecipients nw l ids rs d))"
  "ins_link k d = Inr d' \<Longrightarrow> challenge_inv c d \<Longrightarrow> challenge_inv c d'"
  by (simp add: challenge_inv_def same_challenges_links) (auto simp: ins_link_def challenge_inv_def)

lemma challenge_createLink: "challenge_inv c d \<Longrightarrow> challenge_inv c (snd (createLink R cfg nw tokb idb ids inp d))"
  unfolding createLink_def
  by (intro challenge_db.keeps_flow challenge_db.keeps_transaction challenge_links(1);
      (assumption | (erule challenge_links(2), assumption)))

lemma challenge_addRecipients: "challenge_inv c d \<Longrightarrow> challenge_inv c (snd (addRecipients R nw ids l rs d))"
  unfolding addRecipients_def
  by (intro challenge_db.keeps_flow challenge_db.keeps_transaction)
    (simp_all add: challenge_inv_cong [OF same_challenges_links])

lemma challenge_removeRecipient: "challenge_inv c d \<Longrightarrow> challenge_inv c (snd (removeRecipient l i d))"
proof -
  assume inv: "challenge_inv c d"
  have "challenge_inv c (delete_recipient i d)"
    using challenge_del [OF inv] by (simp add: delete_recipient_def challenge_inv_def)
  then show ?thesis using inv by (simp add: removeRecipient_def transaction_def split: option.split)
qed

lemma challenge_destroyLink: "challenge_inv c d \<Longrightarrow> challenge_inv c (snd (destroyAccessSessionsForLink nw l d))"
  using challenge_consume [where nw = nw and p = "\<lambda>c. ch_link_id c = l \<and> ch_consumed_at c = None", of c d]
  by (simp add: destroyAccessSessionsForLink_def set_challenge_def challenge_inv_def)

lemma challenge_revoked:
  "challenge_inv c d \<Longrightarrow> challenge_inv c (snd (destroyAccessSessionsForLink nw2 i (snd (revokeLink nw i d))))"
  by (rule challenge_destroyLink) (simp add: revokeLink_def challenge_inv_def)

lemma challenge_purge: "challenge_inv c d \<Longrightarrow> challenge_inv c (snd (purgeExpiredAccess nw d))"
  using challenge_del [of c d "\<lambda>c. ch_created_at c + HOUR_MS \<le> nw"] by (simp add: purgeExpiredAccess_def challenge_inv_def)

lemma challenge_opens:
  "challenge_inv c d \<Longrightarrow> challenge_inv c (snd (registerOpen nw i d))"
  "challenge_inv c d \<Longrightarrow> challenge_inv c (audit nw ev d)"
  "challenge_inv c d \<Longrightarrow> challenge_inv c (recordRecipientOpen nw i d)"
  "challenge_inv c d \<Longrightarrow> challenge_inv c (snd (createAccessSession R cfg nw sidb csrfb l rid ip d))"
  by (simp_all add: registerOpen_def audit_def recordRecipientOpen_def createAccessSession_def ins_access_def require_def
      Let_def challenge_inv_def)

lemma challenge_code: "challenge_inv cfg d \<Longrightarrow> challenge_inv cfg (snd (code_submitted R cfg dict nw sidb csrfb token req d))"
  unfolding code_submitted_def grant_access_def
  by (intro challenge_db.keeps_flow challenge_verify challenge_opens)

lemmas challenge_laws = challenge_consume challenge_create challenge_createLink challenge_addRecipients
  challenge_removeRecipient challenge_revoked challenge_purge challenge_code challenge_destroyLink

lemma challenge_tables:
  "challenge_inv cfg (d\<lparr>items := x\<rparr>) = challenge_inv cfg d"
  "challenge_inv cfg (d\<lparr>case_members := y\<rparr>) = challenge_inv cfg d"
  by (rule challenge_inv_cong, simp)+

interpretation challenges: server_invariant "challenge_inv cfg" R cfg for R cfg
proof (unfold_locales, goal_cases)
  case (1 d' d)
  then show ?case using challenge_inv_cong [of d' d] by (simp add: core_def)
qed (simp_all add: challenge_tables same_challenges [THEN challenge_inv_cong] challenge_laws)

end
