(* ===== verification/ActiveAdmins.thy ===== *)
theory ActiveAdmins
  imports Steps
begin

section \<open>Accounts\<close>

text \<open>The ids are distinct and an active administrator remains.\<close>

definition admin_inv :: "db \<Rightarrow> bool" where
  "admin_inv d = (distinct (map a_id (admins d)) \<and> list_ex active_admin (admins d))"

lemma admin_key_iff: "admin_inv d \<longleftrightarrow> distinct (map fst (map admin_key (admins d)))
    \<and> list_ex (\<lambda>(i, r, x). r = RAdmin \<and> x = None) (map admin_key (admins d))"
  by (simp add: admin_inv_def admin_key_def active_admin_def comp_def list_ex_iff)

lemma admin_inv_cong: "admins d' = admins d \<Longrightarrow> admin_inv d' = admin_inv d"
  by (simp add: admin_inv_def)

lemma same_admins:
  "admins (audit nw ev d) = admins d" "admins (touchLink nw i d) = admins d"
  "admins (snd (rotateLinkToken R cfg tokb i d)) = admins d"
  "admins (destroyAccessSession R sid d) = admins d"
  "admins (snd (destroyAccessSessionsForCase i d)) = admins d"
  "admins (snd (destroyAccessSessionsForLink nw i d)) = admins d"
  "admins (snd (revokeLink nw i d)) = admins d" "admins (set_challenge p f d) = admins d"
  "admins (snd (purgeExpiredAccess nw d)) = admins d"
  "admins (snd (createCase nw idb n ds d)) = admins d" "admins (snd (updateCase nw i nm ds st d)) = admins d"
  "admins (snd (registerOpen nw i d)) = admins d" "admins (recordRecipientOpen nw i d) = admins d"
  "admins (snd (createAccessSession R cfg nw sidb csrfb l rid ip d)) = admins d"
  "admins (snd (verifyChallenge R cfg nw l fl code d)) = admins d"
  "admins (snd (removeRecipient l i d)) = admins d"
  by (simp_all add: audit_def touchLink_def rotateLinkToken_def destroyAccessSession_def destroyAccessSessionsForCase_def
      destroyAccessSessionsForLink_def revokeLink_def set_challenge_def purgeExpiredAccess_def createCase_def ins_case_def
      updateCase_def require_def Let_def registerOpen_def recordRecipientOpen_def createAccessSession_def ins_access_def
      verifyChallenge_def removeRecipient_def transaction_def delete_recipient_def
      split: sum.split prod.split option.split)

lemma same_admins_links: "admins (snd (insertRecipients nw l ids rs d)) = admins d"
  using insertRecipients_frame [of nw l ids rs d] by (cases "insertRecipients nw l ids rs d") auto

lemma same_admins_challenge: "admins (snd (createChallenge R cfg nw codeb idb salt l rid f ip d)) = admins d"
proof -
  obtain r d' where e: "createChallenge R cfg nw codeb idb salt l rid f ip d = (r, d')" by fastforce
  then have "admins d' = admins d" by (rule createChallenge_cases) simp_all
  then show ?thesis by (simp add: e)
qed

lemmas admin_frames = same_admins [THEN admin_inv_cong] same_admins_links [THEN admin_inv_cong]
  same_admins_challenge [THEN admin_inv_cong]

interpretation admin_db: db_invariant admin_inv .

lemma admin_links:
  "admin_inv d \<Longrightarrow> admin_inv (snd (insertRecipients nw l ids rs d))"
  "ins_link k d = Inr d' \<Longrightarrow> admin_inv d \<Longrightarrow> admin_inv d'"
  by (simp add: admin_frames) (auto simp: ins_link_def admin_inv_def)

lemma admin_createLink: "admin_inv d \<Longrightarrow> admin_inv (snd (createLink R cfg nw tokb idb ids inp d))"
  unfolding createLink_def
  by (intro admin_db.keeps_flow admin_db.keeps_transaction admin_links(1); (assumption | (erule admin_links(2), assumption)))

lemma admin_addRecipients: "admin_inv d \<Longrightarrow> admin_inv (snd (addRecipients R nw ids l rs d))"
  unfolding addRecipients_def
  by (intro admin_db.keeps_flow admin_db.keeps_transaction) (simp_all add: admin_frames)

lemma admin_code: "admin_inv d \<Longrightarrow> admin_inv (snd (code_submitted R cfg dict nw sidb csrfb token req d))"
  unfolding code_submitted_def grant_access_def
  by (intro admin_db.keeps_flow) (simp_all add: admin_frames split: option.split)

lemma admin_create: "admin_inv d \<Longrightarrow> admin_inv (snd (createAdmin R nw idb salt u pw r b d))"
  by (simp add: createAdmin_def Let_def ins_admin_def require_def admin_inv_def)

text \<open>The account behind \<open>requireUser\<close> is the row with the id, which is the only one.\<close>

lemma requireUser_row:
  assumes "requireUser d actor i = Inr u" "distinct (map a_id (admins d))"
  obtains a where "a \<in> set (admins d)" "a_id a = i" "u = user_summary d a"
proof -
  have "u \<in> set (listUsers d)" "us_id u = i"
    using assms(1) by (auto simp: requireUser_def getUser_def split: option.splits if_splits dest: find_SomeD)
  then show ?thesis using that by (auto simp: listUsers_def user_summary_def)
qed

lemma admin_last:
  assumes inv: "admin_inv d" and u: "requireUser d actor i = Inr u"
    and ok: "us_role u = RAdmin \<longrightarrow> activeAdminsOtherThan d i \<noteq> 0"
  shows "\<exists>a \<in> set (admins d). active_admin a \<and> a_id a \<noteq> i"
proof -
  from inv have "distinct (map a_id (admins d))" by (simp add: admin_inv_def)
  from requireUser_row [OF u this] obtain a where a: "a \<in> set (admins d)" "a_id a = i" "u = user_summary d a" .
  show ?thesis
  proof (cases "us_role u = RAdmin")
    case True
    then show ?thesis using ok by (auto simp: activeAdminsOtherThan_def n_where_0_iff)
  next
    case False
    from inv obtain b where b: "b \<in> set (admins d)" "active_admin b" by (auto simp: admin_inv_def list_ex_iff)
    have "a_id b \<noteq> i"
      using distinct_key_unique [of a_id "admins d" b a] inv a b False
      by (auto simp: admin_inv_def user_summary_def active_admin_def)
    then show ?thesis using b by blast
  qed
qed

lemma admin_keep:
  assumes inv: "admin_inv d" and f: "\<And>a. a_id (f a) = a_id a"
    and ok: "(\<exists>a \<in> set (admins d). active_admin a \<and> a_id a \<noteq> i) \<or> (\<forall>a. active_admin a \<longrightarrow> active_admin (f a))"
  shows "admin_inv (set_admin (\<lambda>a. a_id a = i) f d)"
proof -
  from inv ok obtain a where a: "a \<in> set (admins d)" "active_admin (if a_id a = i then f a else a)"
    by (auto simp: admin_inv_def list_ex_iff)
  moreover from a(1) have "(if a_id a = i then f a else a) \<in> set (upd_where (\<lambda>a. a_id a = i) f (admins d))"
    unfolding in_upd_where by blast
  ultimately have "list_ex active_admin (upd_where (\<lambda>a. a_id a = i) f (admins d))" unfolding list_ex_iff by blast
  then show ?thesis using inv f by (simp add: admin_inv_def set_admin_def map_upd_where_key)
qed

lemma admin_setRole: "admin_inv d \<Longrightarrow> admin_inv (snd (setUserRole actor i r d))"
  unfolding setUserRole_def
proof (rule admin_db.keeps_transaction)
  fix d
  assume inv: "admin_inv d"
  have "(\<exists>a \<in> set (admins d). active_admin a \<and> a_id a \<noteq> i) \<or> (\<forall>a. active_admin a \<longrightarrow> active_admin (a\<lparr>a_role := r\<rparr>))"
    if "requireUser d actor i = Inr u" "\<not> (us_role u = RAdmin \<and> r \<noteq> RAdmin \<and> activeAdminsOtherThan d i = 0)" for u
    using admin_last [OF inv that(1)] that(2) by (cases "r = RAdmin") (auto simp: active_admin_def)
  then show "admin_inv (snd (case requireUser d actor i of
         Inl e \<Rightarrow> (Inl e, d)
       | Inr user \<Rightarrow>
           (if us_role user = RAdmin \<and> r \<noteq> RAdmin \<and> activeAdminsOtherThan d i = 0
            then (Inl (UserError ''users.last_admin'' []), d)
            else (Inr (user\<lparr>us_role := r\<rparr>), set_admin (\<lambda>a. a_id a = i) (\<lambda>a. a\<lparr>a_role := r\<rparr>) d))))"
    using inv by (auto split: sum.split intro!: admin_keep)
qed

lemma admin_setDisabled: "admin_inv d \<Longrightarrow> admin_inv (snd (setUserDisabled nw actor i b d))"
  unfolding setUserDisabled_def
proof (rule admin_db.keeps_transaction)
  fix d
  assume inv: "admin_inv d"
  have set: "admin_inv (set_admin (\<lambda>a. a_id a = i) (\<lambda>a. a\<lparr>a_disabled_at := if b then Some nw else None\<rparr>) d)"
    if "requireUser d actor i = Inr u" "\<not> (b \<and> us_role u = RAdmin \<and> activeAdminsOtherThan d i = 0)" for u
  proof (rule admin_keep [OF inv])
    show "(\<exists>a \<in> set (admins d). active_admin a \<and> a_id a \<noteq> i)
        \<or> (\<forall>a. active_admin a \<longrightarrow> active_admin (a\<lparr>a_disabled_at := if b then Some nw else None\<rparr>))"
      using admin_last [OF inv that(1)] that(2) by (cases b) (auto simp: active_admin_def)
  qed simp
  have del: "admin_inv (delete_sessions p e) = admin_inv e" for p e
    by (rule admin_inv_cong) (simp add: delete_sessions_def Let_def)
  show "admin_inv (snd (case requireUser d actor i of
         Inl e \<Rightarrow> (Inl e, d)
       | Inr user \<Rightarrow>
           (if b \<and> us_role user = RAdmin \<and> activeAdminsOtherThan d i = 0
            then (Inl (UserError ''users.last_admin'' []), d)
            else (let at' = (if b then Some nw else None);
                      d1 = set_admin (\<lambda>a. a_id a = i) (\<lambda>a. a\<lparr>a_disabled_at := at'\<rparr>) d;
                      d2 = (if b then delete_sessions (\<lambda>s. s_admin_id s = i) d1 else d1)
                  in (Inr (user\<lparr>us_disabled_at := at'\<rparr>), d2)))))"
    using inv set by (cases b) (auto simp: Let_def del split: sum.split)
qed

lemma admin_delete: "admin_inv d \<Longrightarrow> admin_inv (snd (deleteUser actor i d))"
  unfolding deleteUser_def
proof (rule admin_db.keeps_transaction)
  fix d
  assume inv: "admin_inv d"
  have "admin_inv (delete_admin i d)"
    if "requireUser d actor i = Inr u" "\<not> (us_role u = RAdmin \<and> activeAdminsOtherThan d i = 0)" for u
    using admin_last [OF inv that(1)] that(2) inv
    by (auto simp: admin_inv_def delete_admin_def delete_sessions_def Let_def del_where_def list_ex_iff distinct_map_filter)
  then show "admin_inv (snd (case requireUser d actor i of
         Inl e \<Rightarrow> (Inl e, d)
       | Inr user \<Rightarrow>
           (if us_role user = RAdmin \<and> activeAdminsOtherThan d i = 0
            then (Inl (UserError ''users.last_admin'' []), d)
            else (Inr user, delete_admin i d))))"
    using inv by (auto split: sum.split)
qed

lemmas admin_laws = admin_createLink admin_addRecipients admin_code admin_create admin_setRole admin_setDisabled admin_delete

lemma admin_tables: "admin_inv (d\<lparr>items := x\<rparr>) = admin_inv d" "admin_inv (d\<lparr>case_members := y\<rparr>) = admin_inv d"
  by (simp_all add: admin_inv_def)

interpretation active: server_invariant admin_inv R cfg for R cfg
proof (unfold_locales, goal_cases)
  case (1 d' d)
  then show ?case by (simp add: admin_key_iff core_def)
qed (simp_all add: admin_tables admin_frames admin_laws)

end
