(* ===== verification/GrantedSessions.thy ===== *)
theory GrantedSessions
  imports OpeningCounts
begin

section \<open>Sessions and the audit log\<close>

text \<open>Behind every session of a recipient there is an entry of the audit log that granted it.\<close>

definition granted_inv :: "db \<Rightarrow> bool" where
  "granted_inv d = list_all (\<lambda>s. 0 < granted d (as_link_id s)) (access_sessions d)"

lemma granted_mono:
  assumes "granted_inv d" "set (access_sessions d') \<subseteq> set (access_sessions d)" "\<And>i. granted d i \<le> granted d' i"
  shows "granted_inv d'"
  unfolding granted_inv_def list_all_iff
proof
  fix s
  assume "s \<in> set (access_sessions d')"
  then have "0 < granted d (as_link_id s)" using assms(1,2) by (auto simp: granted_inv_def list_all_iff)
  then show "0 < granted d' (as_link_id s)" using assms(3) [of "as_link_id s"] by simp
qed

lemma granted_audit: "granted d i \<le> granted (audit nw ev d) i"
  by (simp add: granted_def audit_def n_where_def)

definition grant_view :: "db \<Rightarrow> AccessRow list \<times> AuditRow list" where
  "grant_view d = (access_sessions d, audit_log d)"

lemma granted_cong: "grant_view d' = grant_view d \<Longrightarrow> granted_inv d' = granted_inv d"
  by (simp add: grant_view_def granted_inv_def granted_def)

lemma grant_frames:
  "grant_view (touchLink nw i d) = grant_view d" "grant_view (snd (rotateLinkToken R cfg tokb i d)) = grant_view d"
  "grant_view (set_challenge p f d) = grant_view d" "grant_view (snd (createAdmin R nw idb salt u pw r b d)) = grant_view d"
  "grant_view (snd (setUserRole actor i r d)) = grant_view d"
  "grant_view (snd (setUserDisabled nw actor i bb d)) = grant_view d"
  "grant_view (snd (deleteUser actor i d)) = grant_view d"
  "grant_view (snd (createCase nw idb n ds d)) = grant_view d" "grant_view (snd (updateCase nw i nm ds st d)) = grant_view d"
  "grant_view (snd (registerOpen nw i d)) = grant_view d" "grant_view (recordRecipientOpen nw i d) = grant_view d"
  "grant_view (snd (verifyChallenge R cfg nw l fl code d)) = grant_view d"
  by (simp_all add: grant_view_def touchLink_def rotateLinkToken_def set_challenge_def createAdmin_def ins_admin_def
      require_def Let_def setUserRole_def setUserDisabled_def deleteUser_def transaction_def set_admin_def
      delete_sessions_def delete_admin_def createCase_def ins_case_def updateCase_def registerOpen_def
      recordRecipientOpen_def verifyChallenge_def split: sum.split prod.split option.split)

lemma grant_recipients: "grant_view (snd (insertRecipients nw l ids rs d)) = grant_view d"
  using insertRecipients_frame [of nw l ids rs d] by (cases "insertRecipients nw l ids rs d") (auto simp: grant_view_def)

lemma grant_challenge: "grant_view (snd (createChallenge R cfg nw codeb idb salt l rid f ip d)) = grant_view d"
proof -
  obtain r d' where e: "createChallenge R cfg nw codeb idb salt l rid f ip d = (r, d')" by fastforce
  then have "grant_view d' = grant_view d" by (rule createChallenge_cases) (simp_all add: grant_view_def)
  then show ?thesis by (simp add: e)
qed

lemmas granted_frames = grant_frames [THEN granted_cong] grant_recipients [THEN granted_cong] grant_challenge [THEN granted_cong]

interpretation granted_db: db_invariant granted_inv .

lemma granted_links:
  "granted_inv d \<Longrightarrow> granted_inv (snd (insertRecipients nw l ids rs d))"
  "ins_link k d = Inr d' \<Longrightarrow> granted_inv d \<Longrightarrow> granted_inv d'"
  by (simp add: granted_frames) (auto simp: ins_link_def granted_inv_def granted_def)

lemma granted_createLink: "granted_inv d \<Longrightarrow> granted_inv (snd (createLink R cfg nw tokb idb ids inp d))"
  unfolding createLink_def
  by (intro granted_db.keeps_flow granted_db.keeps_transaction granted_links(1);
      (assumption | (erule granted_links(2), assumption)))

lemma granted_addRecipients: "granted_inv d \<Longrightarrow> granted_inv (snd (addRecipients R nw ids l rs d))"
  unfolding addRecipients_def
  by (intro granted_db.keeps_flow granted_db.keeps_transaction) (simp_all add: granted_frames)

lemma granted_fewer:
  "granted_inv d \<Longrightarrow> granted_inv (destroyAccessSession R sid d)"
  "granted_inv d \<Longrightarrow> granted_inv (snd (destroyAccessSessionsForLink nw i d))"
  "granted_inv d \<Longrightarrow> granted_inv (snd (destroyAccessSessionsForCase i d))"
  "granted_inv d \<Longrightarrow> granted_inv (snd (purgeExpiredAccess nw d))"
  "granted_inv d \<Longrightarrow> granted_inv (snd (removeRecipient l i d))"
  "granted_inv d \<Longrightarrow> granted_inv (snd (destroyAccessSessionsForLink nw2 i (snd (revokeLink nw i d))))"
  by (simp_all add: granted_inv_def granted_def destroyAccessSession_def destroyAccessSessionsForLink_def
      destroyAccessSessionsForCase_def purgeExpiredAccess_def removeRecipient_def transaction_def delete_recipient_def
      revokeLink_def del_where_def list_all_iff split: option.split)

lemma granted_grant:
  assumes inv: "granted_inv d"
  shows "granted_inv (snd (grant_access R cfg nw sidb csrfb token req rl rid d))"
proof -
  let ?i = "l_id (rl_link rl)" and ?rec = "recipient_by_id rl rid"
  define d2 where "d2 = (case ?rec of Some r \<Rightarrow> recordRecipientOpen nw (r_id r) d | None \<Rightarrow> d)"
  define c where "c = createAccessSession R cfg nw sidb csrfb ?i (map_option r_id ?rec) (rq_ip req) d2"
  have inv2: "granted_inv d2" using inv by (simp add: d2_def granted_frames split: option.split)
  have c_set: "set (access_sessions (snd c)) \<subseteq> insert s (set (access_sessions d2))"
    if "s = \<lparr>as_id_hash = rt_sha256 R (newSessionId sidb), as_link_id = ?i, as_recipient_id = map_option r_id ?rec,
      as_csrf_token = newCsrfToken csrfb, as_created_at = nw, as_expires_at = nw + accessSessionTtlMs cfg, as_ip = rq_ip req\<rparr>" for s
    using that by (auto simp: c_def createAccessSession_def ins_access_def require_def Let_def split: if_splits)
  have gr: "granted (snd c) = granted d2"
    by (simp add: fun_eq_iff granted_def c_def createAccessSession_def ins_access_def require_def Let_def)
  have fails: "snd c = d2" if "fst c = Inl e" for e
    using that by (auto simp: c_def createAccessSession_def ins_access_def require_def Let_def split: if_splits)
  show ?thesis
  proof (cases "fst c")
    case (Inl e)
    then have "snd (grant_access R cfg nw sidb csrfb token req rl rid d) = d2"
      using fails [OF Inl] by (cases c) (simp add: grant_access_def Let_def flip: d2_def, simp flip: c_def)
    then show ?thesis using inv2 by simp
  next
    case (Inr p)
    obtain ev where ev: "snd (grant_access R cfg nw sidb csrfb token req rl rid d) = audit nw ev (snd c)"
      "ev_action ev = ''access.granted''" "ev_linkId ev = Some ?i"
      using Inr by (cases c; cases p)
        (simp add: grant_access_def Let_def flip: d2_def, simp flip: c_def, simp add: recipient_event_def)
    have "0 < granted (audit nw ev (snd c)) ?i"
      using ev by (auto simp: granted_def audit_def n_where_def is_grant_def)
    moreover have "0 < granted (audit nw ev (snd c)) (as_link_id s)" if "s \<in> set (access_sessions d2)" for s
      using inv2 that granted_audit [of "snd c" "as_link_id s" nw ev] gr by (fastforce simp: granted_inv_def list_all_iff)
    ultimately have "granted_inv (audit nw ev (snd c))"
      using c_set [OF refl] by (fastforce simp: granted_inv_def list_all_iff audit_def)
    then show ?thesis by (simp add: ev)
  qed
qed

lemma granted_log: "granted_inv d \<Longrightarrow> granted_inv (audit nw ev d)"
  by (rule granted_mono [OF _ _ granted_audit]) (simp_all add: audit_def)

lemma granted_code: "granted_inv d \<Longrightarrow> granted_inv (snd (code_submitted R cfg dict nw sidb csrfb token req d))"
  unfolding code_submitted_def
  by (intro granted_db.keeps_flow granted_grant granted_log; (assumption | simp add: granted_frames))

lemma granted_tables: "granted_inv (d\<lparr>items := x\<rparr>) = granted_inv d" "granted_inv (d\<lparr>case_members := y\<rparr>) = granted_inv d"
  by (simp_all add: granted_inv_def granted_def)

interpretation granted: server_invariant granted_inv R cfg for R cfg
proof (unfold_locales, goal_cases)
  case (1 d' d)
  then show ?case using granted_cong [of d' d] by (simp add: core_def grant_view_def)
qed (simp_all add: granted_tables granted_frames granted_createLink granted_addRecipients granted_fewer granted_code granted_log)

end
