(* ===== verification/Scenario.thy ===== *)
theory Scenario
  imports Steps
begin

section \<open>An installation from its first account to an open delivery\<close>

text \<open>
  The commands and requests below run through the routes one after the other: an account is
  created, its owner signs in, opens a case and issues a link for one recipient with a cap of
  one opening; the recipient asks for a code and types it. The last world is the concrete
  reachable state the properties of the server are applied to.
\<close>

definition sample_server :: server where
  "sample_server = \<lparr>sv_runtime = sample_runtime, sv_cfg = sample_config, sv_dict = (\<lambda>_. Map.empty), sv_logo = None,
     sv_disposition = id, sv_parseDate = (\<lambda>_. None), sv_tusRemove = (\<lambda>_ _. None)\<rparr>"

definition sample_form :: "string \<Rightarrow> (string \<times> bval) list \<Rightarrow> Request" where
  "sample_form c b = sample_request\<lparr>rq_method := ''POST'', rq_cookie := Some c, rq_csrfHeader := Some (base64url (replicate 24 0)),
     rq_body := b\<rparr>"

definition panel_cookie :: string where "panel_cookie = ''outletbox_sid='' @ base64url (replicate 32 0)"

definition sample_rnd :: session_rnd where
  "sample_rnd = \<lparr>sr_sid = replicate 32 0, sr_csrf = replicate 24 0, sr_public = replicate 12 0\<rparr>"

definition world_installed :: world where
  "world_installed = snd (cli sample_server 10 (replicate 12 1) (replicate 16 7) (CreateAdmin ''root'' ''correct horse'') new_world)"

definition world_signed_in :: world where
  "world_signed_in = snd (panel_route sample_server 20 [] (ALogin [] sample_rnd)
     (sample_form [] [(''username'', BText ''root''), (''password'', BText ''correct horse'')]) world_installed)"

definition world_case :: world where
  "world_case = snd (panel_route sample_server 30 [] (ACases (replicate 12 0)) (sample_form panel_cookie [(''name'', BText ''Case'')]) world_signed_in)"

definition world_link :: world where
  "world_link = snd (panel_route sample_server 40 [] (ALinks \<lparr>lr_token = replicate 32 1, lr_id = replicate 12 0, lr_recipients = [replicate 12 0]\<rparr>)
     ((sample_form panel_cookie [(''recipients'', BText ''a@b.cd''), (''max_opens'', BText ''1'')])
        \<lparr>rq_params := [(''id'', ''c_AAAAAAAAAAAAAAAA'')]\<rparr>) world_case)"


definition recipient_form :: "(string \<times> bval) list \<Rightarrow> Request" where
  "recipient_form b = sample_request\<lparr>rq_method := ''POST'', rq_cookie := Some ''outletbox_flow=flow'',
     rq_body := (''_flow'', BText ''flow'') # b\<rparr>"

definition delivery_token :: string where "delivery_token = newToken (replicate 32 1)"

definition world_asked :: world where
  "world_asked = snd (deliver_route sample_server 50 [] delivery_token
     (CEmail \<lparr>cr_code = sample_blocks, cr_id = replicate 12 0, cr_salt = replicate 16 3\<rparr>)
     (recipient_form [(''email'', BText ''a@b.cd'')]) world_link)"

definition world_open :: world where
  "world_open = snd (deliver_route sample_server 70 [] delivery_token (CCode (replicate 32 5) (replicate 24 6))
     (recipient_form [(''code'', BText ''123456'')]) world_asked)"

lemmas worlds = world_installed_def world_signed_in_def world_case_def world_link_def world_asked_def world_open_def

lemma step_deliver: "server_step S w (snd (deliver_route S nw fb tok call req w))"
  by (rule deliver_request [OF prod.collapse [symmetric]])

lemma step_panel: "server_step S w (snd (panel_route S nw o24 call req w))"
  by (rule panel_request [OF prod.collapse [symmetric]])

lemma step_command: "server_step S w (snd (cli S nw idb salt cmd w))"
  by (rule command_run [OF prod.collapse [symmetric]])

lemma scenario_steps:
  "server_step sample_server new_world world_installed" "server_step sample_server world_installed world_signed_in"
  "server_step sample_server world_signed_in world_case" "server_step sample_server world_case world_link"
  "server_step sample_server world_link world_asked" "server_step sample_server world_asked world_open"
  unfolding worlds by (rule step_command step_panel step_deliver)+

lemma scenario_after_install: "(server_step sample_server)\<^sup>*\<^sup>* world_installed world_open"
  using scenario_steps(2-6) by (meson rtranclp.rtrancl_into_rtrancl rtranclp.rtrancl_refl)

lemma scenario_reachable: "reachable sample_server world_asked" "reachable sample_server world_open"
  using scenario_steps installed stepped by metis+

text \<open>The database after a step does not depend on the text of the mail, which need not be computed here.\<close>

lemma email_start_db:
  "snd (email_start R cfg dict logo nw rnd token req0 d) =
     (case load R dict nw token req0 d of
        Inl r \<Rightarrow> d
      | Inr (req, resolved) \<Rightarrow>
          (if \<not> isValidEmail (typed_email R req) then d
           else (case findRecipient R (rl_recipients resolved) (typed_email R req) of
                   None \<Rightarrow> audit nw (recipient_event ''access.email_mismatch'' None resolved req []) d
                 | Some recipient \<Rightarrow>
                     (case createChallenge R cfg nw (cr_code rnd) (cr_id rnd) (cr_salt rnd) (l_id (rl_link resolved))
                             (r_id recipient) (flow_of req) (rq_ip req) d of
                        (r, d1) \<Rightarrow> (case r of Inl (ChallengeRateError n) \<Rightarrow>
                            audit nw (recipient_event ''access.rate_limited'' (Some (r_id recipient)) resolved req
                              [(''email'', r_email recipient)]) d1
                          | _ \<Rightarrow> d1)))))"
  by (simp add: email_start_def Let_def split: sum.split prod.split option.split exn.split)

lemma email_route_db:
  "w_db (snd (deliver_route S nw fb tok (CEmail rnd) req w)) =
     (let (req1, d1) = sessionMiddleware (sv_runtime S) nw (incoming req) (w_db w);
          (req2, hs) = flowMiddleware (sv_cfg S) fb req1;
          (req3, d2) = accessMiddleware (sv_runtime S) nw req2 d1
      in case publicFormGuard (sv_runtime S) (sv_cfg S) (sv_dict S) req3 of
           Some r \<Rightarrow> d2
         | None \<Rightarrow> snd (email_start (sv_runtime S) (sv_cfg S) (sv_dict S) (sv_logo S) nw rnd tok req3 d2))"
  by (auto simp: deliver_route_def deliver_handler_def queue_mail_def Let_def split: prod.split option.split sum.split email_step.split)

lemma code_route_db:
  "w_db (snd (deliver_route S nw fb tok (CCode sidb csrfb) req w)) =
     (let (req1, d1) = sessionMiddleware (sv_runtime S) nw (incoming req) (w_db w);
          (req2, hs) = flowMiddleware (sv_cfg S) fb req1;
          (req3, d2) = accessMiddleware (sv_runtime S) nw req2 d1
      in snd (postCode (sv_runtime S) (sv_cfg S) (sv_dict S) nw sidb csrfb tok req3 d2))"
  by (auto simp: deliver_route_def deliver_handler_def in_db_def Let_def split: prod.split)

text \<open>The database after the link was issued\<close>

definition linked_db :: db where
  "linked_db = empty_db\<lparr>
     admins := [\<lparr>a_id = ''a_AQEBAQEBAQEBAQEB'', a_username = ''root'',
       a_password_hash = ''scrypt$32768$8$1$BwcHBwcHBwcHBwcHBwcHBw==$Y29ycmVjdCBob3JzZQcHBwcHBwcHBwcHBwcHBwcAAAA='',
       a_created_at = 10, a_role = RAdmin, a_disabled_at = None, a_must_change_password = False,
       a_last_login_at = Some 20, a_totp_secret = None, a_totp_enabled_at = None, a_totp_last_step = None,
       a_totp_failed_count = 0, a_totp_locked_until = None\<rparr>],
     sessions := [\<lparr>s_id_hash = ''AAAAAAAAAAAAAAAAAAAAAAAAAAAAAAAAAAAAAAAAAAA'', s_admin_id = ''a_AQEBAQEBAQEBAQEB'',
       s_csrf_token = ''AAAAAAAAAAAAAAAAAAAAAAAAAAAAAAAA'', s_created_at = 20, s_last_seen_at = 40, s_expires_at = 1020,
       s_totp_verified = True, s_totp_attempts = 0, s_public_id = ''s_AAAAAAAAAAAAAAAA'', s_ip = None,
       s_user_agent = None, s_second_factor = None, s_confirmed_until = Some 120, s_webauthn_challenge = None,
       s_webauthn_purpose = None, s_webauthn_expires_at = None, s_dbsc_challenge = None, s_dbsc_offered_at = None\<rparr>],
     cases := [\<lparr>c_id = ''c_AAAAAAAAAAAAAAAA'', c_name = ''Case'', c_description = [], c_status = CaseOpen,
       c_created_at = 30, c_updated_at = 30\<rparr>],
     links := [\<lparr>l_id = ''l_AAAAAAAAAAAAAAAA'', l_case_id = ''c_AAAAAAAAAAAAAAAA'', l_label = ''Recipient'',
       l_token_hash = ''AQEBAQEBAQEBAQEBAQEBAQEBAQEBAQEBAQEBAQEBAQE'', l_token_hint = ''AQEBAQ'', l_expires_at = None,
       l_revoked_at = None, l_max_opens = Some 1, l_opens_used = 0, l_created_at = 40, l_last_used_at = None\<rparr>],
     link_recipients := [\<lparr>r_id = ''r_AAAAAAAAAAAAAAAA'', r_link_id = ''l_AAAAAAAAAAAAAAAA'', r_email = ''a@b.cd'',
       r_lang = ''en'', r_opens = 0, r_last_opened_at = None, r_created_at = 40\<rparr>],
     audit_log := [
       \<lparr>au_id = 1, au_ts = 20, au_actor_type = ActorAdmin, au_actor_id = Some ''a_AQEBAQEBAQEBAQEB'',
         au_action = ''admin.login'', au_case_id = None, au_link_id = None, au_item_id = None, au_ip = None,
         au_details = []\<rparr>,
       \<lparr>au_id = 2, au_ts = 30, au_actor_type = ActorAdmin, au_actor_id = Some ''a_AQEBAQEBAQEBAQEB'',
         au_action = ''case.create'', au_case_id = Some ''c_AAAAAAAAAAAAAAAA'', au_link_id = None, au_item_id = None,
         au_ip = None, au_details = [(''name'', ''Case'')]\<rparr>,
       \<lparr>au_id = 3, au_ts = 40, au_actor_type = ActorAdmin, au_actor_id = Some ''a_AQEBAQEBAQEBAQEB'',
         au_action = ''link.create'', au_case_id = Some ''c_AAAAAAAAAAAAAAAA'', au_link_id = Some ''l_AAAAAAAAAAAAAAAA'',
         au_item_id = None, au_ip = None, au_details = [(''label'', ''Recipient''), (''recipient'', ''a@b.cd en'')]\<rparr>]\<rparr>"

lemma scenario_linked: "w_db world_link = linked_db"
  unfolding worlds by code_simp

text \<open>The challenge the recipient's request leaves, and the rows an accepted code leaves\<close>

definition asked_db :: db where
  "asked_db = linked_db\<lparr>challenges := [\<lparr>ch_id = ''ch_AAAAAAAAAAAAAAAA'', ch_link_id = ''l_AAAAAAAAAAAAAAAA'',
     ch_recipient_id = Some ''r_AAAAAAAAAAAAAAAA'',
     ch_code_hash = hashPassword sample_runtime (replicate 16 3) ''123456'', ch_flow_hash = ''flow'', ch_attempts = 0,
     ch_created_at = 50, ch_expires_at = 1050, ch_consumed_at = None, ch_ip = None\<rparr>]\<rparr>"

lemma scenario_asked: "w_db world_asked = asked_db"
  unfolding world_asked_def email_route_db email_start_db scenario_linked by code_simp

definition scenario_facts ::
    "db \<Rightarrow> (string \<times> nat option \<times> nat \<times> nat) list \<times> (string \<times> string option \<times> ms) list
       \<times> (string option \<times> bool \<times> nat) list \<times> (string \<times> string) list \<times> nat" where
  "scenario_facts d =
     (map (\<lambda>l. (l_id l, l_max_opens l, l_opens_used l, length (filter (\<lambda>a. au_action a = ''access.granted''
        \<and> au_link_id a = Some (l_id l)) (audit_log d)))) (links d),
      map (\<lambda>s. (as_link_id s, as_recipient_id s, as_expires_at s)) (access_sessions d),
      map (\<lambda>c. (ch_recipient_id c, ch_consumed_at c = None, ch_attempts c)) (challenges d),
      map (\<lambda>s. (s_id_hash s, s_admin_id s)) (sessions d), length (admins d))"

lemma scenario_open:
  "scenario_facts (w_db world_open) =
     ([(''l_AAAAAAAAAAAAAAAA'', Some 1, 1, 1)], [(''l_AAAAAAAAAAAAAAAA'', Some ''r_AAAAAAAAAAAAAAAA'', 1070)],
      [(Some ''r_AAAAAAAAAAAAAAAA'', False, 0)],
      [(''AAAAAAAAAAAAAAAAAAAAAAAAAAAAAAAAAAAAAAAAAAA'', ''a_AQEBAQEBAQEBAQEB'')], 1)"
  unfolding world_open_def code_route_db scenario_asked by code_simp

end
