(* ===== verification/Permanence.thy ===== *)
theory Permanence
  imports OpeningCounts Scenario
begin

section \<open>What no step undoes\<close>

text \<open>
  The audit log only grows, and a revoked link stays revoked: both are invariants of the server that
  remember the state they started from.
\<close>

text \<open>The log as far as it had been written, and numbers that only grow\<close>

definition trail_inv :: "AuditRow list \<Rightarrow> db \<Rightarrow> bool" where
  "trail_inv L d = (take (length L) (audit_log d) = L \<and> sorted_wrt (<) (map au_id (audit_log d)))"

lemma trail_cong: "audit_log d' = audit_log d \<Longrightarrow> trail_inv L d' = trail_inv L d"
  by (simp add: trail_inv_def)

lemma next_audit_id_greater:
  assumes "r \<in> set (audit_log d)"
  shows "au_id r < next_audit_id d"
proof -
  have "au_id r \<le> fold (\<lambda>r m. max (au_id r) m) rs n" if "r \<in> set rs" for rs n
    using that
  proof (induction rs arbitrary: n)
    case (Cons x xs)
    have le: "m \<le> fold (\<lambda>r m. max (au_id r) m) ys m" for ys and m :: nat
      by (induction ys arbitrary: m) (auto intro: max.coboundedI2 order_trans [OF max.cobounded2])
    show ?case using Cons le [of "max (au_id x) n" xs] by fastforce
  qed simp
  then show ?thesis using assms by (simp add: next_audit_id_def less_Suc_eq_le)
qed

lemma trail_audit: "trail_inv L d \<Longrightarrow> trail_inv L (audit nw ev d)"
  using next_audit_id_greater [of _ d]
  by (auto simp: trail_inv_def audit_def sorted_wrt_append dest: arg_cong [of _ _ length])

interpretation trail_db: db_invariant "trail_inv L" for L .

lemma log_frames:
  "audit_log (touchLink nw i d) = audit_log d" "audit_log (snd (rotateLinkToken R cfg tokb i d)) = audit_log d"
  "audit_log (set_challenge p f d) = audit_log d" "audit_log (snd (createAdmin R nw idb salt u pw r b d)) = audit_log d"
  "audit_log (snd (setUserRole actor i r d)) = audit_log d"
  "audit_log (snd (setUserDisabled nw actor i bb d)) = audit_log d"
  "audit_log (snd (deleteUser actor i d)) = audit_log d"
  "audit_log (snd (createCase nw idb n ds d)) = audit_log d" "audit_log (snd (updateCase nw i nm ds st d)) = audit_log d"
  "audit_log (snd (registerOpen nw i d)) = audit_log d" "audit_log (recordRecipientOpen nw i d) = audit_log d"
  "audit_log (snd (verifyChallenge R cfg nw l fl code d)) = audit_log d"
  "audit_log (destroyAccessSession R sid d) = audit_log d"
  "audit_log (snd (destroyAccessSessionsForLink nw i d)) = audit_log d"
  "audit_log (snd (destroyAccessSessionsForCase i d)) = audit_log d"
  "audit_log (snd (purgeExpiredAccess nw d)) = audit_log d" "audit_log (snd (removeRecipient l i d)) = audit_log d"
  "audit_log (snd (revokeLink nw i d)) = audit_log d"
  "audit_log (snd (createAccessSession R cfg nw sidb csrfb l rid ip d)) = audit_log d"
  by (simp_all add: touchLink_def rotateLinkToken_def set_challenge_def createAdmin_def ins_admin_def
      require_def Let_def setUserRole_def setUserDisabled_def deleteUser_def transaction_def set_admin_def
      delete_sessions_def delete_admin_def createCase_def ins_case_def updateCase_def registerOpen_def
      recordRecipientOpen_def verifyChallenge_def destroyAccessSession_def destroyAccessSessionsForLink_def
      destroyAccessSessionsForCase_def purgeExpiredAccess_def removeRecipient_def delete_recipient_def revokeLink_def
      createAccessSession_def ins_access_def split: sum.split prod.split option.split)

lemma log_recipients: "audit_log (snd (insertRecipients nw l ids rs d)) = audit_log d"
  using insertRecipients_frame [of nw l ids rs d] by (cases "insertRecipients nw l ids rs d") auto

lemma log_challenge: "audit_log (snd (createChallenge R cfg nw codeb idb salt l rid f ip d)) = audit_log d"
proof -
  obtain r d' where e: "createChallenge R cfg nw codeb idb salt l rid f ip d = (r, d')" by fastforce
  then have "audit_log d' = audit_log d" by (rule createChallenge_cases) simp_all
  then show ?thesis by (simp add: e)
qed

lemmas trail_frames = log_frames [THEN trail_cong] log_recipients [THEN trail_cong] log_challenge [THEN trail_cong]

lemma trail_recipients: "trail_inv L d \<Longrightarrow> trail_inv L (snd (insertRecipients nw l ids rs d))"
  by (simp add: trail_frames)

lemma trail_ins_link: "ins_link k d = Inr d' \<Longrightarrow> trail_inv L d \<Longrightarrow> trail_inv L d'"
  by (auto simp: ins_link_def trail_inv_def)

lemma trail_createLink: "trail_inv L d \<Longrightarrow> trail_inv L (snd (createLink R cfg nw tokb idb ids inp d))"
  unfolding createLink_def
  by (intro trail_db.keeps_flow trail_db.keeps_transaction trail_recipients;
      (assumption | (erule trail_ins_link, assumption)))

lemma trail_addRecipients: "trail_inv L d \<Longrightarrow> trail_inv L (snd (addRecipients R nw ids l rs d))"
  unfolding addRecipients_def
  by (intro trail_db.keeps_flow trail_db.keeps_transaction) (simp_all add: trail_frames)

lemma trail_code: "trail_inv L d \<Longrightarrow> trail_inv L (snd (code_submitted R cfg dict nw sidb csrfb token req d))"
  unfolding code_submitted_def grant_access_def
  by (intro trail_db.keeps_flow trail_audit; (assumption | simp add: trail_frames split: option.split))

lemma trail_tables: "trail_inv L (d\<lparr>items := x\<rparr>) = trail_inv L d" "trail_inv L (d\<lparr>case_members := y\<rparr>) = trail_inv L d"
  by (simp_all add: trail_inv_def)

interpretation trail: server_invariant "trail_inv L" R cfg for L R cfg
proof (unfold_locales, goal_cases)
  case (1 d' d)
  then show ?case using trail_cong [of d' d L] by (simp add: core_def)
qed (simp_all add: trail_tables trail_frames trail_createLink trail_addRecipients trail_code trail_audit)

text \<open>A revoked link\<close>

definition revocations :: "db \<Rightarrow> (string \<times> ms option) list" where
  "revocations d = map (\<lambda>l. (l_id l, l_revoked_at l)) (links d)"

definition revoked_inv :: "string \<Rightarrow> ms \<Rightarrow> db \<Rightarrow> bool" where
  "revoked_inv i w d = ((i, Some w) \<in> set (revocations d) \<and> (\<forall>x \<in> set (revocations d). fst x = i \<longrightarrow> snd x = Some w))"

lemma revoked_cong: "revocations d' = revocations d \<Longrightarrow> revoked_inv i w d' = revoked_inv i w d"
  by (simp add: revoked_inv_def)

lemma revocations_upd:
  "(\<And>l. l_id (f l) = l_id l \<and> l_revoked_at (f l) = l_revoked_at l) \<Longrightarrow>
    revocations (d\<lparr>links := upd_where p f (links d)\<rparr>) = revocations d"
  by (simp add: revocations_def upd_where_def comp_def if_distrib)

lemma revocation_frames:
  "revocations (audit nw ev d) = revocations d"
  "revocations (touchLink nw i d) = revocations d" "revocations (snd (rotateLinkToken R cfg tokb i d)) = revocations d"
  "revocations (set_challenge p f d) = revocations d" "revocations (snd (createAdmin R nw idb salt u pw r b d)) = revocations d"
  "revocations (snd (setUserRole actor i r d)) = revocations d"
  "revocations (snd (setUserDisabled nw actor i bb d)) = revocations d"
  "revocations (snd (deleteUser actor i d)) = revocations d"
  "revocations (snd (createCase nw idb n ds d)) = revocations d" "revocations (snd (updateCase nw i nm ds st d)) = revocations d"
  "revocations (snd (registerOpen nw i d)) = revocations d" "revocations (recordRecipientOpen nw i d) = revocations d"
  "revocations (snd (verifyChallenge R cfg nw l fl code d)) = revocations d"
  "revocations (destroyAccessSession R sid d) = revocations d"
  "revocations (snd (destroyAccessSessionsForLink nw i d)) = revocations d"
  "revocations (snd (destroyAccessSessionsForCase i d)) = revocations d"
  "revocations (snd (purgeExpiredAccess nw d)) = revocations d" "revocations (snd (removeRecipient l i d)) = revocations d"
  "revocations (snd (createAccessSession R cfg nw sidb csrfb l rid ip d)) = revocations d"
  by (simp_all add: touchLink_def rotateLinkToken_def createAdmin_def ins_admin_def audit_def set_challenge_def
      require_def Let_def setUserRole_def setUserDisabled_def deleteUser_def transaction_def set_admin_def
      delete_sessions_def delete_admin_def createCase_def ins_case_def updateCase_def registerOpen_def
      recordRecipientOpen_def verifyChallenge_def destroyAccessSession_def destroyAccessSessionsForLink_def
      destroyAccessSessionsForCase_def purgeExpiredAccess_def removeRecipient_def delete_recipient_def
      createAccessSession_def ins_access_def revocations_upd split: sum.split prod.split option.split)
    (simp_all add: revocations_def)

lemma revocation_recipients: "revocations (snd (insertRecipients nw l ids rs d)) = revocations d"
  using insertRecipients_frame [of nw l ids rs d] by (cases "insertRecipients nw l ids rs d") (auto simp: revocations_def)

lemma revocation_challenge: "revocations (snd (createChallenge R cfg nw codeb idb salt l rid f ip d)) = revocations d"
proof -
  obtain r d' where e: "createChallenge R cfg nw codeb idb salt l rid f ip d = (r, d')" by fastforce
  then have "revocations d' = revocations d" by (rule createChallenge_cases) (simp_all add: revocations_def)
  then show ?thesis by (simp add: e)
qed

lemmas revoked_frames = revocation_frames [THEN revoked_cong] revocation_recipients [THEN revoked_cong]
  revocation_challenge [THEN revoked_cong]

interpretation revoked_db: db_invariant "revoked_inv i w" for i w .

lemma revoked_ins_link:
  assumes ins: "ins_link k d = Inr d'" and inv: "revoked_inv i w d"
  shows "revoked_inv i w d'"
proof -
  have d': "d' = d\<lparr>links := links d @ [k]\<rparr>" and k: "l_id k \<notin> l_id ` set (links d)"
    using ins by (auto simp: ins_link_def)
  then have "revocations d' = revocations d @ [(l_id k, l_revoked_at k)]" by (simp add: revocations_def)
  moreover have "l_id k \<noteq> i" using inv k by (auto simp: revoked_inv_def revocations_def)
  ultimately show ?thesis using inv by (simp add: revoked_inv_def)
qed

lemma revoked_recipients: "revoked_inv i w d \<Longrightarrow> revoked_inv i w (snd (insertRecipients nw l ids rs d))"
  by (simp add: revoked_frames)

lemma revoked_again:
  assumes "revoked_inv i w d"
  shows "revoked_inv i w (snd (revokeLink nw k d))"
proof -
  have "revocations (snd (revokeLink nw k d)) =
      map (\<lambda>(j, r). (j, if j = k \<and> r = None then Some nw else r)) (revocations d)"
    by (simp add: revokeLink_def revocations_def upd_where_def)
  then show ?thesis using assms by (force simp: revoked_inv_def)
qed

lemma revoked_createLink: "revoked_inv i w d \<Longrightarrow> revoked_inv i w (snd (createLink R cfg nw tokb idb ids inp d))"
  unfolding createLink_def
  by (intro revoked_db.keeps_flow revoked_db.keeps_transaction revoked_recipients;
      (assumption | (erule revoked_ins_link, assumption)))

lemma revoked_addRecipients: "revoked_inv i w d \<Longrightarrow> revoked_inv i w (snd (addRecipients R nw ids l rs d))"
  unfolding addRecipients_def
  by (intro revoked_db.keeps_flow revoked_db.keeps_transaction) (simp_all add: revoked_frames)

lemma revoked_code: "revoked_inv i w d \<Longrightarrow> revoked_inv i w (snd (code_submitted R cfg dict nw sidb csrfb token req d))"
  unfolding code_submitted_def grant_access_def
  by (intro revoked_db.keeps_flow; (assumption | simp add: revoked_frames split: option.split))

lemma revoked_tables:
  "revoked_inv i w (d\<lparr>items := x\<rparr>) = revoked_inv i w d" "revoked_inv i w (d\<lparr>case_members := y\<rparr>) = revoked_inv i w d"
  by (simp_all add: revoked_inv_def revocations_def)

interpretation revoked: server_invariant "revoked_inv i w" R cfg for i w R cfg
proof (unfold_locales, goal_cases)
  case (1 d' d)
  then show ?case using revoked_cong [of d' d i w] by (simp add: core_def revocations_def)
qed (simp_all add: revoked_tables revoked_frames revoked_createLink revoked_addRecipients revoked_code revoked_again)

subsection \<open>Any number of steps\<close>

context server_invariant begin

lemma keeps_steps:
  assumes S: "sv_runtime S = R" "sv_cfg S = cfg" and steps: "(server_step S)\<^sup>*\<^sup>* w w'" and "I (w_db w)"
  shows "I (w_db w')"
  using steps assms(4) by (induction rule: rtranclp_induct) (blast intro: keeps_step [OF S])+

end

text \<open>The administrator of the sample installation revokes the link, and resets a second factor later.\<close>

definition world_revoked :: world where
  "world_revoked = snd (panel_route sample_server 60 [] ARevokeLink
     ((sample_form panel_cookie [])\<lparr>rq_params := [(''id'', ''l_AAAAAAAAAAAAAAAA'')]\<rparr>) world_link)"

definition world_afterwards :: world where
  "world_afterwards = snd (cli sample_server 65 [] [] (DisableTotp ''root'') world_revoked)"

lemma revoked_steps: "reachable sample_server world_link" "reachable sample_server world_revoked"
  "(server_step sample_server)\<^sup>*\<^sup>* world_revoked world_afterwards" "(server_step sample_server)\<^sup>*\<^sup>* world_link world_open"
proof -
  show link: "reachable sample_server world_link" using scenario_steps installed stepped by metis
  show "reachable sample_server world_revoked" unfolding world_revoked_def by (rule stepped [OF link step_panel])
  show "(server_step sample_server)\<^sup>*\<^sup>* world_revoked world_afterwards"
    unfolding world_afterwards_def by (rule r_into_rtranclp) (rule step_command)
  show "(server_step sample_server)\<^sup>*\<^sup>* world_link world_open"
    using scenario_steps(5,6) by (meson rtranclp.rtrancl_into_rtrancl rtranclp.rtrancl_refl)
qed

text \<open>The database after a link was revoked, without the answer\<close>

lemma revoke_route_db:
  "w_db (snd (panel_route S nw o24 ARevokeLink req w)) =
     (case sessionMiddleware (sv_runtime S) nw (incoming req) (w_db w) of
        (req1, d1) \<Rightarrow> snd (linkRevoke (sv_runtime S) (sv_cfg S) (sv_dict S) nw o24 req1 d1))"
  by (simp add: panel_route_def panel_db_def in_db_def Let_def split: prod.split)

lemma revoked_facts:
  "(map (\<lambda>l. (l_id l, l_token_hash l, l_case_id l, l_revoked_at l)) (links (w_db world_revoked)), map c_id (cases (w_db world_revoked)))
   = ([(''l_AAAAAAAAAAAAAAAA'', delivery_token, ''c_AAAAAAAAAAAAAAAA'', Some 60)], [''c_AAAAAAAAAAAAAAAA''])"
  unfolding world_revoked_def revoke_route_db scenario_linked by code_simp

lemma reset_frame: "links (resetSecondFactors R a d) = links d" "cases (resetSecondFactors R a d) = cases d"
  by (simp_all add: resetSecondFactors_def forceDisableTotp_def endSessions_def dropRecoveryCodesIfUnused_def set_admin_def
      delete_sessions_def destroyOtherSessions_def Let_def split: option.split)

lemma afterwards_frame:
  "links (w_db world_afterwards) = links (w_db world_revoked)" "cases (w_db world_afterwards) = cases (w_db world_revoked)"
  by (simp_all add: world_afterwards_def cli_def reset_frame Let_def split: option.split)

lemma afterwards_link:
  "\<exists>rl. resolveToken sample_runtime 66 (w_db world_afterwards) delivery_token = Some rl"
proof -
  obtain l c where "links (w_db world_afterwards) = [l]" "cases (w_db world_afterwards) = [c]"
    "l_token_hash l = delivery_token" "l_case_id l = c_id c"
    using revoked_facts by (auto simp: afterwards_frame map_eq_Cons_conv)
  moreover have "matches TOKEN_RE delivery_token" "rt_sha256 sample_runtime delivery_token = delivery_token" by code_simp+
  ultimately show ?thesis by (simp add: resolveToken_def getCase_def)
qed

lemma length_linked: "length (audit_log linked_db) = 3"
  by (simp add: linked_db_def)

text \<open>
  C9. The audit log is append-only: whatever the server does, the entries of a reachable state stay
  at the front of the log, unchanged, and the numbers of the entries grow from one to the next.
\<close>

theorem audit_log_append_only:
  assumes "reachable S w" and "(server_step S)\<^sup>*\<^sup>* w w'"
  shows "take (length (audit_log (w_db w))) (audit_log (w_db w')) = audit_log (w_db w)
    \<and> sorted_wrt (<) (map au_id (audit_log (w_db w')))"
proof -
  have "trail_inv [] (w_db w)"
    by (rule trail.keeps_reachable [OF refl refl _ assms(1)]) (simp add: trail_inv_def empty_db_def)
  then have "trail_inv (audit_log (w_db w)) (w_db w)" by (simp add: trail_inv_def)
  from trail.keeps_steps [OF refl refl assms(2) this] show ?thesis by (simp add: trail_inv_def)
qed

theorem audit_log_append_only_witness: "take 3 (audit_log (w_db world_open)) = audit_log linked_db"
  using audit_log_append_only [OF revoked_steps(1,4)] by (simp only: scenario_linked length_linked)

text \<open>
  C5. A revocation is final: once a link was revoked, whatever is done afterwards - a new token, new
  recipients, a reopened case - every token that still leads to the link finds it revoked, since
  the moment it was revoked.
\<close>

theorem revocation_is_final:
  assumes "reachable S w" and "l \<in> set (links (w_db w))" and "l_revoked_at l = Some since"
    and "(server_step S)\<^sup>*\<^sup>* w w'"
    and "resolveToken R nw (w_db w') token = Some rl" and "l_id (rl_link rl) = l_id l"
  shows "rl_state rl = LRevoked \<and> l_revoked_at (rl_link rl) = Some since"
proof -
  have "openings_inv (w_db w)"
    by (rule openings.keeps_reachable [OF refl refl _ assms(1)]) (simp add: openings_inv_def empty_db_def)
  then have "revoked_inv (l_id l) since (w_db w)"
    using assms(2,3) by (auto simp: openings_inv_def revoked_inv_def revocations_def image_iff dest: distinct_key_unique)
  from revoked.keeps_steps [OF refl refl assms(4) this] have "revoked_inv (l_id l) since (w_db w')" .
  then have "l_revoked_at (rl_link rl) = Some since"
    using resolveToken_SomeD(1) [OF assms(5)] assms(6) by (auto simp: revoked_inv_def revocations_def)
  then show ?thesis using resolveToken_SomeD(5) [OF assms(5)] by (simp add: linkState_def)
qed

theorem revocation_is_final_witness:
  "\<exists>rl. resolveToken sample_runtime 66 (w_db world_afterwards) delivery_token = Some rl \<and> rl_state rl = LRevoked"
proof -
  obtain rl where rl: "resolveToken sample_runtime 66 (w_db world_afterwards) delivery_token = Some rl"
    using afterwards_link by blast
  obtain l where l: "links (w_db world_revoked) = [l]" "l_revoked_at l = Some 60"
    using revoked_facts by (auto simp: map_eq_Cons_conv)
  then have "l \<in> set (links (w_db world_revoked))" "l_id (rl_link rl) = l_id l"
    using resolveToken_SomeD(1) [OF rl] by (simp_all add: afterwards_frame)
  from revocation_is_final [OF revoked_steps(2) this(1) l(2) revoked_steps(3) rl this(2)] show ?thesis using rl by blast
qed

end
