(* ===== verification/CaseRows.thy ===== *)
theory CaseRows
  imports Steps
begin

section \<open>The rows of a case\<close>

text \<open>
  What belongs to a case - its row, its members, its items, its links, their recipients and the
  sessions open on them - and, for each operation of the services, that it leaves these rows
  alone when it works on another case.
\<close>

subsection \<open>What belongs to a case\<close>

definition case_rows :: "string \<Rightarrow> db \<Rightarrow> (CaseRow list \<times> MemberRow list \<times> ItemRow list) \<times> LinkRow list \<times> RecipientRow list \<times> AccessRow list" where
  "case_rows c d =
     ((filter (\<lambda>x. c_id x = c) (cases d), filter (\<lambda>m. m_case_id m = c) (case_members d), filter (\<lambda>i. i_case_id i = c) (items d)),
      filter (\<lambda>l. l_case_id l = c) (links d),
      filter (\<lambda>r. link_of_case d c (r_link_id r)) (link_recipients d),
      filter (\<lambda>s. link_of_case d c (as_link_id s)) (access_sessions d))"

lemma link_of_case_filter: "link_of_case d c i \<longleftrightarrow> i \<in> l_id ` set (filter (\<lambda>l. l_case_id l = c) (links d))"
  by (auto simp: link_of_case_def)

lemma case_rows_links: "case_rows c d' = case_rows c d \<Longrightarrow> link_of_case d' c = link_of_case d c"
  by (simp add: case_rows_def link_of_case_filter fun_eq_iff)

lemma case_rowsI:
  assumes "filter (\<lambda>x. c_id x = c) (cases d') = filter (\<lambda>x. c_id x = c) (cases d)"
    and "filter (\<lambda>m. m_case_id m = c) (case_members d') = filter (\<lambda>m. m_case_id m = c) (case_members d)"
    and "filter (\<lambda>i. i_case_id i = c) (items d') = filter (\<lambda>i. i_case_id i = c) (items d)"
    and l: "filter (\<lambda>l. l_case_id l = c) (links d') = filter (\<lambda>l. l_case_id l = c) (links d)"
    and "filter (\<lambda>r. link_of_case d c (r_link_id r)) (link_recipients d') = filter (\<lambda>r. link_of_case d c (r_link_id r)) (link_recipients d)"
    and "filter (\<lambda>s. link_of_case d c (as_link_id s)) (access_sessions d') = filter (\<lambda>s. link_of_case d c (as_link_id s)) (access_sessions d)"
  shows "case_rows c d' = case_rows c d"
proof -
  have "link_of_case d' c = link_of_case d c" using l by (simp add: link_of_case_filter fun_eq_iff)
  then show ?thesis using assms by (simp add: case_rows_def)
qed

lemma filter_upd_apart: "(\<And>x. x \<in> set xs \<Longrightarrow> p x \<Longrightarrow> \<not> q x \<and> \<not> q (f x)) \<Longrightarrow> filter q (upd_where p f xs) = filter q xs"
  by (induction xs) auto

lemma filter_del_apart: "(\<And>x. x \<in> set xs \<Longrightarrow> p x \<Longrightarrow> \<not> q x) \<Longrightarrow> filter q (del_where p xs) = filter q xs"
  unfolding del_where_def by (induction xs) auto

subsection \<open>Operations on another case\<close>

lemma other_updateCase: "i \<noteq> c \<Longrightarrow> case_rows c (snd (updateCase nw i n ds st d)) = case_rows c d"
  by (auto simp: updateCase_def Let_def filter_upd_apart intro: case_rowsI split: option.split)

lemma other_item: "ins_item i d = Inr d' \<Longrightarrow> i_case_id i \<noteq> c \<Longrightarrow> case_rows c d' = case_rows c d"
  by (auto simp: ins_item_def intro: case_rowsI)

lemma other_note: "i \<noteq> c \<Longrightarrow> case_rows c (snd (createNote nw idb i ti bd a d)) = case_rows c d"
  by (auto simp: createNote_def Let_def split: sum.split) (erule other_item, simp)

lemma other_startUpload: "su_caseId inp \<noteq> c \<Longrightarrow> case_rows c (snd (startUpload R cfg nw idb inp d)) = case_rows c d"
  by (auto simp: startUpload_def Let_def split: sum.split) (erule other_item, simp)

lemma other_update_items:
  "(\<And>i. i \<in> set (items d) \<Longrightarrow> p i \<Longrightarrow> i_case_id i \<noteq> c) \<Longrightarrow> (\<And>i. i_case_id (f i) = i_case_id i) \<Longrightarrow>
   case_rows c (snd (update_items p f d)) = case_rows c d"
  unfolding update_items_def snd_conv by (rule case_rowsI) (simp_all add: filter_upd_apart)

lemma other_item_states:
  assumes "\<And>x. x \<in> set (items d) \<Longrightarrow> i_id x = i \<Longrightarrow> i_case_id x \<noteq> c"
  shows "case_rows c (snd (completeUpload nw i n h d)) = case_rows c d" "case_rows c (snd (failUpload i st d)) = case_rows c d"
    "case_rows c (snd (markDeleted nw i d)) = case_rows c d"
  unfolding completeUpload_def failUpload_def markDeleted_def by (rule other_update_items; use assms in auto)+

lemma other_member:
  "i \<noteq> c \<Longrightarrow> case_rows c (snd (addCaseMember nw i a d)) = case_rows c d"
  "i \<noteq> c \<Longrightarrow> case_rows c (snd (removeCaseMember i a d)) = case_rows c d"
  by (auto simp: addCaseMember_def removeCaseMember_def intro!: case_rowsI filter_del_apart)

lemma other_createCase: "has_case d c \<Longrightarrow> case_rows c (snd (createCase nw idb n ds d)) = case_rows c d"
  by (auto simp: createCase_def ins_case_def Let_def require_cases intro!: case_rowsI split: if_splits)

lemma created_case: "createCase nw idb n ds d = (Inr r, d') \<Longrightarrow> has_case d c \<Longrightarrow> c_id r \<noteq> c"
  by (auto simp: createCase_def ins_case_def Let_def require_cases split: if_splits)

lemma other_links:
  assumes "\<And>l. l \<in> set (links d) \<Longrightarrow> p l \<Longrightarrow> l_case_id l \<noteq> c" and "\<And>l. l_case_id (f l) = l_case_id l"
  shows "case_rows c (d\<lparr>links := upd_where p f (links d)\<rparr>) = case_rows c d"
  by (rule case_rowsI) (simp_all add: filter_upd_apart assms)

lemma other_link_ops:
  assumes "\<not> link_of_case d c i"
  shows "case_rows c (snd (rotateLinkToken R cfg tokb i d)) = case_rows c d"
    "case_rows c (snd (revokeLink nw i d)) = case_rows c d"
    "case_rows c (snd (destroyAccessSessionsForLink nw i d)) = case_rows c d"
  using assms
  by (auto simp: rotateLinkToken_def revokeLink_def Let_def destroyAccessSessionsForLink_def link_of_case_def
      intro!: other_links case_rowsI filter_del_apart split: option.split)

lemma other_insertRecipients:
  assumes "\<not> link_of_case d c i"
  shows "case_rows c (snd (insertRecipients nw i ids rs d)) = case_rows c d"
proof -
  obtain r d' where e: "insertRecipients nw i ids rs d = (r, d')" by fastforce
  from insertRecipients_frame [OF e] obtain new where "d' = d\<lparr>link_recipients := link_recipients d @ new\<rparr>"
    "\<forall>x \<in> set new. r_link_id x = i" by blast
  then show ?thesis using assms unfolding e snd_conv by (intro case_rowsI) (simp_all add: filter_empty_conv)
qed

lemma transaction_view: "case_rows c (snd (f d)) = case_rows c d \<Longrightarrow> case_rows c (snd (transaction f d)) = case_rows c d"
  by (cases "f d"; cases "fst (f d)") (simp_all add: transaction_def)

lemma other_addRecipients:
  assumes "\<not> link_of_case d c i"
  shows "case_rows c (snd (addRecipients R nw ids i rs d)) = case_rows c d"
  unfolding addRecipients_def
  by (cases "checkRecipients R rs") (simp_all add: Let_def other_insertRecipients assms transaction_view)

lemma other_ins_link:
  assumes "l_case_id l \<noteq> c" and "ins_link l d = Inr d1"
  shows "case_rows c d1 = case_rows c d \<and> \<not> link_of_case d1 c (l_id l)"
  using assms unfolding ins_link_def require_Inr link_of_case_def by (auto intro!: case_rowsI) (metis image_eqI)

lemma other_createLink:
  assumes "cl_caseId inp \<noteq> c"
  shows "case_rows c (snd (createLink R cfg nw tokb idb ids inp d)) = case_rows c d"
proof -
  have *: "case_rows c (snd (transaction (\<lambda>d. case ins_link l d of Inl e \<Rightarrow> (Inl e, d)
      | Inr d1 \<Rightarrow> insertRecipients nw (l_id l) ids rs d1) d)) = case_rows c d" if "l_case_id l \<noteq> c" for l rs
    using other_ins_link [OF that, of d] by (intro transaction_view) (auto simp: other_insertRecipients split: sum.split)
  show ?thesis
    unfolding createLink_def Let_def using assms
    by (auto simp: split_beta * split: sum.split)
qed

text \<open>The keys of the tables are unique and a session is on the link of its recipient.\<close>

definition keys_ok :: "db \<Rightarrow> bool" where
  "keys_ok d = (distinct (map l_id (links d)) \<and> distinct (map i_id (items d)) \<and> distinct (map r_id (link_recipients d))
     \<and> (\<forall>s \<in> set (access_sessions d). \<forall>r \<in> set (link_recipients d).
          as_recipient_id s = Some (r_id r) \<longrightarrow> r_link_id r = as_link_id s))"

lemma other_link: "keys_ok d \<Longrightarrow> l \<in> set (links d) \<Longrightarrow> l_case_id l \<noteq> c \<Longrightarrow> \<not> link_of_case d c (l_id l)"
  by (auto simp: keys_ok_def link_of_case_def dest: distinct_key_unique)

lemma other_removeRecipient:
  assumes "keys_ok d" and "\<not> link_of_case d c i"
  shows "case_rows c (snd (removeRecipient i rid d)) = case_rows c d"
  unfolding removeRecipient_def
proof (rule transaction_view)
  show "case_rows c (snd (case List.find (\<lambda>r. r_id r = rid \<and> r_link_id r = i) (link_recipients d) of
         None \<Rightarrow> (Inr NoSuchRecipient, d)
       | Some row \<Rightarrow>
           (if n_where (\<lambda>r. r_link_id r = i) (link_recipients d) \<le> 1 then (Inr LastRecipient, d)
            else (Inr (Removed row), delete_recipient rid d)))) = case_rows c d"
  proof (cases "List.find (\<lambda>r. r_id r = rid \<and> r_link_id r = i) (link_recipients d)")
    case (Some row)
    then have row: "row \<in> set (link_recipients d)" "r_id row = rid" "r_link_id row = i" by (auto dest: find_SomeD)
    have "case_rows c (delete_recipient rid d) = case_rows c d"
      unfolding delete_recipient_def
    proof (rule case_rowsI; simp?)
      show "filter (\<lambda>r. link_of_case d c (r_link_id r)) (del_where (\<lambda>r. r_id r = rid) (link_recipients d)) =
          filter (\<lambda>r. link_of_case d c (r_link_id r)) (link_recipients d)"
        using assms row by (intro filter_del_apart) (auto simp: keys_ok_def dest: distinct_key_unique)
      show "filter (\<lambda>s. link_of_case d c (as_link_id s)) (del_where (\<lambda>s. as_recipient_id s = Some rid) (access_sessions d)) =
          filter (\<lambda>s. link_of_case d c (as_link_id s)) (access_sessions d)"
        using assms row by (intro filter_del_apart) (auto simp: keys_ok_def)
    qed
    then show ?thesis by (simp add: Some)
  qed simp
qed

lemma other_closed:
  assumes "distinct (map l_id (links d))" and "i \<noteq> c"
  shows "case_rows c (snd (destroyAccessSessionsForCase i d)) = case_rows c d"
proof -
  have "\<not> link_of_case d c k" if "link_of_case d i k" for k
    using that assms unfolding link_of_case_def by (metis distinct_key_unique)
  then show ?thesis unfolding destroyAccessSessionsForCase_def snd_conv by (intro case_rowsI) (simp_all add: filter_del_apart)
qed

end
