(* ===== verification/CaseIsolation.thy ===== *)
theory CaseIsolation
  imports CaseRows Scenario
begin

section \<open>Accounts that may not work on a case cannot change it\<close>

text \<open>
  The handlers of the panel, requested by an account that may not work on a case, leave the rows
  of that case as they were. Handlers that keep to the accounts are covered by the locale
  \<open>account_invariant\<close>, the others one by one.
\<close>

subsection \<open>Requests of an account that may not work on the case\<close>

definition case_tables :: "db \<Rightarrow> (CaseRow list \<times> MemberRow list \<times> ItemRow list) \<times> LinkRow list \<times> RecipientRow list \<times> AccessRow list" where
  "case_tables d = ((cases d, case_members d, items d), links d, link_recipients d, access_sessions d)"

interpretation untouched: account_invariant "\<lambda>d. case_tables d = K" for K
  by unfold_locales (simp_all add: core_def case_tables_def audit_def)

definition outsider :: "string \<Rightarrow> Session \<Rightarrow> db \<Rightarrow> bool" where
  "outsider c s d = (keys_ok d \<and> has_case d c \<and> \<not> canAccessCase d (viewer_of s) c)"

definition outside :: "string \<Rightarrow> Request \<Rightarrow> db \<Rightarrow> bool" where
  "outside c req d = (\<forall>s. rq_session req = Some s \<longrightarrow> outsider c s d)"

lemma untouched_outsider: "case_tables d' = case_tables d \<Longrightarrow> outsider c s d' = outsider c s d"
  by (simp add: case_tables_def outsider_def keys_ok_def canAccessCase_def is_assigned_def)

lemma untouched_rows: "case_tables d' = case_tables d \<Longrightarrow> case_rows c d' = case_rows c d"
  by (auto simp: case_tables_def intro: case_rowsI)

text \<open>What a handler is entitled to: the rows of the case as they were, and a session that may not reach it\<close>

interpretation rows: db_invariant "\<lambda>d. case_rows c d = V" for c V .

lemma rows_audit [simp]: "case_rows c (audit nw ev d) = case_rows c d"
  by (rule untouched_rows) (simp add: case_tables_def audit_def)

lemma rows_gate_verified:
  assumes out: "outside c req d"
    and k: "\<And>s sid d'. rq_session req = Some s \<Longrightarrow> outsider c s d' \<Longrightarrow> case_rows c d' = case_rows c d \<Longrightarrow>
      case_rows c (snd (k s sid d')) = case_rows c d"
  shows "case_rows c (snd (gate_verified R cfg dict nw o24 req k d)) = case_rows c d"
proof (cases "rq_session req")
  case (Some s)
  have o: "case_tables (snd (offerBinding R nw o24 sid d)) = case_tables d" for sid
    by (rule untouched.keeps_offer) simp
  have "case_rows c (snd (k s sid (snd (offerBinding R nw o24 sid d)))) = case_rows c d" for sid
    using k [OF Some, of "snd (offerBinding R nw o24 sid d)"] out Some untouched_outsider [OF o] untouched_rows [OF o] by (simp add: outside_def)
  moreover have "case_rows c (snd (k s sid d)) = case_rows c d" for sid using k [OF Some, of d] out Some by (simp add: outside_def)
  ultimately show ?thesis
    by (auto simp: gate_verified_def gate_password_def map_response_def Some split_beta split: option.split sum.split)
qed (simp add: gate_verified_def gate_password_def split: option.split)

lemma rows_gate_ready:
  assumes "outside c req d"
    and "\<And>s sid d'. rq_session req = Some s \<Longrightarrow> outsider c s d' \<Longrightarrow> case_rows c d' = case_rows c d \<Longrightarrow>
      case_rows c (snd (k s sid d')) = case_rows c d"
  shows "case_rows c (snd (gate_ready R cfg dict nw o24 req k d)) = case_rows c d"
  unfolding gate_ready_def by (rule rows_gate_verified [OF assms(1)]) (simp_all add: Let_def assms(2) split: option.split)

lemma rows_when_confirmed:
  "case_rows c d = V \<Longrightarrow> case_rows c (snd (k d)) = V \<Longrightarrow> case_rows c (snd (when_confirmed nw back req k d)) = V"
  by (simp add: when_confirmed_def split: option.split)

lemma outsider_caseFor: "outsider c s d \<Longrightarrow> caseFor d s i = Some cr \<Longrightarrow> c_id cr \<noteq> c"
  by (auto simp: outsider_def caseFor_def split: option.splits if_splits)

lemma caseFor_Some: "caseFor d s i = Some cr \<Longrightarrow> i = Some (c_id cr)"
  by (auto simp: caseFor_def getCase_def dest!: find_SomeD split: option.splits if_splits)

lemma rows_with_case:
  assumes "outsider c s d" and "case_rows c d = V" and "\<And>i cr. i \<noteq> c \<Longrightarrow> c_id cr = i \<Longrightarrow> case_rows c (snd (k i cr d)) = V"
  shows "case_rows c (snd (with_case dict req s k d)) = V"
proof -
  have "case_rows c (snd (k i cr d)) = V" if "caseFor d s (Some i) = Some cr" for i cr
  proof (rule assms(3))
    show "c_id cr = i" using caseFor_Some [OF that] by simp
    then show "i \<noteq> c" using outsider_caseFor [OF assms(1) that] by simp
  qed
  then show ?thesis using assms(2) by (simp add: with_case_def split: option.split)
qed

lemma rows_with_link:
  assumes "outsider c s d" and "case_rows c d = V"
    and "\<And>l. l_case_id l \<noteq> c \<Longrightarrow> \<not> link_of_case d c (l_id l) \<Longrightarrow> case_rows c (snd (k l d)) = V"
  shows "case_rows c (snd (with_link dict req s k d)) = V"
proof (cases "case validId (param req ''id'') of None \<Rightarrow> None | Some i \<Rightarrow> getLink d i")
  case (Some l)
  then have l: "l \<in> set (links d)" by (auto simp: getLink_def dest!: find_SomeD split: option.splits)
  show ?thesis
  proof (cases "caseFor d s (Some (l_case_id l))")
    case None
    then show ?thesis using assms(2) by (simp add: with_link_def Some)
  next
    case found: (Some cr)
    then have "l_case_id l \<noteq> c" using outsider_caseFor [OF assms(1) found] caseFor_Some [OF found] by simp
    moreover from this have "\<not> link_of_case d c (l_id l)" using assms(1) l other_link by (auto simp: outsider_def)
    ultimately show ?thesis using assms(3) by (simp add: with_link_def Some found)
  qed
qed (use assms(2) in \<open>simp add: with_link_def\<close>)

lemmas rows_flow = rows.keeps_flow rows_when_confirmed

subsection \<open>The handlers\<close>

lemma rows_postCase: "outside c req d \<Longrightarrow> case_rows c (snd (postCase R cfg dict nw o24 req d)) = case_rows c d"
  unfolding postCase_def
  by (rule rows_gate_ready, assumption, rule rows_with_case, assumption+, intro rows_flow) (simp_all add: other_updateCase)

lemma rows_postNote: "outside c req d \<Longrightarrow> case_rows c (snd (postNote R cfg dict nw idb o24 req d)) = case_rows c d"
  unfolding postNote_def
  by (rule rows_gate_ready, assumption, rule rows_with_case, assumption+, intro rows_flow) (simp_all add: other_note)

lemma rows_memberAdd: "outside c req d \<Longrightarrow> case_rows c (snd (memberAdd R cfg dict nw o24 req d)) = case_rows c d"
  unfolding memberAdd_def
  by (rule rows_gate_ready, assumption, rule rows_with_case, assumption+, intro rows_flow) (simp_all add: other_member)

lemma rows_memberRemove: "outside c req d \<Longrightarrow> case_rows c (snd (memberRemove R cfg dict nw o24 req d)) = case_rows c d"
  unfolding memberRemove_def
  by (rule rows_gate_ready, assumption, rule rows_with_case, assumption+, intro rows_flow) (simp_all add: other_member)

lemma still_other: "case_rows c d1 = case_rows c d \<Longrightarrow> \<not> link_of_case d c i \<Longrightarrow> \<not> link_of_case d1 c i"
  using case_rows_links [of c d1 d] by simp

lemma rows_linkReissue: "outside c req d \<Longrightarrow> case_rows c (snd (linkReissue R cfg dict nw tokb o24 req d)) = case_rows c d"
  unfolding linkReissue_def
proof (rule rows_gate_ready, assumption, rule rows_when_confirmed, assumption, rule rows_with_link, assumption+, intro rows_flow)
  fix d' l d1
  assume "case_rows c d1 = case_rows c d" "case_rows c d' = case_rows c d" "\<not> link_of_case d' c (l_id l)"
  then have "\<not> link_of_case d1 c (l_id l)" by (metis still_other)
  then show "case_rows c (audit nw ev (snd (destroyAccessSessionsForLink nw (l_id l) d1))) = case_rows c d" for ev
    using \<open>case_rows c d1 = case_rows c d\<close> by (simp add: other_link_ops)
qed (simp_all add: other_link_ops)

lemma rows_linkAddRecipients: "outside c req d \<Longrightarrow> case_rows c (snd (linkAddRecipients R cfg dict nw ids o24 req d)) = case_rows c d"
  unfolding linkAddRecipients_def
  by (rule rows_gate_ready, assumption, rule rows_when_confirmed, assumption, rule rows_with_link, assumption+, intro rows_flow)
    (simp_all add: other_addRecipients)

lemma rows_linkRemoveRecipient: "outside c req d \<Longrightarrow> case_rows c (snd (linkRemoveRecipient R cfg dict nw o24 req d)) = case_rows c d"
  unfolding linkRemoveRecipient_def
  by (rule rows_gate_ready, assumption, rule rows_with_link, assumption+, intro rows_flow)
    (simp_all add: other_removeRecipient outsider_def Let_def split: RemoveResult.split)

lemma rows_linkRevoke: "outside c req d \<Longrightarrow> case_rows c (snd (linkRevoke R cfg dict nw o24 req d)) = case_rows c d"
  unfolding linkRevoke_def
proof (rule rows_gate_ready, assumption, rule rows_with_link, assumption+)
  fix s :: Session and sid d' and l :: LinkRow
  assume d': "case_rows c d' = case_rows c d" "\<not> link_of_case d' c (l_id l)"
  let ?d1 = "audit nw (link_event ''link.revoke'' s req l []) (snd (revokeLink nw (l_id l) d'))"
  have r: "case_rows c (snd (revokeLink nw (l_id l) d')) = case_rows c d'" by (rule other_link_ops [OF d'(2)])
  then have "\<not> link_of_case ?d1 c (l_id l)" using d'(2) still_other [of c ?d1 d' "l_id l"] by simp
  then show "case_rows c (snd (let (changed, d1) = revokeLink nw (l_id l) d';
      d2 = (if changed then snd (destroyAccessSessionsForLink nw (l_id l) (audit nw (link_event ''link.revoke'' s req l []) d1)) else d1)
    in (Inr (redirect 303 (''/admin/cases/'' @ l_case_id l)), d2))) = case_rows c d"
    using r d'(1) by (simp add: Let_def split_beta other_link_ops)
qed

lemma link_input_case: "link_input R dict pd d req i = Inr inp \<Longrightarrow> cl_caseId inp = i"
  by (auto simp: link_input_def Let_def bind_res_Inr_iff split: if_splits)

lemma rows_postLinks: "outside c req d \<Longrightarrow> case_rows c (snd (postLinks R cfg dict pd nw rnd o24 req d)) = case_rows c d"
  unfolding postLinks_def
  by (rule rows_gate_ready, assumption, rule rows_when_confirmed, assumption, rule rows_with_case, assumption+, intro rows_flow)
    (simp_all add: other_createLink link_input_case)

lemma updateCase_links: "links (snd (updateCase nw i n ds st d)) = links d"
  by (simp add: updateCase_def Let_def split: option.split)

lemma rows_postCaseStatus: "outside c req d \<Longrightarrow> case_rows c (snd (postCaseStatus R cfg dict nw o24 req d)) = case_rows c d"
  unfolding postCaseStatus_def
proof (rule rows_gate_ready, assumption, rule rows_with_case, assumption+)
  fix s sid d' i and cr :: CaseRow
  assume d': "outsider c s d'" "case_rows c d' = case_rows c d" "i \<noteq> c"
  define st where "st = (if field req ''status'' = ''closed'' then CaseClosed else CaseOpen)"
  obtain r d1 where u: "updateCase nw i None None (Some st) d' = (r, d1)" by fastforce
  have "case_rows c d1 = case_rows c d" "distinct (map l_id (links d1))"
    using other_updateCase [OF d'(3), of nw None None "Some st" d'] updateCase_links [of nw i None None "Some st" d'] d'(1,2)
    by (simp_all add: u outsider_def keys_ok_def)
  then show "case_rows c (snd (let closing = field req ''status'' = ''closed''
      in case updateCase nw i None None (Some (if closing then CaseClosed else CaseOpen)) d' of
         (Inl e, d1) \<Rightarrow> (Inl e, d1)
       | (Inr None, d1) \<Rightarrow> (Inr (renderCase dict req s [] [] 200 d1), d1)
       | (Inr (Some c'), d1) \<Rightarrow> (Inr (redirect 303 (''/admin/cases/'' @ i)),
            audit nw (case_event (if closing then ''case.close'' else ''case.reopen'') s req i [])
              (if closing then snd (destroyAccessSessionsForCase i d1) else d1)))) = case_rows c d"
    unfolding Let_def st_def [symmetric] u prod.case
    using other_closed [of d1 i c] d'(3) by (simp split: sum.split option.split)
qed

lemma rows_postCases: "outside c req d \<Longrightarrow> case_rows c (snd (postCases R cfg dict nw idb o24 req d)) = case_rows c d"
  unfolding postCases_def
proof (rule rows_gate_ready, assumption)
  fix s sid d'
  assume d': "outsider c s d'" "case_rows c d' = case_rows c d"
  obtain r d1 where cr: "createCase nw idb (field req ''name'') (Some (field req ''description'')) d' = (r, d1)" by fastforce
  have "case_rows c d1 = case_rows c d"
    using other_createCase [of c d' nw idb "field req ''name''" "Some (field req ''description'')"] d' by (simp add: cr outsider_def)
  moreover have "c_id x \<noteq> c" if "r = Inr x" for x using created_case [of nw idb _ _ d' x d1 c] cr d'(1) that by (auto simp: outsider_def)
  ultimately show "case_rows c (snd (let failed = \<lambda>e d1. (Inr (panel_page 400 ''cases'' [(''error'', exn_message e)]), d1)
      in case createCase nw idb (field req ''name'') (Some (field req ''description'')) d' of
         (Inl e, d1) \<Rightarrow> failed e d1
       | (Inr c, d1) \<Rightarrow>
           (case (if ad_role (se_admin s) \<noteq> RAdmin then addCaseMember nw (c_id c) (who_of s) d1 else (Inr False, d1)) of
              (Inl e, d2) \<Rightarrow> failed e d2
            | (Inr _, d2) \<Rightarrow> (Inr (redirect 303 (''/admin/cases/'' @ c_id c)),
                 audit nw (case_event ''case.create'' s req (c_id c) [(''name'', c_name c)]) d2)))) = case_rows c d"
    using other_member(1) [of "c_id (projr r)" c nw "who_of s" d1]
    by (auto simp: Let_def cr split: sum.split prod.split)
qed

subsection \<open>Accounts, uploads and the whole panel\<close>

lemma outside_same: "outside c req d \<Longrightarrow> case_tables d' = case_tables d \<Longrightarrow> outside c req d'"
  unfolding outside_def using untouched_outsider [of d' d] by blast

lemma outsider_not_admin: "outsider c s d \<Longrightarrow> ad_role (se_admin s) \<noteq> RAdmin"
  by (auto simp: outsider_def canAccessCase_def viewer_of_def)

lemma rows_gate_admins: "outside c req d \<Longrightarrow> case_rows c (snd (gate_admins R cfg dict nw o24 req k d)) = case_rows c d"
  unfolding gate_admins_def
  by (rule rows_gate_ready, assumption) (simp add: adminsOnly_def outsider_not_admin)

lemma started_upload:
  assumes "startUpload R cfg nw idb inp d = (Inr (item, m), d1)" and "x \<in> set (items d1)" and "i_id x = i_id item"
  shows "i_case_id x = su_caseId inp"
proof -
  from assms(1) obtain it where it: "ins_item it d = Inr d1" "item = it" "i_case_id it = su_caseId inp"
    by (auto simp: startUpload_def Let_def split: if_splits sum.splits)
  then have "i_id it \<notin> i_id ` set (items d)" "x \<in> set (items d) \<or> x = it"
    using assms(2) by (auto simp: ins_item_def require_Inr)
  then show ?thesis using it(2,3) assms(3) by (metis image_eqI)
qed

lemma audit_items [simp]: "items (audit nw ev d) = items d"
  by (simp add: audit_def)

lemma rows_directUpload:
  assumes "outsider c s d"
  shows "case_rows c (fst (snd (directUpload R cfg nw idb gone source req s (d, dir)))) = case_rows c d"
proof (cases "caseFor d s (validId (param req ''caseId''))")
  case (Some cr)
  then have cr: "c_id cr \<noteq> c" by (rule outsider_caseFor [OF assms])
  define inp where "inp = \<lparr>su_caseId = c_id cr,
      su_originalName = sanitizeFilename R (Some (case param req ''name'' of Some n \<Rightarrow> safeDecode n | None \<Rightarrow> [])),
      su_uploadKind = UDirect, su_declaredSize = declaredLength req, su_adminId = Some (who_of s), su_id = None\<rparr>"
  obtain r d1 where st: "startUpload R cfg nw idb inp d = (r, d1)" by fastforce
  have d1: "case_rows c d1 = case_rows c d" using other_startUpload [of inp c R cfg nw idb d] cr unfolding st snd_conv by (simp add: inp_def)
  have fin: "case_rows c (snd (completeUpload nw2 (i_id item) n h (audit nw ev d1))) = case_rows c d"
    "case_rows c (snd (failUpload (i_id item) status (audit nw ev d1))) = case_rows c d"
    if "r = Inr (item, m)" for item m nw2 n h ev status
    using started_upload [OF st [unfolded that]] cr d1 by (subst other_item_states; auto simp: inp_def)+
  show ?thesis
    unfolding directUpload_def prod.case Some option.case Let_def inp_def [symmetric] st
    apply (cases r)
     apply (auto simp: d1 fin split: exn.split prod.split sum.split)
    done
qed (simp add: directUpload_def)

lemma rows_itemDelete:
  assumes "outsider c s d"
  shows "case_rows c (fst (snd (itemDelete tr dict nw req s (d, dir)))) = case_rows c d"
proof (cases "case validId (param req ''id'') of None \<Rightarrow> None | Some i \<Rightarrow> getItem d i")
  case None
  then show ?thesis by (simp add: itemDelete_def)
next
  case (Some item)
  then have item: "item \<in> set (items d)" by (auto simp: getItem_def dest!: find_SomeD split: option.splits)
  show ?thesis
  proof (cases "caseFor d s (Some (i_case_id item))")
    case None
    then show ?thesis by (simp add: itemDelete_def Some)
  next
    case found: (Some cr)
    then have "i_case_id item \<noteq> c" using outsider_caseFor [OF assms found] caseFor_Some [OF found] by simp
    then have other: "i_case_id x \<noteq> c" if "x \<in> set (items d)" "i_id x = i_id item" for x
      using that item assms by (auto simp: outsider_def keys_ok_def dest: distinct_key_unique)
    obtain del d1 where m: "markDeleted nw (i_id item) d = (del, d1)" by fastforce
    have d1: "case_rows c d1 = case_rows c d" using other_item_states(3) [of d "i_id item" c nw] other by (simp add: m)
    have "items d1 = items d" if "\<not> del" using that m by (auto simp: markDeleted_def update_items_def n_where_0_iff upd_where_id)
    then have "case_rows c (snd (failUpload (i_id item) Aborted d1)) = case_rows c d" if "\<not> del"
      using other_item_states(2) [of d1 "i_id item" c] other that d1 by simp
    then show ?thesis using d1
      by (auto simp: itemDelete_def Some found m Let_def split: prod.split sum.split)
  qed
qed

lemma getCase_id: "getCase d i = Some cr \<Longrightarrow> c_id cr = i"
  by (auto simp: getCase_def dest!: find_SomeD)

lemma rows_uploadCreate:
  assumes "outside c req d"
  shows "case_rows c (snd (onUploadCreate R cfg nw req up d)) = case_rows c d"
proof (cases "rq_session req")
  case None
  then show ?thesis by (simp add: onUploadCreate_def)
next
  case (Some s)
  then have out: "\<not> canAccessCase d (viewer_of s) c" using assms by (simp add: outside_def outsider_def)
  have other: "i \<noteq> c" if "getCase d i = Some cr" "canAccessCase d (viewer_of s) (c_id cr)" for i cr
    using getCase_id [OF that(1)] that(2) out by metis
  show ?thesis
  proof (cases "getCase d (case tu_caseId up of None \<Rightarrow> [] | Some c \<Rightarrow> c)")
    case None
    then show ?thesis by (simp add: onUploadCreate_def Some Let_def split: option.split)
  next
    case found: (Some cr)
    show ?thesis
    proof (cases "canAccessCase d (viewer_of s) (c_id cr)")
      case False
      then show ?thesis by (simp add: onUploadCreate_def Some found Let_def split: option.split)
    next
      case True
      then have "(case tu_caseId up of None \<Rightarrow> [] | Some c \<Rightarrow> c) \<noteq> c" by (rule other [OF found])
      then have "case_rows c (snd (startUpload R cfg nw [] inp d)) = case_rows c d"
        if "su_caseId inp = (case tu_caseId up of None \<Rightarrow> [] | Some c \<Rightarrow> c)" for inp
        using that by (intro other_startUpload) simp
      then show ?thesis unfolding onUploadCreate_def Some option.case Let_def found
        by (intro rows.keeps_flow refl; simp)
    qed
  qed
qed

lemma rows_upload_ids:
  assumes "outside c req d" and "onIncomingRequest d req i = Inr ()"
    and "rq_method req \<in> {''POST'', ''OPTIONS''} \<Longrightarrow> \<forall>x \<in> set (items d). i_id x = i \<longrightarrow> i_case_id x \<noteq> c"
    and "x \<in> set (items d)" and "i_id x = i"
  shows "i_case_id x \<noteq> c"
proof (cases "rq_method req \<in> {''POST'', ''OPTIONS''}")
  case False
  then obtain s item where s: "rq_session req = Some s" "getItem d i = Some item" "canAccessCase d (viewer_of s) (i_case_id item)"
    using assms(2) by (auto simp: onIncomingRequest_def split: option.splits if_splits)
  then have "item \<in> set (items d)" "i_id item = i" by (auto simp: getItem_def dest!: find_SomeD)
  then have "x = item" using assms(1,4,5) s(1) by (auto simp: outside_def outsider_def keys_ok_def dest: distinct_key_unique)
  then show ?thesis using s assms(1) by (auto simp: outside_def outsider_def)
qed (use assms in auto)

lemma rows_uploadFinish:
  assumes "\<And>x. x \<in> set (items d) \<Longrightarrow> i_id x = tu_id up \<Longrightarrow> i_case_id x \<noteq> c"
  shows "case_rows c (fst (snd (onUploadFinish nw req up (d, dir)))) = case_rows c d"
  using other_item_states(1) [OF assms]
  by (auto simp: onUploadFinish_def Let_def split: option.split prod.split) (metis snd_conv)+

lemma rows_terminate:
  assumes "\<And>x. x \<in> set (items d) \<Longrightarrow> i_id x = i \<Longrightarrow> i_case_id x \<noteq> c"
  shows "case_rows c (onTerminate nw i d) = case_rows c d"
  using other_item_states(2) [OF assms]
  by (auto simp: onTerminate_def Let_def split: option.split prod.split) (metis snd_conv)+

lemma rows_accounts:
  "outside c req d \<Longrightarrow> case_rows c (snd (postUsers R cfg dict nw rnd o24 req d)) = case_rows c d"
  "outside c req d \<Longrightarrow> case_rows c (snd (userAction R cfg dict nw action f o24 req d)) = case_rows c d"
  unfolding postUsers_def userAction_def by (rule rows_gate_admins, assumption)+

lemma rows_account_handlers:
  assumes "case_tables (snd p) = case_tables d"
  shows "case_rows c (snd p) = case_rows c d"
  using assms by (rule untouched_rows)

lemmas untouched_handlers = untouched.keeps_account_handlers [OF refl, THEN rows_account_handlers]

lemmas rows_handlers = untouched_handlers rows_accounts rows_postCases rows_postCase rows_postCaseStatus rows_postNote
  rows_postLinks rows_linkReissue rows_linkAddRecipients rows_linkRemoveRecipient rows_linkRevoke rows_memberAdd rows_memberRemove

lemma rows_panel_db:
  assumes "panel_db S nw o24 dir call req = Some h" and "outside c req d"
  shows "case_rows c (snd (h d)) = case_rows c d"
  using assms
  by (cases call) (auto simp: panel_db_def Let_def rows_handlers)

lemma rows_guarded:
  "(\<And>s sid. rq_session req = Some s \<Longrightarrow> case_rows c (w_db (snd (k s sid w))) = case_rows c (w_db w)) \<Longrightarrow>
   case_rows c (w_db (snd (guarded g k req w))) = case_rows c (w_db w)"
  by (simp add: guarded_def split: option.split)

text \<open>The tus server finishes or cancels in a POST only the upload that the same POST has begun.\<close>

definition own_upload :: "string \<Rightarrow> Request \<Rightarrow> db \<Rightarrow> panel_call \<Rightarrow> bool" where
  "own_upload c req d call =
     (let mine = (\<lambda>i. rq_method req \<in> {''POST'', ''OPTIONS''} \<longrightarrow> (\<forall>x \<in> set (items d). i_id x = i \<longrightarrow> i_case_id x \<noteq> c))
      in case call of ATusFinish up \<Rightarrow> mine (tu_id up) | ATusTerminate i \<Rightarrow> mine i | _ \<Rightarrow> True)"

lemma rows_panel_files:
  assumes "outside c req (w_db w)" and own: "own_upload c req (w_db w) call"
  shows "case_rows c (w_db (snd (panel_files S nw o24 call req w))) = case_rows c (w_db w)"
proof -
  have s: "outsider c s (w_db w)" if "rq_session req = Some s" for s
    using assms(1) that by (simp add: outside_def)
  note ids = rows_upload_ids [OF assms(1)]
  show ?thesis
  proof (cases call)
    case (APasskeyAdd idb draws)
    have "case_tables (fst (snd (passkeyAdd R cfg dict nw idb draws req s sid (w_db w, fl)))) = case_tables (w_db w)" for R cfg dict s sid fl
      by (rule untouched.keeps_passkeyAdd) simp
    then show ?thesis
      unfolding APasskeyAdd panel_files_def Let_def panel_call.case split_beta
      by (intro rows_guarded untouched_rows) simp
  next
    case (AUpload idb gone source)
    then show ?thesis
      by (auto simp: panel_files_def Let_def in_files_def split_beta intro!: rows_guarded rows_directUpload s)
  next
    case AItemDelete
    then show ?thesis
      by (auto simp: panel_files_def Let_def split_beta intro!: rows_guarded rows_itemDelete s)
  next
    case (ATusCreate up)
    then show ?thesis
      by (auto simp: panel_files_def Let_def split_beta intro!: rows_guarded rows_uploadCreate assms(1) split: sum.split)
  next
    case (ATusFinish up)
    then show ?thesis
      using own by (auto simp: panel_files_def own_upload_def Let_def split_beta intro!: rows_guarded rows_uploadFinish split: sum.split
          dest: ids)
  next
    case (ATusTerminate i)
    then show ?thesis
      using own by (auto simp: panel_files_def own_upload_def Let_def split_beta intro!: rows_guarded rows_terminate split: sum.split
          dest: ids)
  qed (simp_all add: panel_files_def Let_def)
qed

lemma rows_security_route: "case_rows c (w_db (snd (security_route S nw o24 req w))) = case_rows c (w_db w)"
proof -
  have "case_tables (snd (gate_verified R cfg dict nw o24 req (\<lambda>s sid d. (Inr (f s sid d), d)) (w_db w))) = case_tables (w_db w)"
    for R cfg dict f
    by (rule untouched.keeps_gate_verified) simp_all
  then show ?thesis by (auto simp: security_route_def split_beta intro!: untouched_rows)
qed


text \<open>A member of no case, signed in, sends a complete request to delete a file of the case.\<close>

definition stranger_world :: world where
  "stranger_world = new_world\<lparr>w_db := sample_db\<lparr>sessions := [sample_session\<lparr>s_admin_id := ''a2''\<rparr>], case_members := []\<rparr>\<rparr>"

definition stranger_request :: Request where
  "stranger_request = sample_request\<lparr>rq_method := ''POST'', rq_cookie := Some ''outletbox_sid=sid'', rq_csrfHeader := Some ''csrf'',
     rq_params := [(''id'', sample_item_id)]\<rparr>"

definition stranger_parts :: "Request \<times> db" where
  "stranger_parts = sessionMiddleware (sv_runtime sample_server) 10 (incoming stranger_request) (w_db stranger_world)"

lemma stranger_facts:
  "map_option viewer_of (rq_session (fst stranger_parts)) = Some (''a2'', RUser)"
  "\<not> canAccessCase (w_db stranger_world) (''a2'', RUser) ''c1''"
  "keys_ok (w_db stranger_world)" "has_case (w_db stranger_world) ''c1''"
  by code_simp+


end
