(* ===== verification/LinkLaws.thy ===== *)
theory LinkLaws
  imports Links Users
begin

section \<open>Links and lists of cases\<close>

text \<open>
  What the token of a link leads to after the link was created or its token reissued, and which
  cases an account finds in its list.
\<close>

subsection \<open>Tokens\<close>

lemma b64_url_chars: "\<forall>i \<in> set [0..<64]. is_url64 (b64_url ! i)"
  by (simp add: upt_rec b64_url_def is_url64_def is_alnum_def is_upper_def is_lower_def is_digit_def between_def)

lemma newToken_matches: "is_bytes tokb \<Longrightarrow> length tokb = 32 \<Longrightarrow> matches TOKEN_RE (newToken tokb)"
  using sextets_lt [of tokb] b64_url_chars
  by (auto simp: matches_iff TOKEN_RE_def newToken_def base64url_def length_sextets)

subsection \<open>The recipients of a new link\<close>

lemma check_each_emails: "check_each R rs = Inr out \<Longrightarrow> map ri_email out = map (\<lambda>r. normalizeEmail R (ri_email r)) rs"
  by (induction rs arbitrary: out) (auto simp: Let_def bind_res_Inr_iff split: if_splits)

lemma insertRecipients_added:
  "insertRecipients nw i ids rs d = (Inr added, d') \<Longrightarrow>
    d' = d\<lparr>link_recipients := link_recipients d @ added\<rparr> \<and> (\<forall>x \<in> set added. r_link_id x = i)
    \<and> r_email ` set (listRecipients d' i) = r_email ` set (listRecipients d i) \<union> ri_email ` set rs"
proof (induction nw i ids rs d arbitrary: added d' rule: insertRecipients.induct)
  case (3 nw i b ids r rs d)
  let ?row = "\<lparr>r_id = newId ''r'' b, r_link_id = i, r_email = ri_email r, r_lang = ri_lang r,
                 r_opens = 0, r_last_opened_at = None, r_created_at = nw\<rparr>"
  have ok: "\<not> (has_recipient d (r_id ?row) \<or> \<not> has_link d i)" using 3(3) by (auto simp: Let_def split: if_splits)
  show ?case
  proof (cases "on_link d i (ri_email r)")
    case True
    have "insertRecipients nw i ids rs d = (Inr added, d')" using 3(3) ok True by (simp add: Let_def)
    from 3(1) [OF refl _ True this] ok
    have "d' = d\<lparr>link_recipients := link_recipients d @ added\<rparr> \<and> (\<forall>x \<in> set added. r_link_id x = i)
      \<and> r_email ` set (listRecipients d' i) = r_email ` set (listRecipients d i) \<union> ri_email ` set rs" by blast
    moreover have "ri_email r \<in> r_email ` set (listRecipients d i)"
      using True unfolding on_link_def listRecipients_def set_filter by (metis (mono_tags, lifting) image_eqI mem_Collect_eq)
    ultimately show ?thesis by auto
  next
    case False
    then obtain more where m: "insertRecipients nw i ids rs (d\<lparr>link_recipients := link_recipients d @ [?row]\<rparr>) = (Inr more, d')"
      "added = ?row # more" using 3(3) ok by (auto simp: Let_def split: prod.splits sum.splits)
    from 3(2) [OF refl _ False m(1)] ok
    have "d' = d\<lparr>link_recipients := (link_recipients d @ [?row]) @ more\<rparr> \<and> (\<forall>x \<in> set more. r_link_id x = i)"
      and emails: "r_email ` set (listRecipients d' i) =
        r_email ` set (listRecipients (d\<lparr>link_recipients := link_recipients d @ [?row]\<rparr>) i) \<union> ri_email ` set rs" by auto
    moreover have "listRecipients (d\<lparr>link_recipients := link_recipients d @ [?row]\<rparr>) i = listRecipients d i @ [?row]"
      by (simp add: listRecipients_def)
    then have "r_email ` set (listRecipients d' i) = r_email ` set (listRecipients d i) \<union> ri_email ` set (r # rs)"
      unfolding emails by auto
    ultimately show ?thesis using m(2) by simp
  qed
qed auto

subsection \<open>A link that was just created\<close>

lemma createLink_Inr:
  assumes "createLink R cfg nw tokb idb ids inp d = (Inr cr, d')"
  obtains rs d1 where "checkRecipients R (cl_recipients inp) = Inr rs"
    "ins_link (cr_link cr) d = Inr d1" "insertRecipients nw (l_id (cr_link cr)) ids rs d1 = (Inr (cr_recipients cr), d')"
    "cr_token cr = newToken tokb" "l_case_id (cr_link cr) = cl_caseId inp" "l_revoked_at (cr_link cr) = None"
    "l_token_hash (cr_link cr) = rt_sha256 R (newToken tokb)" "l_expires_at (cr_link cr) = cl_expiresAt inp"
    "l_opens_used (cr_link cr) = 0" "\<forall>m. l_max_opens (cr_link cr) = Some m \<longrightarrow> 0 < m"
proof -
  define l where "l = \<lparr>l_id = newId ''l'' idb, l_case_id = cl_caseId inp,
       l_label = or_else (slice0 200 (trim (cl_label inp))) ''Recipient'',
       l_token_hash = rt_sha256 R (newToken tokb), l_token_hint = slice0 6 (newToken tokb),
       l_expires_at = cl_expiresAt inp, l_revoked_at = None,
       l_max_opens = (case cl_maxOpens inp of Some (JInt n) \<Rightarrow> Some (nat n) | _ \<Rightarrow> None),
       l_opens_used = 0, l_created_at = nw, l_last_used_at = None\<rparr>"
  obtain rs where rs: "checkRecipients R (cl_recipients inp) = Inr rs"
    using assms by (cases "checkRecipients R (cl_recipients inp)") (simp_all add: createLink_def)
  have cap: "case cl_maxOpens inp of None \<Rightarrow> True | Some JOther \<Rightarrow> False | Some (JInt n) \<Rightarrow> 1 \<le> n"
    using assms rs by (auto simp: createLink_def Let_def split: option.splits jsnum.splits if_splits)
  have "(case transaction (\<lambda>d. case ins_link l d of Inl e \<Rightarrow> (Inl e, d)
            | Inr d1 \<Rightarrow> insertRecipients nw (l_id l) ids rs d1) d of
           (Inl e, d') \<Rightarrow> (Inl e, d')
         | (Inr recipients, d') \<Rightarrow>
             (Inr \<lparr>cr_link = l, cr_recipients = recipients, cr_token = newToken tokb, cr_url = linkUrl cfg (newToken tokb)\<rparr>, d'))
        = (Inr cr, d')"
    using assms unfolding createLink_def Let_def rs sum.case l_def by (auto split: if_split_asm)
  then obtain recipients where tr: "transaction (\<lambda>d. case ins_link l d of Inl e \<Rightarrow> (Inl e, d)
            | Inr d1 \<Rightarrow> insertRecipients nw (l_id l) ids rs d1) d = (Inr recipients, d')"
    and cr: "cr = \<lparr>cr_link = l, cr_recipients = recipients, cr_token = newToken tokb, cr_url = linkUrl cfg (newToken tokb)\<rparr>"
    by (auto split: prod.splits sum.splits)
  from tr obtain d1 where "ins_link l d = Inr d1" "insertRecipients nw (l_id l) ids rs d1 = (Inr recipients, d')"
    by (auto simp: transaction_def split: sum.splits prod.splits)
  then show ?thesis using that rs cap by (auto simp: cr l_def split: option.splits jsnum.splits)
qed

lemma find_unique_Some:
  assumes "x \<in> set xs" and "p x" and "\<And>y. y \<in> set xs \<Longrightarrow> p y \<Longrightarrow> y = x"
  shows "List.find p xs = Some x"
proof (cases "List.find p xs")
  case None
  then show ?thesis using assms(1,2) by (auto simp: find_None_iff)
next
  case (Some y)
  then show ?thesis using assms(3) find_SomeD by metis
qed

text \<open>
  C16. A link that was just created works: until it expires, its token leads to the link, to its case
  and to its recipients, and these are the addresses that were typed, in normal form, none lost.
\<close>

theorem new_link_resolves:
  assumes "createLink R cfg nw tokb idb ids inp d = (Inr cr, d')"
    and "is_bytes tokb" and "length tokb = 32" and "\<forall>r \<in> set (link_recipients d). has_link d (r_link_id r)"
    and "getCase d (cl_caseId inp) = Some c" and "c_status c = CaseOpen"
    and "\<forall>e. cl_expiresAt inp = Some e \<longrightarrow> later < e"
  shows "resolveToken R later d' (cr_token cr) =
      Some \<lparr>rl_link = cr_link cr, rl_case = c, rl_state = LActive, rl_recipients = cr_recipients cr\<rparr>
    \<and> r_email ` set (cr_recipients cr) = (\<lambda>r. normalizeEmail R (ri_email r)) ` set (cl_recipients inp)"
proof -
  from assms(1) obtain rs d1 where rs: "checkRecipients R (cl_recipients inp) = Inr rs"
    and l: "ins_link (cr_link cr) d = Inr d1"
    and ins: "insertRecipients nw (l_id (cr_link cr)) ids rs d1 = (Inr (cr_recipients cr), d')"
    and new: "cr_token cr = newToken tokb" "l_case_id (cr_link cr) = cl_caseId inp" "l_revoked_at (cr_link cr) = None"
      "l_token_hash (cr_link cr) = rt_sha256 R (newToken tokb)" "l_expires_at (cr_link cr) = cl_expiresAt inp"
      "l_opens_used (cr_link cr) = 0" "\<forall>m. l_max_opens (cr_link cr) = Some m \<longrightarrow> 0 < m"
    by (rule createLink_Inr)
  have d1: "d1 = d\<lparr>links := links d @ [cr_link cr]\<rparr>" and fresh: "l_id (cr_link cr) \<notin> l_id ` set (links d)"
    "rt_sha256 R (newToken tokb) \<notin> l_token_hash ` set (links d)"
    using l new(4) by (auto simp: ins_link_def)
  have none: "listRecipients d1 (l_id (cr_link cr)) = []"
    unfolding listRecipients_def filter_empty_conv using assms(4) fresh(1) by (simp add: d1) metis
  note added = insertRecipients_added [OF ins, unfolded none, simplified]
  then have d': "d' = d1\<lparr>link_recipients := link_recipients d1 @ cr_recipients cr\<rparr>"
    and on: "\<forall>x \<in> set (cr_recipients cr). r_link_id x = l_id (cr_link cr)"
    and emails: "r_email ` set (listRecipients d' (l_id (cr_link cr))) = ri_email ` set rs"
    by blast+
  have listed: "listRecipients d' (l_id (cr_link cr)) = cr_recipients cr"
    using none on by (simp add: d' listRecipients_def)
  have "List.find (\<lambda>l. l_token_hash l = rt_sha256 R (newToken tokb)) (links d') = Some (cr_link cr)"
    using fresh(2) [folded find_key_None_iff] new(4) by (simp add: d' d1 find_append)
  moreover have "getCase d' (cl_caseId inp) = Some c" using assms(5) by (simp add: d' d1 getCase_def)
  moreover have "linkState later (cr_link cr) c = LActive"
    using new(3,5-7) assms(6,7) by (auto simp: linkState_def not_le split: option.split)
  ultimately have "resolveToken R later d' (cr_token cr) =
      Some \<lparr>rl_link = cr_link cr, rl_case = c, rl_state = LActive, rl_recipients = cr_recipients cr\<rparr>"
    by (simp add: resolveToken_def new newToken_matches assms(2,3) listed)
  moreover have "map ri_email rs = map (\<lambda>r. normalizeEmail R (ri_email r)) (cl_recipients inp)"
    using rs check_each_emails by (auto simp: checkRecipients_def split: if_splits)
  then have "ri_email ` set rs = (\<lambda>r. normalizeEmail R (ri_email r)) ` set (cl_recipients inp)"
    by (metis list.set_map)
  ultimately show ?thesis using emails listed by simp
qed

text \<open>
  C17. A reissued token replaces the old one: the old address leads nowhere any more, and the new one
  to the same link, in the same state and with the same recipients.
\<close>

theorem rotation_replaces_token:
  assumes "rotateLinkToken R cfg tokb i d = (Inr (Some (token, url)), d')" and "is_bytes tokb" and "length tokb = 32"
    and "resolveToken R nw d old = Some rl" and "l_id (rl_link rl) = i" and "rt_sha256 R old \<noteq> rt_sha256 R token"
    and "distinct (map l_id (links d))" and "distinct (map l_token_hash (links d))"
  shows "resolveToken R nw d' old = None
    \<and> (\<exists>rl'. resolveToken R nw d' token = Some rl' \<and> l_id (rl_link rl') = i \<and> rl_state rl' = rl_state rl
        \<and> rl_case rl' = rl_case rl \<and> rl_recipients rl' = rl_recipients rl)"
proof -
  let ?l = "rl_link rl" and ?f = "\<lambda>l. l\<lparr>l_token_hash := rt_sha256 R token, l_token_hint := slice0 6 token\<rparr>"
  have new: "token = newToken tokb" "d' = d\<lparr>links := upd_where (\<lambda>l. l_id l = i) ?f (links d)\<rparr>"
    and free: "\<not> (\<exists>l \<in> set (links d). l_id l \<noteq> i \<and> l_token_hash l = rt_sha256 R token)"
    using assms(1) by (auto simp: rotateLinkToken_def Let_def split: option.splits if_splits)
  note old = resolveToken_SomeD [OF assms(4)]
  have only: "l = ?l" if "l \<in> set (links d)" "l_id l = i \<or> l_token_hash l = rt_sha256 R old" for l
    using that old(1,2) assms(5,7,8) by (auto dest: distinct_key_unique)
  have "rt_sha256 R old \<notin> l_token_hash ` set (links d')"
    using only assms(5,6) by (force simp: new(2) set_upd_where)
  then have "List.find (\<lambda>l. l_token_hash l = rt_sha256 R old) (links d') = None" by (simp add: find_key_None_iff)
  then have gone: "resolveToken R nw d' old = None" by (simp add: resolveToken_def)
  have "List.find (\<lambda>l. l_token_hash l = rt_sha256 R token) (links d') = Some (?f ?l)"
  proof (rule find_unique_Some)
    show "?f ?l \<in> set (links d')" using old(1) assms(5) by (auto simp: new(2) in_upd_where)
    show "l_token_hash (?f ?l) = rt_sha256 R token" by simp
    show "l = ?f ?l" if "l \<in> set (links d')" "l_token_hash l = rt_sha256 R token" for l
      using that free only by (auto simp: new(2) in_upd_where split: if_splits)
  qed
  moreover have "getCase d' (l_case_id ?l) = Some (rl_case rl)"
    using assms(4) by (auto simp: new(2) resolveToken_def getCase_def split: option.splits if_splits)
  moreover have "linkState nw (?f ?l) (rl_case rl) = rl_state rl" unfolding old(5) by (simp add: linkState_def split: option.split)
  moreover have "listRecipients d' i = rl_recipients rl" using old(6) assms(5) by (simp add: new(2) listRecipients_def)
  ultimately show ?thesis
    using gone assms(5) by (simp add: resolveToken_def newToken_matches assms(2,3) new(1))
qed

subsection \<open>Sample values\<close>

definition sample_link_input :: CreateLinkInput where
  "sample_link_input = \<lparr>cl_caseId = ''c1'', cl_label = ''For Ann'',
     cl_recipients = [\<lparr>ri_email = ''Ann@Example.org'', ri_lang = ''en''\<rparr>, \<lparr>ri_email = ''bob@example.org'', ri_lang = ''pl''\<rparr>],
     cl_expiresAt = Some 500, cl_maxOpens = Some (JInt 3)\<rparr>"

definition sample_created :: "(exn + CreatedLink) \<times> db" where
  "sample_created = createLink sample_runtime sample_config 9 (replicate 32 1) (replicate 12 0) [replicate 12 1, replicate 12 2]
     sample_link_input sample_db"

lemma sample_created_ok:
  "case fst sample_created of Inl e \<Rightarrow> False | Inr cr \<Rightarrow> map r_email (cr_recipients cr) = [''ann@example.org'', ''bob@example.org'']"
  unfolding sample_created_def by code_simp

theorem new_link_resolves_witness:
  "\<exists>cr rl. fst sample_created = Inr cr \<and> resolveToken sample_runtime 10 (snd sample_created) (cr_token cr) = Some rl \<and> rl_state rl = LActive"
proof -
  obtain cr where "fst sample_created = Inr cr" using sample_created_ok by (cases "fst sample_created") simp_all
  then have cr: "sample_created = (Inr cr, snd sample_created)" by (rule pair_of_fst)
  have found: "getCase sample_db (cl_caseId sample_link_input) = Some (hd (cases sample_db))"
    and rest: "is_bytes (replicate 32 1)" "length (replicate 32 (1 :: nat)) = 32" "c_status (hd (cases sample_db)) = CaseOpen"
      "\<forall>r \<in> set (link_recipients sample_db). has_link sample_db (r_link_id r)"
      "\<forall>e. cl_expiresAt sample_link_input = Some e \<longrightarrow> 10 < e"
    by (simp_all add: sample_db_def sample_link_input_def getCase_def is_bytes_def)
  have made: "createLink sample_runtime sample_config 9 (replicate 32 1) (replicate 12 0) [replicate 12 1, replicate 12 2]
     sample_link_input sample_db = (Inr cr, snd sample_created)"
    using cr unfolding sample_created_def .
  from new_link_resolves [OF made rest(1,2,4) found rest(3,5)]
  have "resolveToken sample_runtime 10 (snd sample_created) (cr_token cr) =
      Some \<lparr>rl_link = cr_link cr, rl_case = hd (cases sample_db), rl_state = LActive, rl_recipients = cr_recipients cr\<rparr>" ..
  moreover have "fst sample_created = Inr cr" using cr by (metis fst_conv)
  ultimately show ?thesis by (intro exI conjI) (assumption+, simp)
qed

definition sample_rotated :: "(exn + (string \<times> string) option) \<times> db" where
  "sample_rotated = rotateLinkToken sample_runtime sample_config (replicate 32 1) ''l1'' sample_db"

theorem rotation_replaces_token_witness:
  "resolveToken sample_runtime 10 (snd sample_rotated) sample_token = None"
proof -
  let ?token = "newToken (replicate 32 1)"
  have rot: "rotateLinkToken sample_runtime sample_config (replicate 32 1) ''l1'' sample_db
      = (Inr (Some (?token, linkUrl sample_config ?token)), snd sample_rotated)"
    unfolding sample_rotated_def by (simp add: rotateLinkToken_def getLink_def sample_db_def Let_def)
  have "map_option (\<lambda>rl. l_id (rl_link rl)) (resolveToken sample_runtime 10 sample_db sample_token) = Some ''l1''" by code_simp
  then obtain rl where rl: "resolveToken sample_runtime 10 sample_db sample_token = Some rl" "l_id (rl_link rl) = ''l1''" by auto
  have "rt_sha256 sample_runtime sample_token \<noteq> rt_sha256 sample_runtime ?token" by code_simp
  from rotation_replaces_token [OF rot _ _ rl this] show ?thesis by (simp add: is_bytes_def sample_db_def)
qed

subsection \<open>Which cases an account sees\<close>

text \<open>
  C15. The list of cases shows what \<open>canAccessCase\<close> allows, no more and no less: it is the list
  of all cases, the open ones first and then the newest, without those the account may not open.
\<close>

theorem listed_cases_are_accessible:
  "map cs_case (listCases d viewer) = filter (\<lambda>c. canAccessCase d viewer (c_id c))
       (sort_key (\<lambda>c. if c_status c = CaseOpen then 0 else 1 :: nat) (sort_key (\<lambda>c. - int (c_created_at c)) (cases d)))
   \<and> (\<exists>s \<in> set (listCases d viewer). c_id (cs_case s) = i) = (has_case d i \<and> canAccessCase d viewer i)"
proof -
  have access: "(\<lambda>c. snd viewer = RAdmin \<or> is_assigned d (c_id c) (fst viewer)) = (\<lambda>c. canAccessCase d viewer (c_id c))"
    by (auto simp: canAccessCase_def)
  have sorted: "map cs_case (listCases d viewer) = filter (\<lambda>c. canAccessCase d viewer (c_id c))
       (sort_key (\<lambda>c. if c_status c = CaseOpen then 0 else 1 :: nat) (sort_key (\<lambda>c. - int (c_created_at c)) (cases d)))"
    unfolding listCases_def access filter_sort [symmetric] by (simp add: comp_def summarise_def)
  then have list: "cs_case ` set (listCases d viewer) = {c \<in> set (cases d). canAccessCase d viewer (c_id c)}"
    unfolding list.set_map [symmetric] by simp
  have "(\<exists>s \<in> set (listCases d viewer). c_id (cs_case s) = i) = (\<exists>c \<in> cs_case ` set (listCases d viewer). c_id c = i)" by auto
  also have "\<dots> = (has_case d i \<and> canAccessCase d viewer i)" unfolding list by auto
  finally show ?thesis using sorted by blast
qed

end
