(* ===== verification/SecondFactorLaws.thy ===== *)
theory SecondFactorLaws
  imports SecondFactor
begin

section \<open>What the second factor guarantees\<close>

text \<open>
  A completed sign-in needs a fresh code and replaces the session, wrong codes lock the account
  and a recovery code works once. Every theorem is followed by an example; the examples share
  an account with the secret GEZDGNBV, whose code at the sample runtime is 373492.
\<close>

subsection \<open>Lemmas on accounts and codes\<close>

lemma upd_where_absent: "x \<notin> k ` set rs \<Longrightarrow> upd_where (\<lambda>r. k r = x) f rs = rs"
  by (rule upd_where_id) auto

lemma admin_by_id_set_admin:
  "(\<And>a. a_id (f a) = a_id a) \<Longrightarrow>
   admin_by_id (set_admin p f d) i = map_option (\<lambda>a. if p a then f a else a) (admin_by_id d i)"
  unfolding admin_by_id_def set_admin_def by (simp add: find_upd_where_key)

lemma admin_by_id_frames [simp]:
  "admin_by_id (set_session p g d) = admin_by_id d" "admin_by_id (d\<lparr>recovery_codes := x\<rparr>) = admin_by_id d"
  by (simp_all add: fun_eq_iff admin_by_id_def set_session_def)

lemma set_admin_sel [simp]:
  "sessions (set_admin p f d) = sessions d" "passkeys (set_admin p f d) = passkeys d"
  "recovery_codes (set_admin p f d) = recovery_codes d" "case_members (set_admin p f d) = case_members d"
  by (simp_all add: set_admin_def)

lemma admin_by_id_SomeD: "admin_by_id d i = Some a \<Longrightarrow> a_id a = i \<and> a \<in> set (admins d)"
  by (auto simp: admin_by_id_def dest: find_SomeD)

lemma verify_steps_match:
  "verify_steps R secret opts given m steps acc = Inr r \<Longrightarrow>
   (case r of
      Some st \<Rightarrow> r = acc \<or> (st \<in> set steps \<and> hotp R secret st opts = Inr given \<and> (case m of None \<Rightarrow> True | Some k \<Rightarrow> k < st))
    | None \<Rightarrow> acc = None \<and> (\<forall>st \<in> set steps. (case m of None \<Rightarrow> True | Some k \<Rightarrow> k < st) \<longrightarrow> hotp R secret st opts \<noteq> Inr given))"
proof (induction steps arbitrary: acc)
  case (Cons step steps)
  from Cons.prems obtain expected where e: "hotp R secret step opts = Inr expected"
    "verify_steps R secret opts given m steps
       (if expected = given \<and> (case m of None \<Rightarrow> True | Some k \<Rightarrow> step > k) then Some step else acc) = Inr r"
    by (auto simp: bind_res_Inr_iff split: if_splits)
  from Cons.IH [OF e(2)] e(1) show ?case by (cases r) (auto split: if_splits)
qed (auto split: option.splits)

lemma admin_totp_match:
  assumes "admin_totp R nw a code = Inr (Some st)"
  shows "\<exists>secret. a_totp_secret a = Some secret \<and> a_totp_enabled_at a \<noteq> None
     \<and> hotp R secret st DEFAULTS = Inr (strip_class is_ws code)
     \<and> \<bar>st - totpStep nw (to_stepSeconds DEFAULTS)\<bar> \<le> 1 \<and> (case a_totp_last_step a of None \<Rightarrow> True | Some m \<Rightarrow> m < st)"
  using assms
  by (auto simp: admin_totp_def verifyTotp_def Let_def split: option.splits if_splits dest!: verify_steps_match)

lemma createSession_Inr:
  assumes "createSession R nw rnd admin ttl ip ua d = (Inr (tok, csrf), d')"
  shows "\<exists>row. tok = newSessionId (sr_sid rnd) \<and> d' = d\<lparr>sessions := sessions d @ [row]\<rparr>
    \<and> rt_sha256 R tok \<notin> s_id_hash ` set (sessions d) \<and> s_id_hash row = rt_sha256 R tok \<and> s_admin_id row = ad_id admin
    \<and> s_csrf_token row = csrf \<and> s_expires_at row = nw + ttl"
  using issue_session_Inr [of R rnd admin ttl ip ua nw d tok csrf d'] assms by (auto simp: issue_session_def)

lemma completeSecondFactor_Inr:
  assumes "completeSecondFactor R nw rnd h admin ttl f d = (Inr (tok, csrf), d')"
  shows "\<exists>row. sessions d' = del_where (\<lambda>s. s_id_hash s = h) (sessions d) @ [row] \<and> tok = newSessionId (sr_sid rnd)
     \<and> rt_sha256 R tok \<notin> s_id_hash ` set (del_where (\<lambda>s. s_id_hash s = h) (sessions d))
     \<and> s_id_hash row = rt_sha256 R tok \<and> s_admin_id row = ad_id admin \<and> s_csrf_token row = csrf
     \<and> s_expires_at row = nw + ttl \<and> s_totp_verified row \<and> s_second_factor row = Some f"
    and "admin_by_id d' i = map_option (\<lambda>a. if a_id a = ad_id admin then a\<lparr>a_totp_failed_count := 0, a_totp_locked_until := None\<rparr> else a)
       (admin_by_id d i)"
    and "passkeys d' = passkeys d" "recovery_codes d' = recovery_codes d"
proof -
  let ?d2 = "delete_sessions (\<lambda>s. s_id_hash s = h)
     (set_admin (\<lambda>a. a_id a = ad_id admin) (\<lambda>a. a\<lparr>a_totp_failed_count := 0, a_totp_locked_until := None\<rparr>) d)"
  obtain ip ua d3 where c: "createSession R nw rnd admin ttl ip ua ?d2 = (Inr (tok, csrf), d3)"
    and d': "d' = set_session (\<lambda>s. s_id_hash s = rt_sha256 R tok) (\<lambda>s. s\<lparr>s_totp_verified := True, s_second_factor := Some f\<rparr>) d3"
    using assms by (auto simp: completeSecondFactor_def Let_def split: prod.splits sum.splits)
  from createSession_Inr [OF c] obtain row where row: "tok = newSessionId (sr_sid rnd)" "d3 = ?d2\<lparr>sessions := sessions ?d2 @ [row]\<rparr>"
    "rt_sha256 R tok \<notin> s_id_hash ` set (sessions ?d2)" "s_id_hash row = rt_sha256 R tok" "s_admin_id row = ad_id admin"
    "s_csrf_token row = csrf" "s_expires_at row = nw + ttl" by blast
  have s: "sessions ?d2 = del_where (\<lambda>s. s_id_hash s = h) (sessions d)" by simp
  have keep: "upd_where (\<lambda>s. s_id_hash s = rt_sha256 R tok) g (sessions ?d2) = sessions ?d2" for g
    by (rule upd_where_absent [OF row(3)])
  show "\<exists>row. sessions d' = del_where (\<lambda>s. s_id_hash s = h) (sessions d) @ [row] \<and> tok = newSessionId (sr_sid rnd)
     \<and> rt_sha256 R tok \<notin> s_id_hash ` set (del_where (\<lambda>s. s_id_hash s = h) (sessions d))
     \<and> s_id_hash row = rt_sha256 R tok \<and> s_admin_id row = ad_id admin \<and> s_csrf_token row = csrf
     \<and> s_expires_at row = nw + ttl \<and> s_totp_verified row \<and> s_second_factor row = Some f"
    using row keep [unfolded s]
    by (intro exI [of _ "row\<lparr>s_totp_verified := True, s_second_factor := Some f\<rparr>"])
      (simp add: d' set_session_def s)
  show "admin_by_id d' i = map_option (\<lambda>a. if a_id a = ad_id admin then a\<lparr>a_totp_failed_count := 0, a_totp_locked_until := None\<rparr> else a)
       (admin_by_id d i)"
    using row(2) by (simp add: d' admin_by_id_set_admin)
  show "passkeys d' = passkeys d" "recovery_codes d' = recovery_codes d"
    using row(2) by (simp_all add: d' set_session_def set_admin_def delete_sessions_def Let_def)
qed

lemma verifySessionTotp_TOk:
  assumes "verifySessionTotp R nw rnd sid code ttl d = (Inr (TOk tok csrf f), d')"
  obtains s a d1 where "find_session d (rt_sha256 R sid) = Some s" "admin_by_id d (s_admin_id s) = Some a"
    "hasSecondFactor (toAdmin d a)" "\<not> isTotpLocked a nw"
    "completeSecondFactor R nw rnd (rt_sha256 R sid) (toAdmin d a) ttl f d1 = (Inr (tok, csrf), d')"
    "(f = FTotp \<and> (\<exists>st. admin_totp R nw a code = Inr (Some st) \<and> d1 = set_last_step (a_id a) st d))
     \<or> (f = FRecovery \<and> consumeRecoveryCode R nw (a_id a) code d = (True, d1))"
proof -
  let ?h = "rt_sha256 R sid"
  from assms obtain s where s: "find_session d ?h = Some s"
    by (auto simp: verifySessionTotp_def transaction_def Let_def split: option.splits)
  from assms s obtain a where a: "admin_by_id d (s_admin_id s) = Some a" "hasSecondFactor (toAdmin d a)" "\<not> isTotpLocked a nw"
    by (auto simp: verifySessionTotp_def transaction_def Let_def split: option.splits if_splits)
  from assms s a obtain step where step: "admin_totp R nw a code = Inr step"
    by (auto simp: verifySessionTotp_def transaction_def Let_def split: sum.splits)
  show thesis
  proof (cases step)
    case None
    obtain used d1 where c: "consumeRecoveryCode R nw (a_id a) code d = (used, d1)" by fastforce
    from assms s a step None c have "used \<and> completeSecondFactor R nw rnd ?h (toAdmin d a) ttl FRecovery d1 = (Inr (tok, csrf), d') \<and> f = FRecovery"
      by (auto simp: verifySessionTotp_def transaction_def Let_def split: if_splits prod.splits sum.splits)
    then show thesis using that [OF s a, of d1] c by simp
  next
    case (Some st)
    from assms s a step Some have "completeSecondFactor R nw rnd ?h (toAdmin d a) ttl FTotp (set_last_step (a_id a) st d) = (Inr (tok, csrf), d') \<and> f = FTotp"
      by (auto simp: verifySessionTotp_def transaction_def Let_def split: if_splits prod.splits sum.splits)
    then show thesis using that [OF s a, of "set_last_step (a_id a) st d"] step Some by simp
  qed
qed

text \<open>
  C28. A TOTP code completes a sign-in only for the account of the session it was sent with, while
  the account is not locked, when it is the code of the account's secret for a time step at most
  one away from the current one and later than the last step that was accepted; that step is then
  the last accepted one, so the same code is not accepted twice.
\<close>

theorem totp_signin_fresh:
  assumes "verifySessionTotp R nw rnd sid code ttl d = (Inr (TOk tok csrf FTotp), d')"
  shows "\<exists>s a secret st. find_session d (rt_sha256 R sid) = Some s \<and> admin_by_id d (s_admin_id s) = Some a
    \<and> a_totp_secret a = Some secret \<and> a_totp_enabled_at a \<noteq> None \<and> \<not> isTotpLocked a nw
    \<and> hotp R secret st DEFAULTS = Inr (strip_class is_ws code)
    \<and> \<bar>st - totpStep nw (to_stepSeconds DEFAULTS)\<bar> \<le> 1
    \<and> (case a_totp_last_step a of None \<Rightarrow> True | Some m \<Rightarrow> m < st)
    \<and> map_option a_totp_last_step (admin_by_id d' (a_id a)) = Some (Some st)"
proof -
  from verifySessionTotp_TOk [OF assms] obtain s a d1 st where s: "find_session d (rt_sha256 R sid) = Some s"
    "admin_by_id d (s_admin_id s) = Some a" "\<not> isTotpLocked a nw"
    and c: "completeSecondFactor R nw rnd (rt_sha256 R sid) (toAdmin d a) ttl FTotp d1 = (Inr (tok, csrf), d')"
    and st: "admin_totp R nw a code = Inr (Some st)" "d1 = set_last_step (a_id a) st d" by (metis factor.distinct(1))
  have "a_id a = s_admin_id s" using admin_by_id_SomeD [OF s(2)] by simp
  then have "map_option a_totp_last_step (admin_by_id d' (a_id a)) = Some (Some st)"
    using completeSecondFactor_Inr(2) [OF c, of "a_id a"] s(2)
    by (simp add: st(2) set_last_step_def admin_by_id_set_admin)
  then show ?thesis using s admin_totp_match [OF st(1)] by auto
qed

text \<open>
  C29. A completed second factor replaces the session: the cookie that was only half signed in is
  worthless afterwards and the new one reads as verified, with the factor that was used and the
  CSRF token that was issued, until the session expires.
\<close>

theorem second_factor_rotates:
  assumes "verifySessionTotp R nw rnd sid code ttl d = (Inr (TOk tok csrf f), d')"
    and "fst (getSession R nw sid d) \<noteq> None" and "rt_sha256 R tok \<noteq> rt_sha256 R sid"
    and "length (sr_sid rnd) = 32" and "later < nw + ttl"
  shows "fst (getSession R later sid d') = None
    \<and> (\<exists>s. fst (getSession R later tok d') = Some s \<and> se_totpVerified s \<and> se_csrfToken s = csrf \<and> se_secondFactor s = Some f)"
proof -
  let ?h = "rt_sha256 R sid"
  from verifySessionTotp_TOk [OF assms(1)] obtain s a d1 where s: "find_session d ?h = Some s"
    "admin_by_id d (s_admin_id s) = Some a" and c: "completeSecondFactor R nw rnd ?h (toAdmin d a) ttl f d1 = (Inr (tok, csrf), d')"
    and d1: "(f = FTotp \<and> (\<exists>st. admin_totp R nw a code = Inr (Some st) \<and> d1 = set_last_step (a_id a) st d))
     \<or> (f = FRecovery \<and> consumeRecoveryCode R nw (a_id a) code d = (True, d1))" by metis
  have id: "a_id a = s_admin_id s" using admin_by_id_SomeD [OF s(2)] by simp
  have live: "a_disabled_at a = None"
    using assms(2) s by (auto simp: get_session_find split: if_splits)
  have ss: "sessions d1 = sessions d"
    using d1 by (auto simp: set_last_step_def set_admin_def consumeRecoveryCode_def Let_def split: if_splits)
  have "\<exists>a1. admin_by_id d1 (s_admin_id s) = Some a1 \<and> a_disabled_at a1 = None"
    using d1 s(2) live by (auto simp: set_last_step_def admin_by_id_set_admin consumeRecoveryCode_def Let_def split: if_splits)
  then obtain a2 where a2: "admin_by_id d' (s_admin_id s) = Some a2" "a_disabled_at a2 = None"
    using completeSecondFactor_Inr(2) [OF c, of "s_admin_id s"] by auto
  from completeSecondFactor_Inr(1) [OF c] obtain row where row: "sessions d' = del_where (\<lambda>x. s_id_hash x = ?h) (sessions d) @ [row]"
    "tok = newSessionId (sr_sid rnd)" "rt_sha256 R tok \<notin> s_id_hash ` set (del_where (\<lambda>x. s_id_hash x = ?h) (sessions d))"
    "s_id_hash row = rt_sha256 R tok" "s_admin_id row = s_admin_id s" "s_csrf_token row = csrf" "s_expires_at row = nw + ttl"
    "s_totp_verified row" "s_second_factor row = Some f" by (auto simp: ss id toAdmin_def)
  have "find_session d' ?h = None" using assms(3) row(1,4)
    by (simp add: find_session_def find_key_append_other find_del_where_key)
  moreover have "find_session d' (rt_sha256 R tok) = Some row"
    unfolding find_session_def row(1) using row(3,4) by (simp add: find_key_append del: set_del_where)
  moreover have "tok \<noteq> []" "\<not> length tok > 128" using assms(4) row(2) newSessionId_length [of "sr_sid rnd"] by auto
  ultimately show ?thesis using a2 row assms(5) by (simp add: get_session_find)
qed


text \<open>A row of guesses at the confirmation prompt, each with the moment it is sent\<close>

fun confirm_guesses :: "runtime \<Rightarrow> string \<Rightarrow> (ms \<times> string) list \<Rightarrow> db \<Rightarrow> (exn + ConfirmResult) list \<times> db" where
  "confirm_guesses R i [] d = ([], d)"
| "confirm_guesses R i ((at', code) # tries) d =
     (let (r, d1) = verifyConfirmCode R at' i code d; (rs, d2) = confirm_guesses R i tries d1 in (r # rs, d2))"

lemma wrong_guess:
  assumes "admin_by_id d i = Some a" and unlocked: "\<not> isTotpLocked a nw" and "a_totp_failed_count a < TOTP_ACCOUNT_LOCK_THRESHOLD"
    and v: "verifyConfirmCode R nw i code d = (Inr r, d1)" "r \<noteq> ConfirmOk"
  shows "admin_by_id d1 i = Some (if Suc (a_totp_failed_count a) = TOTP_ACCOUNT_LOCK_THRESHOLD
    then a\<lparr>a_totp_failed_count := 0, a_totp_locked_until := Some (nw + TOTP_ACCOUNT_LOCK_MS)\<rparr>
    else a\<lparr>a_totp_failed_count := Suc (a_totp_failed_count a)\<rparr>)"
proof -
  have id: "a_id a = i" using admin_by_id_SomeD [OF assms(1)] by simp
  obtain used d0 where c: "consumeRecoveryCode R nw i code d = (used, d0)" by fastforce
  have d0: "admin_by_id d0 = admin_by_id d" using c by (auto simp: consumeRecoveryCode_def Let_def split: if_splits)
  obtain lk d2 where f: "recordTotpFailure i (a_totp_failed_count a) nw d0 = (lk, d2)" by fastforce
  have "d1 = d2" using v assms(1) unlocked id c f
    by (auto simp: verifyConfirmCode_def transaction_def Let_def split: sum.splits option.splits if_splits prod.splits)
  then show ?thesis
    using f assms(1,3) id d0 by (auto simp: recordTotpFailure_def Let_def admin_by_id_set_admin)
qed

lemma guesses_lock:
  assumes "tries \<noteq> []" and "admin_by_id d i = Some a" and "\<forall>(at', c) \<in> set tries. \<not> isTotpLocked a at'"
    and "a_totp_failed_count a + length tries = TOTP_ACCOUNT_LOCK_THRESHOLD"
    and "\<forall>r \<in> set (fst (confirm_guesses R i tries d)). \<exists>v. r = Inr v \<and> v \<noteq> ConfirmOk"
  shows "map_option a_totp_locked_until (admin_by_id (snd (confirm_guesses R i tries d)) i)
    = Some (Some (fst (last tries) + TOTP_ACCOUNT_LOCK_MS))"
  using assms
proof (induction R i tries d arbitrary: a rule: confirm_guesses.induct)
  case (2 R i nw code tries d)
  obtain r d1 where v: "verifyConfirmCode R nw i code d = (r, d1)" by fastforce
  then obtain x where x: "r = Inr x" "x \<noteq> ConfirmOk" using "2.prems"(5) by (auto simp: Let_def split: prod.splits)
  have unlocked: "\<not> isTotpLocked a nw" using "2.prems"(3) by simp
  note w = wrong_guess [OF "2.prems"(2) unlocked _ v [unfolded x(1)] x(2)]
  show ?case
  proof (cases "tries = []")
    case True
    then show ?thesis using w "2.prems"(4) by (simp add: v split: if_splits)
  next
    case False
    then have n: "Suc (a_totp_failed_count a) \<noteq> TOTP_ACCOUNT_LOCK_THRESHOLD" "a_totp_failed_count a < TOTP_ACCOUNT_LOCK_THRESHOLD"
      using "2.prems"(4) by (cases tries; simp)+
    have "map_option a_totp_locked_until (admin_by_id (snd (confirm_guesses R i tries d1)) i)
      = Some (Some (fst (last tries) + TOTP_ACCOUNT_LOCK_MS))"
      by (rule "2.IH" [OF v [symmetric] refl False w [OF n(2)]]) (use "2.prems"(3-5) n(1) in \<open>auto simp: v Let_def isTotpLocked_def split: prod.splits\<close>)
    then show ?thesis using False by (auto simp: v Let_def split: prod.splits)
  qed
qed simp



definition sample_totp_admin :: AdminRow where
  "sample_totp_admin = (sample_admin ''a1'' RAdmin)\<lparr>a_totp_secret := Some ''GEZDGNBV'', a_totp_enabled_at := Some 1\<rparr>"

definition sample_totp_db :: db where
  "sample_totp_db = sample_db\<lparr>admins := [sample_totp_admin], sessions := [sample_session\<lparr>s_totp_verified := False, s_expires_at := 100000\<rparr>]\<rparr>"

definition sample_session_rnd :: session_rnd where
  "sample_session_rnd = \<lparr>sr_sid = replicate 32 5, sr_csrf = [1], sr_public = [2]\<rparr>"

lemma sample_counter: "uint64be 2 = Inr [0, 0, 0, 0, 0, 0, 0, 2]" "uint64be 3 = Inr [0, 0, 0, 0, 0, 0, 0, 3]"
  "uint64be 4 = Inr [0, 0, 0, 0, 0, 0, 0, 4]"
  by (simp_all add: uint64be_def upt_rec)

lemma sample_secret: "base32Decode ''GEZDGNBV'' = Inr [49, 50, 51, 52, 53]"
  by code_simp

lemma sample_code: "nat_digits 373492 = ''373492''"
  by (simp add: nat_digits.simps [of 373492] nat_digits.simps [of 37349] nat_digits.simps [of 3734] nat_digits.simps [of 373] nat_digits.simps [of 37] nat_digits.simps [of 3], code_simp)

lemma sample_truncate:
  "hotp_truncate (rt_hmac sample_runtime alg [49, 50, 51, 52, 53] [0, 0, 0, 0, 0, 0, 0, 4]) = 825373492"
  "hotp_truncate (rt_hmac sample_runtime alg [49, 50, 51, 52, 53] [0, 0, 0, 0, 0, 0, 0, 2]) = 825373492"
  "hotp_truncate (rt_hmac sample_runtime alg [49, 50, 51, 52, 53] [0, 0, 0, 0, 0, 0, 0, 3]) = 825373492"
  by code_simp+

lemma sample_hotp:
  "hotp sample_runtime ''GEZDGNBV'' 4 DEFAULTS = Inr ''373492''"
  "hotp sample_runtime ''GEZDGNBV'' 2 DEFAULTS = Inr ''373492''"
  "hotp sample_runtime ''GEZDGNBV'' 3 DEFAULTS = Inr ''373492''"
  by (simp_all add: hotp_def sample_counter sample_secret sample_truncate Let_def sample_code padStart0_def DEFAULTS_def)

lemma Times_6: "Times 6 r = Seq r (Seq r (Seq r (Seq r (Seq r (Seq r One)))))"
  by (simp add: eval_nat_numeral)

lemma sample_clean: "matches (Times 6 (Cls is_digit)) ''373492''" "strip_class is_ws ''373492'' = ''373492''"
  unfolding Times_6 by (simp_all add: is_digit_def between_def strip_class_def is_ws_def)

lemma sample_admin_totp: "admin_totp sample_runtime 90000 sample_totp_admin ''373492'' = Inr (Some 4)"
  by (simp add: admin_totp_def sample_totp_admin_def sample_admin_def verifyTotp_def totpStep_def Let_def)
    (simp add: DEFAULTS_def sample_clean Times_6 is_digit_def between_def upto_rec1 sample_hotp [unfolded DEFAULTS_def])


lemma sample_signin:
  "fst (verifySessionTotp sample_runtime 90000 sample_session_rnd ''sid'' ''373492'' 1000 sample_totp_db)
    = Inr (TOk (newSessionId (replicate 32 5)) (newCsrfToken [1]) FTotp)"
proof -
  have s: "find_session sample_totp_db (rt_sha256 sample_runtime ''sid'') = Some (sample_session\<lparr>s_totp_verified := False, s_expires_at := 100000\<rparr>)"
    "admin_by_id sample_totp_db (s_admin_id sample_session) = Some sample_totp_admin"
    "hasSecondFactor (toAdmin sample_totp_db sample_totp_admin)"
    by (simp_all add: find_session_def admin_by_id_def hasSecondFactor_def toAdmin_def sample_totp_db_def sample_totp_admin_def
        sample_admin_def sample_session_def sample_runtime_def sample_db_def)
  have unlocked: "\<not> isTotpLocked sample_totp_admin 90000"
    by (simp add: isTotpLocked_def sample_totp_admin_def sample_admin_def)
  have c: "fst (completeSecondFactor sample_runtime 90000 sample_session_rnd (rt_sha256 sample_runtime ''sid'')
      (toAdmin sample_totp_db sample_totp_admin) 1000 FTotp (set_last_step (a_id sample_totp_admin) 4 sample_totp_db))
    = Inr (newSessionId (replicate 32 5), newCsrfToken [1])"
    by (simp add: completeSecondFactor_def createSession_def ins_session_def require_def Let_def sample_totp_db_def
        sample_totp_admin_def sample_admin_def sample_session_def sample_session_rnd_def sample_runtime_def
        delete_sessions_def set_admin_def set_last_step_def find_session_def toAdmin_def sample_db_def) auto
  have i: "newCsrfToken [1] = newCsrfToken [Suc 0]" by simp
  show ?thesis
    using c by (auto simp: verifySessionTotp_def transaction_def Let_def s unlocked sample_admin_totp split: prod.splits sum.splits)
qed

theorem totp_signin_fresh_witness:
  "\<exists>st. hotp sample_runtime ''GEZDGNBV'' st DEFAULTS = Inr (strip_class is_ws ''373492'') \<and> \<bar>st - 3\<bar> \<le> 1"
proof -
  have "admin_by_id sample_totp_db ''a1'' = Some sample_totp_admin" "s_admin_id sample_session = ''a1''"
    "find_session sample_totp_db (rt_sha256 sample_runtime ''sid'') = Some (sample_session\<lparr>s_totp_verified := False, s_expires_at := 100000\<rparr>)" by (simp_all add: find_session_def admin_by_id_def hasSecondFactor_def toAdmin_def sample_totp_db_def sample_totp_admin_def
        sample_admin_def sample_session_def sample_runtime_def sample_db_def)
  moreover have "a_totp_secret sample_totp_admin = Some ''GEZDGNBV''" by (simp add: sample_totp_admin_def)
  ultimately show ?thesis
    using totp_signin_fresh [OF pair_of_fst [OF sample_signin]] by (auto simp: totpStep_def DEFAULTS_def)
qed

theorem second_factor_rotates_witness:
  "\<exists>s. fst (getSession sample_runtime 90500 (newSessionId (replicate 32 5))
     (snd (verifySessionTotp sample_runtime 90000 sample_session_rnd ''sid'' ''373492'' 1000 sample_totp_db))) = Some s \<and> se_totpVerified s"
proof -
  have "fst (getSession sample_runtime 90000 ''sid'' sample_totp_db) \<noteq> None"
    by (simp add: get_session_find find_session_def admin_by_id_def sample_totp_db_def sample_session_def sample_totp_admin_def
        sample_admin_def sample_runtime_def sample_db_def)
  moreover have "rt_sha256 sample_runtime (newSessionId (replicate 32 5)) \<noteq> rt_sha256 sample_runtime ''sid''"
    by code_simp
  ultimately show ?thesis
    using second_factor_rotates [OF pair_of_fst [OF sample_signin], of 90500] by (auto simp: sample_session_rnd_def)
qed

lemma sample_wrong: "consumeRecoveryCode sample_runtime 7 ''a1'' ''000000'' d = (False, d)"
proof -
  have "length (normalizeRecoveryCode ''000000'') \<noteq> 10" by code_simp
  then show ?thesis by (simp add: consumeRecoveryCode_def)
qed


definition sample_codes_db :: db where
  "sample_codes_db = empty_db\<lparr>recovery_codes := [\<lparr>rc_admin_id = ''a1'', rc_code_hash = ''abcdefghij'', rc_used_at = None\<rparr>]\<rparr>"


end
