(* ===== verification/PanelGates.thy ===== *)
theory PanelGates
  imports Scenario
begin

section \<open>What the guards of the panel keep out\<close>

text \<open>
  The router mounts the guards in front of the handlers. Every route behind a guard answers with
  the guard's refusal and leaves the state as it is; the routes are taken one by one.
\<close>

text \<open>The routes that need no session, and those that need only the password\<close>

fun before_password :: "panel_call \<Rightarrow> bool" where
  "before_password (ADbscRegister _ _) = True" | "before_password (ADbscRefresh _ _) = True"
| "before_password AGetLogin = True" | "before_password (ALogin _ _) = True"
| "before_password _ = False"

fun before_factor :: "panel_call \<Rightarrow> bool" where
  "before_factor ALogout = True" | "before_factor (ATotp _) = True" | "before_factor (APasskeyLoginOptions _) = True"
| "before_factor (APasskeyLogin _) = True" | "before_factor AGetTotp = True"
| "before_factor call = before_password call"

definition password_guard :: "server \<Rightarrow> Request \<Rightarrow> Response option" where
  "password_guard S req =
     (case requireAdmin False req of
        Some r \<Rightarrow> Some r | None \<Rightarrow> csrfProtect (sv_runtime S) (sv_cfg S) (sv_dict S) req)"

lemma password_gate:
  "password_guard S req = Some r \<Longrightarrow> gate_password (sv_runtime S) (sv_cfg S) (sv_dict S) req k d = (Inr r, d)"
  by (auto simp: password_guard_def gate_password_def split: option.splits)

lemma password_verified: "password_guard S req = Some r \<Longrightarrow> verified_guard S req = Some r"
  by (auto simp: password_guard_def verified_guard_def split: option.splits)

definition paired :: "Request \<Rightarrow> bool" where
  "paired req = (rq_session req = None \<longleftrightarrow> rq_sessionId req = None)"

lemma paired_session: "sessionMiddleware R nw (incoming req0) d = (req, d1) \<Longrightarrow> paired req"
  by (auto simp: sessionMiddleware_def incoming_def languageMiddleware_def paired_def Let_def split: option.splits if_splits prod.splits)

lemma verified_gate:
  assumes "paired req"
  shows "verified_guard S req = Some r \<Longrightarrow> gate_verified (sv_runtime S) (sv_cfg S) (sv_dict S) nw o24 req k d = (Inr r, d)"
  "verified_guard S req = Some r \<Longrightarrow> gate_ready (sv_runtime S) (sv_cfg S) (sv_dict S) nw o24 req k2 d = (Inr r, d)"
  using assms
  by (auto simp: paired_def verified_guard_def gate_verified_def gate_ready_def gate_password_def requireAdmin_def split: option.splits if_splits)

lemmas half_routes = postLogout_def postTotp_def passkeyLoginOptions_def passkeyLogin_def getTotp_def

lemmas full_routes = confirmCode_def confirmPassword_def confirmPasskeyOptions_def confirmPasskey_def
  securityPassword_def totpBegin_def totpConfirm_def totpRecovery_def totpDisable_def passkeyOptions_def
  passkeyRemove_def recoveryRegenerate_def sessionsRevokeOthers_def sessionRevoke_def
  postCases_def postCase_def postCaseStatus_def postNote_def postLinks_def linkReissue_def linkAddRecipients_def
  linkRemoveRecipient_def linkRevoke_def memberAdd_def memberRemove_def itemDownload_def
  postGroups_def postGroup_def groupDelete_def postUsers_def userAction_def gate_admins_def getAudit_def
  getConfirm_def getCases_def getCasePage_def getGroups_def getUsers_def

lemma verified_routes:
  assumes "paired req" and "panel_db S nw o24 dir call req = Some h" and "\<not> before_factor call" and "verified_guard S req = Some r"
  shows "h d = (Inr r, d)"
  using assms by (cases call) (auto simp: panel_db_def Let_def full_routes verified_gate [OF assms(1)])

lemma password_routes:
  assumes "paired req" and "panel_db S nw o24 dir call req = Some h" and "\<not> before_password call" and "password_guard S req = Some r"
  shows "h d = (Inr r, d)"
proof (cases "before_factor call")
  case True
  then show ?thesis using assms by (cases call) (auto simp: panel_db_def Let_def half_routes password_gate)
next
  case False
  then show ?thesis using verified_routes [OF assms(1,2)] password_verified [OF assms(4)] by blast
qed

lemma files_routes:
  assumes "panel_db S nw o24 dir call req = None" and "call \<noteq> AGetSecurity" and "verified_guard S req = Some r"
  shows "panel_files S nw o24 call req w = (Some (Inr r), w)"
  using assms by (cases call) (auto simp: panel_db_def panel_files_def guarded_def ready_guard_def Let_def split: option.splits)

text \<open>A request that a guard refuses changes nothing but what \<open>sessionMiddleware\<close> does to its session.\<close>

lemma refused_route:
  assumes "sessionMiddleware (sv_runtime S) nw (incoming req0) (w_db w) = (req, d1)"
    and "(\<not> before_password call \<and> password_guard S req = Some r) \<or> (\<not> before_factor call \<and> verified_guard S req = Some r)"
  shows "panel_route S nw o24 call req0 w = (Some (Inr r), w\<lparr>w_db := d1\<rparr>)"
proof (cases "panel_db S nw o24 (w_dir w) call req")
  note paired = paired_session [OF assms(1)]
  case (Some h)
  then have "call \<noteq> AGetSecurity" by (auto simp: panel_db_def Let_def)
  moreover have "h d1 = (Inr r, d1)"
    using assms(2) password_routes [OF paired Some] verified_routes [OF paired Some] by blast
  ultimately show ?thesis using Some by (simp add: panel_route_def assms(1) in_db_def Let_def)
next
  note paired = paired_session [OF assms(1)]
  case None
  have v: "verified_guard S req = Some r" using assms(2) password_verified by blast
  show ?thesis
  proof (cases "call = AGetSecurity")
    case True
    then show ?thesis using v by (simp add: panel_route_def assms(1) security_route_def verified_gate [OF paired])
  next
    case False
    then show ?thesis using None files_routes [OF None False v] by (simp add: panel_route_def assms(1) Let_def)
  qed
qed

text \<open>
  C32. Cross-site requests change nothing in the panel: a request that is not a GET, HEAD or OPTIONS
  and that comes from another origin or without the CSRF token of its session is answered by 401
  or 403 on every route of the panel but the sign-in form and the device-bound session endpoints,
  and leaves the database, the files and the flashes as they are, apart from the moment its session was last seen and the
  removal of a session that is no longer valid.
\<close>

theorem cross_site_requests_refused:
  assumes "sessionMiddleware (sv_runtime S) nw (incoming req0) (w_db w) = (req, d1)"
    and "\<not> before_password call" and "rq_method req \<notin> {''GET'', ''HEAD'', ''OPTIONS''}"
    and "\<not> origin_ok (sv_runtime S) (sv_cfg S) req
      \<or> (\<forall>s. rq_session req = Some s \<longrightarrow> rq_csrfHeader req \<noteq> Some (se_csrfToken s) \<and> map_of (rq_body req) ''_csrf'' \<noteq> Some (BText (se_csrfToken s)))"
  shows "\<exists>r. panel_route S nw o24 call req0 w = (Some (Inr r), w\<lparr>w_db := d1\<rparr>) \<and> rs_status r \<in> {401, 403}"
proof -
  have "\<exists>r. password_guard S req = Some r \<and> rs_status r \<in> {401, 403}"
    using assms(3,4)
    by (auto simp: password_guard_def requireAdmin_def csrfProtect_def respond_def redirect_def safeEqual_iff Let_def
        split: option.splits if_splits bval.splits)
  then show ?thesis using refused_route [OF assms(1)] assms(2) by blast
qed

definition sample_world :: world where
  "sample_world = new_world\<lparr>w_db := sample_db\<rparr>"

definition forged_request :: Request where
  "forged_request = sample_request\<lparr>rq_method := ''POST'', rq_cookie := Some ''outletbox_sid=sid'', rq_body := [(''name'', BText ''x'')]\<rparr>"

definition forged_parts :: "Request \<times> db" where
  "forged_parts = sessionMiddleware (sv_runtime sample_server) 10 (incoming forged_request) (w_db sample_world)"

lemma forged_session: "map_option se_csrfToken (rq_session (fst forged_parts)) = Some ''csrf''"
  "rq_method (fst forged_parts) = ''POST''" "rq_csrfHeader (fst forged_parts) = None" "rq_body (fst forged_parts) = [(''name'', BText ''x'')]"
  by code_simp+

theorem cross_site_requests_refused_witness:
  "\<exists>r. panel_route sample_server 10 [] (ACases [1]) forged_request sample_world
      = (Some (Inr r), sample_world\<lparr>w_db := snd forged_parts\<rparr>) \<and> rs_status r \<in> {401, 403}"
proof (rule cross_site_requests_refused [where req = "fst forged_parts"])
  show "sessionMiddleware (sv_runtime sample_server) 10 (incoming forged_request) (w_db sample_world) = (fst forged_parts, snd forged_parts)"
    by (simp add: forged_parts_def)
qed (use forged_session in auto)


definition half_world :: world where
  "half_world = new_world\<lparr>w_db := sample_db\<lparr>sessions := [sample_session\<lparr>s_totp_verified := False\<rparr>],
     admins := [(sample_admin ''a1'' RAdmin)\<lparr>a_totp_secret := Some ''GEZDGNBV'', a_totp_enabled_at := Some 1\<rparr>]\<rparr>\<rparr>"

definition half_parts :: "Request \<times> db" where
  "half_parts = sessionMiddleware (sv_runtime sample_server) 10 (incoming forged_request) (w_db half_world)"

lemma half_session: "map_option se_totpVerified (rq_session (fst half_parts)) = Some False"
  by code_simp


end
