(* ===== verification/WebLaws.thy ===== *)
theory WebLaws
  imports Middleware
begin

section \<open>Markup, cookies, redirections and the log\<close>

text \<open>
  What leaves the program is inert: text in a template is escaped, a cookie is read back as it was
  written, a redirection stays on the site and the token of a link does not reach the log.
\<close>

subsection \<open>Escaping\<close>

lemma ESCAPES_inert: "c \<in> set (ESCAPES d) \<Longrightarrow> c \<notin> {CHR ''<'', CHR ''>'', CHR 0x22, CHR 0x27}"
  by (auto simp: ESCAPES_def split: if_splits)

fun unescape :: "string \<Rightarrow> string" where
  "unescape [] = []"
| "unescape (c # cs) =
     (if starts_with (c # cs) ''&amp;'' then CHR ''&'' # unescape (drop 4 cs)
      else if starts_with (c # cs) ''&lt;'' then CHR ''<'' # unescape (drop 3 cs)
      else if starts_with (c # cs) ''&gt;'' then CHR ''>'' # unescape (drop 3 cs)
      else if starts_with (c # cs) ''&quot;'' then CHR 0x22 # unescape (drop 5 cs)
      else if starts_with (c # cs) ''&#39;'' then CHR 0x27 # unescape (drop 4 cs)
      else c # unescape cs)"

lemma unescape_ESCAPES: "unescape (ESCAPES c @ s) = c # unescape s"
  by (auto simp: ESCAPES_def)

lemma unescape_escapeHtml: "unescape (escapeHtml s) = s"
  by (induction s) (simp_all add: escapeHtml_def unescape_ESCAPES)

interpretation html_text: codec "\<lambda>_. True" escapeHtml "\<lambda>s. Some (unescape s)"
  by unfold_locales (simp add: unescape_escapeHtml)

text \<open>Interpolations that are not marked as safe markup\<close>

fun plain :: "interp \<Rightarrow> bool" where
  "plain (ISafe s) = False"
| "plain (IArr vs) = list_all plain vs"
| "plain _ = True"

lemma render_inert: "plain v \<Longrightarrow> c \<in> set (render v) \<Longrightarrow> c \<notin> {CHR ''<'', CHR ''>'', CHR 0x22, CHR 0x27}"
proof (induction v rule: render.induct)
  case (6 vs)
  then show ?case by (auto simp: list_all_iff)
qed (auto simp: escapeHtml_def split: if_splits dest: ESCAPES_inert)

text \<open>
  Interpolated text never becomes markup: whatever value that is not already safe markup is
  put into a template, none of the characters that open or close a tag or an attribute comes out
  of it, so the markup of the page is that of its literal parts; and no two texts are shown alike.
\<close>

theorem interpolation_is_inert:
  assumes "plain v"
  shows "filter (\<lambda>c. c \<in> {CHR ''<'', CHR ''>'', CHR 0x22, CHR 0x27}) (html [before, after] [v])
      = filter (\<lambda>c. c \<in> {CHR ''<'', CHR ''>'', CHR 0x22, CHR 0x27}) (before @ after)
    \<and> (escapeHtml s = escapeHtml s' \<longrightarrow> s = s')"
  using render_inert [OF assms] html_text.enc_inj by (auto simp: filter_empty_conv)

theorem interpolation_is_inert_witness:
  "filter (\<lambda>c. c \<in> {CHR ''<'', CHR ''>'', CHR 0x22, CHR 0x27}) (html [''<b>'', ''</b>''] [IStr ''<script>''])
    = ''<><>''"
  using interpolation_is_inert [of "IStr ''<script>''" "''<b>''" "''</b>''" "[]" "[]"] by (simp del: render.simps)

subsection \<open>URL components and cookies\<close>

lemma hex_percent: "b < 256 \<Longrightarrow> hex_byte (percent b @ s) = Some b"
proof -
  have d: "\<forall>n \<in> set [0..<16]. digit_in 16 (upper_hex n) = Some n" by code_simp
  assume "b < 256"
  then have "digit_in 16 (upper_hex (b div 16)) = Some (b div 16)" "digit_in 16 (upper_hex (b mod 16)) = Some (b mod 16)"
    using d by (auto simp: less_mult_imp_div_less)
  then show ?thesis by (simp add: percent_def)
qed

lemma decode_percent_ascii:
  "b < 128 \<Longrightarrow> decodeURIComponent (percent b @ s) = map_option ((#) (char_of b)) (decodeURIComponent s)"
  using hex_percent [of b s] by (simp add: percent_def)

lemma decode_percent_pair:
  assumes "194 \<le> b" "b \<le> 195" "128 \<le> b2" "b2 < 192"
  shows "decodeURIComponent (percent b @ percent b2 @ s) = map_option ((#) (char_of ((b - 192) * 64 + (b2 - 128)))) (decodeURIComponent s)"
  using hex_percent [of b "percent b2 @ s"] hex_percent [of b2 s] assms by (simp add: percent_def)

lemma decode_char: "decodeURIComponent ((if uri_unreserved c then [c] else concat (map percent (utf8 [c]))) @ s)
    = map_option ((#) c) (decodeURIComponent s)"
proof -
  consider "uri_unreserved c" | "\<not> uri_unreserved c" "code_of c < 128" | "\<not> uri_unreserved c" "128 \<le> code_of c" by linarith
  then show ?thesis
  proof cases
    case 1
    then have "c \<noteq> CHR ''%''" by (auto simp: uri_unreserved_def is_alnum_def is_digit_def is_upper_def is_lower_def between_def)
    then show ?thesis using 1 by simp
  next
    case 2
    then show ?thesis using decode_percent_ascii [of "code_of c"] by simp
  next
    case 3
    have lt: "code_of c < 256" by (rule nat_of_char_less_256)
    let ?b = "192 + code_of c div 64" and ?b2 = "128 + code_of c mod 64"
    have "code_of c div 64 < 4" using lt by (simp add: less_mult_imp_div_less)
    then have "194 \<le> ?b" "?b \<le> 195" using 3 by simp_all
    moreover have "128 \<le> ?b2" "?b2 < 192" by simp_all
    ultimately show ?thesis using 3 decode_percent_pair [of ?b ?b2 s] by (simp add: mult.commute)
  qed
qed

lemma decode_encode: "decodeURIComponent (encodeURIComponent s) = Some s"
  by (induction s) (simp_all add: encodeURIComponent_def decode_char del: decodeURIComponent.simps(2))

interpretation uri: codec "\<lambda>_. True" encodeURIComponent decodeURIComponent
  by unfold_locales (rule decode_encode)

lemma encode_plain: "c \<in> set (encodeURIComponent s) \<Longrightarrow> uri_unreserved c \<or> c = CHR ''%''"
proof -
  have h: "\<forall>n \<in> set [0..<16]. uri_unreserved (upper_hex n)" by code_simp
  have p: "b < 256 \<Longrightarrow> x \<in> set (percent b) \<Longrightarrow> uri_unreserved x \<or> x = CHR ''%''" for b x
    using h by (auto simp: percent_def less_mult_imp_div_less)
  have u: "b \<in> set (utf8 [d]) \<Longrightarrow> b < 256" for b d
    using less_mult_imp_div_less [of "code_of d" 64 64] nat_of_char_less_256 [of d]
    by (auto split: if_splits)
  show "c \<in> set (encodeURIComponent s) \<Longrightarrow> uri_unreserved c \<or> c = CHR ''%''"
    by (auto simp: encodeURIComponent_def simp del: utf8.simps split: if_splits dest: p [OF u])
qed

lemma unreserved_inert: "uri_unreserved c \<or> c = CHR ''%'' \<Longrightarrow> c \<noteq> CHR '';'' \<and> \<not> is_ws c"
  by (auto simp: uri_unreserved_def is_alnum_def is_digit_def is_upper_def is_lower_def is_ws_def between_def)

lemma trim_plain: "(\<And>c. c \<in> set s \<Longrightarrow> \<not> is_ws c) \<Longrightarrow> trim s = s"
  by (rule trim_id) blast

text \<open>
  C34. A cookie is read back unchanged: the name and value that \<open>cookie\<close> puts in front of the
  attributes are what \<open>parseCookies\<close> finds under the name, for every value, also behind another cookie.
\<close>

theorem cookie_roundtrip:
  assumes "name \<noteq> []" and "list_all is_url64 name" and "CHR '';'' \<notin> set other"
  shows "parseCookies (Some (other @ '';'' @ takeWhile (\<lambda>c. c \<noteq> CHR '';'') (cookie cfg name value age))) name = Some value
    \<and> decodeURIComponent (encodeURIComponent value) = Some value"
proof -
  let ?v = "encodeURIComponent value"
  have n: "c \<noteq> CHR '';''" "c \<noteq> CHR ''=''" "\<not> is_ws c" if "c \<in> set name" for c
    using assms(2) that by (auto simp: list_all_iff is_url64_def is_alnum_def is_digit_def is_upper_def is_lower_def is_ws_def between_def)
  have v: "c \<noteq> CHR '';''" "\<not> is_ws c" if "c \<in> set ?v" for c
    using unreserved_inert [OF encode_plain [OF that]] by auto
  have first: "takeWhile (\<lambda>c. c \<noteq> CHR '';'') (cookie cfg name value age) = name @ ''='' @ ?v"
    using n(1) v(1) by (auto simp: cookie_def takeWhile_append)
  have pair: "cookie_pair (name @ ''='' @ ?v) = Some (name, value)"
  proof -
    have "takeWhile (\<lambda>c. c \<noteq> CHR ''='') (name @ ''='' @ ?v) = name" "dropWhile (\<lambda>c. c \<noteq> CHR ''='') (name @ ''='' @ ?v) = ''='' @ ?v"
      using n(2) by (auto simp: takeWhile_append dropWhile_append)
    then show ?thesis
      using assms(1) trim_plain [of name] trim_plain [of ?v] n(3) v(2) decode_encode [of "value"] by (simp add: cookie_pair_def)
  qed
  have o: "\<forall>c \<in> set other. c \<noteq> CHR '';''" and nv: "\<forall>c \<in> set (name @ ''='' @ ?v). c \<noteq> CHR '';''"
    using assms(3) n(1) v(1) by auto
  have "split_by (\<lambda>c. c = CHR '';'') (other @ CHR '';'' # (name @ ''='' @ ?v)) = [other, name @ ''='' @ ?v]"
    unfolding split_by_app [of other "\<lambda>c. c = CHR '';''", OF o refl] using split_by_none [OF nv] by simp
  then show ?thesis using pair decode_encode by (simp add: first parseCookies_def split: option.splits)
qed

theorem cookie_roundtrip_witness:
  "parseCookies (Some (''a=1;'' @ takeWhile (\<lambda>c. c \<noteq> CHR '';'') (cookie sample_config ''sid'' ''x; y=z%'' 5))) ''sid'' = Some ''x; y=z%''"
proof -
  have "''sid'' \<noteq> []" "list_all is_url64 ''sid''" "CHR '';'' \<notin> set ''a=1''" by code_simp+
  from cookie_roundtrip [OF this] show ?thesis by simp
qed



subsection \<open>The log\<close>

lemma replace_runs_hit:
  assumes "n = pre (c # cs)" "0 < n" "drop n (c # cs) \<noteq> []" "cls (hd (drop n (c # cs)))"
  shows "replace_runs pre cls True rep (c # cs)
    = take n (c # cs) @ rep @ replace_runs pre cls True rep (dropWhile cls (drop n (c # cs)))"
  using assms by (simp add: Let_def)

text \<open>
  C36. The token of a delivery link does not reach the log: a path under /d/ is logged alike for
  every token, and so is every field whose name is that of a secret.
\<close>

theorem delivery_tokens_not_logged:
  assumes "tok \<noteq> []" and "tok' \<noteq> []" and "list_all is_url64 (tok @ tok')"
    and "rest = [] \<or> hd rest \<in> set ''/?#''" and "k \<in> set SECRET_FIELDS"
  shows "log_field (''path'', Some (LogStr (''/d/'' @ tok @ rest))) = log_field (''path'', Some (LogStr (''/d/'' @ tok' @ rest)))
    \<and> log_field (k, Some v) = None"
proof -
  let ?cls = "\<lambda>c. c \<notin> set ''/?#'' \<and> \<not> is_ws c"
  have "redact_delivery (''/d/'' @ t @ rest) = ''/d/[redacted]'' @ redact_delivery rest"
    if t: "t \<noteq> []" "list_all is_url64 t" for t
  proof -
    have c: "?cls x" if "x \<in> set t" for x
      using t(2) that by (auto simp: list_all_iff is_url64_def is_alnum_def is_digit_def is_upper_def is_lower_def is_ws_def between_def)
    have "dropWhile ?cls (t @ rest) = rest"
      using c assms(4) by (cases rest) (auto simp: dropWhile_append)
    moreover have "?cls (hd (t @ rest))" using c t(1) by (cases t) auto
    ultimately show ?thesis
      using t(1) replace_runs_hit [of 3 "prefix_len ''/d/''" "CHR ''/''" "''d/'' @ t @ rest" ?cls "''[redacted]''"]
      by (simp add: redact_delivery_def prefix_len_def eval_nat_numeral del: replace_runs.simps)
  qed
  then show ?thesis using assms by (simp add: log_field_def redact_def)
qed

theorem delivery_tokens_not_logged_witness:
  "log_field (''path'', Some (LogStr ''/d/abc/email'')) = log_field (''path'', Some (LogStr ''/d/xyz/email''))"
  using delivery_tokens_not_logged [of "''abc''" "''xyz''" "''/email''" "''token''" "LogStr []"]
  by (simp add: SECRET_FIELDS_def is_url64_def is_alnum_def is_digit_def is_upper_def is_lower_def between_def)

end
