(* ===== verification/StorageLaws.thy ===== *)
theory StorageLaws
  imports PanelFiles
begin

section \<open>Files: the storage interface, uploads, the life of an item, housekeeping\<close>

text \<open>
  The storage backend is an interface; the local backend provides it and refines a map from keys
  to bytes. On it rest what a successful upload leaves behind, how items change and that the
  clean-up spares every file in use.
\<close>

subsection \<open>The interface of a storage backend\<close>

text \<open>
  \<open>StorageBackend\<close> of src/storage/types.ts: \<open>contents\<close> is the file stored under a key, and the
  laws say what each operation does to it.
\<close>

definition all_bytes :: "nat list list \<times> bool \<Rightarrow> nat list" where
  "all_bytes source = concat (fst source)"

locale file_store =
  fixes contents :: "'s \<Rightarrow> string \<rightharpoonup> nat list" and valid :: "string \<Rightarrow> bool"
    and put :: "runtime \<Rightarrow> ms \<Rightarrow> string \<Rightarrow> nat list list \<times> bool \<Rightarrow> nat \<Rightarrow> 's \<Rightarrow> (exn + PutResult) \<times> 's"
    and get :: "string \<Rightarrow> 's \<Rightarrow> exn + nat list"
    and stat :: "string \<Rightarrow> 's \<Rightarrow> exn + nat option"
    and delete :: "string \<Rightarrow> 's \<Rightarrow> (exn + unit) \<times> 's"
  assumes put_contents: "valid k \<Longrightarrow> contents (snd (put R nw k src m s)) =
      (contents s)(k := (if contents s k = None \<and> snd src \<and> length (all_bytes src) \<le> m then Some (all_bytes src) else None))"
    and put_result: "valid k \<Longrightarrow> fst (put R nw k src m s) = Inr r \<Longrightarrow>
      contents s k = None \<and> snd src \<and> length (all_bytes src) \<le> m
      \<and> r = \<lparr>pr_size = length (all_bytes src), pr_sha256 = rt_sha256_bytes R (all_bytes src)\<rparr>"
    and put_ok: "valid k \<Longrightarrow> contents s k = None \<Longrightarrow> snd src \<Longrightarrow> length (all_bytes src) \<le> m \<Longrightarrow> is_ok (fst (put R nw k src m s))"
    and get_contents: "valid k \<Longrightarrow> get k s = (case contents s k of None \<Rightarrow> Inl (StorageNotFoundError k) | Some b \<Rightarrow> Inr b)"
    and stat_contents: "valid k \<Longrightarrow> stat k s = Inr (map_option length (contents s k))"
    and delete_contents: "valid k \<Longrightarrow> contents (snd (delete k s)) = (contents s)(k := None)"
begin

lemma get_put: "valid k \<Longrightarrow> put R nw k src m s = (Inr r, s') \<Longrightarrow> get k s' = Inr (all_bytes src)"
  using put_contents [of k R nw src m s] put_result [of k R nw src m s r] by (simp add: get_contents)

lemma get_put_other: "valid k \<Longrightarrow> valid k' \<Longrightarrow> k' \<noteq> k \<Longrightarrow> get k' (snd (put R nw k src m s)) = get k' s"
  by (simp add: get_contents put_contents)

lemma failed_put_leaves_nothing: "valid k \<Longrightarrow> put R nw k src m s = (Inl e, s') \<Longrightarrow> get k s' = Inl (StorageNotFoundError k)"
  using put_contents [of k R nw src m s] put_ok [of k s src m R nw] by (auto simp: get_contents split: if_splits)

lemma get_delete: "valid k \<Longrightarrow> valid k' \<Longrightarrow> get k' (snd (delete k s)) = (if k' = k then Inl (StorageNotFoundError k') else get k' s)"
  by (simp add: get_contents delete_contents)

lemma stat_get: "valid k \<Longrightarrow> stat k s = Inr (case get k s of Inl e \<Rightarrow> None | Inr b \<Rightarrow> Some (length b))"
  by (simp add: get_contents stat_contents split: option.split)

end

subsection \<open>The local backend provides it\<close>

definition stored_files :: "directory \<Rightarrow> string \<rightharpoonup> nat list" where
  "stored_files dir k = (if matches KEY_RE k then map_option st_bytes (map_of dir k) else None)"

lemma limit_stream_within:
  "li_size st + length (concat chunks) \<le> m \<Longrightarrow> limit_stream m chunks st =
     (Inr (), st\<lparr>li_size := li_size st + length (concat chunks), li_out := li_out st @ concat chunks\<rparr>)"
  by (induction chunks arbitrary: st) (simp_all add: limit_transform_def Let_def add.assoc)

lemma limit_stream_over:
  "li_size st \<le> m \<Longrightarrow> m < li_size st + length (concat chunks) \<Longrightarrow> fst (limit_stream m chunks st) = Inl (StorageLimitError m)"
  by (induction chunks arbitrary: st) (auto simp: limit_transform_def Let_def)

lemma map_of_rm_force [simp]: "map_of (rm_force n dir) = (map_of dir)(n := None)"
  by (induction dir) (auto simp: rm_force_def fun_eq_iff)

lemma key_no_dot: "matches KEY_RE k \<Longrightarrow> CHR ''.'' \<notin> set k"
  using language_Between_Cls [of 1 128 is_url64]
  by (auto simp: matches_iff KEY_RE_def is_url64_def is_alnum_def is_digit_def is_upper_def is_lower_def between_def)

lemma json_not_key: "\<not> matches KEY_RE (k @ ''.json'')"
  using key_no_dot [of "k @ ''.json''"] by auto

lemma put_stored:
  assumes "matches KEY_RE k"
  shows "stored_files (snd (local_put R nw k src m dir)) =
      (stored_files dir)(k := (if stored_files dir k = None \<and> snd src \<and> length (all_bytes src) \<le> m then Some (all_bytes src) else None))"
    and "fst (local_put R nw k src m dir) =
      (if stored_files dir k \<noteq> None then Inl (JsError ''EEXIST'')
       else if length (all_bytes src) > m then Inl (StorageLimitError m)
       else if \<not> snd src then Inl (JsError ''ERR_STREAM_PREMATURE_CLOSE'')
       else Inr \<lparr>pr_size = length (all_bytes src), pr_sha256 = rt_sha256_bytes R (all_bytes src)\<rparr>)"
proof -
  let ?l = "limit_stream m (fst src) \<lparr>li_size = 0, li_out = []\<rparr>"
  have within: "length (all_bytes src) \<le> m \<Longrightarrow> ?l = (Inr (), \<lparr>li_size = length (all_bytes src), li_out = all_bytes src\<rparr>)"
    using limit_stream_within [of "\<lparr>li_size = 0, li_out = []\<rparr>" "fst src" m] by (simp add: all_bytes_def)
  have over: "\<not> length (all_bytes src) \<le> m \<Longrightarrow> \<exists>st. ?l = (Inl (StorageLimitError m), st)"
    using limit_stream_over [of "\<lparr>li_size = 0, li_out = []\<rparr>" m "fst src"] by (cases ?l) (simp add: all_bytes_def)
  have free: "stored_files dir k = None \<longleftrightarrow> map_of dir k = None" using assms by (simp add: stored_files_def)
  show "stored_files (snd (local_put R nw k src m dir)) =
      (stored_files dir)(k := (if stored_files dir k = None \<and> snd src \<and> length (all_bytes src) \<le> m then Some (all_bytes src) else None))"
    using assms within over unfolding free
    by (cases "map_of dir k"; cases "length (all_bytes src) \<le> m")
      (auto simp: local_put_def assertValidKey_def stored_files_def fun_eq_iff)
  show "fst (local_put R nw k src m dir) =
      (if stored_files dir k \<noteq> None then Inl (JsError ''EEXIST'')
       else if length (all_bytes src) > m then Inl (StorageLimitError m)
       else if \<not> snd src then Inl (JsError ''ERR_STREAM_PREMATURE_CLOSE'')
       else Inr \<lparr>pr_size = length (all_bytes src), pr_sha256 = rt_sha256_bytes R (all_bytes src)\<rparr>)"
    using assms within over unfolding free
    by (cases "map_of dir k"; cases "length (all_bytes src) \<le> m") (auto simp: local_put_def assertValidKey_def)
qed

interpretation local_store: file_store stored_files "matches KEY_RE" local_put local_get local_stat local_delete
proof (unfold_locales, goal_cases)
  case (1 k R nw src m s)
  then show ?case by (rule put_stored(1))
next
  case (2 k R nw src m s r)
  then show ?case by (auto simp: put_stored(2) split: if_splits)
next
  case (3 k s src m R nw)
  then show ?case by (simp add: put_stored(2))
next
  case (6 k s)
  then show ?case using json_not_key [of k]
    by (auto simp: local_delete_def assertValidKey_def stored_files_def fun_eq_iff)
qed (auto simp: local_get_def local_stat_def assertValidKey_def stored_files_def option.map_comp comp_def split: option.split)

text \<open>
  C37. The local backend refines a map from keys to files: storing puts the delivered bytes under
  the key when the key was free, the stream ended normally and the limit was kept, and leaves
  nothing there otherwise; deleting removes the file, and reading and measuring show what the map
  holds. No operation touches the file of another key.
\<close>

theorem local_store_refines_map:
  assumes "matches KEY_RE k"
  shows "stored_files (snd (local_put R nw k src m dir)) =
      (stored_files dir)(k := (if stored_files dir k = None \<and> snd src \<and> length (concat (fst src)) \<le> m then Some (concat (fst src)) else None))
    \<and> is_ok (fst (local_put R nw k src m dir)) = (stored_files (snd (local_put R nw k src m dir)) k \<noteq> None)
    \<and> stored_files (snd (local_delete k dir)) = (stored_files dir)(k := None)
    \<and> local_get k dir = (case stored_files dir k of None \<Rightarrow> Inl (StorageNotFoundError k) | Some b \<Rightarrow> Inr b)
    \<and> local_stat k dir = Inr (map_option length (stored_files dir k))"
  using local_store.put_contents [OF assms] local_store.delete_contents [OF assms] local_store.get_contents [OF assms]
    local_store.stat_contents [OF assms] put_stored(2) [OF assms]
  by (simp add: all_bytes_def is_ok_def)

theorem local_store_refines_map_witness:
  "local_get ''f_1'' (snd (local_put sample_runtime 5 ''f_1'' ([[1, 2], [3]], True) 3 [])) = Inr [1, 2, 3]"
proof -
  have k: "matches KEY_RE ''f_1''" by code_simp
  have "stored_files (snd (local_put sample_runtime 5 ''f_1'' ([[1, 2], [3]], True) 3 [])) ''f_1'' = Some [1, 2, 3]"
    using local_store_refines_map [OF k, of sample_runtime 5 "([[1, 2], [3]], True)" 3 "[]"] by (simp add: stored_files_def)
  then show ?thesis using local_store.get_contents [OF k] by simp
qed

subsection \<open>An upload that succeeded\<close>

lemma ins_item_Inr: "ins_item r d = Inr d' \<Longrightarrow> d' = d\<lparr>items := items d @ [r]\<rparr> \<and> i_id r \<notin> i_id ` set (items d)"
  by (auto simp: ins_item_def)

lemma startUpload_Inr:
  assumes "startUpload R cfg nw idb inp d = (Inr (item, m), d')"
  shows "d' = d\<lparr>items := items d @ [item]\<rparr> \<and> i_id item \<notin> i_id ` set (items d) \<and> i_status item = Uploading
    \<and> i_case_id item = su_caseId inp \<and> i_kind item = IFile \<and> m \<le> maxFileBytes cfg
    \<and> i_id item = (case su_id inp of Some i \<Rightarrow> i | None \<Rightarrow> newId ''f'' idb)"
  using assms by (auto simp: startUpload_def Let_def split: if_splits sum.splits option.splits dest!: ins_item_Inr)

lemma completeUpload_new:
  assumes "items d = rest @ [item]" "i_id item \<notin> i_id ` set rest" "i_status item = Uploading"
  shows "items (snd (completeUpload nw (i_id item) n h d)) = rest @ [item\<lparr>i_status := Ready, i_size := Some n,
     i_sha256 := (case h of Some x \<Rightarrow> Some x | None \<Rightarrow> i_sha256 item), i_ready_at := Some nw\<rparr>]"
proof -
  have "upd_where (\<lambda>i. i_id i = i_id item \<and> i_status i = Uploading) f rest = rest" for f
    using assms(2) by (intro upd_where_id) (metis image_eqI)
  then show ?thesis using assms by (simp add: completeUpload_def update_items_def)
qed

text \<open>
  C38. An upload that is answered by 201 is complete: the bytes of its body, no more than the limit
  and as many as were declared, are stored under the id of a new item of the case, and the item is
  ready with their number and the hash of exactly these bytes.
\<close>

theorem accepted_upload_is_stored:
  assumes "directUpload R cfg nw idb gone source req s (d, dir) = (Inr (Some r), d', dir')" and "rs_status r = 201"
    and "matches KEY_RE (newId ''f'' idb)"
  shows "\<exists>item c. items d' = items d @ [item] \<and> i_id item \<notin> i_id ` set (items d)
    \<and> caseFor d s (validId (param req ''caseId'')) = Some c \<and> c_status c = CaseOpen \<and> i_case_id item = c_id c
    \<and> i_status item = Ready \<and> i_size item = Some (length (concat (fst source)))
    \<and> i_sha256 item = Some (hex_of (rt_sha256_bytes R (concat (fst source))))
    \<and> length (concat (fst source)) \<le> maxFileBytes cfg \<and> snd source
    \<and> (case size_nat (declaredLength req) of None \<Rightarrow> True | Some n \<Rightarrow> length (concat (fst source)) = n)
    \<and> local_get (i_id item) dir' = Inr (concat (fst source))"
proof -
  obtain c where c: "caseFor d s (validId (param req ''caseId'')) = Some c"
    using assms(1,2) by (cases "caseFor d s (validId (param req ''caseId''))") (auto simp: directUpload_def json_error_def respond_def)
  have open': "c_status c = CaseOpen"
    using assms(1,2) c by (cases "c_status c = CaseOpen") (auto simp: directUpload_def json_error_def respond_def)
  let ?inp = "\<lparr>su_caseId = c_id c, su_originalName = sanitizeFilename R (Some (case param req ''name'' of Some n \<Rightarrow> safeDecode n | None \<Rightarrow> [])),
    su_uploadKind = UDirect, su_declaredSize = declaredLength req, su_adminId = Some (who_of s), su_id = None\<rparr>"
  obtain u d1 where u: "startUpload R cfg nw idb ?inp d = (u, d1)" by fastforce
  show ?thesis
  proof (cases u)
    case (Inl e)
    then show ?thesis using assms(1,2) c open' u
      by (cases e) (auto simp: directUpload_def Let_def json_error_def respond_def)
  next
    case (Inr im)
    then obtain item m where im: "u = Inr (item, m)" by (cases im) auto
    note st = startUpload_Inr [OF u [unfolded im]]
    have key: "matches KEY_RE (i_id item)" using st assms(3) by simp
    obtain res dir1 where store: "store_upload R nw (i_id item) source m (size_nat (declaredLength req)) dir = (res, dir1)" by fastforce
    show ?thesis
    proof (cases res)
      case (Inl e)
      then show ?thesis using assms(1,2) c open' u im store
        by (cases e) (auto simp: directUpload_def Let_def json_error_def respond_def with_header_def split: if_splits)
    next
      case (Inr pr)
      from store Inr obtain put: "local_put R nw (i_id item) source m dir = (Inr pr, dir1)"
        and decl: "case size_nat (declaredLength req) of None \<Rightarrow> True | Some n \<Rightarrow> pr_size pr = n"
        by (auto simp: store_upload_def split: prod.splits sum.splits if_splits option.splits)
      note pr = local_store.put_result [OF key, of R nw source m dir pr] local_store.get_put [OF key put]
      let ?d2 = "audit nw (item_event ''upload.start'' s req item [(''kind'', ''direct''), (''size'', size_json (size_nat (declaredLength req)))]) d1"
      have fin: "dir' = dir1" "items d' = items (snd (completeUpload nw (i_id item) (pr_size pr) (Some (hex_of (pr_sha256 pr))) ?d2))"
        using assms(1) c open' u im store Inr by (auto simp: directUpload_def Let_def audit_def)
      have new: "items ?d2 = items d @ [item]" "i_id item \<notin> i_id ` set (items d)" "i_status item = Uploading"
        using st by (simp add: audit_def, blast, blast)
      from completeUpload_new [OF new] have items: "items d' = items d @ [item\<lparr>i_status := Ready, i_size := Some (pr_size pr),
        i_sha256 := Some (hex_of (pr_sha256 pr)), i_ready_at := Some nw\<rparr>]" unfolding fin(2) by simp
      show ?thesis
        using pr put decl st c open' fin(1)
        by (intro exI [of _ "item\<lparr>i_status := Ready, i_size := Some (pr_size pr),
            i_sha256 := Some (hex_of (pr_sha256 pr)), i_ready_at := Some nw\<rparr>"] exI [of _ c])
          (auto simp: items all_bytes_def split: option.splits)
    qed
  qed
qed

subsection \<open>The life of an item\<close>

text \<open>What an item may become: an upload ends, a file that is ready may go missing or be deleted, nothing comes back.\<close>

inductive item_moves :: "item_status \<Rightarrow> item_status \<Rightarrow> bool" where
  "item_moves Uploading Ready" | "item_moves Uploading Aborted" | "item_moves Uploading Expired"
| "item_moves Ready Missing" | "item_moves Ready Deleted" | "item_moves Missing Deleted"

inductive_simps item_moves_iff: "item_moves s s'"

datatype item_call = Complete ms string nat "string option" | Fail string bool | Flag string | Remove ms string

definition item_step :: "item_call \<Rightarrow> db \<Rightarrow> db" where
  "item_step call d =
     (case call of Complete nw i n h \<Rightarrow> snd (completeUpload nw i n h d)
      | Fail i expired \<Rightarrow> snd (failUpload i (if expired then Expired else Aborted) d)
      | Flag i \<Rightarrow> markMissing i d | Remove nw i \<Rightarrow> snd (markDeleted nw i d))"

lemma update_items_rows:
  assumes "\<And>i. p i \<Longrightarrow> i_id (f i) = i_id i \<and> item_moves (i_status i) (i_status (f i))"
  shows "\<exists>g. items (snd (update_items p f d)) = map g (items d) \<and> (\<forall>i. i_id (g i) = i_id i \<and> item_moves\<^sup>=\<^sup>= (i_status i) (i_status (g i)))"
  using assms by (intro exI [of _ "\<lambda>i. if p i then f i else i"]) (simp add: update_items_def upd_where_def)

lemma item_step_rows:
  "\<exists>g. items (item_step call d) = map g (items d) \<and> (\<forall>i. i_id (g i) = i_id i \<and> item_moves\<^sup>=\<^sup>= (i_status i) (i_status (g i)))"
  unfolding item_step_def completeUpload_def failUpload_def markMissing_def markDeleted_def
  by (cases call; simp only: item_call.case; rule update_items_rows) (auto simp: item_moves_iff)

definition forward :: "ItemRow \<Rightarrow> ItemRow \<Rightarrow> bool" where
  "forward i i' = (item_moves\<^sup>*\<^sup>* (i_status i) (i_status i')
     \<and> (i_status i \<in> {Aborted, Expired, Deleted} \<longrightarrow> i_status i' = i_status i))"

lemma forward_step: "item_moves\<^sup>=\<^sup>= (i_status i) (i_status i') \<Longrightarrow> forward i i'"
proof -
  assume "item_moves\<^sup>=\<^sup>= (i_status i) (i_status i')"
  moreover from this have "i_status i \<in> {Aborted, Expired, Deleted} \<Longrightarrow> i_status i' = i_status i" by (auto simp: item_moves_iff)
  ultimately show ?thesis by (auto simp: forward_def)
qed

lemma forward_trans: "forward i j \<Longrightarrow> forward j k \<Longrightarrow> forward i k"
  by (auto simp: forward_def intro: rtranclp_trans)

text \<open>
  C39. An item only moves forward: whatever sequence of the operations on items runs, each item keeps
  its id and its place and is in a state that the life of an item allows after the one it was in; an
  aborted, expired or deleted item stays what it is.
\<close>

theorem items_move_forward:
  "map i_id (items (fold item_step calls d)) = map i_id (items d)
    \<and> list_all2 (\<lambda>i i'. item_moves\<^sup>*\<^sup>* (i_status i) (i_status i')
        \<and> (i_status i \<in> {Aborted, Expired, Deleted} \<longrightarrow> i_status i' = i_status i)) (items d) (items (fold item_step calls d))"
  unfolding forward_def [symmetric]
proof (induction calls arbitrary: d)
  case Nil
  then show ?case by (simp add: list_all2_same forward_step)
next
  case (Cons call calls)
  obtain f where f: "items (item_step call d) = map f (items d)"
    "\<And>i. i_id (f i) = i_id i \<and> item_moves\<^sup>=\<^sup>= (i_status i) (i_status (f i))" using item_step_rows [of call d] by blast
  have "list_all2 forward (items d) (items (item_step call d))"
    using f forward_step by (auto simp: list.rel_map intro!: list.rel_refl_strong)
  then have "list_all2 forward (items d) (items (fold item_step calls (item_step call d)))"
    using Cons.IH [of "item_step call d"] list_all2_trans [of forward forward forward] forward_trans by blast
  then show ?case using Cons.IH [of "item_step call d"] f by simp
qed

theorem items_move_forward_witness:
  "map i_status (items (fold item_step [Remove 5 sample_item_id, Complete 6 sample_item_id 3 None] (item_step (Remove 5 sample_item_id) sample_db)))
    = [Deleted]"
proof -
  let ?d = "item_step (Remove 5 sample_item_id) sample_db"
  have "map i_status (items ?d) = [Deleted]" by code_simp
  then obtain i where "items ?d = [i]" "i_status i = Deleted" by (cases "items ?d") auto
  then show ?thesis
    using items_move_forward [of "[Remove 5 sample_item_id, Complete 6 sample_item_id 3 None]" ?d] by (auto simp: list_all2_Cons1)
qed

subsection \<open>Housekeeping and the files in use\<close>

text \<open>What is assumed of \<open>remove\<close> of the tus store: it touches the upload's own two files only.\<close>

definition removes_own_files :: "tus_remove \<Rightarrow> bool" where
  "removes_own_files tr = (\<forall>k dir dir' n. tr k dir = Some dir' \<longrightarrow> n \<noteq> k \<longrightarrow> n \<noteq> k @ ''.json'' \<longrightarrow> map_of dir' n = map_of dir n)"

lemma discard_other:
  assumes "removes_own_files tr" and "n \<noteq> i_id item" and "n \<noteq> i_id item @ ''.json''"
  shows "map_of (discardUploadData tr item dir) n = map_of dir n"
  using assms
  by (auto simp: discardUploadData_def removes_own_files_def Let_def local_delete_def split: option.split sum.split)

lemma failUpload_items:
  "items (snd (failUpload i st d)) = upd_where (\<lambda>r. i_id r = i \<and> i_status r = Uploading) (\<lambda>r. r\<lparr>i_status := st\<rparr>) (items d)"
  by (simp add: failUpload_def update_items_def)

lemma items_audit [simp]: "items (audit nw ev d) = items d"
  by (simp add: audit_def)

lemma expire_uploads_others:
  assumes "removes_own_files tr"
  shows "expire_uploads tr nw its (d, dir) = (n, d', dir') \<Longrightarrow>
     items d' = map (\<lambda>r. if i_id r \<in> i_id ` set its \<and> i_status r = Uploading then r\<lparr>i_status := Expired\<rparr> else r) (items d)
     \<and> (\<forall>k. matches KEY_RE k \<longrightarrow> k \<notin> i_id ` set its \<longrightarrow> map_of dir' k = map_of dir k)"
proof (induction its arbitrary: d dir n d' dir')
  case (Cons item rest)
  obtain ch d1 where f: "failUpload (i_id item) Expired d = (ch, d1)" by fastforce
  let ?d2 = "if ch then audit nw (system_event ''upload.expired'' item) d1 else d1"
  obtain n1 d3 dir3 where r: "expire_uploads tr nw rest (?d2, discardUploadData tr item dir) = (n1, d3, dir3)"
    by (cases "expire_uploads tr nw rest (?d2, discardUploadData tr item dir)") auto
  have d': "d' = d3" "dir' = dir3" using Cons.prems r f by (auto simp: Let_def split: if_splits)
  have i2: "items ?d2 = upd_where (\<lambda>r. i_id r = i_id item \<and> i_status r = Uploading) (\<lambda>r. r\<lparr>i_status := Expired\<rparr>) (items d)"
    using failUpload_items [of "i_id item" Expired d] by (simp add: f)
  have "map_of (discardUploadData tr item dir) k = map_of dir k" if "matches KEY_RE k" "k \<noteq> i_id item" for k
    using discard_other [OF assms that(2)] json_not_key [of "i_id item"] that(1) by metis
  then show ?case using Cons.IH [OF r] by (auto simp: d' i2 upd_where_def)
qed simp

lemma flag_missing_items:
  "flag_missing nw dir its d = (n, d') \<Longrightarrow> \<exists>g. items d' = map g (items d)
     \<and> (\<forall>r. i_id (g r) = i_id r \<and> i_kind (g r) = i_kind r \<and> (i_status (g r) = i_status r \<or> (i_status r = Ready \<and> i_status (g r) = Missing)))"
proof (induction its arbitrary: d n)
  case Nil
  then show ?case by (auto intro: exI [of _ id])
next
  case (Cons item rest)
  show ?case
  proof (cases "local_stat (i_id item) dir = Inr None")
    case True
    let ?d1 = "audit nw (system_event ''file.missing'' item) (markMissing (i_id item) d)"
    from True Cons.prems obtain n1 where "flag_missing nw dir rest ?d1 = (n1, d')" by (auto split: prod.splits)
    from Cons.IH [OF this] obtain g where g: "items d' = map g (items ?d1)"
      "\<forall>r. i_id (g r) = i_id r \<and> i_kind (g r) = i_kind r \<and> (i_status (g r) = i_status r \<or> (i_status r = Ready \<and> i_status (g r) = Missing))" by blast
    let ?p = "\<lambda>i. i_id i = i_id item \<and> i_status i = Ready \<and> i_kind i = IFile"
    have "items ?d1 = map (\<lambda>i. if ?p i then i\<lparr>i_status := Missing\<rparr> else i) (items d)"
      by (simp add: markMissing_def update_items_def upd_where_def)
    moreover have "i_status (g (r\<lparr>i_status := Missing\<rparr>)) = Missing" "i_id (g (r\<lparr>i_status := Missing\<rparr>)) = i_id r"
      "i_kind (g (r\<lparr>i_status := Missing\<rparr>)) = i_kind r" for r
      using g(2) [rule_format, of "r\<lparr>i_status := Missing\<rparr>"] by auto
    ultimately show ?thesis using g by (intro exI [of _ "\<lambda>i. g (if ?p i then i\<lparr>i_status := Missing\<rparr> else i)"]) auto
  next
    case False
    then have "flag_missing nw dir rest d = (n, d')" using Cons.prems by (auto split: sum.splits option.splits)
    then show ?thesis by (rule Cons.IH)
  qed
qed

lemma map_of_filter_keep: "(\<And>v. (k, v) \<in> set dir \<Longrightarrow> P (k, v)) \<Longrightarrow> map_of (filter P dir) k = map_of dir k"
  by (induction dir) auto

text \<open>
  C40. Housekeeping never touches a file in use: when the clean-up is over, the file of every item
  that is uploading or ready is exactly what it was before, its absence included.
\<close>

theorem cleanup_keeps_files_in_use:
  assumes "runCleanup tr cfg nw ttl verify (d, dir) = (rep, d', dir')" and "removes_own_files tr"
    and "item \<in> set (items d')" and "i_kind item = IFile" and "i_status item \<in> {Uploading, Ready}"
    and "distinct (map i_id (items d))" and "matches KEY_RE (i_id item)"
  shows "map_of dir' (i_id item) = map_of dir (i_id item)"
proof -
  let ?ttl = "case ttl of Some n \<Rightarrow> n | None \<Rightarrow> incompleteUploadTtlMs cfg"
  let ?stale = "listStaleUploads nw ?ttl d"
  obtain n1 d1 dir1 where e: "expire_uploads tr nw ?stale (d, dir) = (n1, d1, dir1)" by (cases "expire_uploads tr nw ?stale (d, dir)") auto
  obtain n2 d2 where f: "(if verify then flag_missing nw dir1 (listReadyFiles d1) d1 else (0, d1)) = (n2, d2)" by fastforce
  let ?live = "liveStorageKeys d2"
  have dir': "dir' = filter (\<lambda>e. \<not> orphan nw ?ttl (\<lambda>key. key \<in> ?live) e) dir1"
    and items: "items d' = items d2"
    using assms(1) e f
    by (auto simp: runCleanup_def Let_def local_cleanupOrphans_def purgeExpiredSessions_def purgeExpiredAccess_def delete_sessions_def
        split: prod.splits)
  obtain g where g: "items d2 = map g (items d1)"
    "\<forall>r. i_id (g r) = i_id r \<and> i_kind (g r) = i_kind r \<and> (i_status (g r) = i_status r \<or> (i_status r = Ready \<and> i_status (g r) = Missing))"
  proof (cases verify)
    case False
    then show ?thesis using that [of id] f by simp
  qed (use f flag_missing_items [of nw dir1 "listReadyFiles d1" d1 n2 d2] in auto)
  note ex = expire_uploads_others [OF assms(2) e]
  have live: "i_id item \<in> ?live" using assms(3-5) items by (auto simp: liveStorageKeys_def)
  have "i_id item \<notin> i_id ` set ?stale"
  proof
    assume stale: "i_id item \<in> i_id ` set ?stale"
    from stale obtain u where u: "u \<in> set (items d)" "i_id u = i_id item" "i_status u = Uploading" "u \<in> set ?stale" by (auto simp: listStaleUploads_def)
    let ?x = "\<lambda>r. if i_id r \<in> i_id ` set ?stale \<and> i_status r = Uploading then r\<lparr>i_status := Expired\<rparr> else r"
    have "set (items d') = (\<lambda>r. g (?x r)) ` set (items d)" using ex g(1) by (simp add: items image_image)
    then obtain r where r: "r \<in> set (items d)" "item = g (?x r)" using assms(3) by blast
    have "i_id (?x r) = i_id r" by simp
    then have r_id: "i_id r = i_id item" using g(2) unfolding r(2) by metis
    have "r = u" using distinct_key_unique [OF assms(6) r(1) u(1)] r_id u(2) by simp
    then have "item = g (u\<lparr>i_status := Expired\<rparr>)" using r(2) u(2,3) stale by simp
    then show False using g(2) [rule_format, of "u\<lparr>i_status := Expired\<rparr>"] assms(5) by auto
  qed
  then have "map_of dir1 (i_id item) = map_of dir (i_id item)" using ex assms(7) by blast
  moreover have "artefact_key (i_id item) = i_id item"
  proof -
    have "set (rev (i_id item)) = set (i_id item)" by simp
    then have "\<not> ends_with (i_id item) ''.json''"
      using key_no_dot [OF assms(7)] by (auto simp: ends_with_def starts_with_iff simp del: set_rev)
    then show ?thesis by (simp add: artefact_key_def)
  qed
  ultimately show ?thesis using live unfolding dir' by (subst map_of_filter_keep) (auto simp: orphan_def)
qed

definition sample_files :: directory where
  "sample_files = [(sample_item_id, \<lparr>st_bytes = [104, 105], st_mtime = 3\<rparr>), (''f_bbbbbbbbbbbbbbbb'', \<lparr>st_bytes = [0], st_mtime = 1\<rparr>)]"

lemma sample_sweep:
  "listStaleUploads 50 20 sample_db = []"
  "flag_missing 50 sample_files (listReadyFiles sample_db) sample_db = (0, sample_db)"
  "map (\<lambda>i. (i_id i, i_kind i, i_status i)) (items sample_db) = [(sample_item_id, IFile, Ready)]"
  by code_simp+

lemma sample_cleanup:
  "items (fst (snd (runCleanup (\<lambda>_ _. None) cfg 50 (Some 20) True (sample_db, sample_files)))) = items sample_db"
  by (simp add: runCleanup_def sample_sweep Let_def purgeExpiredSessions_def purgeExpiredAccess_def delete_sessions_def split: prod.split)

theorem cleanup_keeps_files_in_use_witness:
  "map_of (snd (snd (runCleanup (\<lambda>_ _. None) sample_config 50 (Some 20) True (sample_db, sample_files)))) sample_item_id
    = Some \<lparr>st_bytes = [104, 105], st_mtime = 3\<rparr>"
proof -
  let ?c = "runCleanup (\<lambda>_ _. None) sample_config 50 (Some 20) True (sample_db, sample_files)"
  obtain rep d' dir' where c: "?c = (rep, d', dir')" by (cases ?c) auto
  then obtain item where i: "item \<in> set (items d')" "i_id item = sample_item_id" "i_kind item = IFile" "i_status item = Ready"
    using sample_cleanup [of sample_config] sample_sweep(3) by (auto simp: map_eq_Cons_conv)
  have "removes_own_files (\<lambda>_ _. None)" by (simp add: removes_own_files_def)
  moreover have "distinct (map i_id (items sample_db))" "matches KEY_RE sample_item_id"
    "map_of sample_files sample_item_id = Some \<lparr>st_bytes = [104, 105], st_mtime = 3\<rparr>" by code_simp+
  ultimately show ?thesis using cleanup_keeps_files_in_use [OF c _ i(1,3)] i c by simp
qed

definition upload_session :: Session where
  "upload_session = \<lparr>se_admin = toAdmin sample_db (sample_admin ''a1'' RAdmin), se_csrfToken = ''csrf'', se_expiresAt = 100, se_totpVerified = True,
     se_totpAttempts = 0, se_publicId = ''s_1'', se_secondFactor = None, se_confirmedUntil = None\<rparr>"

definition upload_request :: Request where
  "upload_request = sample_request\<lparr>rq_params := [(''caseId'', ''c_AAAAAAAAAAAAAAAA''), (''name'', ''b.txt'')], rq_contentLength := Some ''2''\<rparr>"

definition upload_state :: "db \<times> directory" where
  "upload_state = (sample_db\<lparr>cases := [\<lparr>c_id = ''c_AAAAAAAAAAAAAAAA'', c_name = ''Case'', c_description = [], c_status = CaseOpen,
     c_created_at = 1, c_updated_at = 1\<rparr>]\<rparr>, [])"

lemma sample_upload:
  "case fst (directUpload sample_runtime sample_config 9 (replicate 12 4) False ([[104], [105]], True) upload_request upload_session upload_state) of
     Inr (Some r) \<Rightarrow> rs_status r = 201 | _ \<Rightarrow> False"
  "matches KEY_RE (newId ''f'' (replicate 12 4))"
  by code_simp+

theorem accepted_upload_is_stored_witness:
  "\<exists>item \<in> set (items (fst (snd (directUpload sample_runtime sample_config 9 (replicate 12 4) False ([[104], [105]], True)
      upload_request upload_session upload_state)))). i_status item = Ready \<and> i_size item = Some 2"
proof -
  let ?u = "directUpload sample_runtime sample_config 9 (replicate 12 4) False ([[104], [105]], True) upload_request upload_session
    (fst upload_state, snd upload_state)"
  obtain r d' dir' where u: "?u = (Inr (Some r), d', dir')" "rs_status r = 201"
    using sample_upload(1) by (cases ?u) (auto split: sum.splits option.splits)
  from accepted_upload_is_stored [OF u sample_upload(2)] obtain item where "items d' = items (fst upload_state) @ [item]"
    "i_status item = Ready" "i_size item = Some (length (concat (fst ([[104 :: nat], [105]], True))))" by blast
  then show ?thesis using u by auto
qed

end
