(* ===== verification/Layout.thy ===== *)
theory Layout
  imports Http
begin

section \<open>The layout of the pages\<close>

text \<open>
  Pages are built from tagged templates: the literal parts of src/http/html.ts html are trusted, an
  interpolated text is escaped (theory Http). \<open>lit\<close> is a literal part, \<open>IStr\<close> an interpolated text and
  \<open>tpl\<close> the template of its alternating parts, which \<open>html_tpl\<close> shows to be what html builds. The
  layout, the flash box and the CSRF input are those of src/http/html.ts and views/deliver.ts; the
  texts of the languages are an argument (\<open>translator\<close>, src/i18n.ts). \<open>chrome\<close> holds what the pages take
  from their surroundings: dictionaries, the time zone, the brand and the versions of the assets.
\<close>

text \<open>The characters beyond U+00FF that the pages use stand as their UTF-8 bytes.\<close>

definition bytes_text :: "nat list \<Rightarrow> string" where
  "bytes_text = map char_of"

definition EM_DASH :: string where "EM_DASH = bytes_text [0xE2, 0x80, 0x94]"

definition ELLIPSIS :: string where "ELLIPSIS = bytes_text [0xE2, 0x80, 0xA6]"

subsection \<open>Languages of the pages (src/i18n.ts)\<close>

definition LANG_NAMES :: "Lang \<Rightarrow> string" where
  "LANG_NAMES l = (case map_of [
     (''bg'', bytes_text [0xD0, 0x91, 0xD1, 0x8A, 0xD0, 0xBB, 0xD0, 0xB3, 0xD0, 0xB0, 0xD1, 0x80, 0xD1, 0x81, 0xD0, 0xBA, 0xD0, 0xB8]),
     (''cs'', bytes_text [0xC4, 0x8C] @ ''e'' @ bytes_text [0xC5, 0xA1] @ ''tina''),
     (''da'', ''Dansk''), (''de'', ''Deutsch''),
     (''el'', bytes_text [0xCE, 0x95, 0xCE, 0xBB, 0xCE, 0xBB, 0xCE, 0xB7, 0xCE, 0xBD, 0xCE, 0xB9, 0xCE, 0xBA, 0xCE, 0xAC]),
     (''en'', ''English''), (''es'', ''Espa'' @ [CHR 0xF1] @ ''ol''), (''et'', ''Eesti''), (''fi'', ''Suomi''),
     (''fr'', ''Fran'' @ [CHR 0xE7] @ ''ais''), (''ga'', ''Gaeilge''), (''hr'', ''Hrvatski''), (''hu'', ''Magyar''),
     (''it'', ''Italiano''), (''lt'', ''Lietuvi'' @ bytes_text [0xC5, 0xB3]), (''lv'', ''Latvie'' @ bytes_text [0xC5, 0xA1] @ ''u''),
     (''mt'', ''Malti''), (''nl'', ''Nederlands''), (''pl'', ''Polski''), (''pt'', ''Portugu'' @ [CHR 0xEA] @ ''s''),
     (''ro'', ''Rom'' @ [CHR 0xE2] @ ''n'' @ bytes_text [0xC4, 0x83]), (''sk'', ''Sloven'' @ bytes_text [0xC4, 0x8D] @ ''ina''),
     (''sl'', ''Sloven'' @ bytes_text [0xC5, 0xA1, 0xC4, 0x8D] @ ''ina''), (''sv'', ''Svenska'')] l of
   Some n \<Rightarrow> n | None \<Rightarrow> [])"

type_synonym Translator = "string \<Rightarrow> Params option \<Rightarrow> string"

definition translator :: "dictionary \<Rightarrow> Lang \<Rightarrow> Translator" where
  "translator dict lang = t dict lang"

definition clientMessages :: "dictionary \<Rightarrow> Lang \<Rightarrow> (string \<times> json) list" where
  "clientMessages dict lang = map (\<lambda>k. (k, JStr (t dict lang k None)))
     [''upload.js.queued'', ''upload.js.too_large'', ''upload.js.error'', ''upload.js.starting'', ''upload.js.resuming'', ''upload.js.retrying'',
      ''upload.js.done'', ''upload.js.finalising'', ''upload.js.cancelled'', ''upload.js.cancelled_local'', ''upload.js.reload'',
      ''common.copied'', ''common.copy_manual'', ''common.cancel'', ''common.retry'']"

subsection \<open>Templates\<close>

text \<open>
  A tagged template with its literal parts and its interpolated values in the order of the
  source: \<open>lit\<close> marks the literal parts. \<open>tpl\<close> is \<open>html\<close> on them (\<open>html_tpl\<close> below).
\<close>

abbreviation lit :: "string \<Rightarrow> interp" where "lit \<equiv> ISafe"

abbreviation nothing :: interp where "nothing \<equiv> IStr []"

definition tpl :: "interp list \<Rightarrow> interp" where
  "tpl vs = ISafe (concat (map render vs))"

fun interleave :: "string list \<Rightarrow> interp list \<Rightarrow> interp list" where
  "interleave [] vs = []"
| "interleave (s # ss) [] = lit s # interleave ss []"
| "interleave (s # ss) (v # vs) = lit s # v # interleave ss vs"

lemma html_tpl: "tpl (interleave ss vs) = ISafe (html ss vs)"
  by (induction ss vs rule: interleave.induct) (simp_all add: tpl_def)

definition unlines :: "string list \<Rightarrow> string" where
  "unlines ls = join [CHR 0x0A] ls"

definition when_some :: "string option \<Rightarrow> (string \<Rightarrow> interp) \<Rightarrow> interp" where
  "when_some x f = (case x of None \<Rightarrow> nothing | Some s \<Rightarrow> if s = [] then nothing else f s)"

subsection \<open>Dates\<close>

definition pad_to :: "nat \<Rightarrow> nat \<Rightarrow> string" where
  "pad_to k n = (let ds = nat_digits n in replicate (k - length ds) CHR ''0'' @ ds)"

text \<open>Year, month and day of a day counted from 1970-01-01 in the Gregorian calendar\<close>

definition civil :: "nat \<Rightarrow> nat \<times> nat \<times> nat" where
  "civil days =
     (let z = days + 719468; era = z div 146097; doe = z mod 146097;
          yoe = (doe - doe div 1460 + doe div 36524 - doe div 146096) div 365;
          doy = doe - (365 * yoe + yoe div 4 - yoe div 100);
          mp = (5 * doy + 2) div 153;
          m = (if mp < 10 then mp + 3 else mp - 9)
      in (yoe + era * 400 + (if m \<le> 2 then 1 else 0), m, doy - (153 * mp + 2) div 5 + 1))"

definition iso_time :: "ms \<Rightarrow> string" where
  "iso_time n =
     (let (y, m, d) = civil (n div 86400000); s = n div 1000
      in pad_to 4 y @ ''-'' @ pad_to 2 m @ ''-'' @ pad_to 2 d @ ''T'' @ pad_to 2 (s div 3600 mod 24) @ '':''
         @ pad_to 2 (s div 60 mod 60) @ '':'' @ pad_to 2 (s mod 60) @ ''.'' @ pad_to 3 (n mod 1000) @ ''Z'')"

subsection \<open>The chrome of a page (src/http/html.ts)\<close>

text \<open>
  What the process sets once at startup, with the dictionary and \<open>toLocaleString\<close> (short date
  and time in UTC), which depends on the locale data of the runtime.
\<close>

record chrome =
  ch_dict :: dictionary
  ch_utc :: "Lang \<Rightarrow> ms \<Rightarrow> string"
  ch_brand :: Brand
  ch_assetVersion :: string
  ch_appVersion :: string

definition fmtDate :: "chrome \<Rightarrow> ms option \<Rightarrow> Lang \<Rightarrow> interp" where
  \<open>fmtDate E stamp lang =
     (case stamp of
        None \<Rightarrow> (tpl [lit EM_DASH])
      | Some d \<Rightarrow> (let utc = ch_utc E (dateLocale lang) d @ '' UTC'' in (tpl [lit ''<time datetime="'',
      IStr (iso_time d),
      lit ''">'',
      IStr utc,
      lit ''</time>''])))\<close>

definition asset :: "chrome \<Rightarrow> string \<Rightarrow> string" where
  "asset E path = path @ ''?v='' @ ch_assetVersion E"

record LayoutOptions =
  lo_lang :: Lang
  lo_title :: string
  lo_body :: interp
  lo_scripts :: "string list"
  lo_nav :: "interp option"
  lo_path :: "string option"

definition lang_switcher :: "Lang \<Rightarrow> string \<Rightarrow> interp list" where
  \<open>lang_switcher lang next = map (\<lambda>l. if l = lang
       then (tpl [lit ''<li><span class="lang-current" lang="'',
      IStr l,
      lit ''" aria-current="true">'',
      IStr (LANG_NAMES l),
      lit ''</span></li>''])
       else (tpl [lit ''<li><a href="/lang/'',
      IStr l,
      lit ''?next='',
      IStr (encodeURIComponent next),
      lit ''" hreflang="'',
      IStr l,
      lit ''" lang="'',
      IStr l,
      lit ''">'',
      IStr (LANG_NAMES l),
      lit ''</a></li>''])) LANGS\<close>

definition layout :: "chrome \<Rightarrow> LayoutOptions \<Rightarrow> string" where
  \<open>layout E opts =
     (let b = ch_brand E; lang = lo_lang opts; tt = t (ch_dict E) lang;
          tagline = tt ''app.tagline'' None;
          footer = or_else (br_footerText b)
             (if br_name b = ''outletbox'' then tagline else br_name b @ [CHR '' '', CHR 0xB7, CHR '' ''] @ tagline);
          next = (case lo_path opts of None \<Rightarrow> ''/''
             | Some p \<Rightarrow> if p \<noteq> [] \<and> starts_with p ''/'' \<and> \<not> starts_with p ''//'' then p else ''/'');
          logo = (case br_logoPath b of None \<Rightarrow> False | Some p \<Rightarrow> p \<noteq> [])
      in render (tpl [lit (unlines [''<!doctype html>'',
      ''<html lang="'']),
      IStr lang,
      lit (unlines [''">'',
      ''<head>'',
      ''<meta charset="utf-8">'',
      ''<meta name="viewport" content="width=device-width, initial-scale=1">'',
      ''<meta name="referrer" content="no-referrer">'',
      ''<title>'']),
      IStr (lo_title opts),
      lit ('' '' @ [CHR 0xB7] @ '' ''),
      IStr (br_name b),
      lit (unlines [''</title>'',
      ''<link rel="stylesheet" href="'']),
      IStr (asset E ''/static/style.css''),
      lit (unlines [''">'',
      ''<link rel="stylesheet" href="/brand/theme.css">'',
      []]),
      if logo then (tpl [lit ''<link rel="icon" href="/brand/logo">'']) else nothing,
      lit (unlines [[],
      ''</head>'',
      ''<body data-date-locale="'']),
      IStr (dateLocale lang),
      lit ''" data-copied="'',
      IStr (tt ''common.copied'' None),
      lit ''" data-copy-manual="'',
      IStr (tt ''common.copy_manual'' None),
      lit (unlines [''">'',
      ''<header class="topbar">'',
      ''  <div class="topbar-inner">'',
      ''    <a class="brand" href="'']),
      IStr (if lo_nav opts \<noteq> None then ''/admin'' else ''/''),
      lit ''">'',
      if logo then (tpl [lit ''<img class="brand-logo" src="/brand/logo" alt="'',
      IStr (br_name b),
      lit ''">'']) else IStr (br_name b),
      lit (unlines [''</a>'',
      ''    <div class="topbar-right">'',
      ''      '']),
      case lo_nav opts of Some n \<Rightarrow> n | None \<Rightarrow> nothing,
      lit (unlines [[],
      ''      <img class="project-mark" src="'']),
      IStr (asset E ''/static/outletbox-logo.png''),
      lit (''" alt="outletbox" title="outletbox '' @ [CHR 0xB7] @ '' ''),
      IStr (tt ''app.tagline'' None),
      lit (unlines [''" width="59" height="44">'',
      ''    </div>'',
      ''  </div>'',
      ''</header>'',
      ''<main class="container">'',
      []]),
      lo_body opts,
      lit (unlines [[],
      ''</main>'',
      ''<footer class="footer">'']),
      IStr footer,
      lit ('' '' @ [CHR 0xB7] @ '' <span class="version">outletbox v''),
      IStr (ch_appVersion E),
      lit (''</span> '' @ [CHR 0xB7] @ '' <details class="lang-switch"><summary aria-label="''),
      IStr (tt ''common.language'' None),
      lit '': '',
      IStr (LANG_NAMES lang),
      lit ''">'',
      IStr (toUpperCase lang),
      lit ('' '' @ [CHR 0xB7] @ '' ''),
      IStr (LANG_NAMES lang),
      lit ''</summary><ul>'',
      IArr (lang_switcher lang next),
      lit (unlines [''</ul></details></footer>'',
      []]),
      IArr (map (\<lambda>s. (tpl [lit ''<script src="'',
      IStr (asset E s),
      lit ''" defer></script>''])) (''/static/time.js'' # lo_scripts opts)),
      lit (unlines [[],
      ''</body>'',
      ''</html>''])]))\<close>

text \<open>A page without navigation and scripts of its own\<close>

definition plain_page :: "Lang \<Rightarrow> string \<Rightarrow> string \<Rightarrow> interp \<Rightarrow> LayoutOptions" where
  "plain_page lang title path body =
     \<lparr>lo_lang = lang, lo_title = title, lo_body = body, lo_scripts = [], lo_nav = None, lo_path = Some path\<rparr>"

subsection \<open>Parts of several pages\<close>

definition flash_box :: "string option \<Rightarrow> string \<Rightarrow> interp" where
  \<open>flash_box msg kind = (case msg of
       Some m \<Rightarrow> if m = [] then tpl [] else (tpl [lit ''<div class="flash flash-'',
      IStr kind,
      lit ''">'',
      IStr m,
      lit ''</div>''])
     | None \<Rightarrow> tpl [])\<close>

definition csrf_input :: "string \<Rightarrow> interp" where
  \<open>csrf_input token = (tpl [lit ''<input type="hidden" name="_csrf" value="'',
      IStr token,
      lit ''">''])\<close>

subsection \<open>The brand (src/http/brand.ts)\<close>

definition theme_css :: "Brand \<Rightarrow> string" where
  "theme_css b = join [CHR 0x0A]
     ['':root {'', ''  --primary: '' @ br_colorPrimary b @ '';'', ''  --topbar: '' @ br_colorTopbar b @ '';'',
      ''  --accent: '' @ br_colorAccent b @ '';'', ''}'', []]"

end
