(* ===== verification/ViewsDeliver.thy ===== *)
theory ViewsDeliver
  imports Layout Middleware Links Items
begin

section \<open>The pages of a recipient\<close>

text \<open>
  src/http/views/deliver.ts: the page that asks for an address, the one that asks for the code, the
  package with its notes and files, and the page of a link that does not resolve.
\<close>

definition deliverEmailPage :: "chrome \<Rightarrow> ViewCtx \<Rightarrow> string option \<Rightarrow> string option \<Rightarrow> string" where
  \<open>deliverEmailPage E v error notice =
     (let tt = translator (ch_dict E) (vc_lang v)
      in layout E (plain_page (vc_lang v) (tt ''deliver.email.title'' None) (vc_path v)
        (tpl [lit (unlines [''<section class="card narrow">'',
      ''      <h1>'']),
      IStr (tt ''deliver.email.title'' None),
      lit (unlines [''</h1>'',
      ''      '']),
      flash_box error ''error'',
      flash_box notice ''ok'',
      lit (unlines [[],
      ''      <p>'']),
      IStr (tt ''deliver.email.intro'' None),
      lit (unlines [''</p>'',
      ''      <form method="post" action="'']),
      IStr (vc_base v),
      lit (unlines [''/email" class="stack">'',
      ''        <input type="hidden" name="_flow" value="'']),
      IStr (vc_flowToken v),
      lit (unlines [''">'',
      ''        <label>'']),
      IStr (tt ''deliver.email.label'' None),
      lit (unlines [[],
      ''          <input name="email" type="email" required autocomplete="email" autofocus inputmode="email" maxlength="254">'',
      ''        </label>'',
      ''        <button class="btn btn-primary" type="submit">'']),
      IStr (tt ''deliver.email.submit'' None),
      lit (unlines [''</button>'',
      ''      </form>'',
      ''    </section>''])])))\<close>

definition CODE_DIGITS :: nat where "CODE_DIGITS = 6"

definition codeBoxes :: "Translator \<Rightarrow> interp" where
  \<open>codeBoxes tt =
     (let boxes = map (\<lambda>i. (tpl [lit (unlines [''<input'',
      ''      class="otp-box" name="code" type="text" required size="1" inputmode="numeric" pattern="[0-9]*"'',
      ''      autocomplete="'']),
      IStr (if i = 0 then ''one-time-code'' else ''off''),
      lit ''" '',
      if i = 0 then ISafe ''autofocus'' else nothing,
      lit (unlines [[],
      ''      aria-label="'']),
      IStr (tt ''deliver.code.digit'' (Some [(''n'', PNum (int i + 1)), (''total'', PNum (int CODE_DIGITS))])),
      lit ''">''])) [0..<CODE_DIGITS]
      in (tpl [lit (unlines [''<fieldset class="otp" data-otp>'',
      ''    <legend>'']),
      IStr (tt ''deliver.code.label'' None),
      lit (unlines [''</legend>'',
      ''    <div class="otp-boxes">'']),
      IArr boxes,
      lit (unlines [''</div>'',
      ''    <p class="muted small otp-hint">'']),
      IStr (tt ''deliver.code.paste_hint'' None),
      lit (unlines [''</p>'',
      ''  </fieldset>''])]))\<close>

text \<open>
  The notice is absent (\<open>None\<close>: the page says that a code was sent), or given; the inner
  \<open>None\<close> is the source's \<open>null\<close>, which shows nothing.
\<close>

definition deliverCodePage ::
    "chrome \<Rightarrow> ViewCtx \<Rightarrow> nat \<Rightarrow> string option \<Rightarrow> string option option \<Rightarrow> nat option \<Rightarrow> string" where
  \<open>deliverCodePage E v minutes error notice attemptsLeft =
     (let tt = translator (ch_dict E) (vc_lang v)
      in layout E ((plain_page (vc_lang v) (tt ''deliver.code.title'' None) (vc_path v)
        (tpl [lit (unlines [''<section class="card narrow">'',
      ''      <h1>'']),
      IStr (tt ''deliver.code.title'' None),
      lit (unlines [''</h1>'',
      ''      '']),
      flash_box error ''error'',
      case notice of Some None \<Rightarrow> nothing
          | Some (Some n) \<Rightarrow> flash_box (Some n) ''ok''
          | None \<Rightarrow> flash_box (Some (tt ''deliver.code.sent'' (Some [(''minutes'', PNum (int minutes))]))) ''ok'',
      lit (unlines [[],
      ''      <form method="post" action="'']),
      IStr (vc_base v),
      lit (unlines [''/code" class="stack">'',
      ''        <input type="hidden" name="_flow" value="'']),
      IStr (vc_flowToken v),
      lit (unlines [''">'',
      ''        '']),
      codeBoxes tt,
      lit (unlines [[],
      ''        '']),
      case attemptsLeft of None \<Rightarrow> nothing
          | Some n \<Rightarrow> (tpl [lit ''<p class="muted small">'',
      IStr (tt ''deliver.code.attempts_left'' (Some [(''n'', PNum (int n))])),
      lit ''</p>'']),
      lit (unlines [[],
      ''        <button class="btn btn-primary" type="submit">'']),
      IStr (tt ''deliver.code.submit'' None),
      lit (unlines [''</button>'',
      ''      </form>'',
      ''      <form method="post" action="'']),
      IStr (vc_base v),
      lit (unlines [''/restart" class="inline">'',
      ''        <input type="hidden" name="_flow" value="'']),
      IStr (vc_flowToken v),
      lit (unlines [''">'',
      ''        <button class="btn btn-link" type="submit">'']),
      IStr (tt ''deliver.code.again'' None),
      lit (unlines [''</button>'',
      ''      </form>'',
      ''    </section>''])]))\<lparr>lo_scripts := [''/static/otp.js'']\<rparr>))\<close>

definition note_article :: "RecipientItem \<Rightarrow> interp" where
  \<open>note_article n = (tpl [lit (unlines [''<article class="note">'',
      ''          <h3>'']),
      IStr (it_title n),
      lit (unlines [''</h3>'',
      ''          <pre class="note-body">'']),
      IStr (case it_body n of Some b \<Rightarrow> b | None \<Rightarrow> []),
      lit (unlines [''</pre>'',
      ''        </article>''])])\<close>

definition file_row :: "chrome \<Rightarrow> ViewCtx \<Rightarrow> RecipientItem \<Rightarrow> interp" where
  \<open>file_row E v f =
     (let tt = translator (ch_dict E) (vc_lang v)
      in (tpl [lit (unlines [''<tr>'',
      ''            <td class="filename">'']),
      IStr (it_title f),
      lit (unlines [''</td>'',
      ''            <td>'']),
      IStr (case it_size f of Some n \<Rightarrow> formatSize n | None \<Rightarrow> EM_DASH),
      lit (unlines [''</td>'',
      ''            <td>'']),
      fmtDate E (it_ready_at f) (vc_lang v),
      lit (unlines [''</td>'',
      ''            <td class="nowrap"><a class="btn btn-primary" href="'']),
      IStr (vc_base v),
      lit ''/files/'',
      IStr (it_id f),
      lit ''">'',
      IStr (tt ''deliver.package.download'' None),
      lit (unlines [''</a></td>'',
      ''          </tr>''])]))\<close>

definition deliverPackagePage ::
    "chrome \<Rightarrow> ViewCtx \<Rightarrow> CaseRow \<Rightarrow> LinkRow \<Rightarrow> string option \<Rightarrow> RecipientItem list \<Rightarrow> nat option \<Rightarrow> ms \<Rightarrow> string" where
  \<open>deliverPackagePage E v c link recipientEmail its opensLeft sessionExpiresAt =
     (let tt = translator (ch_dict E) (vc_lang v);
          notes = filter (\<lambda>i. it_kind i = INote) its;
          files = filter (\<lambda>i. it_kind i = IFile) its
      in layout E (plain_page (vc_lang v) (tt ''deliver.package.title'' None) (vc_path v)
        (tpl [lit (unlines [[],
      ''      <section class="card">'',
      ''        <h1>'']),
      IStr (c_name c),
      lit (unlines [''</h1>'',
      ''        '']),
      if c_description c \<noteq> [] then (tpl [lit ''<p>'',
      IStr (c_description c),
      lit ''</p>'']) else nothing,
      lit (unlines [[],
      ''        <p class="muted small">'']),
      IStr (tt ''deliver.package.intro'' (Some [(''label'', PStr (l_label link))])),
      lit (unlines [''</p>'',
      ''        '']),
      when_some recipientEmail (\<lambda>e. (tpl [lit ''<p class="muted small">'',
      IStr (tt ''deliver.package.signed_in_as'' (Some [(''email'', PStr e)])),
      lit ''</p>''])),
      lit (unlines [[],
      ''        <ul class="limits small">'',
      ''          <li>'']),
      IStr (case opensLeft of None \<Rightarrow> tt ''deliver.package.opens_unlimited'' None
               | Some n \<Rightarrow> tt ''deliver.package.opens_left'' (Some [(''n'', PNum (int n))])),
      lit (unlines [''</li>'',
      ''          <li>'']),
      ISafe (tHtml (ch_dict E) (vc_lang v) ''deliver.package.session_until'' [(''date'', fmtDate E (Some sessionExpiresAt) (vc_lang v))]),
      lit (unlines [''</li>'',
      ''          '']),
      case l_expires_at link of None \<Rightarrow> nothing
            | Some e \<Rightarrow> (tpl [lit ''<li>'',
      ISafe (tHtml (ch_dict E) (vc_lang v) ''deliver.package.valid_until'' [(''date'', fmtDate E (Some e) (vc_lang v))]),
      lit ''</li>'']),
      lit (unlines [[],
      ''        </ul>'',
      ''      </section>'',
      [],
      ''      '']),
      if its = [] then (tpl [lit ''<section class="card"><p class="muted">'',
      IStr (tt ''deliver.package.empty'' None),
      lit ''</p></section>'']) else nothing,
      lit (unlines [[],
      [],
      ''      '']),
      if notes \<noteq> [] then (tpl [lit (unlines [''<section class="card">'',
      ''        <h2>'']),
      IStr (tt ''deliver.package.notes'' None),
      lit (unlines [''</h2>'',
      ''        '']),
      IArr (map note_article notes),
      lit (unlines [[],
      ''      </section>''])]) else nothing,
      lit (unlines [[],
      [],
      ''      '']),
      if files \<noteq> [] then (tpl [lit (unlines [''<section class="card">'',
      ''        <h2>'']),
      IStr (tt ''deliver.package.files'' None),
      lit (unlines [''</h2>'',
      ''        <table>'',
      ''          <thead><tr><th>'']),
      IStr (tt ''items.col.item'' None),
      lit ''</th><th>'',
      IStr (tt ''items.col.size'' None),
      lit ''</th><th>'',
      IStr (tt ''items.col.added'' None),
      lit (unlines [''</th><th></th></tr></thead>'',
      ''          <tbody>'']),
      IArr (map (file_row E v) files),
      lit (unlines [''</tbody>'',
      ''        </table>'',
      ''      </section>''])]) else nothing,
      lit (unlines [[],
      [],
      ''      <section class="card">'',
      ''        <form method="post" action="'']),
      IStr (vc_base v),
      lit (unlines [''/close" class="inline">'',
      ''          <input type="hidden" name="_flow" value="'']),
      IStr (vc_flowToken v),
      lit (unlines [''">'',
      ''          <button class="btn" type="submit">'']),
      IStr (tt ''deliver.package.close'' None),
      lit (unlines [''</button>'',
      ''        </form>'',
      ''      </section>''])])))\<close>

definition linkUnavailablePage :: "chrome \<Rightarrow> Lang \<Rightarrow> string \<Rightarrow> string \<Rightarrow> string" where
  \<open>linkUnavailablePage E lang title message =
     (let tt = translator (ch_dict E) lang
      in layout E (plain_page lang title ''/'' (tpl [lit ''<section class="card narrow"><h1>'',
      IStr title,
      lit ''</h1><p>'',
      IStr message,
      lit ''</p><p class="muted small">'',
      IStr (tt ''link.contact'' None),
      lit ''</p></section>''])))\<close>

text \<open>
  The markup of what the handlers answer a recipient with. The code page that reports an error is
  the one place that asks for no notice.
\<close>

definition deliver_markup :: "chrome \<Rightarrow> view \<Rightarrow> string option" where
  "deliver_markup E b = (case b of
       EmailPage v error notice \<Rightarrow> Some (deliverEmailPage E v error notice)
     | CodePage v minutes error attemptsLeft \<Rightarrow> Some (deliverCodePage E v minutes error (if error = None then None else Some None) attemptsLeft)
     | PackagePage v c link email its opensLeft expires \<Rightarrow> Some (deliverPackagePage E v c link email its opensLeft expires)
     | UnavailablePage lang title message \<Rightarrow> Some (linkUnavailablePage E lang title message)
     | PanelPage _ _ \<Rightarrow> None)"

end
