(* ===== verification/ViewsAdmin.thy ===== *)
theory ViewsAdmin
  imports Layout PanelAccounts
begin

section \<open>The pages of cases\<close>

text \<open>
  src/http/views/admin.ts, first part: the sign-in page, the list of cases, and the page of a case with
  its items, links, recipients, members and the configuration its scripts read. One definition per
  template; a nested template of the source that is built in a loop is a definition of its own.
\<close>

record AdminViewContext =
  av_lang :: Lang
  av_csrfToken :: string
  av_username :: string
  av_path :: string
  av_role :: role
  av_userId :: string

definition adminNav :: "chrome \<Rightarrow> AdminViewContext \<Rightarrow> interp" where
  \<open>adminNav E v =
     (let tt = translator (ch_dict E) (av_lang v)
      in (tpl [lit (unlines [''<nav class="nav">'',
      ''    <a href="/admin">'']),
      IStr (tt ''nav.cases'' None),
      lit (unlines [''</a>'',
      ''    <a href="/admin/groups">'']),
      IStr (tt ''nav.groups'' None),
      lit (unlines [''</a>'',
      ''    '']),
      if av_role v = RAdmin then (tpl [lit ''<a href="/admin/users">'',
      IStr (tt ''nav.users'' None),
      lit (unlines [''</a>'',
      ''    <a href="/admin/audit">'']),
      IStr (tt ''nav.audit'' None),
      lit ''</a>'']) else nothing,
      lit (unlines [[],
      ''    <a href="/admin/security">'']),
      IStr (tt ''nav.security'' None),
      lit (unlines [''</a>'',
      ''    <span class="muted">'']),
      IStr (av_username v),
      lit (unlines [''</span>'',
      ''    <form method="post" action="/admin/logout" class="inline"><input type="hidden" name="_csrf" value="'']),
      IStr (av_csrfToken v),
      lit ''"><button class="btn btn-link" type="submit">'',
      IStr (tt ''nav.logout'' None),
      lit (unlines [''</button></form>'',
      ''  </nav>''])]))\<close>

definition admin_page :: "chrome \<Rightarrow> AdminViewContext \<Rightarrow> string \<Rightarrow> string list \<Rightarrow> interp \<Rightarrow> string" where
  "admin_page E v title scripts body =
     layout E \<lparr>lo_lang = av_lang v, lo_title = title, lo_body = body, lo_scripts = scripts, lo_nav = Some (adminNav E v),
       lo_path = Some (av_path v)\<rparr>"

definition homePage :: "chrome \<Rightarrow> Lang \<Rightarrow> string" where
  \<open>homePage E lang =
     (let tt = translator (ch_dict E) lang
      in layout E (plain_page lang (tt ''home.title'' None) ''/'' (tpl [lit ''<section class="card narrow"><h1>'',
      IStr (tt ''home.title'' None),
      lit ''</h1><p>'',
      IStr (tt ''home.message'' None),
      lit ''</p></section>''])))\<close>

definition loginPage :: "chrome \<Rightarrow> Lang \<Rightarrow> string option \<Rightarrow> string" where
  \<open>loginPage E lang error =
     (let tt = translator (ch_dict E) lang
      in layout E (plain_page lang (tt ''login.title'' None) ''/admin/login''
        (tpl [lit (unlines [''<section class="card narrow">'',
      ''      <h1>'']),
      IStr (tt ''login.title'' None),
      lit (unlines [''</h1>'',
      ''      '']),
      flash_box error ''error'',
      lit (unlines [[],
      ''      <form method="post" action="/admin/login">'',
      ''        <label>'']),
      IStr (tt ''login.username'' None),
      lit (unlines ['' <input name="username" required autocomplete="username" autofocus></label>'',
      ''        <label>'']),
      IStr (tt ''login.password'' None),
      lit (unlines ['' <input name="password" type="password" required autocomplete="current-password"></label>'',
      ''        <button class="btn btn-primary" type="submit">'']),
      IStr (tt ''login.submit'' None),
      lit (unlines [''</button>'',
      ''      </form>'',
      ''    </section>''])])))\<close>

subsection \<open>The list of cases\<close>

definition case_status_text :: "case_status \<Rightarrow> string" where
  "case_status_text s = (case s of CaseOpen \<Rightarrow> ''open'' | CaseClosed \<Rightarrow> ''closed'')"

definition case_row :: "chrome \<Rightarrow> AdminViewContext \<Rightarrow> CaseSummary \<Rightarrow> interp" where
  \<open>case_row E v s =
     (let tt = translator (ch_dict E) (av_lang v); c = cs_case s
      in (tpl [lit (unlines [''<tr>'',
      ''            <td><a href="/admin/cases/'']),
      IStr (c_id c),
      lit ''">'',
      IStr (c_name c),
      lit (unlines [''</a></td>'',
      ''            <td><span class="badge badge-'']),
      IStr (case_status_text (c_status c)),
      lit ''">'',
      IStr (tt (if c_status c = CaseOpen then ''case.open'' else ''case.closed'') None),
      lit (unlines [''</span></td>'',
      ''            <td>'']),
      INum (int (cs_link_count s)),
      lit ''</td><td>'',
      INum (int (cs_item_count s)),
      lit ''</td><td>'',
      IStr (formatSize (cs_total_bytes s)),
      lit ''</td><td>'',
      fmtDate E (Some (c_created_at c)) (av_lang v),
      lit (unlines [''</td>'',
      ''          </tr>''])]))\<close>

definition casesPage :: "chrome \<Rightarrow> AdminViewContext \<Rightarrow> CaseSummary list \<Rightarrow> string option \<Rightarrow> string" where
  \<open>casesPage E v cs error =
     (let tt = translator (ch_dict E) (av_lang v)
      in admin_page E v (tt ''nav.cases'' None) []
        (tpl [lit (unlines [[],
      ''      <section class="card">'',
      ''        <h1>'']),
      IStr (tt ''cases.new'' None),
      lit (unlines [''</h1>'',
      ''        '']),
      flash_box error ''error'',
      lit (unlines [[],
      ''        <form method="post" action="/admin/cases" class="row">'',
      ''          <input type="hidden" name="_csrf" value="'']),
      IStr (av_csrfToken v),
      lit (unlines [''">'',
      ''          <label class="grow">'']),
      IStr (tt ''cases.name'' None),
      lit '' <input name="name" required maxlength="200" placeholder="'',
      IStr (tt ''cases.name_placeholder'' None),
      lit (unlines [''"></label>'',
      ''          <label class="grow">'']),
      IStr (tt ''cases.description_optional'' None),
      lit (unlines ['' <input name="description" maxlength="5000"></label>'',
      ''          <button class="btn btn-primary" type="submit">'']),
      IStr (tt ''common.create'' None),
      lit (unlines [''</button>'',
      ''        </form>'',
      ''      </section>'',
      ''      <section class="card">'',
      ''        <h1>'']),
      IStr (tt ''cases.list'' None),
      lit (unlines [''</h1>'',
      ''        '']),
      if cs = [] then (tpl [lit ''<p class="muted">'',
      IStr (tt (if av_role v = RAdmin then ''cases.empty'' else ''cases.empty_assigned'') None),
      lit ''</p>'']) else (tpl [lit (unlines [[],
      ''        <table>'',
      ''          <thead><tr><th>'']),
      IStr (tt ''cases.col.name'' None),
      lit ''</th><th>'',
      IStr (tt ''cases.col.status'' None),
      lit ''</th><th>'',
      IStr (tt ''cases.col.links'' None),
      lit ''</th><th>'',
      IStr (tt ''cases.col.items'' None),
      lit ''</th><th>'',
      IStr (tt ''cases.col.size'' None),
      lit ''</th><th>'',
      IStr (tt ''cases.col.created'' None),
      lit (unlines [''</th></tr></thead>'',
      ''          <tbody>'',
      ''          '']),
      IArr (map (case_row E v) cs),
      lit (unlines [[],
      ''          </tbody>'',
      ''        </table>''])]),
      lit (unlines [[],
      ''      </section>''])]))\<close>

subsection \<open>The page of a case\<close>

record NewLink =
  nl_label :: string
  nl_url :: string

record CasePageData =
  cp_case :: CaseRow
  cp_links :: "LinkRow list"
  cp_recipients :: "string \<Rightarrow> RecipientRow list option"
  cp_groups :: "Group list"
  cp_items :: "ItemRow list"
  cp_cfg :: Config
  cp_members :: "CaseMember list"
  cp_assignable :: "CaseMember list"
  cp_newLink :: "NewLink option"
  cp_error :: "string option"
  cp_ok :: "string option"

text \<open>\<open>lastIndexOf('@')\<close> splits the address; an address without one, or with nothing before it, stays whole.\<close>

definition breakableEmail :: "string \<Rightarrow> interp" where
  \<open>breakableEmail email =
     (let domain = rev (takeWhile (\<lambda>c. c \<noteq> CHR ''@'') (rev email));
          at_pos = length email - length domain - 1
      in if domain \<noteq> email \<and> at_pos > 0 then (tpl [IStr (take at_pos email),
      lit ''<wbr>'',
      IStr (drop at_pos email)]) else (tpl [IStr email]))\<close>

definition langSelect :: "Translator \<Rightarrow> Lang \<Rightarrow> interp" where
  \<open>langSelect tt current = (tpl [lit ''<label>'',
      IStr (tt ''links.lang'' None),
      lit (unlines ['' <select name="lang">'',
      ''    '']),
      IArr (map (\<lambda>l. (tpl [lit ''<option value="'',
      IStr l,
      lit ''" lang="'',
      IStr l,
      lit ''" '',
      if l = current then ISafe ''selected'' else nothing,
      lit ''>'',
      IStr (LANG_NAMES l),
      lit ''</option>''])) LANGS),
      lit (unlines [[],
      ''  </select></label>''])])\<close>

definition recipientFields :: "Translator \<Rightarrow> Lang \<Rightarrow> Group list \<Rightarrow> interp" where
  \<open>recipientFields tt lang gs = (tpl [lit (unlines [[],
      ''    <label class="grid-full">'']),
      IStr (tt ''links.recipients'' None),
      lit (unlines [[],
      ''      <textarea name="recipients" rows="4" class="mono" '']),
      if gs = [] then ISafe ''required'' else nothing,
      lit (unlines ['' placeholder="jan.kowalski@example.com&#10;anna.schmidt@example.com de"></textarea></label>'',
      ''    <div class="grid-full muted small">'']),
      IStr (tt ''links.recipients_hint'' None),
      lit (unlines [''</div>'',
      ''    '']),
      if gs \<noteq> [] then (tpl [lit ''<label>'',
      IStr (tt ''links.group'' None),
      lit (unlines ['' <select name="group" data-group-fill>'',
      ''      <option value="">'']),
      IStr (tt ''links.group_none'' None),
      lit (unlines [''</option>'',
      ''      '']),
      IArr (map (\<lambda>g. (tpl [lit ''<option value="'',
      IStr (g_id (gr_row g)),
      lit ''">'',
      IStr (g_name (gr_row g)),
      lit '' ('',
      INum (int (length (gr_members g))),
      lit '')</option>''])) gs),
      lit (unlines [[],
      ''    </select></label>''])]) else nothing,
      lit (unlines [[],
      ''    '']),
      langSelect tt lang,
      lit (unlines [[],
      ''    '']),
      if gs \<noteq> [] then (tpl [lit ''<div class="grid-full muted small">'',
      IStr (tt ''links.group_hint'' None),
      lit ''</div>'']) else nothing])\<close>

definition itemStatus :: "Translator \<Rightarrow> string \<Rightarrow> string" where
  "itemStatus tt status = (let key = ''items.status.'' @ status in if tt key None = key then status else tt key None)"

definition item_status_text :: "item_status \<Rightarrow> string" where
  "item_status_text s = (case s of Uploading \<Rightarrow> ''uploading'' | Ready \<Rightarrow> ''ready'' | Aborted \<Rightarrow> ''aborted''
     | Expired \<Rightarrow> ''expired'' | Missing \<Rightarrow> ''missing'' | Deleted \<Rightarrow> ''deleted'')"

definition item_row :: "chrome \<Rightarrow> AdminViewContext \<Rightarrow> ItemRow \<Rightarrow> interp" where
  \<open>item_row E v i =
     (let tt = translator (ch_dict E) (av_lang v);
          csrf = csrf_input (av_csrfToken v)
      in (tpl [lit (unlines [''<tr>'',
      ''            <td class="filename">'']),
      IStr (i_title i),
      when_some (if i_kind i = INote then i_body i else None) (\<lambda>b. (tpl [lit ''<br><span class="muted small mono">'',
      IStr (take 120 b),
      IStr (if length b > 120 then ELLIPSIS else []),
      lit ''</span>''])),
      lit (unlines [''</td>'',
      ''            <td>'']),
      IStr (tt (if i_kind i = INote then ''items.kind.note'' else ''items.kind.file'') None),
      lit (unlines [''</td>'',
      ''            <td>'']),
      case i_size i of Some n \<Rightarrow> IStr (formatSize n) | None \<Rightarrow> (case i_declared_size i of
                Some n \<Rightarrow> (tpl [lit ''<span class="muted">'',
      IStr (tt ''items.declared'' (Some [(''size'', PStr (formatSize n))])),
      lit ''</span>'']) | None \<Rightarrow> IStr EM_DASH),
      lit (unlines [''</td>'',
      ''            <td><span class="badge badge-'']),
      IStr (item_status_text (i_status i)),
      lit ''">'',
      IStr (itemStatus tt (item_status_text (i_status i))),
      lit (unlines [''</span></td>'',
      ''            <td>'']),
      fmtDate E (Some (case i_ready_at i of Some r \<Rightarrow> r | None \<Rightarrow> i_created_at i)) (av_lang v),
      lit (unlines [''</td>'',
      ''            <td class="mono small">'']),
      IStr (case i_sha256 i of None \<Rightarrow> EM_DASH | Some h \<Rightarrow> if h = [] then EM_DASH else take 12 h @ ELLIPSIS),
      lit (unlines [''</td>'',
      ''            <td class="nowrap">'',
      ''              '']),
      if i_kind i = IFile \<and> i_status i = Ready then (tpl [lit ''<a class="btn" href="/admin/items/'',
      IStr (i_id i),
      lit ''/download">'',
      IStr (tt ''items.download'' None),
      lit ''</a> '']) else nothing,
      lit (unlines [[],
      ''              '']),
      if i_status i = Ready \<or> i_status i = Missing then (tpl [lit ''<form method="post" action="/admin/items/'',
      IStr (i_id i),
      lit ''/delete" class="inline" data-confirm="'',
      IStr (tt ''items.delete_confirm'' (Some [(''name'', PStr (i_title i))])),
      lit ''">'',
      csrf,
      lit ''<button class="btn btn-danger" type="submit">'',
      IStr (tt ''items.delete'' None),
      lit ''</button></form>'']) else nothing,
      lit (unlines [[],
      ''            </td>'',
      ''          </tr>''])]))\<close>

definition link_state_text :: "LinkState \<Rightarrow> string" where
  "link_state_text s = (case s of LActive \<Rightarrow> ''active'' | LExpired \<Rightarrow> ''expired'' | LRevoked \<Rightarrow> ''revoked''
     | LCaseClosed \<Rightarrow> ''case_closed'' | LExhausted \<Rightarrow> ''exhausted'')"

definition recipient_entry :: "Translator \<Rightarrow> interp \<Rightarrow> LinkRow \<Rightarrow> bool \<Rightarrow> RecipientRow \<Rightarrow> interp" where
  \<open>recipient_entry tt csrf l removable r = (tpl [lit (unlines [''<li>'',
      ''                  <span class="mono small">'']),
      breakableEmail (r_email r),
      lit (unlines [''</span>'',
      ''                  <span class="badge" lang="'']),
      IStr (r_lang r),
      lit ''">'',
      IStr (toUpperCase (r_lang r)),
      lit (unlines [''</span>'',
      ''                  <span class="muted small">'']),
      IStr (tt ''links.recipient_opens'' (Some [(''n'', PNum (int (r_opens r)))])),
      lit (unlines [''</span>'',
      ''                  '']),
      if removable then (tpl [lit ''<form method="post" action="/admin/links/'',
      IStr (l_id l),
      lit ''/recipients/'',
      IStr (r_id r),
      lit ''/remove" class="inline" data-confirm="'',
      IStr (tt ''links.recipient_remove_confirm'' (Some [(''email'', PStr (r_email r)), (''label'', PStr (l_label l))])),
      lit ''">'',
      csrf,
      lit ''<button class="btn btn-link small" type="submit">'',
      IStr (tt ''links.recipient_remove'' None),
      lit ''</button></form>'']) else nothing,
      lit (unlines [[],
      ''                </li>''])])\<close>

definition link_row :: "chrome \<Rightarrow> ms \<Rightarrow> AdminViewContext \<Rightarrow> CasePageData \<Rightarrow> LinkRow \<Rightarrow> interp" where
  \<open>link_row E nw v d l =
     (let tt = translator (ch_dict E) (av_lang v);
          csrf = csrf_input (av_csrfToken v);
          state = linkState nw l (cp_case d);
          people = (case cp_recipients d (l_id l) of Some rs \<Rightarrow> rs | None \<Rightarrow> []);
          editable = (l_revoked_at l = None);
          label = Some [(''label'', PStr (l_label l))]
      in (tpl [lit (unlines [''<tr>'',
      ''              <td>'']),
      IStr (l_label l),
      lit ''<br><span class="muted small mono">'',
      IStr (l_token_hint l),
      lit (unlines [ELLIPSIS @ ''</span></td>'',
      ''              <td>'',
      ''                <ul class="recipients">'']),
      IArr (map (recipient_entry tt csrf l (editable \<and> length people > 1)) people),
      lit (unlines [''</ul>'',
      ''                '']),
      if editable then (tpl [lit (unlines [''<details class="collapsible">'',
      ''                  <summary>'']),
      IStr (tt ''links.add_recipients'' None),
      lit (unlines [''</summary>'',
      ''                  <form method="post" action="/admin/links/'']),
      IStr (l_id l),
      lit ''/recipients" class="grid">'',
      csrf,
      lit (unlines [[],
      ''                    '']),
      recipientFields tt (av_lang v) (cp_groups d),
      lit (unlines [[],
      ''                    <div><button class="btn" type="submit">'']),
      IStr (tt ''common.add'' None),
      lit (unlines [''</button></div>'',
      ''                  </form>'',
      ''                </details>''])]) else nothing,
      lit (unlines [[],
      ''              </td>'',
      ''              <td><span class="badge badge-'']),
      IStr (link_state_text state),
      lit ''">'',
      IStr (tt (''links.state.'' @ link_state_text state) None),
      lit (unlines [''</span></td>'',
      ''              <td>'']),
      case l_expires_at l of Some e \<Rightarrow> fmtDate E (Some e) (av_lang v) | None \<Rightarrow> IStr (tt ''common.no_expiry'' None),
      lit (unlines [''</td>'',
      ''              <td>'']),
      IStr (case l_max_opens l of
                  Some m \<Rightarrow> tt ''links.opens'' (Some [(''used'', PNum (int (l_opens_used l))), (''max'', PNum (int m))])
                | None \<Rightarrow> tt ''links.opens_unlimited'' (Some [(''used'', PNum (int (l_opens_used l)))])),
      lit (unlines [''</td>'',
      ''              <td>'']),
      fmtDate E (l_last_used_at l) (av_lang v),
      lit (unlines [''</td>'',
      ''              <td class="actions">'',
      ''                '']),
      if \<not> editable then nothing else (tpl [lit (unlines [[],
      ''                  <form method="post" action="/admin/links/'']),
      IStr (l_id l),
      lit ''/reissue" class="inline" data-confirm="'',
      IStr (tt ''links.reissue_confirm'' label),
      lit ''">'',
      csrf,
      lit ''<button class="btn" type="submit">'',
      IStr (tt ''links.reissue'' None),
      lit (unlines [''</button></form>'',
      ''                  <form method="post" action="/admin/links/'']),
      IStr (l_id l),
      lit ''/revoke" class="inline" data-confirm="'',
      IStr (tt ''links.revoke_confirm'' label),
      lit ''">'',
      csrf,
      lit ''<button class="btn btn-danger" type="submit">'',
      IStr (tt ''links.revoke'' None),
      lit ''</button></form>'']),
      lit (unlines [[],
      ''              </td>'',
      ''            </tr>''])]))\<close>

definition member_entry :: "Translator \<Rightarrow> AdminViewContext \<Rightarrow> string \<Rightarrow> CaseMember \<Rightarrow> interp" where
  \<open>member_entry tt v caseId m = (tpl [lit (unlines [''<li>'',
      ''      <span>'']),
      IStr (cm_username m),
      lit (unlines [''</span>'',
      ''      '']),
      if cm_disabled_at m \<noteq> None then (tpl [lit ''<span class="badge badge-disabled">'',
      IStr (tt ''users.status.disabled'' None),
      lit ''</span>'']) else nothing,
      lit (unlines [[],
      ''      '']),
      if cm_id m \<noteq> av_userId v then (tpl [lit ''<form method="post" action="/admin/cases/'',
      IStr caseId,
      lit ''/members/'',
      IStr (cm_id m),
      lit ''/remove" class="inline" data-confirm="'',
      IStr (tt ''members.remove_confirm'' (Some [(''username'', PStr (cm_username m))])),
      lit ''">'',
      csrf_input (av_csrfToken v),
      lit ''<button class="btn" type="submit">'',
      IStr (tt ''members.remove'' None),
      lit ''</button></form>'']) else nothing,
      lit (unlines [[],
      ''    </li>''])])\<close>

definition membersSection :: "chrome \<Rightarrow> AdminViewContext \<Rightarrow> CasePageData \<Rightarrow> interp" where
  \<open>membersSection E v d =
     (let tt = translator (ch_dict E) (av_lang v); caseId = c_id (cp_case d)
      in (tpl [lit (unlines [''<section class="card">'',
      ''    <h2>'']),
      IStr (tt ''members.title'' None),
      lit (unlines [''</h2>'',
      ''    <p class="muted small">'']),
      IStr (tt ''members.intro'' None),
      lit (unlines [''</p>'',
      ''    '']),
      if cp_members d = [] then (tpl [lit ''<p class="muted">'',
      IStr (tt ''members.empty'' None),
      lit ''</p>'']) else (tpl [lit ''<ul class="members">'',
      IArr (map (member_entry tt v caseId) (cp_members d)),
      lit ''</ul>'']),
      lit (unlines [[],
      ''    '']),
      if cp_assignable d \<noteq> [] then (tpl [lit ''<form method="post" action="/admin/cases/'',
      IStr caseId,
      lit ''/members" class="row">'',
      csrf_input (av_csrfToken v),
      lit (unlines [[],
      ''      <label class="grow">'']),
      IStr (tt ''members.user'' None),
      lit (unlines ['' <select name="user_id" required>'',
      ''        '']),
      IArr (map (\<lambda>u. (tpl [lit ''<option value="'',
      IStr (cm_id u),
      lit ''">'',
      IStr (cm_username u),
      lit ''</option>''])) (cp_assignable d)),
      lit (unlines [[],
      ''      </select></label>'',
      ''      <button class="btn btn-primary" type="submit">'']),
      IStr (tt ''members.add'' None),
      lit (unlines [''</button>'',
      ''    </form>''])]) else if av_role v = RAdmin
      then (tpl [lit ''<p class="muted small">'',
      ISafe (tt ''members.none_assignable'' (Some [(''link'', PStr (''<a href='' @ quoted ''/admin/users'' @ ''>'' @ tt ''nav.users'' None @ ''</a>''))])),
      lit ''</p>''])
      else (tpl [lit ''<p class="muted small">'',
      IStr (tt ''members.none_assignable_user'' None),
      lit ''</p>'']),
      lit (unlines [[],
      ''  </section>''])]))\<close>

definition mail_driver_text :: "mail_driver \<Rightarrow> string" where
  "mail_driver_text k = (case k of DriverLog \<Rightarrow> ''log'' | DriverSmtp \<Rightarrow> ''smtp'' | DriverGraph \<Rightarrow> ''graph'' | DriverSes \<Rightarrow> ''ses'')"

definition uploader_config :: "chrome \<Rightarrow> AdminViewContext \<Rightarrow> CasePageData \<Rightarrow> json" where
  "uploader_config E v d =
     JObj [(''tusEndpoint'', JStr ''/admin/api/tus''), (''caseId'', JStr (c_id (cp_case d))), (''csrfToken'', JStr (av_csrfToken v)),
       (''chunkSize'', JNum (int (uploadChunkBytes (cp_cfg d)))), (''maxFileBytes'', JNum (int (maxFileBytes (cp_cfg d)))),
       (''lang'', JStr (av_lang v)), (''i18n'', JObj (clientMessages (ch_dict E) (av_lang v)))]"

definition group_lines :: "Group list \<Rightarrow> json" where
  "group_lines gs = JObj (map (\<lambda>g. (g_id (gr_row g), JStr (formatRecipients (gr_members g)))) gs)"

definition case_cards :: "chrome \<Rightarrow> AdminViewContext \<Rightarrow> CasePageData \<Rightarrow> interp" where
  \<open>case_cards E v d =
     (let tt = translator (ch_dict E) (av_lang v); c = cp_case d; csrf = csrf_input (av_csrfToken v);
          opened = (c_status c = CaseOpen)
      in (tpl [lit (unlines [''<section class="card">'',
      ''        <div class="row space-between">'',
      ''          <h1>'']),
      IStr (c_name c),
      lit '' <span class="badge badge-'',
      IStr (case_status_text (c_status c)),
      lit ''">'',
      IStr (tt (if opened then ''case.open'' else ''case.closed'') None),
      lit (unlines [''</span></h1>'',
      ''          <form method="post" action="/admin/cases/'']),
      IStr (c_id c),
      lit ''/status" class="inline">'',
      csrf,
      lit (unlines [[],
      ''            <input type="hidden" name="status" value="'']),
      IStr (if opened then ''closed'' else ''open''),
      lit (unlines [''">'',
      ''            <button class="btn" type="submit">'']),
      IStr (tt (if opened then ''case.close'' else ''case.reopen'') None),
      lit (unlines [''</button>'',
      ''          </form>'',
      ''        </div>'',
      ''        '']),
      flash_box (cp_error d) ''error'',
      flash_box (cp_ok d) ''ok'',
      lit (unlines [[],
      ''        <form method="post" action="/admin/cases/'']),
      IStr (c_id c),
      lit ''" class="row">'',
      csrf,
      lit (unlines [[],
      ''          <label class="grow">'']),
      IStr (tt ''cases.name'' None),
      lit '' <input name="name" value="'',
      IStr (c_name c),
      lit (unlines [''" required maxlength="200"></label>'',
      ''          <label class="grow">'']),
      IStr (tt ''cases.description'' None),
      lit '' <input name="description" value="'',
      IStr (c_description c),
      lit (unlines [''" maxlength="5000"></label>'',
      ''          <button class="btn" type="submit">'']),
      IStr (tt ''common.save'' None),
      lit (unlines [''</button>'',
      ''        </form>'',
      ''        <p class="muted small">'']),
      ISafe (tHtml (ch_dict E) (av_lang v) ''case.meta'' [(''id'', IStr (c_id c)), (''date'', fmtDate E (Some (c_created_at c)) (av_lang v))]),
      lit (unlines [''</p>'',
      ''      </section>'',
      [],
      ''      '']),
      case cp_newLink d of None \<Rightarrow> nothing | Some n \<Rightarrow> (tpl [lit (unlines [''<section class="card highlight">'',
      ''        <h2>'']),
      IStr (tt ''case.new_link.title'' (Some [(''label'', PStr (nl_label n))])),
      lit (unlines [''</h2>'',
      ''        <p><strong>'']),
      IStr (tt ''case.new_link.copy_now'' None),
      lit ''</strong> '',
      IStr (tt ''case.new_link.intro'' None),
      lit (unlines [''</p>'',
      ''        <div class="copy-row"><input class="mono" readonly value="'']),
      IStr (nl_url n),
      lit ''" data-copy-source><button class="btn" type="button" data-copy>'',
      IStr (tt ''common.copy'' None),
      lit (unlines [''</button></div>'',
      ''      </section>''])])]))\<close>

definition items_card :: "chrome \<Rightarrow> AdminViewContext \<Rightarrow> CasePageData \<Rightarrow> interp" where
  \<open>items_card E v d =
     (let tt = translator (ch_dict E) (av_lang v); c = cp_case d; csrf = csrf_input (av_csrfToken v)
      in (tpl [lit (unlines [''<section class="card">'',
      ''        <h2>'']),
      IStr (tt ''items.title'' None),
      lit (unlines [''</h2>'',
      ''        <p class="muted small">'']),
      IStr (tt ''items.intro'' None),
      lit (unlines [''</p>'',
      ''        <div id="dropzone" class="dropzone" tabindex="0">'',
      ''          <p class="dropzone-lead"><strong>'']),
      IStr (tt ''items.drop_here'' None),
      lit ''</strong> '',
      IStr (tt ''items.or'' None),
      lit '' <label class="link" for="file-input">'',
      IStr (tt ''items.choose'' None),
      lit (unlines [''</label>.</p>'',
      ''          <input id="file-input" type="file" multiple hidden>'',
      ''          <p class="muted small">'']),
      IStr (tt ''items.upload_hint'' (Some [(''max'', PStr (formatSize (maxFileBytes (cp_cfg d))))])),
      lit (unlines [''</p>'',
      ''        </div>'',
      ''        <ul id="queue" class="queue"></ul>'',
      [],
      ''        <details class="collapsible">'',
      ''          <summary>'']),
      IStr (tt ''items.note.title'' None),
      lit (unlines [''</summary>'',
      ''          <form method="post" action="/admin/cases/'']),
      IStr (c_id c),
      lit ''/notes" class="stack">'',
      csrf,
      lit (unlines [[],
      ''            <label>'']),
      IStr (tt ''items.note.subject'' None),
      lit '' <input name="title" required maxlength="200" placeholder="'',
      IStr (tt ''items.note.subject_placeholder'' None),
      lit (unlines [''"></label>'',
      ''            <label>'']),
      IStr (tt ''items.note.body'' None),
      lit '' <textarea name="body" required rows="5" maxlength="20000" placeholder="'',
      IStr (tt ''items.note.body_placeholder'' None),
      lit (unlines [''"></textarea></label>'',
      ''            <div><button class="btn btn-primary" type="submit">'']),
      IStr (tt ''common.add'' None),
      lit (unlines [''</button></div>'',
      ''          </form>'',
      ''        </details>'',
      [],
      ''        '']),
      if cp_items d = [] then (tpl [lit ''<p class="muted">'',
      IStr (tt ''items.empty'' None),
      lit ''</p>'']) else (tpl [lit (unlines [[],
      ''        <table>'',
      ''          <thead><tr><th>'']),
      IStr (tt ''items.col.item'' None),
      lit ''</th><th>'',
      IStr (tt ''items.col.kind'' None),
      lit ''</th><th>'',
      IStr (tt ''items.col.size'' None),
      lit ''</th><th>'',
      IStr (tt ''items.col.status'' None),
      lit ''</th><th>'',
      IStr (tt ''items.col.added'' None),
      lit (unlines [''</th><th>SHA-256</th><th></th></tr></thead>'',
      ''          <tbody>'']),
      IArr (map (item_row E v) (cp_items d)),
      lit (unlines [''</tbody>'',
      ''        </table>''])]),
      lit (unlines [[],
      ''        <p class="muted small">'']),
      IStr (tt ''items.untrusted'' None),
      lit (unlines [''</p>'',
      ''      </section>''])]))\<close>

definition links_card :: "chrome \<Rightarrow> ms \<Rightarrow> AdminViewContext \<Rightarrow> CasePageData \<Rightarrow> interp" where
  \<open>links_card E nw v d =
     (let tt = translator (ch_dict E) (av_lang v); c = cp_case d; csrf = csrf_input (av_csrfToken v);
          opened = (c_status c = CaseOpen)
      in (tpl [lit (unlines [''<section class="card">'',
      ''        <h2>'']),
      IStr (tt ''links.title'' None),
      lit (unlines [''</h2>'',
      ''        <p class="muted small">'']),
      IStr (tt ''links.intro'' None),
      lit (unlines [''</p>'',
      ''        <p class="muted small">'']),
      IStr (tt ''links.handover'' None),
      lit (unlines [''</p>'',
      ''        <p class="muted small">'']),
      IStr (tt ''links.mail_driver'' (Some [(''driver'', PStr (mail_driver_text (mc_driver (mail (cp_cfg d)))))])),
      lit (unlines [''</p>'',
      ''        <details '']),
      IStr (if opened then ''open'' else []),
      lit (unlines [''>'',
      ''          <summary>'']),
      IStr (tt ''links.generate'' None),
      lit (unlines [''</summary>'',
      ''          <form method="post" action="/admin/cases/'']),
      IStr (c_id c),
      lit ''/links" class="grid">'',
      csrf,
      lit (unlines [[],
      ''            <label>'']),
      IStr (tt ''links.label'' None),
      lit '' <input name="label" required maxlength="200" placeholder="'',
      IStr (tt ''links.label_placeholder'' None),
      lit (unlines [''"></label>'',
      ''            <label>'']),
      IStr (tt ''links.expires'' None),
      lit (unlines ['' <input name="expires_at" type="datetime-local"></label>'',
      ''            '']),
      recipientFields tt (av_lang v) (cp_groups d),
      lit (unlines [[],
      ''            <div class="grid-full muted small">'']),
      IStr (tt ''links.lang_hint'' None),
      lit (unlines [''</div>'',
      ''            <label>'']),
      IStr (tt ''links.max_opens'' None),
      lit (unlines ['' <input name="max_opens" type="number" min="1" step="1" placeholder="3"></label>'',
      ''            <div class="grid-full muted small">'']),
      IStr (tt ''links.max_opens_hint'' None),
      lit (unlines [''</div>'',
      ''            <div><button class="btn btn-primary" type="submit" '']),
      IStr (if \<not> opened then ''disabled'' else []),
      lit ''>'',
      IStr (tt ''links.submit'' None),
      lit (unlines [''</button></div>'',
      ''          </form>'',
      ''        </details>'',
      ''        '']),
      if cp_links d = [] then (tpl [lit ''<p class="muted">'',
      IStr (tt ''links.empty'' None),
      lit ''</p>'']) else (tpl [lit (unlines [[],
      ''        <table>'',
      ''          <thead><tr><th>'']),
      IStr (tt ''links.col.link'' None),
      lit ''</th><th>'',
      IStr (tt ''links.col.recipients'' None),
      lit ''</th><th>'',
      IStr (tt ''links.col.state'' None),
      lit ''</th><th>'',
      IStr (tt ''links.col.expires'' None),
      lit ''</th><th>'',
      IStr (tt ''links.col.opens'' None),
      lit ''</th><th>'',
      IStr (tt ''links.col.last_used'' None),
      lit (unlines [''</th><th></th></tr></thead>'',
      ''          <tbody>'']),
      IArr (map (link_row E nw v d) (cp_links d)),
      lit (unlines [''</tbody>'',
      ''        </table>''])]),
      lit (unlines [[],
      ''      </section>''])]))\<close>

definition casePage :: "chrome \<Rightarrow> ms \<Rightarrow> AdminViewContext \<Rightarrow> CasePageData \<Rightarrow> string" where
  \<open>casePage E nw v d =
     (let tt = translator (ch_dict E) (av_lang v)
      in admin_page E v (c_name (cp_case d)) [''/static/vendor/tus.min.js'', ''/static/admin-upload.js'', ''/static/admin.js'']
        (tpl [lit (unlines [[],
      ''      '']),
      ISafe (jsonScript ''outletbox-config'' (uploader_config E v d)),
      lit (unlines [[],
      ''      '']),
      ISafe (jsonScript ''outletbox-groups'' (group_lines (cp_groups d))),
      lit (unlines [[],
      ''      <p><a href="/admin">'']),
      IStr (tt ''common.back_to_cases'' None),
      lit (unlines [''</a></p>'',
      ''      '']),
      case_cards E v d,
      lit (unlines [[],
      [],
      ''      '']),
      items_card E v d,
      lit (unlines [[],
      [],
      ''      '']),
      links_card E nw v d,
      lit (unlines [[],
      [],
      ''      '']),
      membersSection E v d]))\<close>

end
