(* ===== verification/MarkupLaws.thy ===== *)
theory MarkupLaws
  imports ViewsDeliver ViewsAdmin WebLaws
begin

section \<open>Pages with the same markup\<close>

text \<open>
  The markup of a text is the sequence of its angle brackets and quotes. The lemmas carry equality of
  markup through templates, lists and the layout, so that a page whose interpolated texts change keeps
  its markup whatever these texts are.
\<close>

subsection \<open>The markup of a page\<close>

definition markup :: "string \<Rightarrow> string" where
  "markup s = filter (\<lambda>c. c \<in> {CHR ''<'', CHR ''>'', CHR 0x22, CHR 0x27}) s"

definition same_markup :: "interp \<Rightarrow> interp \<Rightarrow> bool" where
  "same_markup a b \<longleftrightarrow> markup (render a) = markup (render b)"

lemma markup_append [simp]: "markup (s @ s') = markup s @ markup s'"
  by (simp add: markup_def)

lemma markup_Nil [simp]: "markup [] = []"
  by (simp add: markup_def)

lemma markup_plain: "plain v \<Longrightarrow> markup (render v) = []"
  using render_inert [of v] by (auto simp: markup_def filter_empty_conv)

lemma same_refl: "same_markup a a"
  by (simp add: same_markup_def)

lemma same_text: "same_markup (IStr s) (IStr s')" "same_markup (INum n) (INum n')"
  by (simp_all only: same_markup_def markup_plain plain.simps)

lemma same_nil: "same_markup (tpl []) (tpl [])"
  by (rule same_refl)

lemma same_cons: "same_markup v v' \<Longrightarrow> same_markup (tpl vs) (tpl vs') \<Longrightarrow> same_markup (tpl (v # vs)) (tpl (v' # vs'))"
  by (simp add: same_markup_def tpl_def)

lemma same_arr: "list_all2 same_markup vs vs' \<Longrightarrow> same_markup (IArr vs) (IArr vs')"
  by (induction rule: list_all2_induct) (simp_all add: same_markup_def)

lemma same_map: "list_all2 r xs ys \<Longrightarrow> (\<And>x y. r x y \<Longrightarrow> same_markup (f x) (g y)) \<Longrightarrow> same_markup (IArr (map f xs)) (IArr (map g ys))"
  by (rule same_arr) (simp add: list_all2_map1 list_all2_map2 list.rel_mono_strong)

lemma same_if: "(c \<longleftrightarrow> c') \<Longrightarrow> (c \<Longrightarrow> same_markup a a') \<Longrightarrow> (\<not> c \<Longrightarrow> same_markup b b') \<Longrightarrow> same_markup (if c then a else b) (if c' then a' else b')"
  by simp

lemma same_option:
  "(x = None \<longleftrightarrow> x' = None) \<Longrightarrow> same_markup a a' \<Longrightarrow> (\<And>u v. same_markup (f u) (f' v)) \<Longrightarrow>
   same_markup (case x of None \<Rightarrow> a | Some u \<Rightarrow> f u) (case x' of None \<Rightarrow> a' | Some u \<Rightarrow> f' u)"
  by (cases x; cases x') simp_all

definition shown :: "string option \<Rightarrow> bool" where
  "shown x \<longleftrightarrow> x \<noteq> None \<and> x \<noteq> Some []"

lemma same_when:
  "shown x = shown x' \<Longrightarrow> (\<And>u v. same_markup (f u) (f' v)) \<Longrightarrow> same_markup (when_some x f) (when_some x' f')"
  by (auto simp: when_some_def shown_def same_refl split: option.splits)

lemma same_date: "(d = None \<longleftrightarrow> d' = None) \<Longrightarrow> same_markup (fmtDate E d lang) (fmtDate E d' lang)"
  unfolding fmtDate_def Let_def by (rule same_option, assumption) (intro same_refl same_text same_cons same_nil)+

lemma same_moment: "same_markup (fmtDate E (Some d) lang) (fmtDate E (Some d') lang)"
  by (rule same_date) simp

lemma same_flash: "shown m = shown m' \<Longrightarrow> same_markup (flash_box m k) (flash_box m' k')"
  by (auto simp: flash_box_def shown_def split: option.splits intro!: same_cons same_nil same_refl same_text)

lemma same_csrf: "same_markup (csrf_input a) (csrf_input b)"
  unfolding csrf_input_def by (intro same_cons same_nil same_refl same_text)

lemma markup_replace:
  "(\<And>n. markup (f n) = markup (g n)) \<Longrightarrow> markup (replace_placeholders f s) = markup (replace_placeholders g s)"
proof (induction f s rule: replace_placeholders.induct)
  case (2 f c cs)
  then show ?case by (auto simp: Let_def markup_def)
qed simp

lemma same_tHtml:
  assumes "list_all2 (\<lambda>p q. fst p = fst q \<and> same_markup (snd p) (snd q)) ps qs"
  shows "same_markup (ISafe (tHtml dict lang key ps)) (ISafe (tHtml dict lang key qs))"
proof -
  have "markup (case map_of ps n of Some v \<Rightarrow> render v | None \<Rightarrow> ''{'' @ n @ ''}'')
      = markup (case map_of qs n of Some v \<Rightarrow> render v | None \<Rightarrow> ''{'' @ n @ ''}'')" for n
    using assms by (induction rule: list_all2_induct) (auto simp: same_markup_def)
  then show ?thesis unfolding same_markup_def tHtml_def render.simps by (rule markup_replace)
qed

lemma same_param: "same_markup v v' \<Longrightarrow> list_all2 (\<lambda>p q. fst p = fst q \<and> same_markup (snd p) (snd q)) ps qs \<Longrightarrow>
    list_all2 (\<lambda>p q. fst p = fst q \<and> same_markup (snd p) (snd q)) ((k, v) # ps) ((k, v') # qs)"
  by simp

lemma same_param_nil: "list_all2 (\<lambda>p q. fst p = fst q \<and> same_markup (snd p) (snd q)) [] []"
  by simp

lemma same_dated:
  "same_markup (ISafe (tHtml dict lang key [(k, fmtDate E (Some d) lang)])) (ISafe (tHtml dict lang key [(k, fmtDate E (Some d') lang)]))"
  by (intro same_tHtml same_param same_param_nil same_date) simp

lemmas same_rules = same_refl same_text same_cons same_nil same_moment same_date same_flash same_csrf same_dated same_tHtml same_param same_param_nil

lemma same_list: "list_all2 (\<lambda>_ _. True) xs ys \<Longrightarrow> (\<And>x y. same_markup (f x) (g y)) \<Longrightarrow> same_markup (IArr (map f xs)) (IArr (map g ys))"
  by (rule same_map)

text \<open>The chrome: only the language and what the process was started with decide its markup.\<close>

definition same_options :: "LayoutOptions \<Rightarrow> LayoutOptions \<Rightarrow> bool" where
  "same_options o1 o2 \<longleftrightarrow> lo_lang o1 = lo_lang o2 \<and> lo_scripts o1 = lo_scripts o2 \<and> same_markup (lo_body o1) (lo_body o2)
     \<and> (case (lo_nav o1, lo_nav o2) of (None, None) \<Rightarrow> True | (Some a, Some b) \<Rightarrow> same_markup a b | _ \<Rightarrow> False)"

lemma same_switcher: "same_markup (IArr (lang_switcher lang p)) (IArr (lang_switcher lang p'))"
  unfolding lang_switcher_def
  by (rule same_map [of "(=)"]) (simp_all add: list.rel_eq, intro conjI impI same_rules)

lemma same_layout:
  assumes "same_options o1 o2"
  shows "markup (layout E o1) = markup (layout E o2)"
proof -
  have eq: "lo_lang o2 = lo_lang o1" "lo_scripts o2 = lo_scripts o1" and body: "same_markup (lo_body o1) (lo_body o2)"
    and nav: "lo_nav o1 = None \<longleftrightarrow> lo_nav o2 = None"
    "same_markup (case lo_nav o1 of Some n \<Rightarrow> n | None \<Rightarrow> nothing) (case lo_nav o2 of Some n \<Rightarrow> n | None \<Rightarrow> nothing)"
    using assms by (auto simp: same_options_def same_refl split: option.splits)
  show ?thesis
    unfolding layout_def Let_def eq same_markup_def [symmetric]
    by (intro same_cons same_nil same_switcher body nav(2); rule same_rules)
qed

end
