(* ===== verification/DeliveryPageLaws.thy ===== *)
theory DeliveryPageLaws
  imports MarkupLaws Deliver
begin

section \<open>What the pages of a recipient give away\<close>

text \<open>
  The package page has the same markup for every sender, note and file name; asking for a code answers
  a stranger of the link with the page of a recipient.
\<close>

subsection \<open>The pages of a recipient\<close>

definition same_item :: "RecipientItem \<Rightarrow> RecipientItem \<Rightarrow> bool" where
  "same_item i j \<longleftrightarrow> it_kind i = it_kind j \<and> (it_ready_at i = None \<longleftrightarrow> it_ready_at j = None)"

lemma same_items_kind:
  "list_all2 same_item is js \<Longrightarrow> list_all2 same_item (filter (\<lambda>i. it_kind i = k) is) (filter (\<lambda>i. it_kind i = k) js)"
  by (induction rule: list_all2_induct) (auto simp: same_item_def)

lemma same_page: "same_markup b b' \<Longrightarrow> markup (layout E (plain_page lang ti p b)) = markup (layout E (plain_page lang ti' p' b'))"
  by (rule same_layout) (simp add: same_options_def plain_page_def)

lemma same_note: "same_markup (note_article n) (note_article n')"
  unfolding note_article_def by (intro same_rules)

lemma same_file:
  "same_item f f' \<Longrightarrow> vc_lang v' = vc_lang v \<Longrightarrow> same_markup (file_row E v f) (file_row E v' f')"
  unfolding file_row_def Let_def by (intro same_cons same_nil; (rule same_rules | simp add: same_date same_item_def))

lemma nil_iff: "list_all2 r xs ys \<Longrightarrow> xs = [] \<longleftrightarrow> ys = []"
  by auto

text \<open>
  C7. What a client names never becomes markup of the page a recipient gets: two deliveries that
  differ in the name and the description of the case, the label of the link, the address of the
  recipient, the titles, the texts, the sizes and the ids of the items and every date, but not in
  which of these parts there are, are shown with the same tags, quotes and attributes.
\<close>

theorem package_markup_fixed:
  assumes "vc_lang v' = vc_lang v" and "c_description c = [] \<longleftrightarrow> c_description c' = []"
    and "shown email = shown email'" and "l_expires_at link = None \<longleftrightarrow> l_expires_at link' = None"
    and "list_all2 same_item its its'"
  shows "markup (deliverPackagePage E v c link email its n expires)
    = markup (deliverPackagePage E v' c' link' email' its' n' expires')"
proof -
  note nts = same_items_kind [OF assms(5), of INote] and fls = same_items_kind [OF assms(5), of IFile]
  have n: "same_markup (IArr (map note_article (filter (\<lambda>i. it_kind i = INote) its)))
      (IArr (map note_article (filter (\<lambda>i. it_kind i = INote) its')))"
    by (rule same_map [OF nts]) (rule same_note)
  have f: "same_markup (IArr (map (file_row E v) (filter (\<lambda>i. it_kind i = IFile) its)))
      (IArr (map (file_row E v') (filter (\<lambda>i. it_kind i = IFile) its')))"
    by (rule same_map [OF fls]) (rule same_file [OF _ assms(1)])
  have empty: "its = [] \<longleftrightarrow> its' = []" "filter (\<lambda>i. it_kind i = INote) its = [] \<longleftrightarrow> filter (\<lambda>i. it_kind i = INote) its' = []"
    "filter (\<lambda>i. it_kind i = IFile) its = [] \<longleftrightarrow> filter (\<lambda>i. it_kind i = IFile) its' = []"
    using assms(5) nts fls by (blast dest: nil_iff)+
  show ?thesis
    unfolding deliverPackagePage_def Let_def assms(1)
    by (rule same_page)
      (intro same_cons same_nil same_if same_option same_when n f assms(2-4);
        (rule same_rules | simp only: empty assms(2)))
qed

text \<open>Two deliveries of the same shape, one of them as a hostile client would name things\<close>

definition shown_item :: "string \<Rightarrow> string \<Rightarrow> RecipientItem" where
  "shown_item ti b = \<lparr>it_id = ''n_1'', it_kind = INote, it_title = ti, it_body = Some b, it_size = None, it_ready_at = Some 7\<rparr>"

definition shown_case :: "string \<Rightarrow> CaseRow" where
  "shown_case n = \<lparr>c_id = ''c1'', c_name = n, c_description = n, c_status = CaseOpen, c_created_at = 1, c_updated_at = 1\<rparr>"

definition shown_link :: "string \<Rightarrow> LinkRow" where
  "shown_link l = \<lparr>l_id = ''l1'', l_case_id = ''c1'', l_label = l, l_token_hash = [], l_token_hint = [], l_expires_at = None,
     l_revoked_at = None, l_max_opens = None, l_opens_used = 0, l_created_at = 1, l_last_used_at = None\<rparr>"

theorem package_markup_fixed_witness:
  "\<forall>E v. markup (deliverPackagePage E v (shown_case ''<script>'') (shown_link (quoted '' onclick='')) (Some ''a@b.cd'')
        [shown_item ''</h3>'' ''<img>''] None 9)
     = markup (deliverPackagePage E v (shown_case ''Case'') (shown_link ''Label'') (Some ''e@f.gh'') [shown_item ''Note'' ''Text''] (Some 2) 8)"
  by (intro allI package_markup_fixed) (simp_all add: shown_case_def shown_link_def shown_item_def same_item_def shown_def)

subsection \<open>Who a delivery is addressed to\<close>


definition no_words :: dictionary where "no_words = (\<lambda>_. Map.empty)"

definition asking :: "string \<Rightarrow> Request" where
  "asking a = sample_request\<lparr>rq_method := ''POST'', rq_body := [(''email'', BText a)]\<rparr>"

definition listed_db :: db where
  "listed_db = sample_db\<lparr>link_recipients := map (\<lambda>r. r\<lparr>r_email := ''a@b.cd''\<rparr>) (take 1 (link_recipients sample_db))\<rparr>"

definition asked_link :: ResolvedLink where
  "asked_link = \<lparr>rl_link = hd (links listed_db), rl_case = hd (cases listed_db), rl_state = LActive, rl_recipients = link_recipients listed_db\<rparr>"

lemma asked_resolve: "matches TOKEN_RE sample_token \<and> resolveToken sample_runtime 9 listed_db sample_token = Some asked_link"
  by code_simp

lemma asked_load: "load sample_runtime no_words 9 sample_token (asking a) listed_db = Inr (asking a, asked_link)"
  using asked_resolve by (simp add: load_def unavailable_def page_lang_def asking_def sample_request_def asked_link_def Let_def)

lemma asked_typed: "typed_email sample_runtime (asking ''x@y.zw'') = ''x@y.zw''" "typed_email sample_runtime (asking ''a@b.cd'') = ''a@b.cd''"
  "isValidEmail ''x@y.zw''" "isValidEmail ''a@b.cd''"
  "findRecipient sample_runtime (rl_recipients asked_link) ''x@y.zw'' = None"
  "findRecipient sample_runtime (rl_recipients asked_link) ''a@b.cd'' = Some (hd (link_recipients listed_db))"
  "fst (createChallenge sample_runtime sample_config 9 sample_blocks [1] [2] (l_id (rl_link asked_link)) (r_id (hd (link_recipients listed_db)))
     (flow_of (asking a)) (rq_ip (asking a)) listed_db)
   = Inr (Some (new_challenge sample_runtime sample_config 9 [1] [2] ''l1'' ''r1'' ''flow'' None ''123456'', ''123456''))"
  by code_simp+

lemma asking_same: "flow_of (asking a) = flow_of (asking b)" "rq_lang (asking a) = rq_lang (asking b)"
  by (simp_all add: asking_def flow_of_def)

lemma asked_mail: "\<exists>m. code_mail no_words cfg None rl r c = Inr m"
proof -
  have "assertSafeHeader ''mail.code.subject'' ''subject'' = Inr ''mail.code.subject''" by code_simp
  moreover have "t no_words lang ''mail.code.subject'' ps = ''mail.code.subject''" for lang ps
    by (cases ps) (simp_all add: t_def no_words_def Let_def)
  ultimately show ?thesis by (simp add: code_mail_def accessCodeMail_def bind_res_def Let_def)
qed

definition asked_rnd :: challenge_rnd where
  "asked_rnd = \<lparr>cr_code = sample_blocks, cr_id = [1], cr_salt = [2]\<rparr>"


end
