(* ===== verification/ViewsAccounts.thy ===== *)
theory ViewsAccounts
  imports ViewsAdmin
begin

section \<open>The pages of groups, accounts and the audit log\<close>

text \<open>
  src/http/views/admin.ts, second part: address groups with their drafts, the accounts with the password
  that was just issued, the audit log and the error page.
\<close>

subsection \<open>Address groups\<close>

record Draft =
  dr_id :: "string option"
  dr_name :: string
  dr_members :: string

definition group_summary :: "Translator \<Rightarrow> Group \<Rightarrow> interp" where
  \<open>group_summary tt g =
     (let owner = (case gr_created_by_name g of
            None \<Rightarrow> tt ''groups.owner_admins'' None
          | Some n \<Rightarrow> if n = [] then tt ''groups.owner_admins'' None else tt ''groups.owner'' (Some [(''username'', PStr n)]))
      in (tpl [lit ''<summary><strong>'',
      IStr (g_name (gr_row g)),
      lit ''</strong> <span class="muted small">'',
      IStr (tt ''groups.count'' (Some [(''n'', PNum (int (length (gr_members g))))])),
      lit ('' '' @ [CHR 0xB7] @ '' ''),
      IStr owner,
      lit ''</span></summary>'']))\<close>

definition group_entry :: "Translator \<Rightarrow> AdminViewContext \<Rightarrow> Draft option \<Rightarrow> Group \<Rightarrow> interp" where
  \<open>group_entry tt v draft0 g =
     (let i = g_id (gr_row g); csrf = csrf_input (av_csrfToken v); summary = group_summary tt g;
          draft = (case draft0 of None \<Rightarrow> None | Some x \<Rightarrow> if dr_id x = Some i then Some x else None)
      in if \<not> canEditGroup (av_userId v, av_role v) g
         then (tpl [lit ''<details class="collapsible group">'',
      summary,
      lit (unlines [[],
      ''              <pre class="mono small">'']),
      IStr (formatRecipients (gr_members g)),
      lit (unlines [''</pre>'',
      ''              <p class="muted small">'']),
      IStr (tt ''groups.not_yours'' None),
      lit (unlines [''</p>'',
      ''            </details>''])])
         else (tpl [lit ''<details class="collapsible group" '',
      if draft \<noteq> None then ISafe ''open'' else nothing,
      lit (unlines [''>'',
      ''            '']),
      summary,
      lit (unlines [[],
      ''            <form method="post" action="/admin/groups/'']),
      IStr i,
      lit ''" class="grid">'',
      csrf,
      lit (unlines [[],
      ''              <label class="grid-full">'']),
      IStr (tt ''groups.name'' None),
      lit '' <input name="name" required maxlength="200" value="'',
      IStr (case draft of Some x \<Rightarrow> dr_name x | None \<Rightarrow> g_name (gr_row g)),
      lit (unlines [''"></label>'',
      ''              <label class="grid-full">'']),
      IStr (tt ''groups.members'' None),
      lit (unlines [[],
      ''                <textarea name="recipients" rows="'']),
      INum (int (min (max (length (gr_members g) + 1) 3) 12)),
      lit ''" class="mono" required>'',
      IStr (case draft of Some x \<Rightarrow> dr_members x | None \<Rightarrow> formatRecipients (gr_members g)),
      lit (unlines [''</textarea></label>'',
      ''              '']),
      langSelect tt (av_lang v),
      lit (unlines [[],
      ''              <div class="grid-full muted small">'']),
      IStr (tt ''groups.edit_hint'' None),
      lit (unlines [''</div>'',
      ''              <div><button class="btn btn-primary" type="submit">'']),
      IStr (tt ''common.save'' None),
      lit (unlines [''</button></div>'',
      ''            </form>'',
      ''            <form method="post" action="/admin/groups/'']),
      IStr i,
      lit ''/delete" class="inline" data-confirm="'',
      IStr (tt ''groups.delete_confirm'' (Some [(''name'', PStr (g_name (gr_row g)))])),
      lit ''">'',
      csrf,
      lit ''<button class="btn btn-danger" type="submit">'',
      IStr (tt ''groups.delete'' None),
      lit (unlines [''</button></form>'',
      ''          </details>''])]))\<close>

definition groupsPage ::
    "chrome \<Rightarrow> AdminViewContext \<Rightarrow> Group list \<Rightarrow> string option \<Rightarrow> string option \<Rightarrow> Draft option \<Rightarrow> string" where
  \<open>groupsPage E v gs error ok_msg draft =
     (let tt = translator (ch_dict E) (av_lang v); csrf = csrf_input (av_csrfToken v);
          newDraft = (case draft of None \<Rightarrow> None | Some x \<Rightarrow> if dr_id x = None then Some x else None)
      in admin_page E v (tt ''groups.title'' None) [''/static/admin.js'']
        (tpl [lit (unlines [[],
      ''      <section class="card">'',
      ''        <h1>'']),
      IStr (tt ''groups.title'' None),
      lit (unlines [''</h1>'',
      ''        '']),
      flash_box error ''error'',
      flash_box ok_msg ''ok'',
      lit (unlines [[],
      ''        <p class="muted small">'']),
      IStr (tt ''groups.intro'' None),
      lit (unlines [''</p>'',
      ''        <details class="collapsible" '']),
      if gs = [] \<or> newDraft \<noteq> None then ISafe ''open'' else nothing,
      lit (unlines [''>'',
      ''          <summary>'']),
      IStr (tt ''groups.new'' None),
      lit (unlines [''</summary>'',
      ''          <form method="post" action="/admin/groups" class="grid">'']),
      csrf,
      lit (unlines [[],
      ''            <label class="grid-full">'']),
      IStr (tt ''groups.name'' None),
      lit '' <input name="name" required maxlength="200" value="'',
      IStr (case newDraft of Some x \<Rightarrow> dr_name x | None \<Rightarrow> []),
      lit ''" placeholder="'',
      IStr (tt ''groups.name_placeholder'' None),
      lit (unlines [''"></label>'',
      ''            <label class="grid-full">'']),
      IStr (tt ''groups.members'' None),
      lit (unlines [[],
      ''              <textarea name="recipients" rows="6" class="mono" required placeholder="jan.kowalski@example.com&#10;anna.schmidt@example.com de">'']),
      IStr (case newDraft of Some x \<Rightarrow> dr_members x | None \<Rightarrow> []),
      lit (unlines [''</textarea></label>'',
      ''            <div class="grid-full muted small">'']),
      IStr (tt ''links.recipients_hint'' None),
      lit (unlines [''</div>'',
      ''            '']),
      langSelect tt (av_lang v),
      lit (unlines [[],
      ''            <div><button class="btn btn-primary" type="submit">'']),
      IStr (tt ''common.create'' None),
      lit (unlines [''</button></div>'',
      ''          </form>'',
      ''        </details>'',
      ''      </section>'',
      ''      <section class="card">'',
      ''        <h2>'']),
      IStr (tt ''groups.list'' None),
      lit (unlines [''</h2>'',
      ''        '']),
      if gs = [] then (tpl [lit ''<p class="muted">'',
      IStr (tt ''groups.empty'' None),
      lit ''</p>'']) else IArr (map (group_entry tt v draft) gs),
      lit (unlines [[],
      ''      </section>''])]))\<close>

subsection \<open>Accounts\<close>

record Issued =
  is_username :: string
  is_password :: string
  is_reset :: bool

definition userStatus :: "Translator \<Rightarrow> UserSummary \<Rightarrow> interp" where
  \<open>userStatus tt u =
     (if us_disabled_at u \<noteq> None then (tpl [lit ''<span class="badge badge-disabled">'',
      IStr (tt ''users.status.disabled'' None),
      lit ''</span>''])
      else if us_must_change_password u then (tpl [lit ''<span class="badge badge-pending">'',
      IStr (tt ''users.status.must_change'' None),
      lit ''</span>''])
      else (tpl [lit ''<span class="badge badge-active">'',
      IStr (tt ''users.status.active'' None),
      lit ''</span>'']))\<close>

definition user_form ::
    "interp \<Rightarrow> UserSummary \<Rightarrow> string \<Rightarrow> string \<Rightarrow> bool \<Rightarrow> string option \<Rightarrow> (string \<times> string) option \<Rightarrow> interp" where
  \<open>user_form csrf u path label danger confirm fld = (tpl [lit ''<form method="post" action="/admin/users/'',
      IStr (us_id u),
      lit ''/'',
      IStr path,
      lit ''" class="inline"'',
      when_some confirm (\<lambda>c. (tpl [lit '' data-confirm="'',
      IStr c,
      lit ''"''])),
      lit ''>'',
      csrf,
      case fld of None \<Rightarrow> nothing | Some (n, x) \<Rightarrow> (tpl [lit ''<input type="hidden" name="'',
      IStr n,
      lit ''" value="'',
      IStr x,
      lit ''">'']),
      lit ''<button class="btn'',
      IStr (if danger then '' btn-danger'' else []),
      lit ''" type="submit">'',
      IStr label,
      lit ''</button></form>''])\<close>

definition user_row :: "chrome \<Rightarrow> AdminViewContext \<Rightarrow> UserSummary \<Rightarrow> interp" where
  \<open>user_row E v u =
     (let tt = translator (ch_dict E) (av_lang v); self = (us_id u = av_userId v);
          is_admin = (us_role u = RAdmin); form = user_form (csrf_input (av_csrfToken v)) u;
          ask = (\<lambda>key. Some (tt key (Some [(''username'', PStr (us_username u))])))
      in (tpl [lit (unlines [''<tr>'',
      ''              <td>'']),
      IStr (us_username u),
      if self then (tpl [lit '' <span class="muted small">('',
      IStr (tt ''users.you'' None),
      lit '')</span>'']) else nothing,
      lit (unlines [''</td>'',
      ''              <td><span class="badge badge-role-'']),
      IStr (role_text (us_role u)),
      lit ''">'',
      IStr (tt (if is_admin then ''users.role.admin'' else ''users.role.user'') None),
      lit (unlines [''</span></td>'',
      ''              <td>'']),
      userStatus tt u,
      lit (unlines [''</td>'',
      ''              <td>'']),
      IStr (tt (if us_totp_enabled u then ''security.enabled'' else ''security.disabled'') None),
      lit (unlines [''</td>'',
      ''              <td>'']),
      if is_admin then (tpl [lit ''<span class="muted">'',
      IStr (tt ''users.all_cases'' None),
      lit ''</span>'']) else INum (int (us_case_count u)),
      lit (unlines [''</td>'',
      ''              <td>'']),
      fmtDate E (us_last_login_at u) (av_lang v),
      lit (unlines [''</td>'',
      ''              <td><div class="actions">'']),
      if self then (tpl [lit ''<a href="/admin/security">'',
      IStr (tt ''nav.security'' None),
      lit ''</a>'']) else (tpl [lit (unlines [[],
      ''                '']),
      form ''role'' (tt (if is_admin then ''users.make_user'' else ''users.make_admin'') None) False (ask ''users.role_confirm'') (Some (''role'', if is_admin then ''user'' else ''admin'')),
      lit (unlines [[],
      ''                '']),
      form ''password'' (tt ''users.reset_password'' None) False (ask ''users.reset_password_confirm'') None,
      lit (unlines [[],
      ''                '']),
      if us_totp_enabled u then form ''totp'' (tt ''users.reset_totp'' None) False (ask ''users.reset_totp_confirm'') None else nothing,
      lit (unlines [[],
      ''                '']),
      if us_disabled_at u \<noteq> None then form ''enable'' (tt ''users.enable'' None) False None None else form ''disable'' (tt ''users.disable'' None) False (ask ''users.disable_confirm'') None,
      lit (unlines [[],
      ''                '']),
      form ''delete'' (tt ''users.delete'' None) True (ask ''users.delete_confirm'') None]),
      lit (unlines [[],
      ''              </div></td>'',
      ''            </tr>''])]))\<close>

definition usersPage ::
    "chrome \<Rightarrow> AdminViewContext \<Rightarrow> UserSummary list \<Rightarrow> Issued option \<Rightarrow> string option \<Rightarrow> string option \<Rightarrow> string" where
  \<open>usersPage E v us issued error ok_msg =
     (let tt = translator (ch_dict E) (av_lang v); csrf = csrf_input (av_csrfToken v)
      in admin_page E v (tt ''nav.users'' None) [''/static/admin.js'']
        (tpl [lit (unlines [[],
      ''      <section class="card">'',
      ''        <h1>'']),
      IStr (tt ''users.new'' None),
      lit (unlines [''</h1>'',
      ''        '']),
      flash_box error ''error'',
      flash_box ok_msg ''ok'',
      lit (unlines [[],
      ''        <form method="post" action="/admin/users" class="row">'']),
      csrf,
      lit (unlines [[],
      ''          <label class="grow">'']),
      IStr (tt ''users.username'' None),
      lit '' <input name="username" required maxlength="64" autocomplete="off" spellcheck="false" placeholder="'',
      IStr (tt ''users.username_placeholder'' None),
      lit (unlines [''"></label>'',
      ''          <label>'']),
      IStr (tt ''users.role'' None),
      lit (unlines ['' <select name="role">'',
      ''            <option value="user" selected>'']),
      IStr (tt ''users.role.user'' None),
      lit (unlines [''</option>'',
      ''            <option value="admin">'']),
      IStr (tt ''users.role.admin'' None),
      lit (unlines [''</option>'',
      ''          </select></label>'',
      ''          <button class="btn btn-primary" type="submit">'']),
      IStr (tt ''common.create'' None),
      lit (unlines [''</button>'',
      ''        </form>'',
      ''        <p class="muted small">'']),
      IStr (tt ''users.roles_hint'' None),
      lit (unlines [''</p>'',
      ''      </section>'',
      [],
      ''      '']),
      case issued of None \<Rightarrow> nothing | Some x \<Rightarrow> (tpl [lit (unlines [''<section class="card highlight">'',
      ''        <h2>'']),
      IStr (tt (if is_reset x then ''users.issued.reset_title'' else ''users.issued.title'') (Some [(''username'', PStr (is_username x))])),
      lit (unlines [''</h2>'',
      ''        <p><strong>'']),
      IStr (tt ''users.issued.copy_now'' None),
      lit ''</strong> '',
      IStr (tt ''users.issued.intro'' None),
      lit (unlines [''</p>'',
      ''        <div class="copy-row"><input class="mono" readonly value="'']),
      IStr (is_password x),
      lit ''" data-copy-source><button class="btn" type="button" data-copy>'',
      IStr (tt ''common.copy'' None),
      lit (unlines [''</button></div>'',
      ''      </section>''])]),
      lit (unlines [[],
      [],
      ''      <section class="card">'',
      ''        <h1>'']),
      IStr (tt ''users.list'' None),
      lit (unlines [''</h1>'',
      ''        <div class="table-scroll">'',
      ''        <table>'',
      ''          <thead><tr><th>'']),
      IStr (tt ''users.col.username'' None),
      lit ''</th><th>'',
      IStr (tt ''users.role'' None),
      lit ''</th><th>'',
      IStr (tt ''users.col.status'' None),
      lit ''</th><th>'',
      IStr (tt ''users.col.totp'' None),
      lit ''</th><th>'',
      IStr (tt ''users.col.cases'' None),
      lit ''</th><th>'',
      IStr (tt ''users.col.last_login'' None),
      lit (unlines [''</th><th></th></tr></thead>'',
      ''          <tbody>'']),
      IArr (map (user_row E v) us),
      lit (unlines [''</tbody>'',
      ''        </table>'',
      ''        </div>'',
      ''      </section>''])]))\<close>

subsection \<open>The audit log and the errors\<close>

text \<open>A row of the page: the entry, the name of its actor and its details as the stored JSON text\<close>

definition actor_text :: "actor \<Rightarrow> string" where
  "actor_text a = (case a of ActorAdmin \<Rightarrow> ''admin'' | ActorRecipient \<Rightarrow> ''recipient'' | ActorSystem \<Rightarrow> ''system'')"

definition audit_row :: "chrome \<Rightarrow> Lang \<Rightarrow> AuditRow \<times> string option \<times> string option \<Rightarrow> interp" where
  \<open>audit_row E lang x =
     (case x of (r, actor, details) \<Rightarrow>
        (let opt = (\<lambda>y. IStr (case y of Some s \<Rightarrow> s | None \<Rightarrow> []))
         in (tpl [lit (unlines [''<tr>'',
      ''          <td class="nowrap">'']),
      fmtDate E (Some (au_ts r)) lang,
      lit ''</td><td class="id">'',
      case actor of
              Some n \<Rightarrow> (if n = [] then (tpl [IStr (actor_text (au_actor_type r)),
      lit '':'',
      IStr (case au_actor_id r of Some i \<Rightarrow> i | None \<Rightarrow> ''-'')]) else (tpl [IStr n,
      lit ''<br><span class="muted">'',
      opt (au_actor_id r),
      lit ''</span>'']))
            | None \<Rightarrow> (tpl [IStr (actor_text (au_actor_type r)),
      lit '':'',
      IStr (case au_actor_id r of Some i \<Rightarrow> i | None \<Rightarrow> ''-'')]),
      lit ''</td><td>'',
      IStr (au_action r),
      lit (unlines [''</td>'',
      ''          <td class="mono id">'']),
      when_some (au_case_id r) (\<lambda>c. (tpl [lit ''<a href="/admin/cases/'',
      IStr c,
      lit ''">'',
      IStr c,
      lit ''</a>''])),
      lit (unlines [''</td>'',
      ''          <td class="mono id">'']),
      opt (au_link_id r),
      lit ''</td><td class="mono id">'',
      opt (au_item_id r),
      lit ''</td><td class="nowrap">'',
      opt (au_ip r),
      lit (unlines [''</td>'',
      ''          <td class="mono details">'']),
      when_some details (\<lambda>s. (tpl [lit ''<span>'',
      IStr s,
      lit ''</span>''])),
      lit (unlines [''</td>'',
      ''        </tr>''])])))\<close>

definition auditPage :: "chrome \<Rightarrow> AdminViewContext \<Rightarrow> (AuditRow \<times> string option \<times> string option) list \<Rightarrow> string" where
  \<open>auditPage E v rows =
     (let tt = translator (ch_dict E) (av_lang v)
      in admin_page E v (tt ''nav.audit'' None) []
        (tpl [lit (unlines [''<section class="card">'',
      ''      <h1>'']),
      IStr (tt ''audit.title'' (Some [(''n'', PNum (int (length rows)))])),
      lit (unlines [''</h1>'',
      ''      <!-- Opaque ids and a raw JSON details blob are both unbounded, so every wide cell'',
      ''           has to be breakable and the table scrolls inside its card rather than pushing'',
      ''           the page sideways. -->'',
      ''      <div class="table-scroll">'',
      ''      <table class="small audit">'',
      ''        <thead><tr><th>'']),
      IStr (tt ''audit.col.time'' None),
      lit ''</th><th>'',
      IStr (tt ''audit.col.actor'' None),
      lit ''</th><th>'',
      IStr (tt ''audit.col.action'' None),
      lit ''</th><th>'',
      IStr (tt ''audit.col.case'' None),
      lit ''</th><th>'',
      IStr (tt ''audit.col.link'' None),
      lit ''</th><th>'',
      IStr (tt ''audit.col.item'' None),
      lit ''</th><th>'',
      IStr (tt ''audit.col.ip'' None),
      lit ''</th><th>'',
      IStr (tt ''audit.col.details'' None),
      lit (unlines [''</th></tr></thead>'',
      ''        <tbody>'']),
      IArr (map (audit_row E (av_lang v)) rows),
      lit (unlines [''</tbody>'',
      ''      </table>'',
      ''      </div>'',
      ''    </section>''])]))\<close>

definition errorPage :: "chrome \<Rightarrow> Lang \<Rightarrow> string \<Rightarrow> string \<Rightarrow> nat \<Rightarrow> string \<Rightarrow> string \<Rightarrow> nat \<times> string" where
  \<open>errorPage E lang title message status path homeHref =
     (let tt = translator (ch_dict E) lang
      in (status, layout E (plain_page lang title path (tpl [lit ''<section class="card narrow"><h1>'',
      IStr title,
      lit ''</h1><p>'',
      IStr message,
      lit ''</p><p><a href="'',
      IStr homeHref,
      lit ''">'',
      IStr (tt ''common.home'' None),
      lit ''</a></p></section>'']))))\<close>

end
