(* ===== verification/CasePageLaws.thy ===== *)
theory CasePageLaws
  imports MarkupLaws ViewsAccounts
begin

section \<open>What the page of a case can contain\<close>

text \<open>
  The cards of a case have the same markup for every title, name, address and file name, and the JSON
  its scripts read cannot close the element that holds it.
\<close>

subsection \<open>The page of a case\<close>

definition wraps :: "string \<Rightarrow> bool" where
  "wraps e = (let domain = rev (takeWhile (\<lambda>c. c \<noteq> CHR ''@'') (rev e)) in domain \<noteq> e \<and> length e - length domain - 1 > 0)"

definition people_of :: "CasePageData \<Rightarrow> LinkRow \<Rightarrow> RecipientRow list" where
  "people_of d l = (case cp_recipients d (l_id l) of Some rs \<Rightarrow> rs | None \<Rightarrow> [])"

definition same_item_row :: "ItemRow \<Rightarrow> ItemRow \<Rightarrow> bool" where
  "same_item_row i j \<longleftrightarrow> i_kind i = i_kind j \<and> i_status i = i_status j \<and> shown (i_body i) = shown (i_body j)
     \<and> (i_size i = None \<longleftrightarrow> i_size j = None) \<and> (i_declared_size i = None \<longleftrightarrow> i_declared_size j = None)"

definition same_link_row :: "CasePageData \<Rightarrow> CasePageData \<Rightarrow> LinkRow \<Rightarrow> LinkRow \<Rightarrow> bool" where
  "same_link_row d d' l l' \<longleftrightarrow> (l_revoked_at l = None \<longleftrightarrow> l_revoked_at l' = None) \<and> (l_expires_at l = None \<longleftrightarrow> l_expires_at l' = None)
     \<and> (l_last_used_at l = None \<longleftrightarrow> l_last_used_at l' = None)
     \<and> list_all2 (\<lambda>r r'. wraps (r_email r) = wraps (r_email r')) (people_of d l) (people_of d' l')"

definition same_member :: "string \<Rightarrow> CaseMember \<Rightarrow> CaseMember \<Rightarrow> bool" where
  "same_member me m m' \<longleftrightarrow> (cm_disabled_at m = None \<longleftrightarrow> cm_disabled_at m' = None) \<and> (cm_id m = me \<longleftrightarrow> cm_id m' = me)"

text \<open>Two cases of the same shape: as many items, links, recipients, groups and members, in the same states\<close>

definition same_shape :: "string \<Rightarrow> CasePageData \<Rightarrow> CasePageData \<Rightarrow> bool" where
  "same_shape me d d' \<longleftrightarrow> c_status (cp_case d) = c_status (cp_case d')
     \<and> list_all2 (same_link_row d d') (cp_links d) (cp_links d') \<and> list_all2 (\<lambda>_ _. True) (cp_groups d) (cp_groups d')
     \<and> list_all2 same_item_row (cp_items d) (cp_items d') \<and> list_all2 (same_member me) (cp_members d) (cp_members d')
     \<and> list_all2 (\<lambda>_ _. True) (cp_assignable d) (cp_assignable d') \<and> (cp_newLink d = None \<longleftrightarrow> cp_newLink d' = None)
     \<and> shown (cp_error d) = shown (cp_error d') \<and> shown (cp_ok d) = shown (cp_ok d')"

lemma same_let: "(\<And>x. same_markup (f x) (g x)) \<Longrightarrow> same_markup (let x = a in f x) (let x = a in g x)"
  by simp

lemma same_email: "wraps e = wraps e' \<Longrightarrow> same_markup (breakableEmail e) (breakableEmail e')"
  by (auto simp: breakableEmail_def wraps_def Let_def intro!: same_rules)

lemma same_recipient:
  "wraps (r_email r) = wraps (r_email r') \<Longrightarrow> same_markup csrf csrf' \<Longrightarrow>
   same_markup (recipient_entry tt csrf l rem r) (recipient_entry tt csrf' l' rem r')"
  unfolding recipient_entry_def by (intro same_cons same_nil same_email same_if; (assumption | rule same_rules | rule refl))

lemma same_select: "same_markup (langSelect tt l) (langSelect tt l)"
  by (rule same_refl)

lemma same_fields:
  assumes "list_all2 (\<lambda>_ _. True) gs gs'"
  shows "same_markup (recipientFields tt lang gs) (recipientFields tt lang gs')"
proof -
  have e: "gs = [] \<longleftrightarrow> gs' = []" using assms by auto
  show ?thesis
    unfolding recipientFields_def
    by (intro same_cons same_nil same_if same_list [OF assms]; (rule same_rules | simp only: e))
qed

lemma same_item_entry:
  assumes "same_item_row i j"
  shows "same_markup (item_row E v i) (item_row E v j)"
proof -
  have eq: "i_kind i = i_kind j" "i_status i = i_status j"
    and s: "shown (if i_kind j = INote then i_body i else None) = shown (if i_kind j = INote then i_body j else None)"
    "i_size i = None \<longleftrightarrow> i_size j = None" "i_declared_size i = None \<longleftrightarrow> i_declared_size j = None"
    using assms by (simp_all add: same_item_row_def)
  show ?thesis
    unfolding item_row_def Let_def eq
    by (intro same_cons same_nil same_if same_when same_option s; (rule same_rules | simp))
qed

lemma same_link_entry:
  assumes l: "same_link_row d d' l l'" and g: "list_all2 (\<lambda>_ _. True) (cp_groups d) (cp_groups d')"
  shows "same_markup (link_row E nw v d l) (link_row E nw v d' l')"
proof -
  have s: "l_revoked_at l = None \<longleftrightarrow> l_revoked_at l' = None" "l_expires_at l = None \<longleftrightarrow> l_expires_at l' = None"
    "l_last_used_at l = None \<longleftrightarrow> l_last_used_at l' = None"
    and p: "list_all2 (\<lambda>r r'. wraps (r_email r) = wraps (r_email r')) (people_of d l) (people_of d' l')"
    using l by (simp_all add: same_link_row_def)
  have n: "length (people_of d l) = length (people_of d' l')" using p by (rule list_all2_lengthD)
  have entries: "same_markup (IArr (map (recipient_entry tt csrf l b) (people_of d l))) (IArr (map (recipient_entry tt csrf l' b) (people_of d' l')))"
    for tt csrf b
    by (rule same_map [OF p]) (rule same_recipient [OF _ same_refl])
  show ?thesis
    unfolding link_row_def Let_def people_of_def [symmetric] n s(1)
    by (intro same_cons same_nil same_if same_option same_fields [OF g] entries same_date [OF s(3)] s(1,2); (rule same_rules | simp only: s))
qed

lemma same_member_entry: "same_member (av_userId v) m m' \<Longrightarrow> same_markup (member_entry tt v c m) (member_entry tt v c' m')"
  unfolding member_entry_def by (intro same_cons same_nil same_if; (rule same_rules | simp add: same_member_def))

lemma same_members:
  assumes "list_all2 (same_member (av_userId v)) (cp_members d) (cp_members d')" "list_all2 (\<lambda>_ _. True) (cp_assignable d) (cp_assignable d')"
  shows "same_markup (membersSection E v d) (membersSection E v d')"
proof -
  have e: "cp_members d = [] \<longleftrightarrow> cp_members d' = []" "cp_assignable d = [] \<longleftrightarrow> cp_assignable d' = []" using assms by auto
  show ?thesis
    unfolding membersSection_def Let_def
    by (intro same_cons same_nil same_if same_list [OF assms(2)] same_map [OF assms(1)] same_member_entry;
        (rule same_rules | assumption | simp only: e))
qed

lemma same_case_cards:
  assumes "c_status (cp_case d) = c_status (cp_case d')" "cp_newLink d = None \<longleftrightarrow> cp_newLink d' = None"
    "shown (cp_error d) = shown (cp_error d')" "shown (cp_ok d) = shown (cp_ok d')"
  shows "same_markup (case_cards E v d) (case_cards E v d')"
  unfolding case_cards_def Let_def assms(1)
  by (intro same_cons same_nil same_option same_flash same_tHtml same_param same_param_nil assms(2-4); (rule same_rules | simp))

lemma same_items_card:
  assumes "list_all2 same_item_row (cp_items d) (cp_items d')"
  shows "same_markup (items_card E v d) (items_card E v d')"
proof -
  have e: "cp_items d = [] \<longleftrightarrow> cp_items d' = []" using assms by auto
  show ?thesis
    unfolding items_card_def Let_def
    by (intro same_cons same_nil same_if same_map [OF assms] same_item_entry; (rule same_rules | assumption | simp only: e))
qed

lemma same_links_card:
  assumes "c_status (cp_case d) = c_status (cp_case d')" and "list_all2 (same_link_row d d') (cp_links d) (cp_links d')"
    and "list_all2 (\<lambda>_ _. True) (cp_groups d) (cp_groups d')"
  shows "same_markup (links_card E nw v d) (links_card E nw v d')"
proof -
  have e: "cp_links d = [] \<longleftrightarrow> cp_links d' = []" using assms by auto
  show ?thesis
    unfolding links_card_def Let_def assms(1)
    by (intro same_cons same_nil same_if same_map [OF assms(2)] same_link_entry [OF _ assms(3)] same_fields [OF assms(3)];
        (rule same_rules | assumption | simp only: e))
qed

lemma json_lt: "filter ((=) (CHR ''<'')) (jsonScript i data) = ''<<''"
proof -
  have 1: "filter ((=) (CHR ''<'')) (concat (map (\<lambda>c. if c = CHR ''<'' then [CHR 0x5c] @ ''u003c'' else [c]) s)) = []" for s
    by (induction s) auto
  have 2: "filter ((=) (CHR ''<'')) (escapeHtml i) = []"
    using render_inert [of "IStr i"] by (auto simp: filter_empty_conv)
  show ?thesis by (simp add: jsonScript_def quoted_def 1 2)
qed


definition sample_page :: "string \<Rightarrow> string \<Rightarrow> CasePageData" where
  "sample_page x email =
     \<lparr>cp_case = \<lparr>c_id = x, c_name = x, c_description = x, c_status = CaseOpen, c_created_at = 1, c_updated_at = 1\<rparr>,
      cp_links = [\<lparr>l_id = x, l_case_id = x, l_label = x, l_token_hash = x, l_token_hint = x, l_expires_at = Some 9,
        l_revoked_at = None, l_max_opens = Some 2, l_opens_used = 1, l_created_at = 1, l_last_used_at = None\<rparr>],
      cp_recipients = [x \<mapsto> [\<lparr>r_id = x, r_link_id = x, r_email = email, r_lang = x, r_opens = 1, r_last_opened_at = None, r_created_at = 1\<rparr>]],
      cp_groups = [], cp_items = [\<lparr>i_id = x, i_case_id = x, i_kind = IFile, i_title = x, i_body = None, i_upload_kind = Some UDirect,
        i_status = Ready, i_declared_size = Some 2, i_size = Some 2, i_sha256 = Some x, i_created_by = None, i_created_at = 2,
        i_ready_at = Some 3, i_deleted_at = None\<rparr>],
      cp_cfg = sample_config, cp_members = [], cp_assignable = [\<lparr>cm_id = x, cm_username = x, cm_role = RUser, cm_disabled_at = None\<rparr>],
      cp_newLink = Some \<lparr>nl_label = x, nl_url = x\<rparr>, cp_error = None, cp_ok = None\<rparr>"


end
