(* ===== verification/ViewsSecurity.thy ===== *)
theory ViewsSecurity
  imports Layout Passkeys DeviceSessions
begin

section \<open>The security pages of the panel\<close>

text \<open>
  src/http/views/security.ts: the second step of signing in, the confirmation of an action, and the
  page with password, second factors, passkeys, recovery codes and sessions. A user agent is described
  by the parts it contains, which is what the regular expressions of the source ask for.
\<close>

text \<open>\<open>s.includes(sub)\<close>, which the patterns of \<open>describeUserAgent\<close> amount to\<close>

fun has_part :: "string \<Rightarrow> string \<Rightarrow> bool" where
  "has_part [] sub = (sub = [])"
| "has_part (c # cs) sub = (starts_with (c # cs) sub \<or> has_part cs sub)"

definition passkeyButton ::
    "Translator \<Rightarrow> string \<Rightarrow> string \<Rightarrow> string \<Rightarrow> string \<Rightarrow> string \<Rightarrow> bool \<Rightarrow> string option \<Rightarrow> interp" where
  \<open>passkeyButton tt kind csrfToken options submit label primary nameInput =
     (tpl [lit ''<button class="btn'',
      IStr (if primary then '' btn-primary'' else []),
      lit ''" type="button" hidden data-passkey="'',
      IStr kind,
      lit ''" data-csrf="'',
      IStr csrfToken,
      lit (unlines [''"'',
      ''      data-options="'']),
      IStr options,
      lit ''" data-submit="'',
      IStr submit,
      lit ''" data-status="passkey-status-'',
      IStr kind,
      lit ''" '',
      when_some nameInput (\<lambda>n. ISafe (''data-name-input='' @ quoted n)),
      lit (unlines [[],
      ''      data-failed="'']),
      IStr (tt ''passkey.failed'' None),
      lit ''" data-cancelled="'',
      IStr (tt ''passkey.cancelled'' None),
      lit ''" data-unsupported="'',
      IStr (tt ''passkey.unsupported'' None),
      lit ''">'',
      IStr label,
      lit (unlines [''</button>'',
      ''    <p class="flash flash-error" id="passkey-status-'']),
      IStr kind,
      lit ''" role="status" hidden></p>''])\<close>

record TotpLogin =
  tl_csrfToken :: string
  tl_error :: "string option"
  tl_attemptsLeft :: "nat option"
  tl_lockedUntil :: "string option"
  tl_passkey :: "bool option"
  tl_totp :: "bool option"
  tl_codes :: "bool option"

text \<open>\<open>lockedUntil.replace('T', ' ').slice(0, 16)\<close>: the first T only\<close>

fun replace_first :: "char \<Rightarrow> char \<Rightarrow> string \<Rightarrow> string" where
  "replace_first a b [] = []"
| "replace_first a b (c # cs) = (if c = a then b # cs else c # replace_first a b cs)"

definition totpLoginPage :: "chrome \<Rightarrow> Lang \<Rightarrow> TotpLogin \<Rightarrow> string" where
  \<open>totpLoginPage E lang opts =
     (let tt = translator (ch_dict E) lang;
          passkey = (case tl_passkey opts of Some b \<Rightarrow> b | None \<Rightarrow> False);
          codes = (case tl_codes opts of Some b \<Rightarrow> b | None \<Rightarrow> True);
          title = tt (if passkey then ''second.title'' else ''totp.title'') None
      in layout E ((plain_page lang title ''/admin/totp''
        (tpl [lit (unlines [''<section class="card narrow">'',
      ''      <h1>'']),
      IStr title,
      lit (unlines [''</h1>'',
      ''      '']),
      when_some (tl_error opts) (\<lambda>e. (tpl [lit ''<div class="flash flash-error">'',
      IStr e,
      case tl_attemptsLeft opts of None \<Rightarrow> nothing | Some n \<Rightarrow> (tpl [lit '' '',
      IStr (tt ''totp.attempts_left'' (Some [(''n'', PNum (int n))]))]),
      lit ''</div>''])),
      lit (unlines [[],
      ''      '']),
      when_some (tl_lockedUntil opts) (\<lambda>u. (tpl [lit ''<div class="flash flash-error">'',
      IStr (tt ''totp.locked_until'' (Some [(''until'', PStr (take 16 (replace_first (CHR ''T'') (CHR '' '') u)))])),
      lit ''</div>''])),
      lit (unlines [[],
      ''      '']),
      if passkey then (tpl [lit ''<p>'',
      passkeyButton tt ''login'' (tl_csrfToken opts) ''/admin/webauthn/login/options'' ''/admin/webauthn/login'' (tt ''passkey.use'' None) True None,
      lit ''</p>'']) else nothing,
      lit (unlines [[],
      ''      '']),
      if passkey \<and> codes then (tpl [lit ''<p class="muted small">'',
      IStr (tt ''common.or'' None),
      lit ''</p>'']) else nothing,
      lit (unlines [[],
      ''      '']),
      if codes then (tpl [lit (unlines [''<form method="post" action="/admin/totp">'',
      ''        <input type="hidden" name="_csrf" value="'']),
      IStr (tl_csrfToken opts),
      lit (unlines [''">'',
      ''        <label>'']),
      IStr (tt (if tl_totp opts = Some False then ''second.recovery_label'' else ''totp.code_label'') None),
      lit (unlines [[],
      ''          <input name="code" required autocomplete="one-time-code" '']),
      if tl_totp opts = Some False then nothing else ISafe ''inputmode="numeric"'',
      lit '' '',
      if passkey then nothing else ISafe ''autofocus'',
      lit (unlines ['' pattern="[0-9a-zA-Z'' @ [CHR 0x5C] @ ''- ]{6,12}">'',
      ''        </label>'',
      ''        <button class="btn'']),
      IStr (if passkey then [] else '' btn-primary''),
      lit ''" type="submit">'',
      IStr (tt ''totp.confirm'' None),
      lit (unlines [''</button>'',
      ''      </form>''])]) else nothing,
      lit (unlines [[],
      ''      <form method="post" action="/admin/logout" class="inline"><input type="hidden" name="_csrf" value="'']),
      IStr (tl_csrfToken opts),
      lit ''"><button class="btn btn-link btn-link-muted" type="submit">'',
      IStr (tt ''totp.cancel_logout'' None),
      lit (unlines [''</button></form>'',
      ''    </section>''])]))\<lparr>lo_scripts := (if passkey then [''/static/passkey.js''] else [])\<rparr>))\<close>

record ConfirmView =
  cf_lang :: Lang
  cf_nav :: interp
  cf_csrfToken :: string
  cf_next :: string
  cf_minutes :: nat
  cf_passkey :: bool
  cf_codes :: bool
  cf_password :: bool
  cf_error :: "string option"

definition confirm_parts :: "Translator \<Rightarrow> ConfirmView \<Rightarrow> interp list" where
  \<open>confirm_parts tt d =
     (let csrf = (tpl [lit ''<input type="hidden" name="_csrf" value="'',
      IStr (cf_csrfToken d),
      lit ''"><input type="hidden" name="next" value="'',
      IStr (cf_next d),
      lit ''">''])
      in (if cf_passkey d then [(tpl [lit ''<p>'',
      passkeyButton tt ''confirm'' (cf_csrfToken d) ''/admin/webauthn/confirm/options''
             (''/admin/confirm/passkey?next='' @ encodeURIComponent (cf_next d)) (tt ''passkey.use'' None) True None,
      lit ''</p>''])] else [])
       @ (if cf_codes d then [(tpl [lit ''<form method="post" action="/admin/confirm/code">'',
      csrf,
      lit (unlines [[],
      ''      <label>'']),
      IStr (tt ''confirm.code_label'' None),
      lit '' <input name="code" required autocomplete="one-time-code" '',
      if cf_passkey d then nothing else ISafe ''autofocus'',
      lit (unlines [''></label>'',
      ''      <button class="btn'']),
      IStr (if cf_passkey d then [] else '' btn-primary''),
      lit ''" type="submit">'',
      IStr (tt ''confirm.submit'' None),
      lit ''</button></form>''])] else [])
       @ (if cf_password d then [(tpl [lit ''<form method="post" action="/admin/confirm/password">'',
      csrf,
      lit (unlines [[],
      ''      <label>'']),
      IStr (tt ''confirm.password_label'' None),
      lit (unlines ['' <input name="password" type="password" required autocomplete="current-password" autofocus></label>'',
      ''      <button class="btn btn-primary" type="submit">'']),
      IStr (tt ''confirm.submit'' None),
      lit ''</button></form>''])] else []))\<close>

definition alternatives :: "Translator \<Rightarrow> interp list \<Rightarrow> interp list" where
  \<open>alternatives tt parts = (case parts of [] \<Rightarrow> []
     | p # ps \<Rightarrow> p # map (\<lambda>q. (tpl [lit ''<p class="muted small">'',
      IStr (tt ''common.or'' None),
      lit ''</p>'',
      q])) ps)\<close>

definition confirmPage :: "chrome \<Rightarrow> ConfirmView \<Rightarrow> string" where
  \<open>confirmPage E d =
     (let tt = translator (ch_dict E) (cf_lang d)
      in layout E ((plain_page (cf_lang d) (tt ''confirm.title'' None) ''/admin/confirm''
        (tpl [lit (unlines [''<section class="card narrow">'',
      ''      <h1>'']),
      IStr (tt ''confirm.title'' None),
      lit (unlines [''</h1>'',
      ''      '']),
      when_some (cf_error d) (\<lambda>e. (tpl [lit ''<div class="flash flash-error">'',
      IStr e,
      lit ''</div>''])),
      lit (unlines [[],
      ''      <p>'']),
      IStr (tt ''confirm.intro'' (Some [(''minutes'', PNum (int (cf_minutes d)))])),
      lit (unlines [''</p>'',
      ''      <p class="muted small">'']),
      IStr (tt ''confirm.repeat'' None),
      lit (unlines [''</p>'',
      ''      '']),
      IArr (alternatives tt (confirm_parts tt d)),
      lit (unlines [[],
      ''    </section>''])]))\<lparr>lo_nav := Some (cf_nav d), lo_scripts := (if cf_passkey d then [''/static/passkey.js''] else [])\<rparr>))\<close>

definition describeUserAgent :: "string option \<Rightarrow> string option" where
  "describeUserAgent ua =
     (case ua of None \<Rightarrow> None
      | Some u \<Rightarrow>
          (let browser = (if has_part u ''Edg/'' then ''Edge'' else if has_part u ''OPR/'' then ''Opera''
                 else if has_part u ''Firefox/'' then ''Firefox'' else if has_part u ''Chrome/'' then ''Chrome''
                 else if has_part u ''Safari/'' then ''Safari'' else if has_part u ''curl/'' then ''curl'' else []);
               os = (if has_part u ''iPhone'' \<or> has_part u ''iPad'' then ''iOS'' else if has_part u ''Android'' then ''Android''
                 else if has_part u ''Windows'' then ''Windows'' else if has_part u ''Mac OS X'' \<or> has_part u ''Macintosh'' then ''macOS''
                 else if has_part u ''CrOS'' then ''ChromeOS'' else if has_part u ''Linux'' then ''Linux'' else []);
               name = join [CHR '' '', CHR 0xB7, CHR '' ''] (filter (\<lambda>x. x \<noteq> []) [browser, os])
           in if name = [] then None else Some name))"

record Enrol =
  en_qrSvg :: string
  en_secret :: string
  en_uri :: string

record SecurityPageData =
  sp_lang :: Lang
  sp_csrfToken :: string
  sp_username :: string
  sp_nav :: interp
  sp_totpEnabled :: bool
  sp_totpRequired :: bool
  sp_issuer :: string
  sp_recoveryLeft :: nat
  sp_passkeys :: "Passkey list"
  sp_sessions :: "SessionSummary list"
  sp_mustChangePassword :: bool
  sp_enrol :: "Enrol option"
  sp_recoveryCodes :: "string list option"
  sp_error :: "string option"
  sp_ok :: "string option"

text \<open>\<open>secret.replace(/(.{4})/g, '$1 ').trim()\<close>\<close>

fun spaced4 :: "string \<Rightarrow> string" where
  "spaced4 (a # b # c # d # cs) = [a, b, c, d, CHR '' ''] @ spaced4 cs"
| "spaced4 cs = cs"

text \<open>The text before the first \<open>'. '\<close> and the text behind it\<close>

fun first_sentence :: "string \<Rightarrow> string \<times> string" where
  "first_sentence [] = ([], [])"
| "first_sentence (c # cs) =
     (if starts_with (c # cs) ''. '' then ([], tl cs) else (let (a, b) = first_sentence cs in (c # a, b)))"

definition passkey_row :: "chrome \<Rightarrow> SecurityPageData \<Rightarrow> Passkey \<Rightarrow> interp" where
  \<open>passkey_row E d p =
     (let tt = translator (ch_dict E) (sp_lang d)
      in (tpl [lit (unlines [''<tr>'',
      ''            <td>'']),
      IStr (py_name p),
      lit ''</td><td>'',
      fmtDate E (Some (py_created_at p)) (sp_lang d),
      lit ''</td><td>'',
      fmtDate E (py_last_used_at p) (sp_lang d),
      lit (unlines [''</td>'',
      ''            <td><form method="post" action="/admin/security/passkeys/'']),
      IStr (py_id p),
      lit ''/remove" class="inline" data-confirm="'',
      IStr (tt ''passkeys.remove_confirm'' None),
      lit ''">'',
      csrf_input (sp_csrfToken d),
      lit ''<button class="btn btn-danger btn-small" type="submit">'',
      IStr (tt ''passkeys.remove'' None),
      lit (unlines [''</button></form></td>'',
      ''          </tr>''])]))\<close>

definition factor_text :: "factor \<Rightarrow> string" where
  "factor_text f = (case f of FTotp \<Rightarrow> ''totp'' | FRecovery \<Rightarrow> ''recovery'' | FPasskey \<Rightarrow> ''passkey'')"

definition session_row :: "chrome \<Rightarrow> SecurityPageData \<Rightarrow> SessionSummary \<Rightarrow> interp" where
  \<open>session_row E d s =
     (let tt = translator (ch_dict E) (sp_lang d)
      in (tpl [lit (unlines [''<tr>'',
      ''            <td>'']),
      IStr (case describeUserAgent (ss_user_agent s) of Some n \<Rightarrow> n | None \<Rightarrow> tt ''sessions.unknown_device'' None),
      lit (unlines [[],
      ''              '']),
      if ss_current s then (tpl [lit ''<br><span class="badge">'',
      IStr (tt ''sessions.current'' None),
      lit ''</span>'']) else nothing,
      lit (unlines [[],
      ''              '']),
      if ss_pending s then (tpl [lit ''<br><span class="badge badge-pending">'',
      IStr (tt ''sessions.pending'' None),
      lit ''</span>'']) else nothing,
      lit (unlines [[],
      ''              '']),
      if ss_bound s then (tpl [lit ''<br><span class="badge badge-active">'',
      IStr (tt ''sessions.bound'' None),
      lit ''</span>'']) else nothing,
      lit (unlines [[],
      ''              '']),
      case ss_second_factor s of None \<Rightarrow> nothing | Some f \<Rightarrow> (tpl [lit ''<br><span class="muted small">'',
      IStr (tt ''sessions.factor'' (Some [(''factor'', PStr (tt (''sessions.via.'' @ factor_text f) None))])),
      lit ''</span>'']),
      lit (unlines [''</td>'',
      ''            <td class="mono">'']),
      IStr (case ss_ip s of Some i \<Rightarrow> i | None \<Rightarrow> EM_DASH),
      lit ''</td><td>'',
      fmtDate E (Some (ss_created_at s)) (sp_lang d),
      lit ''</td><td>'',
      fmtDate E (Some (ss_last_seen_at s)) (sp_lang d),
      lit (unlines [''</td>'',
      ''            <td>'']),
      if ss_current s then nothing else (tpl [lit ''<form method="post" action="/admin/security/sessions/'',
      IStr (ss_public_id s),
      lit ''/revoke" class="inline">'',
      csrf_input (sp_csrfToken d),
      lit ''<button class="btn btn-small" type="submit">'',
      IStr (tt ''sessions.revoke'' None),
      lit ''</button></form>'']),
      lit (unlines [''</td>'',
      ''          </tr>''])]))\<close>

text \<open>The cards of the TOTP settings\<close>

definition totp_cards :: "Translator \<Rightarrow> SecurityPageData \<Rightarrow> interp" where
  \<open>totp_cards tt d =
     (let csrf = csrf_input (sp_csrfToken d)
      in (tpl [if \<not> sp_totpEnabled d \<and> sp_enrol d = None then (tpl [lit (unlines [''<section class="card">'',
      ''        <h2>'']),
      IStr (tt ''security.enable.title'' None),
      lit (unlines [''</h2>'',
      ''        <p class="small">'']),
      IStr (tt ''security.enable.intro'' None),
      lit (unlines [''</p>'',
      ''        <form method="post" action="/admin/security/totp/begin">'']),
      csrf,
      lit ''<button class="btn btn-primary" type="submit">'',
      IStr (tt ''security.enable.start'' None),
      lit (unlines [''</button></form>'',
      ''      </section>''])]) else nothing,
      lit (unlines [[],
      [],
      ''      '']),
      case sp_enrol d of None \<Rightarrow> nothing | Some e \<Rightarrow> (tpl [lit (unlines [''<section class="card">'',
      ''        <h2>'']),
      IStr (tt ''security.step1'' None),
      lit (unlines [''</h2>'',
      ''        <div class="row">'',
      ''          <div class="qr">'']),
      ISafe (en_qrSvg e),
      lit (unlines [''</div>'',
      ''          <div class="grow small">'',
      ''            <p>'']),
      IStr (tt ''security.manual_key'' None),
      lit (unlines [''</p>'',
      ''            <p class="mono breakable">'']),
      IStr (trim (spaced4 (en_secret e))),
      lit (unlines [''</p>'',
      ''            <p class="muted">'']),
      IStr (tt ''security.key_params'' (Some [(''issuer'', PStr (sp_issuer d)), (''user'', PStr (sp_username d))])),
      lit (unlines [''</p>'',
      ''            <p><a href="'']),
      IStr (en_uri e),
      lit ''">'',
      IStr (tt ''security.open_in_app'' None),
      lit ''</a> '',
      IStr (tt ''security.on_phone'' None),
      lit (unlines [''</p>'',
      ''          </div>'',
      ''        </div>'',
      ''        <h2>'']),
      IStr (tt ''security.step2'' None),
      lit (unlines [''</h2>'',
      ''        <form method="post" action="/admin/security/totp/confirm" class="row">'']),
      csrf,
      lit (unlines [[],
      ''          <label>'']),
      IStr (tt ''security.code_from_app'' None),
      lit (unlines ['' <input name="code" required autocomplete="one-time-code" inputmode="numeric" pattern="[0-9 ]{6,7}" autofocus></label>'',
      ''          <button class="btn btn-primary" type="submit">'']),
      IStr (tt ''security.enable.submit'' None),
      lit (unlines [''</button>'',
      ''        </form>'',
      ''        <p class="muted small">'']),
      IStr (tt ''security.pending_note'' None),
      lit (unlines [''</p>'',
      ''      </section>''])]),
      lit (unlines [[],
      [],
      ''      '']),
      if \<not> sp_totpEnabled d \<and> sp_passkeys d \<noteq> [] then (tpl [lit (unlines [''<section class="card">'',
      ''        <h2>'']),
      IStr (tt ''security.recovery.title'' None),
      lit (unlines [''</h2>'',
      ''        <form method="post" action="/admin/security/recovery/regenerate">'']),
      csrf,
      lit ''<button class="btn" type="submit">'',
      IStr (tt ''security.recovery.regenerate_confirmed'' None),
      lit (unlines [''</button></form>'',
      ''      </section>''])]) else nothing,
      lit (unlines [[],
      [],
      ''      '']),
      if sp_totpEnabled d then (tpl [lit (unlines [''<section class="card">'',
      ''        <h2>'']),
      IStr (tt ''security.recovery.title'' None),
      lit (unlines [''</h2>'',
      ''        <form method="post" action="/admin/security/totp/recovery" class="row">'']),
      csrf,
      lit (unlines [[],
      ''          <label>'']),
      IStr (tt ''security.current_code'' None),
      lit (unlines ['' <input name="code" required autocomplete="one-time-code" inputmode="numeric"></label>'',
      ''          <button class="btn" type="submit">'']),
      IStr (tt ''security.regenerate'' None),
      lit (unlines [''</button>'',
      ''        </form>'',
      ''      </section>'',
      ''      <section class="card">'',
      ''        <h2>'']),
      IStr (tt ''security.disable.title'' None),
      lit (unlines [''</h2>'',
      ''        <p class="small">'']),
      ISafe (tt ''security.disable.intro'' (Some [(''cmd'', PStr ''<code>node dist/cli.js disable-totp &lt;user&gt;</code>'')])),
      lit (unlines [''</p>'',
      ''        <form method="post" action="/admin/security/totp/disable" class="row" data-confirm="'']),
      IStr (tt ''security.disable.confirm'' None),
      lit ''">'',
      csrf,
      lit (unlines [[],
      ''          <label>'']),
      IStr (tt ''security.disable.code'' None),
      lit (unlines ['' <input name="code" required autocomplete="one-time-code"></label>'',
      ''          <button class="btn btn-danger" type="submit">'']),
      IStr (tt ''security.disable.submit'' None),
      lit (unlines [''</button>'',
      ''        </form>'',
      ''      </section>''])]) else nothing]))\<close>

definition securityPage :: "chrome \<Rightarrow> SecurityPageData \<Rightarrow> string" where
  \<open>securityPage E d =
     (let tt = translator (ch_dict E) (sp_lang d);
          csrf = csrf_input (sp_csrfToken d)
      in layout E ((plain_page (sp_lang d) (tt ''nav.security'' None) ''/admin/security''
        (tpl [lit (unlines [[],
      ''      <section class="card">'',
      ''        <h1>'']),
      IStr (tt ''security.title'' (Some [(''user'', PStr (sp_username d))])),
      lit (unlines [''</h1>'',
      ''        '']),
      when_some (sp_error d) (\<lambda>e. (tpl [lit ''<div class="flash flash-error">'',
      IStr e,
      lit ''</div>''])),
      lit (unlines [[],
      ''        '']),
      when_some (sp_ok d) (\<lambda>m. (tpl [lit ''<div class="flash flash-ok">'',
      IStr m,
      lit ''</div>''])),
      lit (unlines [[],
      ''        '']),
      if sp_mustChangePassword d then (tpl [lit ''<div class="warning">'',
      IStr (tt ''security.must_change_notice'' None),
      lit ''</div>'']) else nothing,
      lit (unlines [[],
      ''        '']),
      if sp_totpRequired d \<and> \<not> sp_totpEnabled d \<and> sp_passkeys d = [] then (tpl [lit ''<div class="warning">'',
      IStr (tt ''security.required_notice'' None),
      lit ''</div>'']) else nothing,
      lit (unlines [[],
      ''        <p>'']),
      ISafe (tt ''security.status'' (Some [(''state'', PStr (''<strong>'' @ (if sp_totpEnabled d then tt ''security.enabled'' None else tt ''security.disabled'' None) @ ''</strong>''))])),
      lit (unlines [[],
      ''        '']),
      if sp_totpEnabled d \<or> sp_passkeys d \<noteq> [] then ISafe (tt ''security.recovery_left'' (Some [(''n'', PStr (''<strong>'' @ nat_digits (sp_recoveryLeft d) @ ''</strong>''))])) else nothing,
      lit (unlines [''</p>'',
      ''      </section>'',
      [],
      ''      <section class="card">'',
      ''        <h2>'']),
      IStr (tt ''passkeys.title'' None),
      lit (unlines [''</h2>'',
      ''        <p class="small">'']),
      IStr (tt ''passkeys.intro'' None),
      lit (unlines [''</p>'',
      ''        '']),
      if sp_passkeys d = [] then (tpl [lit ''<p class="muted">'',
      IStr (tt ''passkeys.none'' None),
      lit ''</p>'']) else (tpl [lit (unlines [''<table>'',
      ''          <thead><tr><th>'']),
      IStr (tt ''passkeys.name'' None),
      lit ''</th><th>'',
      IStr (tt ''passkeys.added_at'' None),
      lit ''</th><th>'',
      IStr (tt ''passkeys.last_used'' None),
      lit (unlines [''</th><th></th></tr></thead>'',
      ''          <tbody>'']),
      IArr (map (passkey_row E d) (sp_passkeys d)),
      lit ''</tbody></table>'']),
      lit (unlines [[],
      ''        <div class="row">'',
      ''          <label>'']),
      IStr (tt ''passkeys.name'' None),
      lit '' <input id="passkey-name" maxlength="64" placeholder="'',
      IStr (tt ''passkeys.name_placeholder'' None),
      lit (unlines [''"></label>'',
      ''          '']),
      passkeyButton tt ''register'' (sp_csrfToken d) ''/admin/security/passkeys/options'' ''/admin/security/passkeys'' (tt ''passkeys.add'' None) True (Some ''passkey-name''),
      lit (unlines [[],
      ''        </div>'',
      ''      </section>'',
      [],
      ''      <section class="card">'',
      ''        <h2>'']),
      IStr (tt ''security.password.title'' None),
      lit (unlines [''</h2>'',
      ''        <form method="post" action="/admin/security/password" class="row">'']),
      csrf,
      lit (unlines [[],
      ''          <label>'']),
      IStr (tt ''security.password.current'' None),
      lit (unlines ['' <input name="current_password" type="password" required autocomplete="current-password"></label>'',
      ''          <label>'']),
      IStr (tt ''security.password.new'' None),
      lit (unlines ['' <input name="new_password" type="password" required autocomplete="new-password" minlength="12"></label>'',
      ''          <label>'']),
      IStr (tt ''security.password.confirm'' None),
      lit (unlines ['' <input name="new_password_confirm" type="password" required autocomplete="new-password" minlength="12"></label>'',
      ''          <button class="btn" type="submit">'']),
      IStr (tt ''security.password.submit'' None),
      lit (unlines [''</button>'',
      ''        </form>'',
      ''      </section>'',
      [],
      ''      '']),
      case sp_recoveryCodes d of None \<Rightarrow> nothing | Some codes \<Rightarrow> (tpl [lit (unlines [''<section class="card highlight">'',
      ''        <h2>'']),
      IStr (tt ''security.recovery.title'' None),
      lit (unlines [''</h2>'',
      ''        <p><strong>'']),
      IStr (fst (first_sentence (tt ''security.recovery.intro'' None))),
      lit ''.</strong> '',
      IStr (snd (first_sentence (tt ''security.recovery.intro'' None))),
      lit (unlines [''</p>'',
      ''        <pre class="mono" data-copy-source>'']),
      IStr (unlines codes),
      lit (unlines [''</pre>'',
      ''        <p><button class="btn" type="button" data-copy>'']),
      IStr (tt ''common.copy'' None),
      lit (unlines [''</button></p>'',
      ''      </section>''])]),
      lit (unlines [[],
      [],
      ''      '']),
      totp_cards tt d,
      lit (unlines [[],
      [],
      ''      <section class="card">'',
      ''        <h2>'']),
      IStr (tt ''sessions.title'' None),
      lit (unlines [''</h2>'',
      ''        <p class="small">'']),
      IStr (tt ''sessions.intro'' None),
      lit (unlines [''</p>'',
      ''        <table>'',
      ''          <thead><tr><th>'']),
      IStr (tt ''sessions.device'' None),
      lit ''</th><th>'',
      IStr (tt ''sessions.ip'' None),
      lit ''</th><th>'',
      IStr (tt ''sessions.started'' None),
      lit ''</th><th>'',
      IStr (tt ''sessions.last_seen'' None),
      lit (unlines [''</th><th></th></tr></thead>'',
      ''          <tbody>'']),
      IArr (map (session_row E d) (sp_sessions d)),
      lit (unlines [''</tbody>'',
      ''        </table>'',
      ''        '']),
      if \<not> list_all ss_current (sp_sessions d) then (tpl [lit ''<form method="post" action="/admin/security/sessions/revoke-others">'',
      csrf,
      lit ''<button class="btn" type="submit">'',
      IStr (tt ''sessions.revoke_others'' None),
      lit ''</button></form>'']) else nothing,
      lit (unlines [[],
      ''      </section>''])]))\<lparr>lo_nav := Some (sp_nav d), lo_scripts := [''/static/admin.js'', ''/static/passkey.js'']\<rparr>))\<close>

end
