(* ===== verification/Pages.thy ===== *)
theory Pages
  imports ViewsAccounts ViewsSecurity PanelPages
begin

section \<open>The pages of the panel from the tables\<close>

text \<open>
  src/http/admin.ts: what each page takes from the session and the tables, rendered to HTML. The handlers
  of the other theories answer with view values that name these pages and the rows they list.
\<close>

definition viewCtx :: "Request \<Rightarrow> Session \<Rightarrow> AdminViewContext" where
  "viewCtx req s =
     \<lparr>av_lang = rq_lang req, av_csrfToken = se_csrfToken s, av_username = ad_username (se_admin s),
      av_path = rq_originalUrl req, av_role = ad_role (se_admin s), av_userId = ad_id (se_admin s)\<rparr>"

definition error_html :: "chrome \<Rightarrow> Request \<Rightarrow> string \<Rightarrow> string \<Rightarrow> nat \<Rightarrow> nat \<times> string" where
  "error_html E req titleKey messageKey status =
     (let tt = t (ch_dict E) (rq_lang req)
      in errorPage E (rq_lang req) (tt titleKey None) (tt messageKey None) status (rq_originalUrl req) ''/admin'')"

text \<open>The page of a case gathers its rows from the tables; a case the session may not see is the error page.\<close>

record Extra =
  ex_error :: "string option"
  ex_ok :: "string option"
  ex_newLink :: "NewLink option"

definition case_data :: "Config \<Rightarrow> CaseRow \<Rightarrow> Extra \<Rightarrow> db \<Rightarrow> CasePageData" where
  "case_data cfg c extra d =
     \<lparr>cp_case = c, cp_links = listLinksForCase d (c_id c), cp_recipients = recipientsForCase d (c_id c),
      cp_groups = listGroups d, cp_items = listItemsForCase d (c_id c), cp_cfg = cfg,
      cp_members = caseMembers d (c_id c), cp_assignable = assignableUsers d (c_id c),
      cp_newLink = ex_newLink extra, cp_error = ex_error extra, cp_ok = ex_ok extra\<rparr>"

definition case_html ::
    "chrome \<Rightarrow> Config \<Rightarrow> ms \<Rightarrow> Request \<Rightarrow> Session \<Rightarrow> string \<Rightarrow> Extra \<Rightarrow> nat \<Rightarrow> db \<Rightarrow> nat \<times> string" where
  "case_html E cfg nw req s caseId extra status d =
     (case caseFor d s (Some caseId) of
        None \<Rightarrow> error_html E req ''error.not_found.title'' ''error.case_missing'' 404
      | Some c \<Rightarrow> (status, casePage E nw (viewCtx req s) (case_data cfg c extra d)))"

definition cases_html :: "chrome \<Rightarrow> Request \<Rightarrow> Session \<Rightarrow> string option \<Rightarrow> db \<Rightarrow> string" where
  "cases_html E req s error d = casesPage E (viewCtx req s) (listCases d (viewer_of s)) error"

definition groups_html ::
    "chrome \<Rightarrow> Request \<Rightarrow> Session \<Rightarrow> string option \<Rightarrow> string option \<Rightarrow> Draft option \<Rightarrow> db \<Rightarrow> string" where
  "groups_html E req s error ok_msg draft d = groupsPage E (viewCtx req s) (listGroups d) error ok_msg draft"

definition users_html ::
    "chrome \<Rightarrow> Request \<Rightarrow> Session \<Rightarrow> Issued option \<Rightarrow> string option \<Rightarrow> string option \<Rightarrow> db \<Rightarrow> nat \<times> string" where
  "users_html E req s issued error ok_msg d =
     (if ad_role (se_admin s) \<noteq> RAdmin then error_html E req ''error.forbidden.title'' ''error.forbidden'' 403
      else (200, usersPage E (viewCtx req s) (listUsers d) issued error ok_msg))"

text \<open>\<open>stored\<close> is the JSON text of the details as the row holds it.\<close>

definition audit_html :: "chrome \<Rightarrow> (AuditRow \<Rightarrow> string option) \<Rightarrow> Request \<Rightarrow> Session \<Rightarrow> db \<Rightarrow> nat \<times> string" where
  "audit_html E stored req s d =
     (if ad_role (se_admin s) \<noteq> RAdmin then error_html E req ''error.forbidden.title'' ''error.forbidden'' 403
      else (200, auditPage E (viewCtx req s) (map (\<lambda>(r, name). (r, name, stored r)) (listAudit d 300))))"

text \<open>The second step and the confirmation offer what the account has; \<open>Math.round\<close> makes the minutes.\<close>

definition may_use_codes :: "db \<Rightarrow> Admin \<Rightarrow> bool" where
  "may_use_codes d admin = (ad_totp_enabled admin \<or> remainingRecoveryCodes d (ad_id admin) > 0)"

definition totp_html ::
    "chrome \<Rightarrow> ms \<Rightarrow> Request \<Rightarrow> Session \<Rightarrow> string option \<Rightarrow> nat option \<Rightarrow> db \<Rightarrow> string" where
  "totp_html E nw req s error attemptsLeft d =
     (let a = se_admin s
      in totpLoginPage E (rq_lang req)
        \<lparr>tl_csrfToken = se_csrfToken s, tl_error = error, tl_attemptsLeft = attemptsLeft,
         tl_lockedUntil = (if error = None then map_option iso_time (totpLockedUntil d (ad_id a) nw) else None),
         tl_passkey = Some (ad_passkeys a > 0), tl_totp = Some (ad_totp_enabled a), tl_codes = Some (may_use_codes d a)\<rparr>)"

definition confirm_html ::
    "chrome \<Rightarrow> Config \<Rightarrow> Request \<Rightarrow> Session \<Rightarrow> string option \<Rightarrow> db \<Rightarrow> string" where
  "confirm_html E cfg req s error d =
     (let a = se_admin s
      in confirmPage E
        \<lparr>cf_lang = rq_lang req, cf_nav = adminNav E (viewCtx req s), cf_csrfToken = se_csrfToken s,
         cf_next = safeNext (case rq_next req of Some v \<Rightarrow> Some v | None \<Rightarrow> Some (BText (field req ''next''))),
         cf_minutes = (reauthWindowMs cfg + 30000) div 60000, cf_passkey = (ad_passkeys a > 0),
         cf_codes = may_use_codes d a, cf_password = (\<not> hasSecondFactor a), cf_error = error\<rparr>)"

text \<open>\<open>qr\<close> draws the QR code; what a flash or a handler adds replaces the fields it names.\<close>

definition security_data ::
    "chrome \<Rightarrow> runtime \<Rightarrow> Config \<Rightarrow> (string \<Rightarrow> string) \<Rightarrow> ms \<Rightarrow> Request \<Rightarrow> Session \<Rightarrow> string \<Rightarrow> db \<Rightarrow> SecurityPageData" where
  "security_data E R cfg qr nw req s sid d =
     (let a = se_admin s;
          pending = (if ad_totp_enabled a then None else pendingTotpSecret d (ad_id a))
      in \<lparr>sp_lang = rq_lang req, sp_csrfToken = se_csrfToken s, sp_username = ad_username a,
          sp_nav = adminNav E (viewCtx req s), sp_totpEnabled = ad_totp_enabled a,
          sp_totpRequired = adminRequireTotp cfg, sp_issuer = br_name (brand cfg),
          sp_recoveryLeft = (if hasSecondFactor a then remainingRecoveryCodes d (ad_id a) else 0),
          sp_passkeys = listPasskeys d (ad_id a), sp_sessions = listSessions R nw d (ad_id a) sid,
          sp_mustChangePassword = ad_must_change_password a,
          sp_enrol = (case pending of None \<Rightarrow> None
             | Some secret \<Rightarrow> if secret = [] then None
                 else (let uri = otpauthUri secret (ad_username a) (br_name (brand cfg))
                       in Some \<lparr>en_qrSvg = qr uri, en_secret = secret, en_uri = uri\<rparr>)),
          sp_recoveryCodes = None, sp_error = None, sp_ok = None\<rparr>)"

definition security_html ::
    "chrome \<Rightarrow> runtime \<Rightarrow> Config \<Rightarrow> (string \<Rightarrow> string) \<Rightarrow> ms \<Rightarrow> Request \<Rightarrow> Session \<Rightarrow> string \<Rightarrow> flash option \<Rightarrow> db \<Rightarrow> string" where
  "security_html E R cfg qr nw req s sid fl d =
     (let p = security_data E R cfg qr nw req s sid d
      in securityPage E (case fl of None \<Rightarrow> p
           | Some f \<Rightarrow> p\<lparr>sp_ok := Some (fl_ok f), sp_recoveryCodes := fl_recoveryCodes f\<rparr>))"

subsection \<open>What the pages keep from an account\<close>

text \<open>
  A case the account may not see and a case that does not exist have the same page: it depends on
  nothing in the database.
\<close>

lemma hidden_case_page:
  assumes "\<not> canAccessCase d (viewer_of s) i"
  shows "case_html E cfg nw req s i extra status d = error_html E req ''error.not_found.title'' ''error.case_missing'' 404"
proof -
  have "caseFor d s (Some i) = None"
    using assms by (auto simp: caseFor_def getCase_def dest: find_SomeD split: option.split)
  then show ?thesis by (simp add: case_html_def)
qed

lemma pages_of_administrators:
  assumes "ad_role (se_admin s) \<noteq> RAdmin"
  shows "users_html E req s issued error ok_msg d = users_html E req s issued' error' ok' d'"
    and "audit_html E stored req s d = audit_html E stored' req s d'"
  using assms by (simp_all add: users_html_def audit_html_def)

text \<open>Whoever asks for a confirmation is offered some way to give it.\<close>

lemma confirmation_offered:
  "ad_passkeys a > 0 \<or> may_use_codes d a \<or> \<not> hasSecondFactor a"
  by (auto simp: may_use_codes_def hasSecondFactor_def)

end
