(* ===== verification/Drivers.thy ===== *)
theory Drivers
  imports Layout Mail Storage Middleware
begin

section \<open>Mail drivers, storage backends and the logo\<close>

text \<open>
  What src/mail/ and src/storage/ hand to nodemailer, the AWS SDK and the Graph API, and what they make
  of the answers. The transports are arguments: they are not code of the repository.
\<close>

subsection \<open>The mail drivers (src/mail/)\<close>

datatype mailer = LogDriver string string | SmtpDriver MailConfig | GraphDriver MailConfig | SesDriver MailConfig

definition createMailer :: "Config \<Rightarrow> mailer" where
  "createMailer cfg =
     (case mc_driver (mail cfg) of
        DriverSmtp \<Rightarrow> SmtpDriver (mail cfg) | DriverGraph \<Rightarrow> GraphDriver (mail cfg) | DriverSes \<Rightarrow> SesDriver (mail cfg)
      | DriverLog \<Rightarrow> LogDriver (mc_from (mail cfg)) (path_join (dataDir cfg) ''mail''))"

definition inlineImages :: "mailer \<Rightarrow> bool" where
  "inlineImages m = (case m of SesDriver _ \<Rightarrow> False | _ \<Rightarrow> True)"

text \<open>SMTP: what nodemailer is given. An absent password of a user is the empty one.\<close>

record SmtpOptions =
  so_host :: string
  so_port :: rat
  so_secure :: bool
  so_requireTLS :: bool
  so_auth :: "(string \<times> string) option"
  so_rejectUnauthorized :: "bool option"
  so_connectionTimeout :: nat
  so_greetingTimeout :: nat
  so_socketTimeout :: nat

definition smtp_options :: "MailConfig \<Rightarrow> SmtpOptions" where
  "smtp_options cfg =
     (let s = mc_smtp cfg
      in \<lparr>so_host = smtp_host s, so_port = smtp_port s, so_secure = smtp_secure s,
          so_requireTLS = (\<not> smtp_secure s \<and> smtp_requireTls s),
          so_auth = (case smtp_user s of None \<Rightarrow> None
             | Some u \<Rightarrow> if u = [] then None else Some (u, case smtp_pass s of Some p \<Rightarrow> p | None \<Rightarrow> [])),
          so_rejectUnauthorized = (if smtp_allowInsecureTls s then Some False else None),
          so_connectionTimeout = 15000, so_greetingTimeout = 15000, so_socketTimeout = 30000\<rparr>)"

record SmtpMessage =
  sm_from :: string
  sm_sender :: string
  sm_replyTo :: "string option"
  sm_to :: string
  sm_subject :: string
  sm_text :: string
  sm_html :: string
  sm_attachments :: "InlineImage list"

definition smtp_message :: "MailConfig \<Rightarrow> OutgoingMail \<Rightarrow> SmtpMessage" where
  "smtp_message cfg msg =
     \<lparr>sm_from = formatFrom (mc_from cfg) (mc_fromName cfg), sm_sender = mc_from cfg, sm_replyTo = mc_replyTo cfg,
      sm_to = om_to msg, sm_subject = om_subject msg, sm_text = om_text msg, sm_html = om_html msg,
      sm_attachments = om_inlineImages msg\<rparr>"

text \<open>A transport answers with the message of its error, or with nothing.\<close>

definition wrap_error :: "string \<Rightarrow> string + unit \<Rightarrow> exn + unit" where
  "wrap_error what r = (case r of Inl m \<Rightarrow> Inl (MailError (what @ '': '' @ m)) | Inr _ \<Rightarrow> Inr ())"

definition smtp_send :: "(SmtpOptions \<Rightarrow> SmtpMessage \<Rightarrow> string + unit) \<Rightarrow> MailConfig \<Rightarrow> OutgoingMail \<Rightarrow> exn + unit" where
  "smtp_send transport cfg msg = wrap_error ''SMTP delivery failed'' (transport (smtp_options cfg) (smtp_message cfg msg))"

definition smtp_verify :: "(SmtpOptions \<Rightarrow> string + unit) \<Rightarrow> MailConfig \<Rightarrow> exn + unit" where
  "smtp_verify probe cfg = wrap_error ''SMTP server not reachable'' (probe (smtp_options cfg))"

record SesClient =
  sc_region :: string
  sc_endpoint :: "string option"
  sc_credentials :: "(string \<times> string) option"

definition both_keys :: "string option \<Rightarrow> string option \<Rightarrow> (string \<times> string) option" where
  "both_keys k s =
     (case (k, s) of (Some a, Some b) \<Rightarrow> (if a \<noteq> [] \<and> b \<noteq> [] then Some (a, b) else None) | _ \<Rightarrow> None)"

definition ses_client :: "MailConfig \<Rightarrow> SesClient" where
  "ses_client cfg =
     (let s = mc_ses cfg
      in \<lparr>sc_region = ses_region s, sc_endpoint = ses_endpoint s, sc_credentials = both_keys (ses_accessKeyId s) (ses_secretAccessKey s)\<rparr>)"

record SesMessage =
  sx_from :: string
  sx_to :: "string list"
  sx_replyTo :: "string list option"
  sx_configurationSet :: "string option"
  sx_subject :: string
  sx_text :: string
  sx_html :: "string option"

definition ses_message :: "MailConfig \<Rightarrow> OutgoingMail \<Rightarrow> SesMessage" where
  "ses_message cfg msg =
     \<lparr>sx_from = formatFrom (mc_from cfg) (mc_fromName cfg), sx_to = [om_to msg],
      sx_replyTo = (case mc_replyTo cfg of None \<Rightarrow> None | Some r \<Rightarrow> if r = [] then None else Some [r]),
      sx_configurationSet = ses_configurationSet (mc_ses cfg), sx_subject = om_subject msg, sx_text = om_text msg,
      sx_html = (if om_html msg = [] then None else Some (om_html msg))\<rparr>"

definition ses_send :: "(SesClient \<Rightarrow> SesMessage \<Rightarrow> string + unit) \<Rightarrow> MailConfig \<Rightarrow> OutgoingMail \<Rightarrow> exn + unit" where
  "ses_send client cfg msg = wrap_error ''SES delivery failed'' (client (ses_client cfg) (ses_message cfg msg))"

text \<open>Graph: the token request and the message as JSON; the bytes of an image are base64.\<close>

definition graph_token_url :: "MailConfig \<Rightarrow> string" where
  "graph_token_url cfg =
     graph_authority (mc_graph cfg) @ ''/'' @ encodeURIComponent (graph_tenantId (mc_graph cfg)) @ ''/oauth2/v2.0/token''"

definition graph_send_url :: "MailConfig \<Rightarrow> string" where
  "graph_send_url cfg =
     graph_apiBase (mc_graph cfg) @ ''/users/'' @ encodeURIComponent (graph_sender (mc_graph cfg)) @ ''/sendMail''"

definition graph_attachment :: "InlineImage \<Rightarrow> json" where
  "graph_attachment img =
     JObj [(''@odata.type'', JStr ''#microsoft.graph.fileAttachment''), (''name'', JStr (ii_filename img)),
       (''contentType'', JStr (ii_contentType img)), (''contentBytes'', JStr (base64 (ii_content img))),
       (''isInline'', JBool True), (''contentId'', JStr (ii_contentId img))]"

definition graph_address :: "string \<Rightarrow> json" where
  "graph_address a = JArr [JObj [(''emailAddress'', JObj [(''address'', JStr a)])]]"

definition graph_payload :: "MailConfig \<Rightarrow> OutgoingMail \<Rightarrow> json" where
  "graph_payload cfg msg =
     JObj [(''message'', JObj
        ([(''subject'', JStr (om_subject msg)),
          (''body'', if om_html msg \<noteq> []
             then JObj [(''contentType'', JStr ''HTML''), (''content'', JStr (om_html msg))]
             else JObj [(''contentType'', JStr ''Text''), (''content'', JStr (om_text msg))]),
          (''toRecipients'', graph_address (om_to msg))]
         @ (case mc_replyTo cfg of None \<Rightarrow> [] | Some r \<Rightarrow> if r = [] then [] else [(''replyTo'', graph_address r)])
         @ (if om_inlineImages msg = [] then [] else [(''attachments'', JArr (map graph_attachment (om_inlineImages msg)))]))),
       (''saveToSentItems'', JBool (graph_saveToSentItems (mc_graph cfg)))]"

text \<open>The file the log driver leaves in its spool directory\<close>

definition spool_text :: "RecordedMail \<Rightarrow> string" where
  "spool_text r =
     (let m = rm_mail r
      in join [CHR 0x0A]
        ([''From: '' @ rm_from r, ''To: '' @ om_to m, ''Subject: '' @ om_subject m, ''Date: '' @ iso_time (rm_at r)]
         @ map (\<lambda>i. ''X-Inline-Image: <'' @ ii_contentId i @ ''> '' @ ii_filename i @ '' ('' @ ii_contentType i @ '', ''
              @ nat_digits (length (ii_content i)) @ '' B)'') (om_inlineImages m)
         @ [[], om_text m, []]))"

definition spool_name :: "RecordedMail \<Rightarrow> string \<Rightarrow> string" where
  "spool_name r rnd =
     map (\<lambda>c. if c = CHR '':'' \<or> c = CHR ''.'' then CHR ''-'' else c) (iso_time (rm_at r)) @ ''-'' @ rnd @ ''.txt''"

subsection \<open>The storage backends (src/storage/)\<close>

datatype backend = S3Backend S3Config | LocalBackend string

definition createStorage :: "Config \<Rightarrow> backend" where
  "createStorage cfg = (if storage_backend cfg = StorageS3 then S3Backend (s3 cfg) else LocalBackend (localStorageDir cfg))"

record S3Client =
  sk_region :: string
  sk_endpoint :: "string option"
  sk_forcePathStyle :: bool
  sk_credentials :: "(string \<times> string) option"

definition s3_clientConfig :: "S3Config \<Rightarrow> S3Client" where
  "s3_clientConfig cfg =
     \<lparr>sk_region = s3_region cfg, sk_endpoint = s3_endpoint cfg, sk_forcePathStyle = s3_forcePathStyle cfg,
      sk_credentials = both_keys (s3_accessKeyId cfg) (s3_secretAccessKey cfg)\<rparr>"

text \<open>An error of the SDK: its name, its HTTP status and its message\<close>

record S3Error =
  se_name :: string
  se_status :: "nat option"
  se_message :: string

definition isNotFound :: "S3Error \<Rightarrow> bool" where
  "isNotFound e = (se_name e = ''NoSuchKey'' \<or> se_name e = ''NotFound'' \<or> se_status e = Some 404)"

text \<open>
  Storing pipes the source through the limiter into the upload of the SDK. \<open>upload\<close> is given the
  part size and the bytes that reach it and answers whether the upload was done; what goes wrong
  with the source or the limiter counts more than its answer.
\<close>

definition s3_put ::
    "runtime \<Rightarrow> (string \<Rightarrow> nat \<Rightarrow> nat list \<Rightarrow> S3Error option) \<Rightarrow> S3Config \<Rightarrow> string \<Rightarrow> nat list list \<times> bool \<Rightarrow> nat \<Rightarrow> exn + PutResult" where
  "s3_put R upload cfg key source maxBytes =
     bind_res (assertValidKey key) (\<lambda>_.
       let (passed, st) = limit_stream maxBytes (fst source) \<lparr>li_size = 0, li_out = []\<rparr>;
           failure = (case passed of Inl e \<Rightarrow> Some e
             | Inr _ \<Rightarrow> if snd source then None else Some (JsError ''ERR_STREAM_PREMATURE_CLOSE''));
           err = upload key (max (s3_partSize cfg) (5 * 1024 * 1024)) (li_out st)
       in case failure of
            Some e \<Rightarrow> Inl e
          | None \<Rightarrow>
              (case err of Some e \<Rightarrow> Inl (JsError (se_message e))
               | None \<Rightarrow> Inr \<lparr>pr_size = li_size st, pr_sha256 = rt_sha256_bytes R (li_out st)\<rparr>))"

text \<open>The answers of the SDK: an error, or the body (absent or present) and the length\<close>

definition s3_get :: "string \<Rightarrow> S3Error + nat list option \<Rightarrow> exn + nat list" where
  "s3_get key answer =
     bind_res (assertValidKey key) (\<lambda>_.
       case answer of
         Inl e \<Rightarrow> (if isNotFound e then Inl (StorageNotFoundError key) else Inl (JsError (se_message e)))
       | Inr None \<Rightarrow> Inl (StorageNotFoundError key)
       | Inr (Some body) \<Rightarrow> Inr body)"

definition s3_stat :: "string \<Rightarrow> S3Error + nat option \<Rightarrow> exn + nat option" where
  "s3_stat key answer =
     bind_res (assertValidKey key) (\<lambda>_.
       case answer of
         Inl e \<Rightarrow> (if isNotFound e then Inr None else Inl (JsError (se_message e)))
       | Inr n \<Rightarrow> Inr (Some (case n of Some k \<Rightarrow> k | None \<Rightarrow> 0)))"

definition s3_delete :: "string \<Rightarrow> exn + s3_command list" where
  "s3_delete key = bind_res (assertValidKey key) (\<lambda>_. Inr [DeleteObject key, DeleteObject (key @ ''.info'')])"

definition s3_removeTusSidecar :: "string \<Rightarrow> exn + s3_command list" where
  "s3_removeTusSidecar key = bind_res (assertValidKey key) (\<lambda>_. Inr [DeleteObject (key @ ''.info'')])"

subsection \<open>The logo (src/http/brand.ts)\<close>

text \<open>\<open>file\<close> is the content of the configured file, \<open>None\<close> when there is none.\<close>

definition plain_error :: "nat \<Rightarrow> string \<Rightarrow> Response" where
  "plain_error status msg = with_header ''Content-Type'' ''text/plain'' (respond status (BodyText msg))"

definition brand_logo :: "Brand \<Rightarrow> nat list option \<Rightarrow> Response" where
  "brand_logo b file =
     (let none = plain_error 404 ''No logo configured''; gone = plain_error 404 ''Logo file not found''
      in case br_logoPath b of
           None \<Rightarrow> none
         | Some p \<Rightarrow>
             (if p = [] then none
              else (case (LOGO_MEDIA_TYPES (toLowerCase (extname p)), file) of
                      (Some ty, Some content) \<Rightarrow>
                        (let r = with_header ''X-Content-Type-Options'' ''nosniff''
                                   (with_header ''Cache-Control'' ''public, max-age=3600'' (respond 200 (BodyFile content)));
                             r1 = (if ty = ''image/svg+xml''
                                   then with_header ''Content-Security-Policy''
                                     (''default-src '' @ [CHR 0x27] @ ''none'' @ [CHR 0x27] @ ''; style-src '' @ [CHR 0x27] @ ''unsafe-inline'' @ [CHR 0x27] @ ''; sandbox'') r
                                   else r)
                         in with_header ''Content-Type'' ty r1)
                    | _ \<Rightarrow> gone)))"

definition brand_css :: "Brand \<Rightarrow> Response" where
  "brand_css b = with_header ''Content-Type'' ''text/css'' (with_header ''Cache-Control'' ''public, max-age=300'' (respond 200 (BodyText (theme_css b))))"

end
