(* ===== verification/CommandLine.thy ===== *)
theory CommandLine
  imports Drivers Server
begin

section \<open>The command line and the clean-up timer\<close>

text \<open>
  src/cli.ts: how a password is read and which request the arguments make (what a request does is \<open>cli\<close>
  in theory Server). src/server.ts: the timer that runs the clean-up, one run at a time.
\<close>

subsection \<open>Passwords at the prompt (src/cli.ts)\<close>

text \<open>\<open>data.replace(/\r?\n$/, '')\<close>\<close>

definition stdin_password :: "string \<Rightarrow> string" where
  "stdin_password data =
     (case rev data of
        [] \<Rightarrow> []
      | c # cs \<Rightarrow>
          (if code_of c \<noteq> 10 then data
           else (case cs of [] \<Rightarrow> [] | b # bs \<Rightarrow> if code_of b = 13 then rev bs else rev cs)))"

text \<open>A key: what it is called, the characters it stands for, and whether it came with Control or Meta\<close>

record keypress =
  kp_name :: string
  kp_sequence :: "string option"
  kp_ctrl :: bool
  kp_meta :: bool

datatype typed = Typed string "keypress list" | Interrupted | Waiting

fun ask :: "string \<Rightarrow> keypress list \<Rightarrow> typed" where
  "ask typed0 [] = Waiting"
| "ask typed0 (k # ks) =
     (if kp_name k = ''return'' \<or> kp_name k = ''enter'' then Typed typed0 ks
      else if kp_name k = ''backspace'' then ask (butlast typed0) ks
      else if kp_ctrl k \<and> kp_name k = ''c'' then Interrupted
      else (case kp_sequence k of
              Some s \<Rightarrow> if \<not> kp_ctrl k \<and> \<not> kp_meta k then ask (typed0 @ s) ks else ask typed0 ks
            | None \<Rightarrow> ask typed0 ks))"

text \<open>\<open>None\<close>: the process was interrupted or still waits for a key.\<close>

definition typedPassword :: "keypress list \<Rightarrow> (exn + string) option" where
  "typedPassword ks =
     (case ask [] ks of
        Typed p1 rest \<Rightarrow>
          (case ask [] rest of
             Typed p2 _ \<Rightarrow> Some (if p1 \<noteq> p2 then Inl (JsError ''Passwords do not match'') else Inr p1)
           | _ \<Rightarrow> None)
      | _ \<Rightarrow> None)"

subsection \<open>The arguments\<close>

datatype cli_request =
    CliMigrate | CliCreate string bool | CliReset string bool | CliDisable string | CliCleanup "rat option option"
  | CliTestMail string | CliUsage

definition first_word :: "string list \<Rightarrow> string option" where
  "first_word rest = (case List.find (\<lambda>a. \<not> starts_with a ''--'') rest of
     None \<Rightarrow> None | Some a \<Rightarrow> if a = [] then None else Some a)"

text \<open>
  The outer option of the clean-up is the absent flag; the inner one is NaN, which an absent or
  unreadable number becomes.
\<close>

fun after_flag :: "string \<Rightarrow> string list \<Rightarrow> string option option" where
  "after_flag flag [] = None"
| "after_flag flag (a # as) = (if a = flag then Some (case as of [] \<Rightarrow> None | b # _ \<Rightarrow> Some b) else after_flag flag as)"

definition ttl_hours :: "string list \<Rightarrow> rat option option" where
  "ttl_hours rest =
     map_option (\<lambda>a. case a of None \<Rightarrow> None | Some s \<Rightarrow> map_option (\<lambda>h. h * 3600000) (js_number s)) (after_flag ''--ttl-hours'' rest)"

definition parse_cli :: "string list \<Rightarrow> exn + cli_request" where
  "parse_cli argv =
     (case argv of
        [] \<Rightarrow> Inr CliUsage
      | cmd # rest \<Rightarrow>
          (let fromStdin = (''--password-stdin'' \<in> set rest)
           in if cmd = ''migrate'' then Inr CliMigrate
              else if cmd = ''create-admin'' \<or> cmd = ''reset-password''
              then (case first_word rest of
                      None \<Rightarrow> Inl (JsError (''usage: '' @ cmd @ '' <username> [--password-stdin]''))
                    | Some u \<Rightarrow> Inr (if cmd = ''create-admin'' then CliCreate u fromStdin else CliReset u fromStdin))
              else if cmd = ''disable-totp''
              then (case first_word rest of None \<Rightarrow> Inl (JsError ''usage: disable-totp <username>'') | Some u \<Rightarrow> Inr (CliDisable u))
              else if cmd = ''cleanup'' then Inr (CliCleanup (ttl_hours rest))
              else if cmd = ''test-mail''
              then (case first_word rest of None \<Rightarrow> Inl (JsError ''usage: test-mail <address>'') | Some a \<Rightarrow> Inr (CliTestMail a))
              else Inr CliUsage))"

definition test_mail :: "Config \<Rightarrow> string \<Rightarrow> string \<Rightarrow> OutgoingMail" where
  "test_mail cfg driver to =
     \<lparr>om_to = to, om_subject = br_name (brand cfg) @ '': test message'',
      om_text = ''This is a test message from '' @ br_name (brand cfg) @ '' (driver: '' @ driver @ '', from: '' @ mc_from (mail cfg) @ '').'',
      om_html = [], om_inlineImages = []\<rparr>"

subsection \<open>The clean-up timer (src/server.ts)\<close>

text \<open>
  \<open>cleanupRunning\<close> keeps a tick from starting a second run: a tick starts one only when none is
  running, and the end of a run, whether it failed or not, allows the next.
\<close>

record ticker =
  tk_running :: bool
  tk_started :: nat
  tk_finished :: nat

definition cleanupTick :: "ticker \<Rightarrow> ticker" where
  "cleanupTick k = (if tk_running k then k else k\<lparr>tk_running := True, tk_started := tk_started k + 1\<rparr>)"

definition cleanupDone :: "ticker \<Rightarrow> ticker" where
  "cleanupDone k = (if tk_running k then k\<lparr>tk_running := False, tk_finished := tk_finished k + 1\<rparr> else k)"

inductive ticks :: "ticker \<Rightarrow> ticker \<Rightarrow> bool" where
  idle: "ticks k k"
| tick: "ticks k k' \<Longrightarrow> ticks k (cleanupTick k')"
| finish: "ticks k k' \<Longrightarrow> ticks k (cleanupDone k')"

lemma one_cleanup_at_a_time:
  assumes "ticks k0 k" "\<not> tk_running k0" "tk_started k0 = tk_finished k0"
  shows "tk_started k = tk_finished k + (if tk_running k then 1 else 0)"
  using assms by (induction rule: ticks.induct) (auto simp: cleanupTick_def cleanupDone_def)

text \<open>Typing a password twice, however it was corrected on the way\<close>

lemma ask_plain:
  assumes "list_all (\<lambda>k. kp_name k \<notin> {''return'', ''enter'', ''backspace''} \<and> \<not> kp_ctrl k \<and> \<not> kp_meta k) ks"
  shows "ask typed0 (ks @ rest) = ask (typed0 @ concat (List.map_filter kp_sequence ks)) rest"
  using assms by (induction ks arbitrary: typed0) (auto simp: map_filter_simps split: option.split)

end
