(* ===== verification/ConfigLaws.thy ===== *)
theory ConfigLaws
  imports Config
begin

section \<open>A loaded configuration\<close>

text \<open>
  loadConfig (src/config.ts) refuses or yields a configuration within the bounds the server relies on.
\<close>

subsection \<open>What a loaded configuration satisfies\<close>

definition wf_mail :: "MailConfig \<Rightarrow> bool" where
  "wf_mail m \<longleftrightarrow> matches BARE_EMAIL_RE (mc_from m)
     \<and> (mc_driver m = DriverSmtp \<longrightarrow> smtp_host (mc_smtp m) \<noteq> [] \<and> 1 \<le> smtp_port (mc_smtp m) \<and> smtp_port (mc_smtp m) \<le> 65535
          \<and> (smtp_user (mc_smtp m) = None \<or> smtp_pass (mc_smtp m) \<noteq> None))"

definition wf_config :: "Config \<Rightarrow> bool" where
  "wf_config c \<longleftrightarrow>
     maxFileBytes c \<ge> 1 \<and> uploadChunkBytes c \<ge> 1024 * 1024 \<and> maxCodeAttempts c \<ge> 1
     \<and> (storage_backend c = StorageS3 \<longrightarrow> s3_bucket (s3 c) \<noteq> [] \<and> s3_partSize (s3 c) \<ge> 5 * 1024 * 1024)
     \<and> (storage_backend c = StorageLocal \<longrightarrow> dirname (databasePath c) \<noteq> localStorageDir c)
     \<and> 60000 \<le> reauthWindowMs c \<and> reauthWindowMs c \<le> 43200000 \<and> wf_mail (mail c)"

lemma check_that_ok: "check_that ok msg = Inr u \<longleftrightarrow> ok"
  by (cases u) (simp add: check_that_def)

lemma check_mail_same: "check_mail env m = Inr m' \<Longrightarrow> m' = m"
  by (auto simp: check_mail_def Let_def split: if_splits option.splits)

lemma check_mail_smtp:
  assumes "check_mail env m = Inr m'" and "mc_driver m = DriverSmtp"
  shows "smtp_host (mc_smtp m) \<noteq> [] \<and> 1 \<le> smtp_port (mc_smtp m) \<and> smtp_port (mc_smtp m) \<le> 65535
    \<and> (smtp_user (mc_smtp m) = None \<or> smtp_pass (mc_smtp m) \<noteq> None)"
  using assms by (simp add: check_mail_def Let_def not_less split: if_splits)

lemma loadMail_wf: "loadMail env n = Inr m \<Longrightarrow> wf_mail m"
proof -
  assume l: "loadMail env n = Inr m"
  then obtain driver f port where m: "check_mail env (mail_settings env n driver f port) = Inr m" and f: "matches BARE_EMAIL_RE f"
    by (cases "parse_driver (str_env env ''MAIL_DRIVER'' ''log'')") (simp_all add: loadMail_def Let_def bind_res_Inr_iff split: if_splits; blast)+
  have "mc_from m = f" using check_mail_same [OF m] by (simp add: mail_settings_def)
  moreover have "mc_driver m = DriverSmtp \<longrightarrow> smtp_host (mc_smtp m) \<noteq> [] \<and> 1 \<le> smtp_port (mc_smtp m) \<and> smtp_port (mc_smtp m) \<le> 65535
      \<and> (smtp_user (mc_smtp m) = None \<or> smtp_pass (mc_smtp m) \<noteq> None)"
    using check_mail_smtp [OF m] unfolding check_mail_same [OF m] by blast
  ultimately show ?thesis using f by (simp add: wf_mail_def)
qed

lemma floor_minutes: "floor_nat (min (max r 1) 720 * 60000) \<ge> 60000 \<and> floor_nat (min (max r 1) 720 * 60000) \<le> 43200000"
proof -
  let ?x = "min (max r 1) 720 * 60000 :: rat"
  have "60000 \<le> ?x" "?x \<le> 43200000" by simp_all
  then have "\<lfloor>60000::rat\<rfloor> \<le> \<lfloor>?x\<rfloor>" "\<lfloor>?x\<rfloor> \<le> \<lfloor>43200000::rat\<rfloor>" by (simp_all only: floor_mono)
  then have "60000 \<le> \<lfloor>?x\<rfloor>" "\<lfloor>?x\<rfloor> \<le> 43200000" by (simp_all only: floor_numeral)
  then show ?thesis unfolding floor_nat_def by linarith
qed

lemma truthy_iff: "(\<exists>y. env_truthy env k = Some y) \<longleftrightarrow> env_or env k [] \<noteq> []"
  by (auto simp: env_truthy_def env_or_def nonempty_def split: option.splits)

lemma ceil_positive: "1 \<le> q \<Longrightarrow> Suc 0 \<le> ceil_nat q"
  by (simp add: ceil_nat_def) linarith

lemma loadConfig_wf:
  assumes "loadConfig R env = Inr cfg"
  shows "wf_config cfg"
proof -
  obtain u where u: "rt_url R (strip_slashes (env_or env ''PUBLIC_URL'' ''http://localhost:3000'')) = Some u"
    using assms by (cases "rt_url R (strip_slashes (env_or env ''PUBLIC_URL'' ''http://localhost:3000''))") (simp_all add: loadConfig_def Let_def)
  obtain level where level: "parse_level (env_or env ''LOG_LEVEL'' ''info'') = Some level"
    using assms unfolding loadConfig_def Let_def u option.case split_beta bind_res_Inr_iff check_that_ok
    by (cases "parse_level (env_or env ''LOG_LEVEL'' ''info'')") simp_all
  from assms show ?thesis
    unfolding loadConfig_def Let_def u option.case split_beta level bind_res_Inr_iff check_that_ok
    by (elim exE conjE, simp only: sum.inject, hypsubst)
      (auto simp: wf_config_def floor_minutes loadMail_wf ceil_positive truthy_iff)
qed

text \<open>
  C19. The server starts only with a configuration that makes sense: whatever the environment holds,
  a configuration that is loaded allows files of at least one byte and at least one attempt at a
  code, has a chunk size and an S3 part size above the protocol's minimum, a bucket when S3 is
  used, keeps the database out of the directory of the uploads, confirms sensitive actions for
  one minute to twelve hours, sends from a bare address, and with SMTP has a host, a port in
  range and a password for its user.
\<close>

theorem loaded_config_wf:
  assumes "loadConfig R env = Inr cfg"
  shows "wf_config cfg"
  by (rule loadConfig_wf [OF assms])

text \<open>An empty environment is enough.\<close>

definition url_runtime :: runtime where
  "url_runtime = sample_runtime\<lparr>rt_url := (\<lambda>s. Some (''http:'', s, s))\<rparr>"

lemma default_settings:
  "env_or Map.empty k d = d" "env_truthy Map.empty k = None" "num Map.empty k q = Inr q" "bool_env Map.empty k b = b"
  by (simp_all add: env_or_def env_truthy_def num_def bool_env_def)

lemma default_sizes:
  "parseSize ''8MB'' k = Inr 8388608" "parseSize ''10GB'' k = Inr 10737418240" "parseSize ''32MB'' k = Inr 33554432"
proof -
  have m: "size_match ''8MB'' = Some (''8'', [], ''MB'')" "size_match ''10GB'' = Some (''10'', [], ''GB'')" "size_match ''32MB'' = Some (''32'', [], ''MB'')"
    "toLowerCase ''MB'' = ''mb''" "toLowerCase ''GB'' = ''gb''"
    by code_simp+
  have d: "digits_val 0 ''8'' = 8" "digits_val 0 ''10'' = 10" "digits_val 0 ''32'' = 32" by code_simp+
  have u: "SIZE_UNITS ''mb'' = Some 1048576" "SIZE_UNITS ''gb'' = Some 1073741824" by (simp_all add: SIZE_UNITS_def)
  show "parseSize ''8MB'' k = Inr 8388608" "parseSize ''10GB'' k = Inr 10737418240" "parseSize ''32MB'' k = Inr 33554432"
    by (simp_all add: parseSize_def m d u floor_nat_def)
qed

lemma default_parts:
  "strip_slashes ''http://localhost:3000'' = ''http://localhost:3000''" "parse_trust (trim ''false'') = Inr TrustNone"
  "parse_level ''info'' = Some LevelInfo" "is_ok (loadBrand url_runtime Map.empty)"
  "dirname (path_join ''./data'' ''outletbox.sqlite'') \<noteq> path_join ''./data'' ''files''"
  by code_simp+

lemma default_mail: "is_ok (loadMail Map.empty n)"
proof -
  have "parse_driver ''log'' = Some DriverLog" "matches BARE_EMAIL_RE ''outletbox@localhost''" by code_simp+
  moreover have "str_env Map.empty k d = d" for k d by (simp add: str_env_def or_else_def trim_def)
  ultimately show ?thesis by (simp add: loadMail_def default_settings bind_res_def check_mail_def mail_settings_def Let_def is_ok_def)
qed

theorem loaded_config_wf_witness: "\<exists>cfg. loadConfig url_runtime Map.empty = Inr cfg \<and> wf_config cfg"
proof -
  obtain b where b: "loadBrand url_runtime Map.empty = Inr b" using default_parts(4) by (auto simp: is_ok_def split: sum.splits)
  obtain m where m: "loadMail Map.empty (br_name b) = Inr m" using default_mail [of "br_name b"] by (auto simp: is_ok_def split: sum.splits)
  have "rt_url url_runtime s = Some (''http:'', s, s)" "rt_resolve url_runtime s = s" for s
    by (simp_all add: url_runtime_def sample_runtime_def)
  then obtain cfg where "loadConfig url_runtime Map.empty = Inr cfg"
    by (simp add: loadConfig_def default_settings default_sizes default_parts b m check_that_def bind_res_def Let_def)
  from loaded_config_wf [OF this] this show ?thesis by blast
qed

end
