(* ===== verification/Startup.thy ===== *)
theory Startup
  imports CommandLine ConfigLaws Migrate ViewsAccounts
begin

section \<open>Starting the server\<close>

text \<open>
  The stages of startServer (src/server.ts) and of the command line (src/cli.ts), the copy made before a
  migration (src/db.ts), and the configurations handed to third-party middleware (src/http/middleware.ts):
  the limiters, the content security policy and the line logged for a request.
\<close>

subsection \<open>Configurations of the middleware (src/http/middleware.ts)\<close>

definition content_directives :: "(string \<times> string list) list" where
  "content_directives =
     (let quote = (\<lambda>s. [CHR 0x27] @ s @ [CHR 0x27])
      in [(''default-src'', [quote ''none'']), (''script-src'', [quote ''self'']), (''style-src'', [quote ''self'']),
          (''img-src'', [quote ''self'', ''data:'']), (''connect-src'', [quote ''self'']), (''font-src'', [quote ''self'']),
          (''form-action'', [quote ''self'']), (''frame-ancestors'', [quote ''none'']), (''base-uri'', [quote ''none'']),
          (''object-src'', [quote ''none''])])"

record Limiter =
  lm_windowMs :: ms
  lm_limit :: nat
  lm_skipSuccessful :: bool
  lm_successful :: "nat \<Rightarrow> bool"
  lm_message :: string

text \<open>An answer below 400 is a successful request unless the configuration says otherwise.\<close>

definition loginLimiter :: "Config \<Rightarrow> Limiter" where
  "loginLimiter cfg =
     \<lparr>lm_windowMs = 15 * 60000, lm_limit = loginRateLimitPer15Min cfg, lm_skipSuccessful = True,
      lm_successful = (\<lambda>status. status < 400), lm_message = ''Too many login attempts. Try again later.''\<rparr>"

definition tokenFailureLimiter :: "Config \<Rightarrow> Limiter" where
  "tokenFailureLimiter cfg =
     \<lparr>lm_windowMs = 15 * 60000, lm_limit = tokenFailureRateLimitPer15Min cfg, lm_skipSuccessful = True,
      lm_successful = (\<lambda>status. status \<noteq> 401 \<and> status \<noteq> 404), lm_message = ''Too many failed attempts. Try again later.''\<rparr>"

definition unlockLimiter :: "Config \<Rightarrow> Limiter" where
  "unlockLimiter cfg =
     \<lparr>lm_windowMs = 15 * 60000, lm_limit = max (tokenFailureRateLimitPer15Min cfg) 10, lm_skipSuccessful = True,
      lm_successful = (\<lambda>status. status < 400), lm_message = ''Too many attempts. Try again later.''\<rparr>"

definition publicLimiter :: "Config \<Rightarrow> Limiter" where
  "publicLimiter cfg =
     \<lparr>lm_windowMs = 60000, lm_limit = publicRateLimitPerMinute cfg, lm_skipSuccessful = False,
      lm_successful = (\<lambda>status. status < 400), lm_message = ''Too many requests. Slow down.''\<rparr>"

text \<open>The line of a finished request; \<open>current\<close> is the threshold of the log.\<close>

definition request_line :: "log_level \<Rightarrow> Request \<Rightarrow> nat \<Rightarrow> nat \<Rightarrow> (string \<times> logval) list option" where
  "request_line current req status elapsed =
     emit current LevelInfo ''request''
       [(''method'', Some (LogStr (rq_method req))), (''path'', Some (LogStr (redact (rq_path req)))),
        (''status'', Some (LogOther (JNum (int status)))), (''ms'', Some (LogOther (JNum (int elapsed)))),
        (''ip'', map_option LogStr (rq_ip req))]"

subsection \<open>The application (src/http/app.ts, src/http/tus.ts)\<close>

text \<open>The release of package.json, which may be missing or say nothing\<close>

definition app_version :: "string option option \<Rightarrow> string" where
  "app_version pkg = (case pkg of Some (Some v) \<Rightarrow> v | _ \<Rightarrow> ''0.0.0'')"

definition healthz :: Response where
  "healthz = respond 200 (BodyJson (JObj [(''ok'', JBool True)]))"

definition getHome :: "chrome \<Rightarrow> Request \<Rightarrow> nat \<times> string" where
  "getHome E req = (200, homePage E (rq_lang req))"

definition tusError :: "nat \<Rightarrow> string \<Rightarrow> string \<Rightarrow> (string \<times> json) list \<Rightarrow> nat \<times> string" where
  "tusError status code message extra =
     (status, stringify (JObj ([(''error'', JStr code), (''message'', JStr message)] @ extra)))"

text \<open>A failure of the tus server: one with a status and a text, or any other error (\<open>None\<close>)\<close>

definition onResponseError :: "(nat \<times> string) option \<Rightarrow> nat \<times> string" where
  "onResponseError err =
     (case err of
        Some (status, text) \<Rightarrow>
          (if starts_with text ''{'' then (status, text)
           else (status, stringify (JObj [(''error'', JStr ''tus_error''), (''message'', JStr (trim text))])))
      | None \<Rightarrow> (500, stringify (JObj [(''error'', JStr ''internal''), (''message'', JStr ''Internal error'')])))"

lemma tusError_passes: "onResponseError (Some (tusError status code message extra)) = tusError status code message extra"
  by (simp add: onResponseError_def tusError_def)

subsection \<open>The copy before a migration (src/db.ts)\<close>

definition backup_stamp :: "ms \<Rightarrow> string" where
  "backup_stamp nw = (let s = filter (\<lambda>c. c \<noteq> CHR ''-'' \<and> c \<noteq> CHR '':'') (iso_time nw) in takeWhile (\<lambda>c. c \<noteq> CHR ''.'') s @ ''Z'')"

definition backup_name :: "string \<Rightarrow> ms \<Rightarrow> string" where
  "backup_name firstPending nw =
     ''before-'' @ (if ends_with firstPending ''.sql'' then take (length firstPending - 4) firstPending else firstPending)
     @ ''-'' @ backup_stamp nw @ ''.sqlite''"

text \<open>\<open>vacuum\<close> makes the copy or fails; \<open>check\<close> is what the integrity check of the copy reports.\<close>

definition backupBeforeMigrating ::
    "(string \<Rightarrow> 's schema \<Rightarrow> exn + 's schema) \<Rightarrow> ('s schema \<Rightarrow> string list) \<Rightarrow> string \<Rightarrow> ms \<Rightarrow> string \<Rightarrow> 's schema \<Rightarrow> exn + string" where
  "backupBeforeMigrating vacuum check dir nw firstPending d =
     (let target = path_join dir (backup_name firstPending nw)
      in bind_res (vacuum target d) (\<lambda>copy.
           if check copy \<noteq> [''ok'']
           then Inl (JsError (''backup '' @ target @ '' failed its integrity check: '' @ join ''; '' (check copy)))
           else Inr target))"

subsection \<open>Starting (src/server.ts, src/cli.ts)\<close>

record 's Running =
  rn_cfg :: Config
  rn_schema :: "'s schema"
  rn_storage :: backend
  rn_mailer :: mailer
  rn_mailUsable :: bool
  rn_listen :: "string \<times> rat"
  rn_cleanupEvery :: "ms option"

text \<open>
  Each stage stops the start when it fails, except the probe of the mail driver, which only leaves
  a line in the log. \<open>migration\<close> is the run of the pending migrations, \<open>health\<close> the check of the
  storage, \<open>verify\<close> the probe.
\<close>

definition startServer ::
    "runtime \<Rightarrow> (string option \<Rightarrow> 's schema \<Rightarrow> (exn + string list) \<times> 's schema) \<Rightarrow> (backend \<Rightarrow> exn + unit) \<Rightarrow> (mailer \<Rightarrow> exn + unit)
     \<Rightarrow> env \<Rightarrow> string option \<times> rat option \<Rightarrow> 's schema \<Rightarrow> exn + 's Running" where
  "startServer R migration health verify env listen d =
     bind_res (loadConfig R env) (\<lambda>cfg.
       case migration (migrationBackupDir (databasePath cfg)) d of
         (Inl e, _) \<Rightarrow> Inl e
       | (Inr _, d') \<Rightarrow>
           (let storage = createStorage cfg; mailer = createMailer cfg
            in bind_res (health storage) (\<lambda>_.
                 Inr \<lparr>rn_cfg = cfg, rn_schema = d', rn_storage = storage, rn_mailer = mailer,
                   rn_mailUsable = is_ok (verify mailer),
                   rn_listen = (case fst listen of Some h \<Rightarrow> h | None \<Rightarrow> cfg_host cfg,
                                case snd listen of Some p \<Rightarrow> p | None \<Rightarrow> cfg_port cfg),
                   rn_cleanupEvery = (if cleanupIntervalMs cfg > 0 then Some (cleanupIntervalMs cfg) else None)\<rparr>)))"

text \<open>The command line migrates before it looks at its arguments.\<close>

definition cli_main ::
    "runtime \<Rightarrow> (string option \<Rightarrow> 's schema \<Rightarrow> (exn + string list) \<times> 's schema) \<Rightarrow> env \<Rightarrow> string list \<Rightarrow> 's schema
     \<Rightarrow> (exn + Config \<times> cli_request) \<times> 's schema" where
  "cli_main R migration env argv d =
     (case loadConfig R env of
        Inl e \<Rightarrow> (Inl e, d)
      | Inr cfg \<Rightarrow>
          (case migration (migrationBackupDir (databasePath cfg)) d of
             (Inl e, d') \<Rightarrow> (Inl e, d')
           | (Inr _, d') \<Rightarrow> (map_sum id (Pair cfg) (parse_cli argv), d')))"

text \<open>A server that runs has a configuration within its bounds, and its migrations did not fail.\<close>

lemma running_server_wf:
  assumes "startServer R migration health verify env listen d = Inr run"
  shows "wf_config (rn_cfg run)"
    and "\<exists>names. migration (migrationBackupDir (databasePath (rn_cfg run))) d = (Inr names, rn_schema run)"
    and "health (rn_storage run) = Inr ()"
proof -
  obtain cfg where cfg: "loadConfig R env = Inr cfg"
    using assms by (cases "loadConfig R env") (simp_all add: startServer_def)
  obtain names d' where m: "migration (migrationBackupDir (databasePath cfg)) d = (Inr names, d')"
    using assms cfg by (cases "migration (migrationBackupDir (databasePath cfg)) d"; cases "fst (migration (migrationBackupDir (databasePath cfg)) d)")
      (simp_all add: startServer_def)
  have h: "health (createStorage cfg) = Inr ()"
    using assms cfg m by (cases "health (createStorage cfg)") (simp_all add: startServer_def Let_def)
  have run: "rn_cfg run = cfg" "rn_schema run = d'" "rn_storage run = createStorage cfg"
    using assms cfg m h by (auto simp: startServer_def Let_def)
  show "wf_config (rn_cfg run)" unfolding run using cfg by (rule loadConfig_wf)
  show "\<exists>names. migration (migrationBackupDir (databasePath (rn_cfg run))) d = (Inr names, rn_schema run)"
    unfolding run m by blast
  show "health (rn_storage run) = Inr ()" unfolding run by (rule h)
qed

subsection \<open>The name of a copy\<close>

text \<open>The pruning of old copies finds every copy that was made.\<close>

lemma backup_found: "is_backup (backup_name firstPending nw)"
  by (simp add: is_backup_def backup_name_def ends_with_def)

lemma failing_check_stops:
  assumes "vacuum (path_join dir (backup_name f nw)) d = Inr copy" and "check copy \<noteq> [''ok'']"
  shows "\<exists>m. backupBeforeMigrating vacuum check dir nw f d = Inl (JsError m)"
  using assms by (simp add: backupBeforeMigrating_def Let_def)

end
