(* ===== verification/RandomLoops.thy ===== *)
theory RandomLoops
  imports Crypto
begin

section \<open>The rejection loops end\<close>

text \<open>
  newAccessCode and newTempPassword (src/crypto.ts) draw blocks of random bytes until they have enough
  accepted ones. The model lists the blocks in advance; enough blocks of which each has an accepted
  byte give a result.
\<close>

lemma draws_each_block:
  "(\<And>blk. blk \<in> set blocks \<Longrightarrow> \<exists>b \<in> set blk. b < n) \<Longrightarrow> length blocks \<le> length (draws_below n f blocks)"
proof (induction blocks)
  case (Cons blk blocks)
  then have "filter (\<lambda>b. b < n) blk \<noteq> []" by (auto simp: filter_empty_conv)
  then show ?case using Cons by (cases "filter (\<lambda>b. b < n) blk") force+
qed simp

text \<open>
  C24. The loops that draw a code and a temporary password without bias end: when every block the
  random source delivers holds at least one byte below 248, as many blocks as characters are
  wanted are enough, and both return a text of the wanted length.
\<close>

theorem random_loops_end:
  assumes "\<And>blk. blk \<in> set blocks \<Longrightarrow> \<exists>b \<in> set blk. b < 248" and "n \<le> length blocks" and "20 \<le> length blocks"
  shows "(\<exists>c. newAccessCode n blocks = Some c \<and> length c = n) \<and> (\<exists>p. newTempPassword blocks = Some p \<and> length p = 23)"
proof -
  have "length blocks \<le> length (draws_below 250 code_digit blocks)"
  proof (rule draws_each_block)
    fix blk
    assume "blk \<in> set blocks"
    then obtain b where "b \<in> set blk" "b < 248" using assms(1) by blast
    then show "\<exists>b \<in> set blk. b < 250" by (intro bexI) simp_all
  qed
  moreover have "length blocks \<le> length (draws_below 248 temp_char blocks)"
    by (rule draws_each_block) (rule assms(1))
  ultimately have 1: "n \<le> length (draws_below 250 code_digit blocks)" "20 \<le> length (draws_below 248 temp_char blocks)"
    using assms(2,3) by linarith+
  obtain p where p: "newTempPassword blocks = Some p"
    using 1(2) temp_chars_draws [of "[]" blocks] by (auto simp: newTempPassword_def Let_def)
  have "take 20 (draws_below 248 temp_char blocks) \<noteq> []" using 1(2) by auto
  moreover have "p = group5 (take 20 (draws_below 248 temp_char blocks))"
    using p 1(2) temp_chars_draws [of "[]" blocks] by (simp add: newTempPassword_def Let_def)
  ultimately have "length p = 23" using 1(2) length_group5 by force
  moreover have "\<exists>c. newAccessCode n blocks = Some c \<and> length c = n"
    using 1(1) by (simp add: newAccessCode_def code_digits_draws Let_def)
  ultimately show ?thesis using p by blast
qed

theorem random_loops_end_witness: "\<exists>p. newTempPassword (replicate 20 [255, 7]) = Some p \<and> length p = 23"
  using random_loops_end [of "replicate 20 [255, 7]" 6] by auto

end
