(* ===== verification/LogLevels.thy ===== *)
theory LogLevels
  imports Http
begin

section \<open>The levels of the log\<close>

text \<open>
  The levels of src/log.ts in the order of their numbers: a line below the threshold is dropped, and an
  error never is.
\<close>

instantiation log_level :: linorder
begin

definition less_eq_log_level :: "log_level \<Rightarrow> log_level \<Rightarrow> bool" where
  "l \<le> l' \<longleftrightarrow> LEVEL_ORDER l \<le> LEVEL_ORDER l'"

definition less_log_level :: "log_level \<Rightarrow> log_level \<Rightarrow> bool" where
  "l < l' \<longleftrightarrow> LEVEL_ORDER l < LEVEL_ORDER l'"

instance
proof
  fix l l' :: log_level
  show "l \<le> l' \<Longrightarrow> l' \<le> l \<Longrightarrow> l = l'"
    by (cases l; cases l') (simp_all add: less_eq_log_level_def LEVEL_ORDER_def)
qed (auto simp: less_eq_log_level_def less_log_level_def)

end

lemma emit_None_iff: "emit current level msg fs = None \<longleftrightarrow> level < current"
  by (simp add: emit_def less_log_level_def)

text \<open>A stricter threshold drops lines and changes none.\<close>

lemma emit_antimono:
  assumes "c \<le> c'" and "emit c' level msg fs = Some line"
  shows "emit c level msg fs = Some line"
proof -
  have "\<not> level < c'" using assms(2) emit_None_iff [of c' level msg fs] by simp
  then have "\<not> level < c" using assms(1) by (meson less_le_trans)
  then show ?thesis using assms(2) \<open>\<not> level < c'\<close> by (simp add: emit_def less_log_level_def)
qed

lemma errors_always_logged: "emit current LevelError msg fs \<noteq> None"
  using emit_None_iff [of current LevelError msg fs]
  by (cases current) (simp_all add: less_log_level_def LEVEL_ORDER_def)

end
