(* ===== verification/Spec2Isabelle.thy ===== *)
theory Spec2Isabelle
  imports Migrate OpeningCounts OpenSessions PendingCodes ActiveAdmins GrantedSessions Scenario
    Permanence CaseIsolation LinkLaws SecondFactorLaws PanelGates WebLaws StorageLaws
    DeliveryPageLaws CasePageLaws Pages Startup RandomLoops LogLevels
begin

text \<open>
  OutletBox hands files and notes to named recipients: a colleague opens a case, puts items into it
  and issues a link for a list of addresses; who follows the link names an address, gets a one-time
  code by mail, and with the code a session that shows the items. This development models the server
  under src/src/ and proves what a delivery relies on.

  \<^bold>\<open>The parts and how they interact.\<close> A request passes the middleware, which finds the language, the
  panel session, the flow cookie and the access session, and checks tokens and origins. The recipient's
  routes (http/deliver.ts) and the panel's (http/admin.ts, http/tus.ts) call the services (services/),
  which read and write the tables of one SQLite database, and the storage backend (storage/). The
  address form hands a message to the mail driver (mail/) and answers when the driver has. A timer runs
  the clean-up; the command line works on the same database.

  \<^bold>\<open>Representation.\<close> The database is one record \<open>db\<close> of tables, a table the list of its rows; a row
  has a field per column of the schema. An exception is the left side of a sum, a refusal that is a
  value stays one, and a function that changes the database returns it. A transaction puts the old
  database back when its body throws. Moments are natural numbers of milliseconds, strings are lists of
  UTF-16 code units below U+0100 (a constant text beyond them stands as its UTF-8 bytes), a JavaScript
  number that can be no integer is a rational or a case of its own. Random bytes, the clock and what
  a peer answers are arguments; SHA-256, HMAC, scrypt, signature checks, URL parsing and punycode are the
  fields of the record \<open>runtime\<close>, with what a proof needs of them as named hypotheses.

  \<^bold>\<open>Theories and sources.\<close>
  \<^item> \<open>Prelude\<close>: types, table facts and the interfaces \<open>codec\<close>, \<open>password_scheme\<close>, \<open>session_store\<close>,
    \<open>issuing_store\<close>. \<open>Text\<close>, \<open>Regex\<close>: JavaScript strings and anchored regular expressions.
  \<^item> \<open>Crypto\<close> (crypto.ts), \<open>Totp\<close> (totp.ts), \<open>I18n\<close> (i18n.ts), \<open>Config\<close> (config.ts), \<open>Database\<close>
    (migrations/, transactions of db.ts), \<open>Migrate\<close> (the migrations of db.ts).
  \<^item> \<open>Cases\<close>, \<open>Links\<close>, \<open>Access\<close>, \<open>Items\<close>, \<open>Addresses\<close>, \<open>AddressGroups\<close> (groups.ts), \<open>Users\<close>,
    \<open>AuditLog\<close> (audit.ts), \<open>Passkeys\<close>, \<open>DeviceSessions\<close> (sessions.ts), \<open>Cleanup\<close>: the file of that
    name under services/. services/auth.ts is \<open>Auth\<close> (passwords, lockout), \<open>PanelSessions\<close> and
    \<open>SecondFactor\<close>. \<open>Webauthn\<close> (webauthn.ts) and \<open>Dbsc\<close> (dbsc.ts) check signatures.
  \<^item> \<open>Storage\<close> (storage/), \<open>Mail\<close> (mail/), \<open>Drivers\<close> (what the drivers of mail/, storage/s3.ts and
    http/brand.ts hand over and make of the answers), \<open>Http\<close> (http/html.ts, log.ts).
  \<^item> \<open>Middleware\<close> (http/middleware.ts, http/context.ts, handlers of http/app.ts), \<open>Deliver\<close>
    (http/deliver.ts), \<open>PanelLogin\<close>, \<open>PanelSecurity\<close>, \<open>PanelCases\<close>, \<open>PanelFiles\<close>, \<open>PanelAccounts\<close>,
    \<open>PanelPages\<close> (http/admin.ts, http/tus.ts): one function per handler, with its guards in their order.
  \<^item> \<open>Layout\<close> (http/html.ts), \<open>ViewsDeliver\<close>, \<open>ViewsSecurity\<close>, \<open>ViewsAdmin\<close>, \<open>ViewsAccounts\<close>
    (http/views/): every page as its template, the literal parts those of the source. \<open>Pages\<close>: what the
    pages of the panel take from the session and the tables (http/admin.ts).
  \<^item> \<open>Server\<close> (http/app.ts, server.ts, cli.ts): routes, the step relation \<open>server_step\<close> over the state
    \<open>world\<close> (tables, files, flashes, mails under way) and the reachable states; \<open>CommandLine\<close> (the
    arguments of cli.ts, the timer of server.ts); \<open>Startup\<close> (the stages of server.ts and cli.ts, the copy
    of db.ts, the configurations of http/middleware.ts).

  \<^bold>\<open>What the lemmas show.\<close> \<open>Invariants\<close> states three interfaces: \<open>db_invariant\<close>, a predicate every
  combinator of the services carries; \<open>account_invariant\<close>, one the account operations keep; and
  \<open>server_invariant\<close>, one every operation of the services keeps. \<open>AccountHandlers\<close>, \<open>Handlers\<close> and
  \<open>Steps\<close> prove inside them that every handler, mail answer, command and clean-up keeps such a
  predicate, hence every reachable state has it. \<open>OpeningCounts\<close> (caps and counts of openings),
  \<open>OpenSessions\<close> (sessions end with their link), \<open>PendingCodes\<close>, \<open>ActiveAdmins\<close>, \<open>GrantedSessions\<close>
  and \<open>Permanence\<close> (the audit log, revocations) interpret them on the invariants of the program.
  \<open>CaseRows\<close> and \<open>CaseIsolation\<close> show that who may not work on a case changes none of its rows.
  \<open>LinkLaws\<close>, \<open>SecondFactorLaws\<close>, \<open>PanelGates\<close>, \<open>StorageLaws\<close>, \<open>WebLaws\<close>, \<open>ConfigLaws\<close> and
  \<open>RandomLoops\<close> hold the laws of single components: what a token leads to, the second factor, the
  guards, the local backend as a refinement of a map, escaping and cookies, the configuration and the
  rejection loops. \<open>MarkupLaws\<close>, \<open>DeliveryPageLaws\<close> and \<open>CasePageLaws\<close> show that texts of users
  never become markup and that the address form does not tell who is on a link. \<open>LogLevels\<close> orders
  the levels of the log. \<open>Scenario\<close> runs commands and requests from an empty installation to the
  concrete reachable states the properties below are applied to.

  \<^bold>\<open>Bounds.\<close> Every definition is total. The loops that draw random bytes read a list of blocks and
  answer \<open>None\<close> only when it is used up; \<open>random_loops_end\<close> says how many blocks are enough. A walk
  over a finite list (rows, chunks, keys pressed) is recursion on that list.

  \<^bold>\<open>Not modelled.\<close> The rate limiters and security headers are third-party middleware, of which the
  configurations are in \<open>Startup\<close>; a limiter only refuses, so a limited request is one that is not routed. The protocol of
  the tus library, the AWS SDK, nodemailer and fetch are arguments. A handler is one step except where
  it waits for the mail driver; an upload and a clean-up run in one step. Listening on a port, signals
  and closing connections have no state of the model. The dictionaries under src/src/locales/ are
  data and an argument, as is \<open>toLocaleString\<close>. The scripts for the browser under src/public/ are not
  part of the server.
\<close>

lemma in_scenario:
  "\<exists>l \<in> set (links (w_db world_open)). l_id l = ''l_AAAAAAAAAAAAAAAA'' \<and> l_max_opens l = Some 1"
  "\<exists>s \<in> set (access_sessions (w_db world_open)). as_recipient_id s = Some ''r_AAAAAAAAAAAAAAAA''"
  "\<exists>c \<in> set (challenges (w_db world_asked)). ch_recipient_id c = Some ''r_AAAAAAAAAAAAAAAA'' \<and> ch_consumed_at c = None"
  using scenario_open by (auto simp: scenario_facts_def map_eq_Cons_conv scenario_asked asked_db_def)

text \<open>
  C1. The cap of a link holds in every reachable state: a link with a cap has never counted more
  openings than the cap, and the audit log never shows more grants for it than were counted,
  however the requests of its recipients, the mails, the panel and the housekeeping interleave.
\<close>

theorem openings_capped:
  assumes "reachable S w" and "l \<in> set (links (w_db w))" and "l_max_opens l = Some m"
  shows "l_opens_used l \<le> m \<and> granted (w_db w) (l_id l) \<le> l_opens_used l"
proof -
  have "openings_inv (w_db w)"
    by (rule openings.keeps_reachable [OF refl refl _ assms(1)]) (simp add: openings_inv_def empty_db_def)
  then show ?thesis using assms(2,3) by (auto simp: openings_inv_def link_fits_def list_all_iff)
qed

theorem openings_capped_witness: "\<exists>l \<in> set (links (w_db world_open)). l_max_opens l = Some 1 \<and> granted (w_db world_open) (l_id l) \<le> 1"
proof -
  obtain l where l: "l \<in> set (links (w_db world_open))" "l_max_opens l = Some 1" using in_scenario(1) by blast
  from openings_capped [OF scenario_reachable(2) l] have "granted (w_db world_open) (l_id l) \<le> 1" by simp
  then show ?thesis using l by blast
qed

text \<open>
  C3. In every reachable state a recipient's session is on a link that exists, is not revoked and
  belongs to an open case, and its recipient is still on that link: revoking a link, closing a
  case and removing a recipient end the sessions they concern.
\<close>

theorem sessions_on_open_links:
  assumes "reachable S w" and "s \<in> set (access_sessions (w_db w))"
  shows "(\<exists>l \<in> set (links (w_db w)). l_id l = as_link_id s \<and> l_revoked_at l = None
      \<and> (\<exists>c \<in> set (cases (w_db w)). c_id c = l_case_id l \<and> c_status c = CaseOpen))
    \<and> (case as_recipient_id s of None \<Rightarrow> True
       | Some i \<Rightarrow> \<exists>r \<in> set (link_recipients (w_db w)). r_id r = i \<and> r_link_id r = as_link_id s)"
proof -
  have "access_inv (w_db w)"
    by (rule delivery.keeps_reachable [OF refl refl _ assms(1)]) (simp add: access_inv_def empty_db_def)
  then show ?thesis
    using assms(2) by (auto simp: access_inv_def session_sound_def link_open_def opt_ref_def list_all_iff split: option.splits)
qed

theorem sessions_on_open_links_witness:
  "\<exists>r \<in> set (link_recipients (w_db world_open)). r_id r = ''r_AAAAAAAAAAAAAAAA''"
proof -
  obtain s where s: "s \<in> set (access_sessions (w_db world_open))" "as_recipient_id s = Some ''r_AAAAAAAAAAAAAAAA''"
    using in_scenario(2) by blast
  from sessions_on_open_links [OF scenario_reachable(2) s(1)] show ?thesis using s(2) by auto
qed

text \<open>
  C14. In every reachable state there is an entry of the audit log behind each recipient's session:
  somebody's code for that link was accepted.
\<close>

theorem sessions_were_granted:
  assumes "reachable S w" and "s \<in> set (access_sessions (w_db w))"
  shows "\<exists>a \<in> set (audit_log (w_db w)). au_action a = ''access.granted'' \<and> au_link_id a = Some (as_link_id s)"
proof -
  have "granted_inv (w_db w)"
    by (rule granted.keeps_reachable [OF refl refl _ assms(1)]) (simp add: granted_inv_def empty_db_def)
  then show ?thesis
    using assms(2) by (auto simp: granted_inv_def granted_def list_all_iff n_where_pos_iff is_grant_def)
qed

theorem sessions_were_granted_witness: "\<exists>a \<in> set (audit_log (w_db world_open)). au_action a = ''access.granted''"
proof -
  obtain s where s: "s \<in> set (access_sessions (w_db world_open))" using in_scenario(2) by blast
  from sessions_were_granted [OF scenario_reachable(2) s] show ?thesis by blast
qed

text \<open>
  C10. In every reachable state a recipient has at most one code that was not used up, and that
  code has had fewer wrong answers than are allowed.
\<close>

theorem one_pending_code:
  assumes "reachable S w" and "c \<in> set (challenges (w_db w))" and "ch_recipient_id c = Some r" and "ch_consumed_at c = None"
  shows "filter (\<lambda>x. ch_recipient_id x = Some r \<and> ch_consumed_at x = None) (challenges (w_db w)) = [c]
    \<and> ch_attempts c < max 1 (maxCodeAttempts (sv_cfg S))"
proof -
  have inv: "challenge_inv (sv_cfg S) (w_db w)"
    by (rule challenges.keeps_reachable [OF refl refl _ assms(1)]) (simp add: challenge_inv_def one_pending_def empty_db_def)
  let ?cs = "filter (pending_of r) (challenges (w_db w))"
  have "c \<in> set ?cs" using assms by (simp add: pending_of_def)
  moreover have "length ?cs \<le> 1" using inv by (simp add: challenge_inv_def one_pending_def)
  ultimately have "?cs = [c]" by (cases ?cs) auto
  then show ?thesis
    using inv assms by (auto simp: challenge_inv_def list_all_iff attempts_left_def pending_of_def [abs_def])
qed

theorem one_pending_code_witness:
  "\<exists>c. filter (\<lambda>x. ch_recipient_id x = Some ''r_AAAAAAAAAAAAAAAA'' \<and> ch_consumed_at x = None) (challenges (w_db world_asked)) = [c]"
proof -
  obtain c where c: "c \<in> set (challenges (w_db world_asked))" "ch_recipient_id c = Some ''r_AAAAAAAAAAAAAAAA''"
    "ch_consumed_at c = None" using in_scenario(3) by blast
  from one_pending_code [OF scenario_reachable(1) c] show ?thesis by blast
qed

text \<open>
  C13. The panel never locks everybody out: once the first account has been created on an empty
  installation, an administrator who is not disabled remains whatever follows - changes of
  roles, disabled and deleted accounts included.
\<close>

theorem active_admin_remains:
  assumes "admins (w_db w0) = []" and "cli S nw idb salt (CreateAdmin username password) w0 = (Inr (), w1)"
    and "(server_step S)\<^sup>*\<^sup>* w1 w"
  shows "\<exists>a \<in> set (admins (w_db w)). active_admin a"
proof -
  have "admin_inv (w_db w1)"
    using assms(1,2)
    by (auto simp: cli_def createAdmin_def ins_admin_def require_def Let_def admin_inv_def active_admin_def split: if_splits)
  with assms(3) have "admin_inv (w_db w)"
    by (induction rule: rtranclp_induct) (blast intro: active.keeps_step [OF refl refl])+
  then show ?thesis by (auto simp: admin_inv_def list_ex_iff)
qed

theorem active_admin_remains_witness: "\<exists>a \<in> set (admins (w_db world_open)). active_admin a"
proof (rule active_admin_remains [OF _ _ scenario_after_install])
  show "admins (w_db new_world) = []" by (simp add: new_world_def empty_db_def)
  have "fst (cli sample_server 10 (replicate 12 1) (replicate 16 7) (CreateAdmin ''root'' ''correct horse'') new_world) = Inr ()"
    by code_simp
  then show "cli sample_server 10 (replicate 12 1) (replicate 16 7) (CreateAdmin ''root'' ''correct horse'') new_world
      = (Inr (), world_installed)"
    unfolding world_installed_def by (rule pair_of_fst)
qed

end
